(* ===== verification/Py_Prelude.thy ===== *)
theory Py_Prelude
  imports Complex_Main "HOL-Library.AList" "HOL-Library.Char_ord" "HOL-Library.List_Lexorder"
    "HOL-Library.Sublist"
begin

text \<open>
  The part of Python the sources rest on, shared by every component.

  \<^item> \<open>pyval\<close>: the values a decoded JSON document can hold. Dictionaries are association lists
    in insertion order, updated with \<open>AList.update\<close> (overwrite in place, else append) and
    \<open>AList.delete\<close>, which is what a Python \<open>dict\<close> does.
  \<^item> text: a \<open>string\<close> is a list of code points in the range U+0000 to U+00FF, one \<open>char\<close>
    each, so \<open>length\<close> is Python's \<open>len\<close>; the same type read as a list of octets is
    Python's \<open>bytes\<close>.
  \<^item> numbers: \<open>int\<close> for Python's integers and exact rationals for finite floats, every float
    operation rounded with \<open>rnd53\<close> (binary64, round to nearest, ties to even; subnormals and
    overflow to infinity are left out).
  \<^item> results: \<open>'e + 'a\<close> with \<open>Inl\<close> for a raised exception, sequenced by \<open>bindE\<close>.
\<close>

named_theorems py_defs \<open>definitions a component proof unfolds\<close>
named_theorems res_simps \<open>rewriting of results\<close>

section \<open>Values\<close>

datatype nonfinite = NaN | PosInf | NegInf

datatype pyval =
    PNone
  | PBool bool
  | PInt int
  | PFloat rat
  | PNonFinite nonfinite
  | PStr string
  | PList "pyval list"
  | PDict "(string \<times> pyval) list"

type_synonym pydict = "(string \<times> pyval) list"
type_synonym bytes = string

abbreviation py_get :: "pydict \<Rightarrow> string \<Rightarrow> pyval option" where
  "py_get d k \<equiv> map_of d k"

text \<open>\<open>d.get(k)\<close> and \<open>d.get(k, v)\<close>.\<close>

definition get_none :: "pydict \<Rightarrow> string \<Rightarrow> pyval" where
  "get_none d k = (case map_of d k of None \<Rightarrow> PNone | Some v \<Rightarrow> v)"

definition get_default :: "pydict \<Rightarrow> string \<Rightarrow> pyval \<Rightarrow> pyval" where
  "get_default d k v = (case map_of d k of None \<Rightarrow> v | Some w \<Rightarrow> w)"

definition has_key :: "pydict \<Rightarrow> string \<Rightarrow> bool" where
  "has_key d k = (map_of d k \<noteq> None)"

lemma get_default_absent: "\<not> has_key d k \<Longrightarrow> get_default d k v = v"
  by (simp add: get_default_def has_key_def)

lemma has_key_iff: "has_key d k \<longleftrightarrow> k \<in> fst ` set d"
  by (simp add: has_key_def map_of_eq_None_iff)

lemma has_key_update: "has_key (AList.update k v d) j \<longleftrightarrow> j = k \<or> has_key d j"
  by (simp add: has_key_def update_conv')

lemma get_none_update: "get_none (AList.update k v d) j = (if j = k then v else get_none d j)"
  by (simp add: get_none_def update_conv')

lemma get_default_update:
  "get_default (AList.update k v d) j w = (if j = k then v else get_default d j w)"
  by (simp add: get_default_def update_conv')

text \<open>Python's truth test.\<close>

fun truthy :: "pyval \<Rightarrow> bool" where
  "truthy PNone = False"
| "truthy (PBool b) = b"
| "truthy (PInt i) = (i \<noteq> 0)"
| "truthy (PFloat r) = (r \<noteq> 0)"
| "truthy (PNonFinite _) = True"
| "truthy (PStr s) = (s \<noteq> [])"
| "truthy (PList xs) = (xs \<noteq> [])"
| "truthy (PDict kvs) = (kvs \<noteq> [])"

text \<open>The truth test of an optional text.\<close>

definition opt_true :: "string option \<Rightarrow> bool" where
  "opt_true x = (case x of None \<Rightarrow> False | Some s \<Rightarrow> s \<noteq> [])"

text \<open>\<open>isinstance\<close> tests.\<close>

fun is_str :: "pyval \<Rightarrow> bool" where
  "is_str (PStr _) = True"
| "is_str _ = False"

fun is_bool :: "pyval \<Rightarrow> bool" where
  "is_bool (PBool _) = True"
| "is_bool _ = False"

fun is_dict :: "pyval \<Rightarrow> bool" where
  "is_dict (PDict _) = True"
| "is_dict _ = False"

text \<open>The number a value stands for in a comparison; a \<open>bool\<close> is an \<open>int\<close>.\<close>

fun num_of :: "pyval \<Rightarrow> rat option" where
  "num_of (PBool b) = Some (if b then 1 else 0)"
| "num_of (PInt i) = Some (of_int i)"
| "num_of (PFloat r) = Some r"
| "num_of _ = None"

text \<open>
  \<open>==\<close>: numbers compare by value across types, containers element by element (a \<open>dict\<close>
  without regard to order), everything else only with its own type; NaN equals nothing.
\<close>

fun py_eq :: "pyval \<Rightarrow> pyval \<Rightarrow> bool"
  and py_eq_list :: "pyval list \<Rightarrow> pyval list \<Rightarrow> bool"
  and py_eq_items :: "(string \<times> pyval) list \<Rightarrow> (string \<times> pyval) list \<Rightarrow> bool" where
  "py_eq PNone w = (w = PNone)"
| "py_eq (PBool b) w = (num_of w = Some (if b then 1 else 0))"
| "py_eq (PInt i) w = (num_of w = Some (of_int i))"
| "py_eq (PFloat r) w = (num_of w = Some r)"
| "py_eq (PNonFinite n) w = (n \<noteq> NaN \<and> w = PNonFinite n)"
| "py_eq (PStr s) w = (w = PStr s)"
| "py_eq (PList xs) w = (case w of PList ys \<Rightarrow> py_eq_list xs ys | _ \<Rightarrow> False)"
| "py_eq (PDict d) w = (case w of PDict e \<Rightarrow> length d = length e \<and> py_eq_items d e | _ \<Rightarrow> False)"
| "py_eq_list [] ys = (ys = [])"
| "py_eq_list (x # xs) ys = (case ys of [] \<Rightarrow> False | y # ys' \<Rightarrow> py_eq x y \<and> py_eq_list xs ys')"
| "py_eq_items [] e = True"
| "py_eq_items ((k, v) # d) e =
     ((case map_of e k of None \<Rightarrow> False | Some w \<Rightarrow> py_eq v w) \<and> py_eq_items d e)"

section \<open>Results\<close>

definition bindE :: "'e + 'a \<Rightarrow> ('a \<Rightarrow> 'e + 'b) \<Rightarrow> 'e + 'b" where
  "bindE m f = (case m of Inl e \<Rightarrow> Inl e | Inr a \<Rightarrow> f a)"

lemma bindE_Inl [simp, code_unfold]: "bindE (Inl e) f = Inl e"
  by (simp add: bindE_def)

lemma bindE_Inr [simp]: "bindE (Inr a) f = f a"
  by (simp add: bindE_def)

lemma bindE_eq_Inr [simp]: "bindE m f = Inr b \<longleftrightarrow> (\<exists>a. m = Inr a \<and> f a = Inr b)"
  by (cases m) auto

lemma bindE_eq_Inl: "bindE m f = Inl e \<longleftrightarrow> m = Inl e \<or> (\<exists>a. m = Inr a \<and> f a = Inl e)"
  by (cases m) auto

lemma bindE_cong [fundef_cong]:
  "m = m' \<Longrightarrow> (\<And>a. m' = Inr a \<Longrightarrow> f a = g a) \<Longrightarrow> bindE m f = bindE m' g"
  by (cases m') auto

text \<open>\<open>if c: raise e\<close>, followed by the rest of the body.\<close>

definition raise_if :: "bool \<Rightarrow> 'e \<Rightarrow> 'e + 'a \<Rightarrow> 'e + 'a" where
  "raise_if c e k = (if c then Inl e else k)"

lemma raise_if_True [simp]: "raise_if True e k = Inl e"
  by (simp add: raise_if_def)

lemma raise_if_False [simp]: "raise_if False e k = k"
  by (simp add: raise_if_def)

lemma raise_if_eq_Inr [simp]: "raise_if c e k = Inr b \<longleftrightarrow> \<not> c \<and> k = Inr b"
  by (simp add: raise_if_def)

lemma raise_if_eq_Inl: "raise_if c e k = Inl e' \<longleftrightarrow> (if c then e' = e else k = Inl e')"
  by (auto simp: raise_if_def)

lemma raise_if_cong [cong]: "c = c' \<Longrightarrow> (\<not> c' \<Longrightarrow> k = k') \<Longrightarrow> raise_if c e k = raise_if c' e k'"
  by (simp add: raise_if_def)

text \<open>A loop over a list that stops at the first exception.\<close>

fun forE :: "'a list \<Rightarrow> ('a \<Rightarrow> 's \<Rightarrow> 'e + 's) \<Rightarrow> 's \<Rightarrow> 'e + 's" where
  "forE [] f s = Inr s"
| "forE (x # xs) f s = bindE (f x s) (forE xs f)"

lemma forE_invariant:
  assumes "forE xs f s = Inr t" and "P s"
    and "\<And>x s t. x \<in> set xs \<Longrightarrow> P s \<Longrightarrow> f x s = Inr t \<Longrightarrow> P t"
  shows "P t"
  using assms
proof (induction xs arbitrary: s)
  case Nil
  then show ?case by simp
next
  case (Cons x xs)
  from Cons.prems(1) obtain u where u: "f x s = Inr u" "forE xs f u = Inr t" by auto
  from Cons.prems(2,3) u(1) have "P u" by (meson list.set_intros(1))
  with Cons.IH [OF u(2)] Cons.prems(3) show ?case by (meson list.set_intros(2))
qed

lemma forE_error:
  assumes "forE xs f s = Inl e"
  shows "\<exists>x u. x \<in> set xs \<and> f x u = Inl e"
  using assms
proof (induction xs arbitrary: s)
  case Nil
  then show ?case by simp
next
  case (Cons x xs)
  show ?case
  proof (cases "f x s")
    case (Inl e')
    with Cons.prems have "f x s = Inl e" by simp
    then show ?thesis by (intro exI [of _ x] exI [of _ s]) simp
  next
    case (Inr t)
    with Cons.prems have "forE xs f t = Inl e" by simp
    from Cons.IH [OF this] show ?thesis by (meson list.set_intros(2))
  qed
qed

section \<open>Which exceptions a computation raises\<close>

text \<open>\<open>fails E r\<close>: if \<open>r\<close> raises, then an exception in \<open>E\<close>; one rule per way of composing results.\<close>

named_theorems err_rules \<open>computations whose exceptions are known\<close>

definition fails :: "('e \<Rightarrow> bool) \<Rightarrow> 'e + 'a \<Rightarrow> bool" where
  "fails E r = (case r of Inl e \<Rightarrow> E e | Inr _ \<Rightarrow> True)"

lemma fails_Inr [err_rules]: "fails E (Inr a)"
  by (simp add: fails_def)

lemma fails_Inl [err_rules]: "E e \<Longrightarrow> fails E (Inl e)"
  by (simp add: fails_def)

lemma fails_bind [err_rules]: "fails E m \<Longrightarrow> (\<And>a. fails E (f a)) \<Longrightarrow> fails E (bindE m f)"
  by (cases m) (simp_all add: fails_def)

lemma fails_raise [err_rules]: "E e \<Longrightarrow> fails E m \<Longrightarrow> fails E (raise_if c e m)"
  by (simp add: fails_def raise_if_def)

lemma fails_if [err_rules]: "fails E a \<Longrightarrow> fails E b \<Longrightarrow> fails E (if c then a else b)"
  by simp

lemma fails_option [err_rules]: "fails E a \<Longrightarrow> (\<And>x. fails E (f x)) \<Longrightarrow> fails E (case v of None \<Rightarrow> a | Some x \<Rightarrow> f x)"
  by (simp split: option.split)

lemma fails_prod [err_rules]: "(\<And>x y. fails E (f x y)) \<Longrightarrow> fails E (case a of (x, y) \<Rightarrow> f x y)"
  by (simp split: prod.split)

lemma fails_forE [err_rules]: "(\<And>x s. fails E (f x s)) \<Longrightarrow> fails E (forE xs f s)"
  by (induction xs arbitrary: s) (auto intro!: fails_Inr fails_bind)

lemma fails_mono: "fails E r \<Longrightarrow> (\<And>e. E e \<Longrightarrow> E' e) \<Longrightarrow> fails E' r"
  by (auto simp: fails_def split: sum.splits)

lemma fails_pyval [err_rules]:
  "fails E n \<Longrightarrow> (\<And>b. fails E (bo b)) \<Longrightarrow> (\<And>i. fails E (it i)) \<Longrightarrow> (\<And>r. fails E (fl r)) \<Longrightarrow> (\<And>x. fails E (nf x)) \<Longrightarrow>
   (\<And>s. fails E (st s)) \<Longrightarrow> (\<And>xs. fails E (ls xs)) \<Longrightarrow> (\<And>d. fails E (di d)) \<Longrightarrow>
   fails E (case v of PNone \<Rightarrow> n | PBool b \<Rightarrow> bo b | PInt i \<Rightarrow> it i | PFloat r \<Rightarrow> fl r | PNonFinite x \<Rightarrow> nf x
     | PStr s \<Rightarrow> st s | PList xs \<Rightarrow> ls xs | PDict d \<Rightarrow> di d)"
  by (cases v) simp_all

end
