(* ===== verification/Py_Number.thy ===== *)
theory Py_Number
  imports Py_Text
begin

text \<open>
  Python's numbers: binary64 rounding, \<open>int(text)\<close> and \<open>float(text)\<close>, the decimal text of a
  float, and \<open>math.ceil\<close> (\<open>ceiling\<close>). The lemmas say when rounding is exact, which is what
  lets the bounds of the request validators carry over from the integers they are written in.
\<close>

section \<open>Binary64 rounding\<close>

function bit_len :: "int \<Rightarrow> int" where
  "bit_len n = (if n \<le> 0 then 0 else 1 + bit_len (n div 2))"
  by pat_completeness auto
termination
  by (relation "measure nat") auto

declare bit_len.simps [simp del]

definition pow2 :: "int \<Rightarrow> rat" where
  "pow2 k = (if 0 \<le> k then 2 ^ nat k else 1 / 2 ^ nat (- k))"

text \<open>Round to the nearest integer, ties to even.\<close>

definition round_even :: "rat \<Rightarrow> int" where
  "round_even q =
     (let f = \<lfloor>q\<rfloor>; r = q - of_int f in
      if r < 1 / 2 then f else if 1 / 2 < r then f + 1 else if even f then f else f + 1)"

text \<open>The exponent of the leading bit of a positive rational.\<close>

definition lead_exp :: "rat \<Rightarrow> int" where
  "lead_exp x =
     (let (a, b) = quotient_of x; e = bit_len a - bit_len b
      in if pow2 e \<le> x then e else e - 1)"

definition rnd53 :: "rat \<Rightarrow> rat" where
  "rnd53 x =
     (if x = 0 then 0
      else (let u = pow2 (lead_exp \<bar>x\<bar> - 52)
            in sgn x * (of_int (round_even (\<bar>x\<bar> / u)) * u)))"

lemma round_even_of_int [simp]: "round_even (of_int i) = i"
  by (simp add: round_even_def)

lemma rnd53_0 [simp]: "rnd53 0 = 0"
  by (simp add: rnd53_def)

lemma bit_len_less: "n < 2 ^ k \<Longrightarrow> bit_len n \<le> int k"
proof (induction n arbitrary: k rule: bit_len.induct)
  case (1 n)
  show ?case
  proof (cases "n \<le> 0")
    case True
    then show ?thesis by (subst bit_len.simps) simp
  next
    case False
    with 1(2) obtain j where k: "k = Suc j" by (cases k) auto
    with 1(2) have "n div 2 < 2 ^ j" by simp
    from 1(1) [OF False this] False show ?thesis by (subst bit_len.simps) (simp add: k)
  qed
qed

lemma pow2_nat: "pow2 (int k) = 2 ^ k"
  by (simp add: pow2_def)

lemma bit_len_1: "bit_len 1 = 1"
  by (simp add: bit_len.simps [of 1] bit_len.simps [of 0])

lemma lead_exp_of_int:
  assumes "0 < i" and "i < 2 ^ k"
  shows "lead_exp (of_int i) \<le> int k - 1"
proof -
  from assms(2) have "bit_len i \<le> int k" by (rule bit_len_less)
  then show ?thesis by (simp add: lead_exp_def quotient_of_int bit_len_1 Let_def)
qed

lemma pow2_inverse_int: "e \<le> 0 \<Longrightarrow> \<exists>j::int. 1 / pow2 e = of_int j"
  by (rule exI [of _ "2 ^ nat (- e)"]) (auto simp: pow2_def)

text \<open>Integers of magnitude below \<open>2^53\<close> are represented exactly.\<close>

lemma rnd53_of_int:
  assumes "\<bar>i\<bar> < 2 ^ 53"
  shows "rnd53 (of_int i) = of_int i"
proof (cases "i = 0")
  case True
  then show ?thesis by simp
next
  case False
  let ?x = "\<bar>of_int i :: rat\<bar>"
  let ?u = "pow2 (lead_exp ?x - 52)"
  have x: "?x = of_int \<bar>i\<bar>" by simp
  have "lead_exp ?x \<le> int 53 - 1"
    unfolding x using False assms by (intro lead_exp_of_int) auto
  then have "lead_exp ?x - 52 \<le> 0" by simp
  then obtain j where j: "1 / ?u = of_int j" using pow2_inverse_int by blast
  have upos: "0 < ?u" by (simp add: pow2_def)
  have q: "?x / ?u = of_int (\<bar>i\<bar> * j)"
    using j by (metis of_int_abs of_int_mult times_divide_eq_right mult.right_neutral)
  then have "round_even (?x / ?u) = \<bar>i\<bar> * j" by (simp only: round_even_of_int)
  then have "of_int (round_even (?x / ?u)) * ?u = ?x / ?u * ?u" by (simp only: q)
  also have "\<dots> = ?x" using upos by simp
  finally have "rnd53 (of_int i) = sgn (of_int i) * ?x"
    using False by (simp only: rnd53_def Let_def of_int_eq_0_iff if_False)
  then show ?thesis by (simp only: sgn_mult_abs)
qed

lemma rnd53_numeral [simp]:
  "rnd53 1 = 1"
  "(numeral n :: int) < 2 ^ 53 \<Longrightarrow> rnd53 (numeral n) = numeral n"
  using rnd53_of_int [of 1] rnd53_of_int [of "numeral n"] by simp_all

section \<open>Reading numbers from text\<close>

text \<open>A group of decimal digits, single underscores allowed between two digits.\<close>

fun digit_group :: "string \<Rightarrow> bool" where
  "digit_group [] = False"
| "digit_group [c] = is_digit c"
| "digit_group (c # d # cs) =
     (is_digit c \<and> (if d = CHR ''_'' then digit_group cs else digit_group (d # cs)))"

definition digits_only :: "string \<Rightarrow> string" where
  "digits_only s = filter is_digit s"

fun split_sign :: "string \<Rightarrow> int \<times> string" where
  "split_sign [] = (1, [])"
| "split_sign (c # cs) =
     (if c = CHR ''-'' then (- 1, cs) else if c = CHR ''+'' then (1, cs) else (1, c # cs))"

text \<open>\<open>int(text)\<close>: \<open>None\<close> is \<open>ValueError\<close>, also raised above 4300 digits.\<close>

definition parse_int :: "string \<Rightarrow> int option" where
  "parse_int s =
     (let (sg, ds) = split_sign (py_strip s)
      in if digit_group ds \<and> length (digits_only ds) \<le> 4300
         then Some (sg * int_of_digits (digits_only ds)) else None)"

definition max_finite :: rat where
  "max_finite = (2 ^ 53 - 1) * 2 ^ 971"

definition to_float :: "rat \<Rightarrow> pyval" where
  "to_float x =
     (let y = rnd53 x in
      if max_finite < y then PNonFinite PosInf
      else if y < - max_finite then PNonFinite NegInf else PFloat y)"

definition parse_decimal :: "int \<Rightarrow> string \<Rightarrow> pyval option" where
  "parse_decimal sg s =
     (let mant = takeWhile (\<lambda>c. py_lower [c] \<noteq> ''e'') s;
          rest = dropWhile (\<lambda>c. py_lower [c] \<noteq> ''e'') s;
          ip = takeWhile (\<lambda>c. c \<noteq> CHR ''.'') mant;
          fp = drop 1 (dropWhile (\<lambda>c. c \<noteq> CHR ''.'') mant);
          (esg, ed) = (if rest = [] then (1, ''0'') else split_sign (tl rest));
          ids = digits_only ip; fds = digits_only fp;
          m = of_int (sg * int_of_digits (ids @ fds));
          k = esg * int_of_digits (digits_only ed) - int (length fds)
      in if (ip = [] \<or> digit_group ip) \<and> (fp = [] \<or> digit_group fp) \<and> ids @ fds \<noteq> []
            \<and> digit_group ed
         then Some (to_float (if 0 \<le> k then m * 10 ^ nat k else m / 10 ^ nat (- k))) else None)"

text \<open>\<open>float(text)\<close>: \<open>None\<close> is \<open>ValueError\<close>.\<close>

definition parse_float :: "string \<Rightarrow> pyval option" where
  "parse_float s =
     (let (sg, b) = split_sign (py_strip s); l = py_lower b in
      if l = ''inf'' \<or> l = ''infinity'' then Some (PNonFinite (if sg < 0 then NegInf else PosInf))
      else if l = ''nan'' then Some (PNonFinite NaN)
      else parse_decimal sg b)"

section \<open>The text of a number\<close>

definition pow10 :: "int \<Rightarrow> rat" where
  "pow10 k = (if 0 \<le> k then 10 ^ nat k else 1 / 10 ^ nat (- k))"

definition dec_exp :: "rat \<Rightarrow> int" where
  "dec_exp x =
     (let (a, b) = quotient_of x;
          e = int (length (show_pos a)) - int (length (show_pos b))
      in if pow10 e \<le> x then e else e - 1)"

text \<open>The fewest significant digits (at most 17) that read back as the same float.\<close>

fun shortest :: "nat \<Rightarrow> nat \<Rightarrow> rat \<Rightarrow> int \<Rightarrow> int \<times> nat" where
  "shortest 0 n x e = (round_even (x / pow10 (e - 16)), 17)"
| "shortest (Suc fuel) n x e =
     (let m = round_even (x / pow10 (e - int n + 1))
      in if rnd53 (of_int m * pow10 (e - int n + 1)) = x then (m, n)
         else shortest fuel (Suc n) x e)"

definition float_repr :: "rat \<Rightarrow> string" where
  "float_repr r =
     (if r = 0 then ''0.0'' else
      let x = \<bar>r\<bar>; e0 = dec_exp x; (m, n) = shortest 16 1 x e0;
          ds0 = show_pos m; pt = e0 + 1 + int (length ds0) - int n;
          ds = (if length ds0 > n then butlast ds0 else ds0);
          k = int (length ds)
      in (if r < 0 then ''-'' else []) @
         (if - 4 < pt \<and> pt \<le> 16 then
            (if pt \<le> 0 then ''0.'' @ replicate (nat (- pt)) (CHR ''0'') @ ds
             else if k \<le> pt then ds @ replicate (nat (pt - k)) (CHR ''0'') @ ''.0''
             else take (nat pt) ds @ ''.'' @ drop (nat pt) ds)
          else take 1 ds @ (if k = 1 then [] else ''.'' @ drop 1 ds) @ ''e'' @
               (if pt - 1 < 0 then ''-'' else ''+'') @
               (let a = show_pos \<bar>pt - 1\<bar> in if length a < 2 then ''0'' @ a else a)))"

text \<open>\<open>str(v)\<close> of a number.\<close>

fun num_str :: "pyval \<Rightarrow> string" where
  "num_str (PInt i) = show_int i"
| "num_str (PFloat r) = float_repr r"
| "num_str (PBool b) = (if b then ''True'' else ''False'')"
| "num_str (PNonFinite NaN) = ''nan''"
| "num_str (PNonFinite PosInf) = ''inf''"
| "num_str (PNonFinite NegInf) = ''-inf''"
| "num_str _ = []"

text \<open>\<open>repr(v)\<close> and \<open>str(v)\<close> of any JSON value.\<close>

fun repr_val :: "pyval \<Rightarrow> string" where
  "repr_val PNone = ''None''"
| "repr_val (PStr s) = py_repr s"
| "repr_val (PList xs) = ''['' @ join_with '', '' (map repr_val xs) @ '']''"
| "repr_val (PDict d) =
     ''{'' @ join_with '', '' (map (\<lambda>(k, v). py_repr k @ '': '' @ repr_val v) d) @ ''}''"
| "repr_val v = num_str v"

fun py_str :: "pyval \<Rightarrow> string" where
  "py_str (PStr s) = s"
| "py_str v = repr_val v"

end
