(* ===== verification/Py_Base64.thy ===== *)
theory Py_Base64
  imports Py_Number
begin

text \<open>
  \<open>base64.b64encode\<close> and \<open>base64.b64decode(_, validate=True)\<close>. The strict decoder takes
  whole groups of four alphabet characters with the final group padded; every other character,
  white space included, is refused (\<open>None\<close> is \<open>binascii.Error\<close>). The bits below a padded
  group's last octet are ignored, as \<open>binascii\<close> does. A bridge response is encoded and a
  request is decoded, so the contract the components use is the locale \<open>byte_codec\<close>.
\<close>

locale byte_codec =
  fixes enc :: "bytes \<Rightarrow> string"
    and dec :: "string \<Rightarrow> bytes option"
  assumes dec_enc: "dec (enc bs) = Some bs"
begin

lemma enc_inject: "enc xs = enc ys \<Longrightarrow> xs = ys"
  by (metis dec_enc option.inject)

lemma enc_in_dom: "dec (enc bs) \<noteq> None"
  by (simp add: dec_enc)

end

definition oct :: "char \<Rightarrow> int" where
  "oct c = of_char c"

definition b64_char :: "int \<Rightarrow> char" where
  "b64_char n =
     (if n < 26 then char_of (65 + n) else if n < 52 then char_of (71 + n)
      else if n < 62 then char_of (n - 4) else if n = 62 then CHR ''+'' else CHR ''/'')"

definition b64_val :: "char \<Rightarrow> int option" where
  "b64_val c =
     (let n = oct c in
      if 65 \<le> n \<and> n \<le> 90 then Some (n - 65)
      else if 97 \<le> n \<and> n \<le> 122 then Some (n - 71)
      else if 48 \<le> n \<and> n \<le> 57 then Some (n + 4)
      else if n = 43 then Some 62 else if n = 47 then Some 63 else None)"

fun b64encode :: "bytes \<Rightarrow> string" where
  "b64encode [] = []"
| "b64encode [a] = [b64_char (oct a div 4), b64_char (oct a mod 4 * 16), CHR ''='', CHR ''='']"
| "b64encode [a, b] =
     [b64_char (oct a div 4), b64_char (oct a mod 4 * 16 + oct b div 16),
      b64_char (oct b mod 16 * 4), CHR ''='']"
| "b64encode (a # b # c # rest) =
     b64_char (oct a div 4) # b64_char (oct a mod 4 * 16 + oct b div 16)
     # b64_char (oct b mod 16 * 4 + oct c div 64) # b64_char (oct c mod 64) # b64encode rest"

definition oct1 :: "int \<Rightarrow> int \<Rightarrow> char" where
  "oct1 p q = char_of (p * 4 + q div 16)"

definition oct2 :: "int \<Rightarrow> int \<Rightarrow> char" where
  "oct2 q r = char_of (q mod 16 * 16 + r div 4)"

definition oct3 :: "int \<Rightarrow> int \<Rightarrow> char" where
  "oct3 r s = char_of (r mod 4 * 64 + s)"

definition quad :: "char \<Rightarrow> char \<Rightarrow> char \<Rightarrow> char \<Rightarrow> bytes option" where
  "quad p q r s =
     (case (b64_val p, b64_val q, b64_val r, b64_val s) of
        (Some p, Some q, Some r, Some s) \<Rightarrow> Some [oct1 p q, oct2 q r, oct3 r s]
      | _ \<Rightarrow> None)"

definition last_quad :: "char \<Rightarrow> char \<Rightarrow> char \<Rightarrow> bytes option" where
  "last_quad p q r =
     (case (b64_val p, b64_val q) of
        (Some p, Some q) \<Rightarrow>
          (if r = CHR ''='' then Some [oct1 p q]
           else (case b64_val r of Some r \<Rightarrow> Some [oct1 p q, oct2 q r] | None \<Rightarrow> None))
      | _ \<Rightarrow> None)"

fun b64decode :: "string \<Rightarrow> bytes option" where
  "b64decode [] = Some []"
| "b64decode (p # q # r # s # t) =
     (if s = CHR ''='' then (if t = [] then last_quad p q r else None)
      else (case (quad p q r s, b64decode t) of
              (Some bs, Some cs) \<Rightarrow> Some (bs @ cs)
            | _ \<Rightarrow> None))"
| "b64decode _ = None"

section \<open>Round trip\<close>

lemma oct_bounds: "0 \<le> oct c \<and> oct c < 256"
proof -
  have "oct c = int (of_char c)" unfolding oct_def by (cases c) simp
  moreover have "(of_char c :: nat) < 256" by (rule nat_of_char_less_256)
  ultimately show ?thesis by simp
qed

lemma char_of_oct [simp]: "char_of (oct c) = c"
  by (simp add: oct_def)

lemma oct_char_of: "0 \<le> n \<Longrightarrow> n < 256 \<Longrightarrow> oct (char_of n) = n"
  by (simp add: oct_def)

lemma oct_punct: "oct CHR ''+'' = 43" "oct CHR ''/'' = 47" "oct CHR ''='' = 61"
  by (simp_all add: oct_def)

lemma b64_val_char: "0 \<le> n \<Longrightarrow> n < 64 \<Longrightarrow> b64_val (b64_char n) = Some n"
  by (auto simp: b64_val_def b64_char_def oct_char_of oct_punct Let_def)

lemma b64_val_pad: "b64_val (CHR ''='') = None"
  by (simp add: b64_val_def oct_punct)

lemma b64_char_not_pad: "0 \<le> n \<Longrightarrow> n < 64 \<Longrightarrow> b64_char n \<noteq> CHR ''=''"
  using b64_val_char b64_val_pad by fastforce

lemma pack_div_mod:
  "0 \<le> y \<Longrightarrow> y < k \<Longrightarrow> (x * k + y) div k = (x::int)"
  "0 \<le> y \<Longrightarrow> y < k \<Longrightarrow> (x * k + y) mod k = (y::int)"
  by simp_all

lemma oct_div_bounds:
  "0 \<le> oct c div 4" "oct c div 4 < 64" "0 \<le> oct c div 16" "oct c div 16 < 16"
  "0 \<le> oct c div 64" "oct c div 64 < 4"
  using oct_bounds [of c] by linarith+

lemma oct_mod_bounds:
  "0 \<le> oct c mod 4" "oct c mod 4 < 4" "0 \<le> oct c mod 16" "oct c mod 16 < 16"
  "0 \<le> oct c mod 64" "oct c mod 64 < 64"
  by simp_all

lemma sextet_bounds:
  "0 \<le> oct a mod 4 * 16 + oct b div 16" "oct a mod 4 * 16 + oct b div 16 < 64"
  "0 \<le> oct a mod 16 * 4 + oct b div 64" "oct a mod 16 * 4 + oct b div 64 < 64"
  "0 \<le> oct a mod 4 * 16" "oct a mod 4 * 16 < 64" "0 \<le> oct a mod 16 * 4" "oct a mod 16 * 4 < 64"
  using oct_div_bounds [of b] oct_mod_bounds [of a] by linarith+

lemmas pack_oct = pack_div_mod [OF oct_div_bounds(3,4)] pack_div_mod [OF oct_div_bounds(5,6)]

lemma oct1_enc: "oct1 (oct a div 4) (oct a mod 4 * 16 + oct b div 16) = a"
  by (simp only: oct1_def pack_oct div_mult_mod_eq char_of_oct)

lemma oct1_enc_last: "oct1 (oct a div 4) (oct a mod 4 * 16) = a"
  by (simp add: oct1_def)

lemma oct2_enc: "oct2 (oct a mod 4 * 16 + oct b div 16) (oct b mod 16 * 4 + oct c div 64) = b"
  by (simp only: oct2_def pack_oct div_mult_mod_eq char_of_oct)

lemma oct2_enc_last: "oct2 (oct a mod 4 * 16 + oct b div 16) (oct b mod 16 * 4) = b"
proof -
  have "oct b mod 16 * 4 div 4 = oct b mod 16" by simp
  then show ?thesis by (simp only: oct2_def pack_oct div_mult_mod_eq char_of_oct)
qed

lemma oct3_enc: "oct3 (oct b mod 16 * 4 + oct c div 64) (oct c mod 64) = c"
  by (simp only: oct3_def pack_oct div_mult_mod_eq char_of_oct)

lemmas octs_enc = oct1_enc oct1_enc_last oct2_enc oct2_enc_last oct3_enc

lemmas b64_bounds = oct_div_bounds oct_mod_bounds sextet_bounds

lemma b64_roundtrip: "b64decode (b64encode bs) = Some bs"
proof (induction bs rule: b64encode.induct)
  case (4 a b c rest)
  then show ?case
    by (simp add: quad_def b64_val_char b64_char_not_pad b64_bounds octs_enc)
qed (simp_all add: last_quad_def b64_val_char b64_char_not_pad b64_bounds octs_enc)

interpretation b64: byte_codec b64encode b64decode
  by unfold_locales (rule b64_roundtrip)

section \<open>What the decoder accepts\<close>

lemma b64_val_space: "is_space c \<Longrightarrow> b64_val c = None"
proof -
  assume "is_space c"
  moreover have "oct c = int (cp c)" unfolding oct_def cp_def by (cases c) simp
  ultimately show ?thesis by (auto simp: is_space_def b64_val_def Let_def)
qed

lemma length_last_quad: "last_quad p q r = Some bs \<Longrightarrow> length bs \<le> 2"
  by (auto simp: last_quad_def split: option.splits if_splits)

lemma length_quad: "quad p q r s = Some bs \<Longrightarrow> length bs = 3"
  by (auto simp: quad_def split: option.splits)

text \<open>Four characters never yield more than three octets.\<close>

lemma length_b64decode: "b64decode s = Some bs \<Longrightarrow> 4 * length bs \<le> 3 * length s"
proof (induction s arbitrary: bs rule: b64decode.induct)
  case (2 p q r s t)
  show ?case
  proof (cases "s = CHR ''=''")
    case True
    with 2(2) show ?thesis by (auto split: if_splits dest: length_last_quad)
  next
    case False
    with 2(2) obtain xs ys where "quad p q r s = Some xs" "b64decode t = Some ys" "bs = xs @ ys"
      by (auto split: option.splits)
    with 2(1) [OF False] show ?thesis by (auto dest: length_quad)
  qed
qed auto

lemma quad_no_space:
  "quad p q r s = Some bs \<Longrightarrow> \<not> is_space p \<and> \<not> is_space q \<and> \<not> is_space r \<and> \<not> is_space s"
  by (auto simp: quad_def b64_val_space split: option.splits)

lemma last_quad_no_space:
  "last_quad p q r = Some bs \<Longrightarrow> \<not> is_space p \<and> \<not> is_space q \<and> \<not> is_space r"
proof -
  assume a: "last_quad p q r = Some bs"
  have "\<not> is_space (CHR ''='')" by (simp add: is_space_def cp_def)
  with a show ?thesis
    by (auto simp: last_quad_def b64_val_space split: option.splits if_splits)
qed

text \<open>White space anywhere makes the strict decoder fail.\<close>

lemma b64decode_no_space: "b64decode s = Some bs \<Longrightarrow> c \<in> set s \<Longrightarrow> \<not> is_space c"
proof (induction s arbitrary: bs rule: b64decode.induct)
  case (2 p q r s t)
  have pad: "\<not> is_space (CHR ''='')" by (simp add: is_space_def cp_def)
  show ?case
  proof (cases "s = CHR ''=''")
    case True
    with 2(2,3) pad show ?thesis by (auto split: if_splits dest: last_quad_no_space)
  next
    case False
    with 2(2) obtain xs ys where "quad p q r s = Some xs" "b64decode t = Some ys"
      by (auto split: option.splits)
    with 2(1) [OF False] 2(3) show ?thesis by (auto dest: quad_no_space)
  qed
qed auto

end
