(* ===== verification/Bridge_Errors.thy ===== *)
theory Bridge_Errors
  imports Py_Base64
begin

text \<open>
  \<open>backends/comfyui-media/bridge/errors.py\<close>: the error that is safe to return to a caller
  and its constructors, and the exceptions of the bridge as one datatype, so that a raise is
  a value \<open>Inl e\<close>. Besides \<open>BridgeError\<close> these are the exceptions of
  \<open>comfy_client.py\<close> and \<open>jobs.py\<close> and the built-in ones the code can let through.
\<close>

record bridge_error =
  status_code :: int
  err_type :: string
  message :: string
  err_code :: "string option"

datatype exn =
    Bridge bridge_error
  | ValueErr string
  | TypeErr
  | AttributeErr
  | OverflowErr
  | ComfyPollError
  | ComfyJobFailed
  | ComfyTimeout
  | ComfyCancelled
  | AsyncCancelled
  | SubmitUncertain
  | OtherExn

type_synonym 'a res = "exn + 'a"

definition mk_error :: "int \<Rightarrow> string \<Rightarrow> string \<Rightarrow> string \<Rightarrow> bridge_error" where
  "mk_error st ty msg c = \<lparr>status_code = st, err_type = ty, message = msg, err_code = Some c\<rparr>"

definition error_body :: "bridge_error \<Rightarrow> pyval" where
  "error_body e =
     PDict [(''error'', PDict [(''message'', PStr (message e)), (''type'', PStr (err_type e)),
       (''code'', PStr (case err_code e of None \<Rightarrow> err_type e
                        | Some c \<Rightarrow> if c = [] then err_type e else c))])]"

definition bad_request :: "string \<Rightarrow> string \<Rightarrow> exn" where
  "bad_request msg c = Bridge (mk_error 400 ''invalid_request_error'' msg c)"

definition unsupported_model :: "string \<Rightarrow> string list \<Rightarrow> exn" where
  "unsupported_model model supported =
     Bridge (mk_error 400 ''invalid_request_error''
       (''Unsupported model '' @ py_repr model @ ''. Supported models: ''
          @ join_with '', '' supported @ ''.'')
       ''unsupported_model'')"

definition busy_error :: exn where
  "busy_error =
     Bridge (mk_error 429 ''rate_limit_error'' ''A generation is already in progress.'' ''busy'')"

definition backend_unavailable :: "string \<Rightarrow> exn" where
  "backend_unavailable msg = Bridge (mk_error 503 ''api_error'' msg ''backend_unavailable'')"

definition backend_error :: "string \<Rightarrow> exn" where
  "backend_error msg = Bridge (mk_error 502 ''api_error'' msg ''backend_error'')"

definition rejected :: "string \<Rightarrow> string \<Rightarrow> exn" where
  "rejected msg c = Bridge (mk_error 400 ''invalid_request_error'' msg c)"

text \<open>The default messages.\<close>

definition unavailable_default :: exn where
  "unavailable_default = backend_unavailable ''Media backend is unavailable.''"

section \<open>Classification\<close>

definition bridge_status :: "exn \<Rightarrow> int option" where
  "bridge_status e = (case e of Bridge b \<Rightarrow> Some (status_code b) | _ \<Rightarrow> None)"

definition is_client_error :: "exn \<Rightarrow> bool" where
  "is_client_error e = (bridge_status e = Some 400)"

lemmas error_defs = bad_request_def unsupported_model_def busy_error_def backend_unavailable_def
  backend_error_def rejected_def unavailable_default_def mk_error_def

lemma bridge_status_simps [simp]:
  "bridge_status (bad_request m c) = Some 400"
  "bridge_status (rejected m c) = Some 400"
  "bridge_status (unsupported_model m ms) = Some 400"
  "bridge_status busy_error = Some 429"
  "bridge_status (backend_unavailable m) = Some 503"
  "bridge_status (backend_error m) = Some 502"
  "bridge_status unavailable_default = Some 503"
  by (simp_all add: bridge_status_def error_defs)

lemma is_client_error_simps [simp]:
  "is_client_error (bad_request m c)" "is_client_error (rejected m c)"
  "is_client_error (unsupported_model m ms)" "\<not> is_client_error (backend_error m)"
  "\<not> is_client_error (backend_unavailable m)" "\<not> is_client_error busy_error"
  "\<not> is_client_error unavailable_default"
  by (simp_all add: is_client_error_def)

lemma error_not_other [simp]:
  "bad_request m c \<noteq> AsyncCancelled" "backend_error m \<noteq> AsyncCancelled"
  "backend_unavailable m \<noteq> AsyncCancelled" "bad_request m c \<noteq> SubmitUncertain"
  "backend_error m \<noteq> SubmitUncertain" "backend_unavailable m \<noteq> SubmitUncertain"
  by (simp_all add: error_defs)

end
