(* ===== verification/Http_World.thy ===== *)
theory Http_World
  imports Bridge_Errors
begin

text \<open>
  The world the bridge's ComfyUI client talks to. ComfyUI is not part of the sources, so what it
  answers is a parameter: \<open>net w i\<close> is the outcome of the \<open>i\<close>-th HTTP call and \<open>latency w i\<close> the
  time it takes. Every call is recorded in \<open>sent\<close>, and \<open>now\<close> is the event loop's clock. An
  \<open>io\<close> action is a function of the world that returns a result or an exception and the new
  world. The locale \<open>bounded_poll\<close> is the contract of the polling loops of the client and the
  runner: a loop that sleeps a fixed time per round under a deadline stops.
\<close>

datatype request =
    Get string
  | Post string pyval
  | Upload string bytes string

datatype reply =
    HTTPError
  | Resp int "pyval option" \<comment> \<open>status, and the JSON body if \<open>json()\<close> does not raise\<close>

record world =
  net :: "nat \<Rightarrow> reply"
  latency :: "nat \<Rightarrow> rat"
  calls :: nat
  now :: rat
  sent :: "request list"

type_synonym 'a io = "world \<Rightarrow> 'a res \<times> world"

definition retIO :: "'a \<Rightarrow> 'a io" where
  "retIO a w = (Inr a, w)"

definition throwIO :: "exn \<Rightarrow> 'a io" where
  "throwIO e w = (Inl e, w)"

definition liftIO :: "'a res \<Rightarrow> 'a io" where
  "liftIO r w = (r, w)"

definition bindIO :: "'a io \<Rightarrow> ('a \<Rightarrow> 'b io) \<Rightarrow> 'b io" where
  "bindIO m f w = (case m w of (Inl e, w') \<Rightarrow> (Inl e, w') | (Inr a, w') \<Rightarrow> f a w')"

text \<open>\<open>try: m except E: h\<close>, where \<open>h\<close> gives \<open>None\<close> for an exception it does not catch.\<close>

definition catchIO :: "'a io \<Rightarrow> (exn \<Rightarrow> 'a io option) \<Rightarrow> 'a io" where
  "catchIO m h w =
     (case m w of
        (Inl e, w') \<Rightarrow> (case h e of None \<Rightarrow> (Inl e, w') | Some k \<Rightarrow> k w')
      | (Inr a, w') \<Rightarrow> (Inr a, w'))"

definition sleepIO :: "rat \<Rightarrow> unit io" where
  "sleepIO d w = (Inr (), w\<lparr>now := now w + d\<rparr>)"

definition send :: "request \<Rightarrow> world \<Rightarrow> reply \<times> world" where
  "send req w =
     (net w (calls w),
      w\<lparr>calls := Suc (calls w), now := now w + latency w (calls w), sent := sent w @ [req]\<rparr>)"

lemmas io_defs = retIO_def throwIO_def liftIO_def bindIO_def catchIO_def sleepIO_def

section \<open>What an action leaves alone\<close>

text \<open>
  \<open>extends S w w'\<close>: \<open>w'\<close> is a later state of the same world, reached with requests of \<open>S\<close>
  only. An action is \<open>confined S\<close> if all it does is to extend the world so.
\<close>

definition extends :: "request set \<Rightarrow> world \<Rightarrow> world \<Rightarrow> bool" where
  "extends S w w' =
     (net w' = net w \<and> latency w' = latency w \<and> calls w \<le> calls w'
      \<and> (\<exists>rs. sent w' = sent w @ rs \<and> set rs \<subseteq> S))"

definition confined :: "request set \<Rightarrow> 'a io \<Rightarrow> bool" where
  "confined S m = (\<forall>w. extends S w (snd (m w)))"

named_theorems io_intros \<open>actions that only extend the world\<close>

lemma extends_refl [simp]: "extends S w w"
  by (auto simp: extends_def)

lemma extends_trans: "extends S u v \<Longrightarrow> extends S v w \<Longrightarrow> extends S u w"
  by (auto simp: extends_def)

lemma confinedD: "confined S m \<Longrightarrow> m w = (r, w') \<Longrightarrow> extends S w w'"
  by (metis confined_def snd_conv)

lemma confined_ret [io_intros]: "confined S (retIO a)"
  by (simp add: confined_def retIO_def)

lemma confined_throw [io_intros]: "confined S (throwIO e)"
  by (simp add: confined_def throwIO_def)

lemma confined_lift [io_intros]: "confined S (liftIO r)"
  by (simp add: confined_def liftIO_def)

lemma confined_sleep [io_intros]: "confined S (sleepIO d)"
  by (auto simp: confined_def sleepIO_def extends_def)

lemma confined_bind [io_intros]:
  assumes "confined S m" "\<And>a. confined S (f a)"
  shows "confined S (bindIO m f)"
  unfolding confined_def
proof
  fix w
  obtain r w' where m: "m w = (r, w')" by (cases "m w")
  from confinedD [OF assms(1) m] have e: "extends S w w'" .
  show "extends S w (snd (bindIO m f w))"
  proof (cases r)
    case (Inl x)
    with m e show ?thesis by (simp add: bindIO_def)
  next
    case (Inr a)
    from assms(2) have "extends S w' (snd (f a w'))" by (simp add: confined_def)
    with m Inr e show ?thesis by (auto simp: bindIO_def intro: extends_trans)
  qed
qed

lemma confined_catch [io_intros]:
  assumes "confined S m" "\<And>e k. h e = Some k \<Longrightarrow> confined S k"
  shows "confined S (catchIO m h)"
  unfolding confined_def
proof
  fix w
  obtain r w' where m: "m w = (r, w')" by (cases "m w")
  from confinedD [OF assms(1) m] have e: "extends S w w'" .
  show "extends S w (snd (catchIO m h w))"
  proof (cases r)
    case (Inr a)
    with m e show ?thesis by (simp add: catchIO_def)
  next
    case (Inl x)
    show ?thesis
    proof (cases "h x")
      case None
      with m Inl e show ?thesis by (simp add: catchIO_def)
    next
      case (Some k)
      with assms(2) have "extends S w' (snd (k w'))" by (simp add: confined_def)
      with m Inl Some e show ?thesis by (auto simp: catchIO_def intro: extends_trans)
    qed
  qed
qed

lemma confined_if [io_intros]: "(c \<Longrightarrow> confined S a) \<Longrightarrow> (\<not> c \<Longrightarrow> confined S b) \<Longrightarrow> confined S (if c then a else b)"
  by simp

lemma confined_option [io_intros]:
  "confined S a \<Longrightarrow> (\<And>x. confined S (f x)) \<Longrightarrow> confined S (case v of None \<Rightarrow> a | Some x \<Rightarrow> f x)"
  by (simp split: option.split)

lemma confined_bool [io_intros]:
  "confined S a \<Longrightarrow> confined S b \<Longrightarrow> confined S (case v of True \<Rightarrow> a | False \<Rightarrow> b)"
  by (simp split: bool.split)

lemma confined_reply [io_intros]:
  "confined S a \<Longrightarrow> (\<And>st body. confined S (f st body)) \<Longrightarrow>
   confined S (case r of HTTPError \<Rightarrow> a | Resp st body \<Rightarrow> f st body)"
  by (simp split: reply.split)

section \<open>Polling loops\<close>

fun poll_loop :: "nat \<Rightarrow> ('s \<Rightarrow> 'r + 's) \<Rightarrow> 's \<Rightarrow> 'r option" where
  "poll_loop 0 step s = None"
| "poll_loop (Suc n) step s =
     (case step s of Inl r \<Rightarrow> Some r | Inr s' \<Rightarrow> poll_loop n step s')"

lemma poll_loop_mono: "poll_loop n step s = Some r \<Longrightarrow> n \<le> m \<Longrightarrow> poll_loop m step s = Some r"
proof (induction n arbitrary: s m)
  case 0
  then show ?case by simp
next
  case (Suc n)
  then obtain k where "m = Suc k" "n \<le> k" by (cases m) auto
  with Suc show ?case by (auto split: sum.splits)
qed

text \<open>Whatever holds of every final result of a round holds of the loop's result.\<close>

lemma poll_loop_result:
  assumes "poll_loop n step s = Some r" and "I s"
    and "\<And>s s'. I s \<Longrightarrow> step s = Inr s' \<Longrightarrow> I s'"
  shows "\<exists>t. I t \<and> step t = Inl r"
  using assms(1,2)
proof (induction n arbitrary: s)
  case 0
  then show ?case by simp
next
  case (Suc n)
  then show ?case using assms(3) by (cases "step s") auto
qed

locale bounded_poll =
  fixes step :: "'s \<Rightarrow> 'r + 's"
    and clock :: "'s \<Rightarrow> rat"
    and inv :: "'s \<Rightarrow> bool"
    and limit :: rat
    and pause :: rat
  assumes round_time: "inv s \<Longrightarrow> step s = Inr s' \<Longrightarrow> clock s + pause \<le> clock s'"
    and round_limit: "inv s \<Longrightarrow> step s = Inr s' \<Longrightarrow> clock s' \<le> limit"
    and round_inv: "inv s \<Longrightarrow> step s = Inr s' \<Longrightarrow> inv s'"
begin

lemma fuel_enough:
  assumes pause_pos: "0 < pause" and "inv s" and "limit - clock s < of_nat n * pause"
  shows "\<exists>r. poll_loop (Suc n) step s = Some r"
  using assms(2,3)
proof (induction n arbitrary: s)
  case 0
  show ?case
  proof (cases "step s")
    case (Inl r)
    then show ?thesis by simp
  next
    case (Inr s')
    from round_time [OF 0(1) Inr] round_limit [OF 0(1) Inr] 0(2) pause_pos show ?thesis by simp
  qed
next
  case (Suc n)
  show ?case
  proof (cases "step s")
    case (Inl r)
    then show ?thesis by simp
  next
    case (Inr s')
    from round_time [OF Suc.prems(1) Inr] Suc.prems(2) have "limit - clock s' < of_nat n * pause"
      by (simp add: algebra_simps)
    with Suc.IH [OF round_inv [OF Suc.prems(1) Inr]] Inr show ?thesis by auto
  qed
qed

end

section \<open>Bounded reading of a byte stream\<close>

datatype chunk = Chunk bytes | ChunkError

text \<open>
  \<open>async for chunk in stream: if len(data) + len(chunk) > cap: raise over; data.extend(chunk)\<close>;
  \<open>broken\<close> is what a transport error inside the stream becomes.
\<close>

fun accumulate :: "nat \<Rightarrow> exn \<Rightarrow> exn \<Rightarrow> chunk list \<Rightarrow> bytes \<Rightarrow> bytes res" where
  "accumulate cap over broken [] acc = Inr acc"
| "accumulate cap over broken (ChunkError # cs) acc = Inl broken"
| "accumulate cap over broken (Chunk b # cs) acc =
     (if cap < length acc + length b then Inl over else accumulate cap over broken cs (acc @ b))"

lemma accumulate_ok:
  "accumulate cap over broken cs acc = Inr d \<Longrightarrow> length acc \<le> cap \<Longrightarrow>
   length d \<le> cap \<and> (\<exists>bs. cs = map Chunk bs \<and> d = acc @ concat bs)"
proof (induction cap over broken cs acc arbitrary: d rule: accumulate.induct)
  case (3 cap over broken b cs acc)
  then obtain bs where "length d \<le> cap" "cs = map Chunk bs" "d = (acc @ b) @ concat bs"
    by (auto split: if_splits)
  then show ?case by (auto intro!: exI [of _ "b # bs"])
qed auto

lemma accumulate_complete:
  "length acc + length (concat bs) \<le> cap \<Longrightarrow>
   accumulate cap over broken (map Chunk bs) acc = Inr (acc @ concat bs)"
  by (induction bs arbitrary: acc) auto

lemma accumulate_over:
  "cap < length acc + length (concat bs) \<Longrightarrow> length acc \<le> cap \<Longrightarrow>
   accumulate cap over broken (map Chunk bs) acc = Inl over"
  by (induction bs arbitrary: acc) auto

end
