(* ===== verification/Media.thy ===== *)
theory Media
  imports Bridge_Errors
begin

text \<open>
  \<open>backends/comfyui-media/bridge/media.py\<close>: typing an artifact by its bytes, and the
  confined cleanup of files below the configured data root. The file system is a parameter:
  \<open>realpath\<close> resolves a path and \<open>rm\<close> is what \<open>os.remove\<close> does to it; \<open>delete_target\<close>
  is the path the removal is attempted on, if any. The regular expressions are matched as
  \<open>re.match\<close> matches them: the anchor \<open>$\<close> also matches before a final line feed.
\<close>

section \<open>Sniffing\<close>

definition png_magic :: bytes where
  "png_magic = CHR 0x89 # ''PNG'' @ [CHR 0x0D, CHR 0x0A, CHR 0x1A, CHR 0x0A]"

definition sniff_media :: "bytes \<Rightarrow> string option" where
  "sniff_media data =
     (if prefix png_magic data then Some ''image''
      else if 12 \<le> length data \<and> take 4 (drop 4 data) = ''ftyp'' then Some ''video''
      else if 12 \<le> length data \<and> take 4 data = ''RIFF'' \<and> take 4 (drop 8 data) = ''WAVE''
        then Some ''audio''
      else None)"

definition media_matches_kind :: "bytes \<Rightarrow> string \<Rightarrow> bool" where
  "media_matches_kind data kind = (sniff_media data = Some kind)"

definition expected_media_suffix :: "string \<Rightarrow> string" where
  "expected_media_suffix kind =
     (if kind = ''video'' then ''.mp4'' else if kind = ''image'' then ''.png'' else ''.wav'')"

section \<open>Paths\<close>

definition path_join1 :: "string \<Rightarrow> string \<Rightarrow> string" where
  "path_join1 a b =
     (if prefix ''/'' b then b
      else if a = [] \<or> suffix ''/'' a then a @ b else a @ ''/'' @ b)"

definition path_join :: "string \<Rightarrow> string list \<Rightarrow> string" where
  "path_join a bs = foldl path_join1 a bs"

definition norm_step :: "bool \<Rightarrow> string list \<Rightarrow> string \<Rightarrow> string list" where
  "norm_step rooted acc c =
     (if c = [] \<or> c = ''.'' then acc
      else if c \<noteq> ''..'' \<or> (\<not> rooted \<and> acc = []) \<or> (acc \<noteq> [] \<and> hd acc = ''..'') then c # acc
      else tl acc)"

text \<open>\<open>os.path.normpath\<close>: exactly two leading slashes are kept.\<close>

definition normpath :: "string \<Rightarrow> string" where
  "normpath p =
     (let slashes = (if \<not> prefix ''/'' p then 0
                     else if prefix ''//'' p \<and> \<not> prefix ''///'' p then 2 else 1 :: nat);
          comps = rev (foldl (norm_step (slashes \<noteq> 0)) [] (split_on (CHR ''/'') p));
          r = replicate slashes (CHR ''/'') @ join_with ''/'' comps
      in if r = [] then ''.'' else r)"

definition normalize_root :: "pyval \<Rightarrow> string option" where
  "normalize_root rt =
     (case rt of
        PStr s \<Rightarrow>
          if py_strip s = [] then None
          else if CHR 0x00 \<in> set s then None
          else if \<not> prefix ''/'' s then None
          else let n = normpath s in if n = ''/'' then None else Some n
      | _ \<Rightarrow> None)"

section \<open>Reference checks\<close>

definition basename_char :: "char \<Rightarrow> bool" where
  "basename_char c = (is_alnum c \<or> c \<in> set ''._-'')"

definition class_run :: "nat \<Rightarrow> string \<Rightarrow> bool" where
  "class_run n w = (1 \<le> length w \<and> length w \<le> n \<and> list_all basename_char w)"

text \<open>\<open>re.match("^[A-Za-z0-9._-]{1,n}$", p)\<close>.\<close>

definition matches_basename :: "nat \<Rightarrow> string \<Rightarrow> bool" where
  "matches_basename n p =
     (class_run n p \<or> (p \<noteq> [] \<and> last p = CHR 0x0A \<and> class_run n (butlast p)))"

definition is_hex :: "char \<Rightarrow> bool" where
  "is_hex c = (is_digit c \<or> 65 \<le> cp c \<and> cp c \<le> 70 \<or> 97 \<le> cp c \<and> cp c \<le> 102)"

text \<open>Whether \<open>unquote\<close> changes the text: some \<open>%\<close> is followed by two hex digits.\<close>

fun has_pct_escape :: "string \<Rightarrow> bool" where
  "has_pct_escape (c # d # e # cs) =
     (c = CHR ''%'' \<and> is_hex d \<and> is_hex e \<or> has_pct_escape (d # e # cs))"
| "has_pct_escape _ = False"

definition ref_parts :: "string \<Rightarrow> string list" where
  "ref_parts ref = filter (\<lambda>p. p \<noteq> [] \<and> p \<noteq> ''.'') (split_on (CHR ''/'') ref)"

definition safe_relative :: "string \<Rightarrow> bool" where
  "safe_relative ref =
     (if CHR 0x00 \<in> set ref \<or> CHR 0x5C \<in> set ref \<or> CHR '':'' \<in> set ref then False
      else if prefix ''/'' ref then False
      else if has_pct_escape ref then False
      else let parts = ref_parts ref in
        if parts = [] then False
        else if ''..'' \<in> set parts then False
        else list_all (matches_basename 255) parts)"

section \<open>Data roots\<close>

datatype rm_outcome = Removed | NotFound | RmFailed

text \<open>The path \<open>os.remove\<close> is called on, if the checks let it be called.\<close>

definition delete_target :: "(string \<Rightarrow> string) \<Rightarrow> string option \<Rightarrow> string \<Rightarrow> pyval \<Rightarrow> string option" where
  "delete_target realpath rt category ref =
     (case (rt, ref) of
        (Some r, PStr s) \<Rightarrow>
          if \<not> safe_relative s then None
          else
            let base = path_join r [category];
                base_real = realpath base;
                target = realpath (path_join base (split_on (CHR ''/'') s))
            in if target \<noteq> base_real \<and> \<not> prefix (base_real @ ''/'') target then None
               else Some target
      | _ \<Rightarrow> None)"

definition data_delete :: "(string \<Rightarrow> string) \<Rightarrow> (string \<Rightarrow> rm_outcome) \<Rightarrow> string option \<Rightarrow> string \<Rightarrow> pyval \<Rightarrow> bool" where
  "data_delete realpath rm rt category ref =
     (case delete_target realpath rt category ref of
        None \<Rightarrow> False
      | Some t \<Rightarrow> (case rm t of Removed \<Rightarrow> True | NotFound \<Rightarrow> False | RmFailed \<Rightarrow> False))"

definition upload_target :: "(string \<Rightarrow> string) \<Rightarrow> string option \<Rightarrow> string \<Rightarrow> string option" where
  "upload_target realpath rt name = delete_target realpath rt ''input'' (PStr name)"

text \<open>The category and reference \<open>delete_output\<close> passes on, if the item has a usable type.\<close>

definition output_ref :: "pydict \<Rightarrow> (string \<times> pyval) option" where
  "output_ref item =
     (let kind = (if truthy (get_none item ''type'') then get_none item ''type'' else PStr ''output'') in
      if kind \<notin> {PStr ''output'', PStr ''temp''} then None
      else
        let filename = get_none item ''filename'';
            subfolder = get_none item ''subfolder'';
            ref = (if truthy subfolder then PStr (py_str subfolder @ ''/'' @ py_str filename) else filename);
            directory = (if kind = PStr ''output'' then ''output'' else ''temp'')
        in Some (directory, ref))"

definition output_target :: "(string \<Rightarrow> string) \<Rightarrow> string option \<Rightarrow> pydict \<Rightarrow> string option" where
  "output_target realpath rt item =
     (case output_ref item of None \<Rightarrow> None | Some (d, ref) \<Rightarrow> delete_target realpath rt d ref)"

section \<open>Components of a path\<close>

abbreviation slash :: char where
  "slash \<equiv> CHR ''/''"

text \<open>A component that survives normalisation as itself.\<close>

definition plain_comp :: "string \<Rightarrow> bool" where
  "plain_comp w = (w \<noteq> [] \<and> w \<noteq> ''.'' \<and> w \<noteq> ''..'' \<and> slash \<notin> set w)"

definition norm_root :: "nat \<Rightarrow> string list \<Rightarrow> string" where
  "norm_root k ws = replicate k slash @ join_with ''/'' ws"

lemma split_on_append: "split_on d (a @ d # b) = split_on d a @ split_on d b"
proof (induction a)
  case Nil
  then show ?case by simp
next
  case (Cons c a)
  then show ?case by (cases "split_on d a") auto
qed

lemma split_on_no_sep_single: "d \<notin> set w \<Longrightarrow> split_on d w = [w]"
  by (induction w) auto

lemma split_on_join:
  "ws \<noteq> [] \<Longrightarrow> (\<And>w. w \<in> set ws \<Longrightarrow> d \<notin> set w) \<Longrightarrow> split_on d (join_with [d] ws) = ws"
proof (induction "[d]" ws rule: join_with.induct)
  case (2 w)
  then show ?case by (simp add: split_on_no_sep_single)
next
  case (3 w v ws)
  then show ?case by (simp add: split_on_append split_on_no_sep_single)
qed simp

lemma ref_parts_append: "ref_parts (a @ slash # b) = ref_parts a @ ref_parts b"
  by (simp add: ref_parts_def split_on_append)

lemma ref_parts_Nil [simp]: "ref_parts [] = []"
  by (simp add: ref_parts_def)

lemma ref_parts_slash [simp]: "ref_parts (slash # b) = ref_parts b"
  using ref_parts_append [of "[]" b] by simp

lemma ref_parts_single: "slash \<notin> set w \<Longrightarrow> ref_parts w = (if w = [] \<or> w = ''.'' then [] else [w])"
  by (simp add: ref_parts_def split_on_no_sep_single)

lemma ref_parts_props: "w \<in> set (ref_parts s) \<Longrightarrow> w \<noteq> [] \<and> w \<noteq> ''.'' \<and> slash \<notin> set w"
  by (auto simp: ref_parts_def dest: split_on_no_sep)

lemma ref_parts_join1: "\<not> prefix ''/'' b \<Longrightarrow> ref_parts (path_join1 a b) = ref_parts a @ ref_parts b"
proof -
  assume b: "\<not> prefix ''/'' b"
  show ?thesis
  proof (cases "a = [] \<or> suffix ''/'' a")
    case True
    show ?thesis
    proof (cases "a = []")
      case True
      with b show ?thesis by (simp add: path_join1_def)
    next
      case False
      with True obtain a' where "a = a' @ ''/''" by (auto simp: suffix_def)
      with b True show ?thesis using ref_parts_append [of a' "[]"] ref_parts_append [of a' b]
        by (simp add: path_join1_def)
    qed
  next
    case False
    with b show ?thesis by (simp add: path_join1_def ref_parts_append)
  qed
qed

lemma ref_parts_path_join:
  "(\<And>b. b \<in> set bs \<Longrightarrow> slash \<notin> set b) \<Longrightarrow>
   ref_parts (path_join a bs) = ref_parts a @ concat (map ref_parts bs)"
proof (induction bs arbitrary: a)
  case Nil
  then show ?case by (simp add: path_join_def)
next
  case (Cons b bs)
  then have "slash \<notin> set b" by simp
  then have "\<not> prefix ''/'' b" by (auto simp: prefix_def)
  with Cons show ?case by (simp add: path_join_def ref_parts_join1)
qed

lemma concat_ref_parts_split: "concat (map ref_parts (split_on slash s)) = ref_parts s"
proof -
  have *: "(\<And>w. w \<in> set ws \<Longrightarrow> slash \<notin> set w) \<Longrightarrow>
      concat (map ref_parts ws) = filter (\<lambda>p. p \<noteq> [] \<and> p \<noteq> ''.'') ws" for ws
    by (induction ws) (auto simp: ref_parts_single)
  show ?thesis
    by (subst *) (auto simp: ref_parts_def dest: split_on_no_sep)
qed

lemma ref_parts_join_split: "ref_parts (path_join a (split_on slash s)) = ref_parts a @ ref_parts s"
  by (simp add: ref_parts_path_join split_on_no_sep concat_ref_parts_split)

section \<open>Normalisation of absolute paths\<close>

lemma foldl_norm_plain:
  assumes "''..'' \<notin> set cs"
  shows "foldl (norm_step True) acc cs = rev (filter (\<lambda>p. p \<noteq> [] \<and> p \<noteq> ''.'') cs) @ acc"
  using assms by (induction cs arbitrary: acc) (auto simp: norm_step_def)

lemma foldl_norm_no_up:
  "''..'' \<notin> set acc \<Longrightarrow> ''..'' \<notin> set (foldl (norm_step True) acc cs)"
proof (induction cs arbitrary: acc)
  case Nil
  then show ?case by simp
next
  case (Cons c cs)
  have "''..'' \<notin> set (norm_step True acc c)"
    using Cons.prems by (cases acc) (auto simp: norm_step_def)
  then show ?case using Cons.IH by simp
qed

lemma foldl_norm_subset: "set (foldl (norm_step b) acc cs) \<subseteq> set acc \<union> {c \<in> set cs. c \<noteq> [] \<and> c \<noteq> ''.''}"
proof (induction cs arbitrary: acc)
  case Nil
  then show ?case by simp
next
  case (Cons c cs)
  have "set (norm_step b acc c) \<subseteq> set acc \<union> (if c \<noteq> [] \<and> c \<noteq> ''.'' then {c} else {})"
    by (cases acc) (auto simp: norm_step_def)
  with Cons.IH [of "norm_step b acc c"] show ?case by (auto split: if_splits)
qed

definition slashes_of :: "string \<Rightarrow> nat" where
  "slashes_of p = (if prefix ''//'' p \<and> \<not> prefix ''///'' p then 2 else 1)"

lemma normpath_abs:
  assumes "prefix ''/'' p"
  shows "normpath p = norm_root (slashes_of p) (rev (foldl (norm_step True) [] (split_on slash p)))"
  using assms by (auto simp: normpath_def slashes_of_def norm_root_def Let_def numeral_2_eq_2)

lemma normpath_abs_plain:
  assumes "prefix ''/'' p" and "''..'' \<notin> set (ref_parts p)"
  shows "normpath p = norm_root (slashes_of p) (ref_parts p)"
proof -
  have "''..'' \<notin> set (split_on slash p)" using assms(2) by (auto simp: ref_parts_def)
  then show ?thesis
    using assms(1) by (simp add: normpath_abs foldl_norm_plain ref_parts_def)
qed

text \<open>A normalised absolute path: one or two slashes, then plain components.\<close>

definition abs_normal :: "string \<Rightarrow> bool" where
  "abs_normal b = (\<exists>k ws. (k = 1 \<or> k = 2) \<and> list_all plain_comp ws \<and> b = norm_root k ws)"

lemma normpath_abs_normal:
  assumes "prefix ''/'' p"
  shows "abs_normal (normpath p)"
proof -
  let ?ws = "rev (foldl (norm_step True) [] (split_on slash p))"
  have "set ?ws \<subseteq> {c \<in> set (split_on slash p). c \<noteq> [] \<and> c \<noteq> ''.''}"
    using foldl_norm_subset [of True "[]"] by simp
  moreover have "''..'' \<notin> set ?ws" using foldl_norm_no_up [of "[]"] by simp
  ultimately have "list_all plain_comp ?ws"
    by (auto simp: list_all_iff plain_comp_def dest: split_on_no_sep)
  moreover have "slashes_of p = 1 \<or> slashes_of p = 2" by (simp add: slashes_of_def)
  ultimately show ?thesis
    unfolding normpath_abs [OF assms] abs_normal_def by blast
qed

lemma normalize_root_abs_normal: "normalize_root x = Some r \<Longrightarrow> abs_normal r"
  by (auto simp: normalize_root_def Let_def normpath_abs_normal split: pyval.splits if_splits)

lemma join_with_snoc: "ws \<noteq> [] \<Longrightarrow> join_with sep (ws @ [w]) = join_with sep ws @ sep @ w"
  by (induction sep ws rule: join_with.induct) auto

lemma join_with_append:
  "us \<noteq> [] \<Longrightarrow> ws \<noteq> [] \<Longrightarrow> join_with sep (us @ ws) = join_with sep us @ sep @ join_with sep ws"
proof (induction us)
  case Nil
  then show ?case by simp
next
  case (Cons u us)
  then show ?case by (cases us; cases ws) auto
qed

lemma ref_parts_replicate: "ref_parts (replicate k slash @ s) = ref_parts s"
  by (induction k) auto

lemma ref_parts_norm_root:
  assumes "list_all plain_comp ws"
  shows "ref_parts (norm_root k ws) = ws"
proof (cases "ws = []")
  case True
  then show ?thesis using ref_parts_replicate [of k "[]"] by (simp add: norm_root_def)
next
  case False
  with assms have "split_on slash (join_with ''/'' ws) = ws"
    by (intro split_on_join) (auto simp: list_all_iff plain_comp_def)
  with assms show ?thesis
    by (auto simp: norm_root_def ref_parts_replicate ref_parts_def [of "join_with _ _"] list_all_iff
        plain_comp_def intro!: filter_True)
qed

lemma suffix_last: "suffix [c] x \<longleftrightarrow> x \<noteq> [] \<and> last x = c"
  by (auto simp: suffix_def) (metis append_butlast_last_id)

lemma no_slash_not_abs: "slash \<notin> set b \<Longrightarrow> \<not> prefix ''/'' b"
  by (auto simp: prefix_def)

lemma join_with_not_suffix:
  assumes "list_all plain_comp ws"
  shows "\<not> suffix ''/'' (join_with ''/'' ws)"
proof (cases "ws = []")
  case True
  then show ?thesis by simp
next
  case False
  then obtain us w where ws: "ws = us @ [w]" by (cases ws rule: rev_cases) auto
  with assms have w: "w \<noteq> []" "slash \<notin> set w" by (auto simp: plain_comp_def)
  then have "last w \<noteq> slash" using last_in_set by metis
  moreover have "last (join_with ''/'' ws) = last w"
    using w(1) by (cases "us = []") (auto simp: ws join_with_snoc)
  ultimately show ?thesis by (auto simp: suffix_def)
qed

lemma join_with_not_Nil: "list_all plain_comp ws \<Longrightarrow> ws \<noteq> [] \<Longrightarrow> join_with ''/'' ws \<noteq> []"
  by (cases ws; cases "tl ws") (auto simp: plain_comp_def)

lemma path_join1_norm_root:
  assumes "list_all plain_comp ws" and "plain_comp c" and "k = 1 \<or> k = 2"
  shows "path_join1 (norm_root k ws) c = norm_root k (ws @ [c])"
proof (cases "ws = []")
  case True
  with assms show ?thesis
    by (auto simp: path_join1_def norm_root_def plain_comp_def prefix_def suffix_def numeral_2_eq_2)
next
  case False
  have "\<not> suffix ''/'' (norm_root k ws)"
    using join_with_not_suffix [OF assms(1)] join_with_not_Nil [OF assms(1) False]
    by (auto simp: norm_root_def suffix_last)
  moreover have "norm_root k ws \<noteq> []" "\<not> prefix ''/'' c"
    using join_with_not_Nil [OF assms(1) False] assms(2)
    by (auto simp: norm_root_def plain_comp_def prefix_def)
  ultimately show ?thesis
    using False by (simp add: path_join1_def norm_root_def join_with_snoc)
qed

text \<open>The leading slashes of a root with at least one component show in every extension.\<close>

lemma slashes_of_extension:
  assumes "list_all plain_comp ws" "ws \<noteq> []" "k = 1 \<or> k = 2" "prefix (norm_root k ws) p"
  shows "slashes_of p = k" "prefix ''/'' p"
proof -
  obtain w vs where ws: "ws = w # vs" using assms(2) by (cases ws) auto
  with assms(1) obtain c cs where c: "w = c # cs" "c \<noteq> slash"
    by (cases w) (auto simp: plain_comp_def)
  then have "prefix (replicate k slash @ [c]) p"
    using assms(4) by (auto simp: norm_root_def ws prefix_def)
  with assms(3) c(2) show "slashes_of p = k" "prefix ''/'' p"
    by (auto simp: slashes_of_def prefix_def numeral_2_eq_2 Cons_eq_append_conv)
qed

lemma prefix_path_join:
  "(\<And>b. b \<in> set bs \<Longrightarrow> slash \<notin> set b) \<Longrightarrow> prefix a (path_join a bs)"
proof (induction bs arbitrary: a)
  case Nil
  then show ?case by (simp add: path_join_def)
next
  case (Cons b bs)
  then have "\<not> prefix ''/'' b" by (intro no_slash_not_abs) simp
  then have "prefix a (path_join1 a b)" by (auto simp: path_join1_def)
  moreover have "prefix (path_join1 a b) (path_join (path_join1 a b) bs)"
    using Cons by simp
  ultimately show ?case by (auto simp: path_join_def)
qed

section \<open>The contract of a reference check\<close>

text \<open>
  What a check of a backend or upload reference promises the code that joins it onto a
  directory: no absolute path and no parent component. Then joining stays below the directory,
  whatever else the check lets through.
\<close>

locale confined_ref =
  fixes safe :: "string \<Rightarrow> bool"
  assumes not_absolute: "safe s \<Longrightarrow> \<not> prefix ''/'' s"
    and no_parent: "safe s \<Longrightarrow> ''..'' \<notin> set (ref_parts s)"
begin

lemma parts_plain: "safe s \<Longrightarrow> list_all plain_comp (ref_parts s)"
  using no_parent by (auto simp: list_all_iff plain_comp_def dest: ref_parts_props)

lemma join_confined:
  assumes "safe s" "list_all plain_comp ws" "ws \<noteq> []" "k = 1 \<or> k = 2"
  shows "normpath (path_join (norm_root k ws) (split_on slash s)) = norm_root k (ws @ ref_parts s)"
proof -
  let ?p = "path_join (norm_root k ws) (split_on slash s)"
  have "prefix (norm_root k ws) ?p" by (intro prefix_path_join split_on_no_sep)
  note sl = slashes_of_extension [OF assms(2,3,4) this]
  have parts: "ref_parts ?p = ws @ ref_parts s"
    using assms(2) by (simp add: ref_parts_join_split ref_parts_norm_root)
  moreover have "''..'' \<notin> set (ws @ ref_parts s)"
    using assms(2) no_parent [OF assms(1)] by (auto simp: list_all_iff plain_comp_def)
  ultimately show ?thesis using sl by (simp add: normpath_abs_plain)
qed

end

lemma safe_relative_parts:
  "safe_relative s \<Longrightarrow> \<not> prefix ''/'' s \<and> ''..'' \<notin> set (ref_parts s) \<and> ref_parts s \<noteq> []"
  by (auto simp: safe_relative_def Let_def split: if_splits)

interpretation media_ref: confined_ref safe_relative
  by unfold_locales (simp_all add: safe_relative_parts)

lemma normpath_norm_root:
  assumes "list_all plain_comp ws" "ws \<noteq> []" "k = 1 \<or> k = 2"
  shows "normpath (norm_root k ws) = norm_root k ws"
  using slashes_of_extension [OF assms, of "norm_root k ws"] assms(1)
  by (subst normpath_abs_plain)
    (auto simp: ref_parts_norm_root list_all_iff plain_comp_def)

section \<open>Properties\<close>

text \<open>C16. Cleanup deletes exactly the file it names and nothing outside the category's
  directory: on a file system without symbolic links (\<open>realpath\<close> is \<open>normpath\<close>), for every root
  the configuration accepts and every reference the check accepts, the path handed to
  \<open>os.remove\<close> is the category's directory extended by the non-empty list of the reference's
  components, none of which is a parent component; with symbolic links (any
  \<open>realpath\<close>) whatever is removed still lies at or below the resolved directory.\<close>

theorem cleanup_exact:
  assumes "normalize_root x = Some r" and "safe_relative s"
    and "cat \<in> {''input'', ''output'', ''temp''}"
  shows "delete_target normpath (Some r) cat (PStr s) =
      Some (path_join r [cat] @ ''/'' @ join_with ''/'' (ref_parts s))
    \<and> ref_parts s \<noteq> [] \<and> ''..'' \<notin> set (ref_parts s)
    \<and> (\<forall>realpath t. delete_target realpath (Some r) cat (PStr s) = Some t \<longrightarrow>
         t = realpath (path_join r [cat]) \<or> prefix (realpath (path_join r [cat]) @ ''/'') t)"
proof -
  from normalize_root_abs_normal [OF assms(1)] obtain k ws
    where k: "k = 1 \<or> k = 2" and ws: "list_all plain_comp ws" and r: "r = norm_root k ws"
    by (auto simp: abs_normal_def)
  from assms(3) have c: "plain_comp cat" by (auto simp: plain_comp_def)
  have base: "path_join r [cat] = norm_root k (ws @ [cat])"
    using path_join1_norm_root [OF ws c k] by (simp add: r path_join_def)
  have pl: "list_all plain_comp (ws @ [cat])" "ws @ [cat] \<noteq> []" using ws c by auto
  note sp = safe_relative_parts [OF assms(2)]
  have target: "normpath (path_join (norm_root k (ws @ [cat])) (split_on slash s)) =
      norm_root k (ws @ [cat]) @ ''/'' @ join_with ''/'' (ref_parts s)"
    using media_ref.join_confined [OF assms(2) pl k] sp join_with_append [OF pl(2), of "ref_parts s"]
    by (simp add: norm_root_def)
  have "delete_target normpath (Some r) cat (PStr s) =
      Some (path_join r [cat] @ ''/'' @ join_with ''/'' (ref_parts s))"
    using assms(2) by (simp add: delete_target_def Let_def base target normpath_norm_root [OF pl k])
  with sp show ?thesis by (auto simp: delete_target_def Let_def split: if_splits)
qed

theorem cleanup_exact_witness:
  "delete_target normpath (Some ''/data'') ''output'' (PStr ''a/./b.png'') = Some ''/data/output/a/b.png''"
proof -
  have "normalize_root (PStr ''/data/'') = Some ''/data''" by code_simp
  moreover have "safe_relative ''a/./b.png''" by code_simp
  moreover have "''output'' \<in> {''input'', ''output'', ''temp''}" by simp
  ultimately have "delete_target normpath (Some ''/data'') ''output'' (PStr ''a/./b.png'') =
      Some (path_join ''/data'' [''output''] @ ''/'' @ join_with ''/'' (ref_parts ''a/./b.png''))"
    using cleanup_exact by blast
  moreover have "path_join ''/data'' [''output''] @ ''/'' @ join_with ''/'' (ref_parts ''a/./b.png'') =
      ''/data/output/a/b.png''"
    by code_simp
  ultimately show ?thesis by simp
qed

text \<open>The refusal of the root directory compares with one slash only, and the basename
  pattern's end anchor admits a final line feed.\<close>

lemma double_slash_root_accepted: "normalize_root (PStr ''//'') = Some ''//''"
  by code_simp

lemma basename_trailing_newline: "safe_relative [CHR ''a'', CHR 0x0A]"
  by code_simp

text \<open>The bytes decide an artifact's kind: the recognised magic numbers exclude each other, so
  an artifact is accepted for at most one kind, and an accepted artifact is a PNG, an ISO media
  file with its \<open>ftyp\<close> box or a RIFF/WAVE file.\<close>

theorem media_kind_unique:
  "(media_matches_kind d k \<and> media_matches_kind d l \<longrightarrow> k = l)
   \<and> (media_matches_kind d ''image'' \<longleftrightarrow> prefix png_magic d)
   \<and> (media_matches_kind d ''video'' \<longleftrightarrow> 12 \<le> length d \<and> take 4 (drop 4 d) = ''ftyp'')
   \<and> (media_matches_kind d ''audio'' \<longleftrightarrow>
        12 \<le> length d \<and> take 4 d = ''RIFF'' \<and> take 4 (drop 8 d) = ''WAVE''
        \<and> take 4 (drop 4 d) \<noteq> ''ftyp'')"
proof -
  have a: "prefix png_magic d \<Longrightarrow> take 4 (drop 4 d) \<noteq> ''ftyp'' \<and> take 4 d \<noteq> ''RIFF''"
    by (auto simp: png_magic_def prefix_def)
  then show ?thesis by (auto simp: media_matches_kind_def sniff_media_def)
qed

theorem media_kind_unique_witness:
  "media_matches_kind png_magic ''image'' \<and> \<not> media_matches_kind png_magic ''video''"
  using media_kind_unique [of png_magic "''image''" "''video''"] by (simp add: png_magic_def)

end
