(* ===== verification/Comfy_Client.thy ===== *)
theory Comfy_Client
  imports Http_World Media
begin

text \<open>
  \<open>backends/comfyui-media/bridge/comfy_client.py\<close>: the client of the one fixed ComfyUI
  endpoint. Every operation is an \<open>io\<close> action; a handler's \<open>try\<close>, early return and raise is
  a branch. \<open>urlsplit\<close> is a parameter of the base-URL check, and the artifact download of
  \<open>fetch_view\<close> is a function of the streamed response, its only interaction.
\<close>

section \<open>Constants and configuration\<close>

definition max_artifact_bytes :: nat where
  "max_artifact_bytes = 200 * 1024 * 1024"

definition max_ref_length :: nat where
  "max_ref_length = 255"

definition max_subfolder_length :: nat where
  "max_subfolder_length = 1024"

record url_parts =
  url_scheme :: string
  url_user :: "string option"
  url_password :: "string option"
  url_query :: string
  url_fragment :: string
  url_path :: string
  url_hostname :: "string option"
  url_port :: "int option res"
  url_netloc :: string

definition loopback_hosts :: "string list" where
  "loopback_hosts = [''127.0.0.1'', ''localhost'', ''::1'']"

definition validate_comfy_base_url :: "(string \<Rightarrow> url_parts option) \<Rightarrow> pyval \<Rightarrow> string res" where
  "validate_comfy_base_url urlsplit v =
     (case v of
        PStr base_url \<Rightarrow>
          raise_if (base_url = []) (ValueErr ''ComfyUI base URL must be a non-empty string'')
          (case urlsplit base_url of
             None \<Rightarrow> Inl (ValueErr ''ComfyUI base URL is not a valid URL'')
           | Some p \<Rightarrow>
               raise_if (url_scheme p \<noteq> ''http'') (ValueErr ''ComfyUI base URL must use plain http'')
               (raise_if (opt_true (url_user p) \<or> opt_true (url_password p))
                  (ValueErr ''ComfyUI base URL must not contain credentials'')
               (raise_if (url_query p \<noteq> [] \<or> url_fragment p \<noteq> [])
                  (ValueErr ''ComfyUI base URL must not contain a query or fragment'')
               (raise_if (url_path p \<notin> {[], ''/''})
                  (ValueErr ''ComfyUI base URL must not contain a path'')
               (raise_if (py_lower (case url_hostname p of None \<Rightarrow> [] | Some h \<Rightarrow> h) \<notin> set loopback_hosts)
                  (ValueErr ''ComfyUI base URL must be a loopback address'')
               (bindE (url_port p) (\<lambda>port.
                  raise_if (port = None) (ValueErr ''ComfyUI base URL must include an explicit port'')
                  (Inr (''http://'' @ url_netloc p)))))))))
      | _ \<Rightarrow> Inl (ValueErr ''ComfyUI base URL must be a non-empty string''))"

record comfy =
  base_url :: string
  running :: bool \<comment> \<open>\<open>_client\<close> is set\<close>
  poll_interval :: rat
  poll_timeout :: rat
  instance_id :: string
  cancelled :: bool

definition not_running :: exn where
  "not_running = backend_unavailable ''Media backend client is not running.''"

text \<open>\<open>self.client.get\<close> and \<open>self.client.post\<close>: the property raises when there is no client.\<close>

definition call :: "comfy \<Rightarrow> request \<Rightarrow> reply io" where
  "call c req w = (if running c then (let (r, w') = send req w in (Inr r, w')) else (Inl not_running, w))"

section \<open>Readiness\<close>

definition system_stats :: "comfy \<Rightarrow> pyval io" where
  "system_stats c =
     bindIO (call c (Get ''/system_stats'')) (\<lambda>r.
       case r of
         HTTPError \<Rightarrow> throwIO unavailable_default
       | Resp st body \<Rightarrow>
           if st \<noteq> 200 then throwIO unavailable_default
           else (case body of None \<Rightarrow> throwIO unavailable_default | Some b \<Rightarrow> retIO b))"

fun wait_until_ready :: "comfy \<Rightarrow> nat \<Rightarrow> rat \<Rightarrow> bool io" where
  "wait_until_ready c 0 delay = retIO False"
| "wait_until_ready c (Suc n) delay =
     catchIO (bindIO (system_stats c) (\<lambda>_. retIO True))
       (\<lambda>e. Some (bindIO (sleepIO delay) (\<lambda>_. wait_until_ready c n delay)))"

section \<open>References\<close>

definition safe_ref :: "pyval \<Rightarrow> bool" where
  "safe_ref v =
     (case v of
        PStr s \<Rightarrow>
          if CHR 0x00 \<in> set s then False
          else if s = [] \<or> s = ''.'' then True
          else if prefix ''/'' s \<or> prefix [CHR 0x5C] s \<or> CHR 0x5C \<in> set s \<or> CHR '':'' \<in> set s then False
          else ''..'' \<notin> set (ref_parts s)
      | _ \<Rightarrow> False)"

definition str_of :: "pyval \<Rightarrow> string" where
  "str_of v = (case v of PStr s \<Rightarrow> s | _ \<Rightarrow> [])"

definition upload_failed :: exn where
  "upload_failed = backend_error ''Image upload to the media backend failed.''"

text \<open>The reference an upload response stands for.\<close>

definition upload_ref_of :: "pyval option \<Rightarrow> string res" where
  "upload_ref_of body =
     (case body of
        Some (PDict d) \<Rightarrow>
          (let name = get_none d ''name''; subfolder = get_none d ''subfolder'' in
           raise_if (\<not> safe_ref name \<or> \<not> is_str name \<or> \<not> truthy name) upload_failed
           (raise_if (str_of name \<in> {''.'', ''..''}) upload_failed
           (let empty = (subfolder = PNone \<or> subfolder = PStr []) in
            raise_if (\<not> empty \<and> \<not> safe_ref subfolder) upload_failed
            (let nm = str_of name; sub = (if empty then [] else str_of subfolder) in
             raise_if (max_ref_length < length nm \<or> max_subfolder_length < length sub) upload_failed
             (Inr (if sub \<noteq> [] then strip_char slash (sub @ ''/'' @ nm) else nm))))))
      | _ \<Rightarrow> Inl upload_failed)"

definition upload_image :: "comfy \<Rightarrow> bytes \<Rightarrow> string \<Rightarrow> string \<Rightarrow> string io" where
  "upload_image c data filename content_type =
     bindIO (call c (Upload filename data content_type)) (\<lambda>r.
       case r of
         HTTPError \<Rightarrow> throwIO upload_failed
       | Resp st body \<Rightarrow> if st \<noteq> 200 then throwIO upload_failed else liftIO (upload_ref_of body))"

section \<open>Submission\<close>

definition submit_payload :: "comfy \<Rightarrow> pyval \<Rightarrow> string \<Rightarrow> string \<Rightarrow> pyval" where
  "submit_payload c graph client_id prompt_id =
     PDict [(''prompt'', graph), (''prompt_id'', PStr prompt_id), (''client_id'', PStr client_id),
       (''extra_data'', PDict [(''bridge'', PStr (instance_id c))])]"

definition submit_rejected :: exn where
  "submit_rejected = backend_error ''The media backend rejected the request.''"

definition classify_submit :: "string \<Rightarrow> reply \<Rightarrow> string res" where
  "classify_submit prompt_id r =
     (case r of
        HTTPError \<Rightarrow> Inl unavailable_default
      | Resp st body \<Rightarrow>
          if st \<noteq> 200 then
            (if 400 \<le> st \<and> st < 500 then Inl submit_rejected else Inl unavailable_default)
          else
            (case body of
               Some (PDict d) \<Rightarrow>
                 if get_none d ''prompt_id'' \<noteq> PStr prompt_id then Inl unavailable_default
                 else Inr prompt_id
             | _ \<Rightarrow> Inl unavailable_default))"

definition submit :: "comfy \<Rightarrow> pyval \<Rightarrow> string \<Rightarrow> string \<Rightarrow> string io" where
  "submit c graph client_id prompt_id =
     bindIO (call c (Post ''/prompt'' (submit_payload c graph client_id prompt_id)))
       (\<lambda>r. liftIO (classify_submit prompt_id r))"

section \<open>History\<close>

definition classify_history :: "string \<Rightarrow> reply \<Rightarrow> pydict option res" where
  "classify_history prompt_id r =
     (case r of
        HTTPError \<Rightarrow> Inl ComfyPollError
      | Resp st body \<Rightarrow>
          if st \<noteq> 200 then Inl ComfyPollError
          else
            (case body of
               None \<Rightarrow> Inl ComfyPollError
             | Some (PDict d) \<Rightarrow>
                 (case map_of d prompt_id of Some (PDict entry) \<Rightarrow> Inr (Some entry) | _ \<Rightarrow> Inr None)
             | Some _ \<Rightarrow> Inl AttributeErr))"

definition history :: "comfy \<Rightarrow> string \<Rightarrow> pydict option io" where
  "history c prompt_id =
     bindIO (call c (Get (''/history/'' @ prompt_id))) (\<lambda>r. liftIO (classify_history prompt_id r))"

text \<open>\<open>entry.get("status") or {}\<close>, on which \<open>.get\<close> is called next.\<close>

definition status_of :: "pydict \<Rightarrow> pydict res" where
  "status_of entry =
     (let s = get_none entry ''status'' in
      if \<not> truthy s then Inr [] else (case s of PDict d \<Rightarrow> Inr d | _ \<Rightarrow> Inl AttributeErr))"

definition terminal_status :: "pydict \<Rightarrow> bool" where
  "terminal_status status =
     (get_none status ''completed'' = PBool True
      \<or> get_none status ''status_str'' \<in> {PStr ''success'', PStr ''error''})"

definition entry_terminal :: "pydict \<Rightarrow> bool res" where
  "entry_terminal entry = bindE (status_of entry) (\<lambda>s. Inr (terminal_status s))"

definition error_message :: "pyval \<Rightarrow> bool" where
  "error_message item =
     (case item of
        PList (x # xs) \<Rightarrow> x \<in> {PStr ''execution_error'', PStr ''execution_interrupted''}
      | _ \<Rightarrow> False)"

definition is_error :: "pydict \<Rightarrow> bool res" where
  "is_error entry =
     bindE (status_of entry) (\<lambda>status.
       if get_none status ''status_str'' = PStr ''error'' then Inr True
       else if get_none status ''completed'' = PBool True
               \<and> \<not> truthy (get_default status ''success'' (PBool True)) then Inr True
       else
         (let messages = get_none status ''messages'' in
          if \<not> truthy messages then Inr False
          else (case messages of
                  PList items \<Rightarrow> Inr (list_ex error_message items)
                | PStr _ \<Rightarrow> Inr False
                | PDict _ \<Rightarrow> Inr False
                | _ \<Rightarrow> Inl TypeErr)))"

definition history_terminal :: "pydict option \<Rightarrow> bool res" where
  "history_terminal entry = (case entry of None \<Rightarrow> Inr True | Some e \<Rightarrow> entry_terminal e)"

definition history_proven_terminal :: "pydict option \<Rightarrow> bool res" where
  "history_proven_terminal entry = (if entry = None then Inr False else history_terminal entry)"

definition history_or_none :: "comfy \<Rightarrow> string \<Rightarrow> pydict option io" where
  "history_or_none c prompt_id =
     catchIO (history c prompt_id) (\<lambda>e. if e = ComfyPollError then Some (retIO None) else None)"

section \<open>Waiting for a terminal state\<close>

text \<open>
  One round of the polling loop: the final result, or the world to poll again in after the
  pause. The round looks at the history first, then at the cancellation flag, then at the clock.
\<close>

definition terminal_result :: "pydict \<Rightarrow> pydict res option res" where
  "terminal_result entry =
     bindE (entry_terminal entry) (\<lambda>t.
       if \<not> t then Inr None
       else if truthy (get_none entry ''execution_cancelled'') then Inr (Some (Inl ComfyJobFailed))
       else bindE (is_error entry) (\<lambda>e.
         Inr (Some (if e then Inl ComfyJobFailed else Inr entry))))"

definition wait_step :: "comfy \<Rightarrow> string \<Rightarrow> rat option \<Rightarrow> world \<Rightarrow> (pydict res \<times> world) + world" where
  "wait_step c prompt_id deadline w =
     (case history c prompt_id w of
        (Inl e, w') \<Rightarrow> Inl (Inl e, w')
      | (Inr entry, w') \<Rightarrow>
          (case (case entry of None \<Rightarrow> Inr None | Some en \<Rightarrow> terminal_result en) of
             Inl e \<Rightarrow> Inl (Inl e, w')
           | Inr (Some r) \<Rightarrow> Inl (r, w')
           | Inr None \<Rightarrow>
               if cancelled c then Inl (Inl ComfyCancelled, w')
               else if (case deadline of None \<Rightarrow> False | Some d \<Rightarrow> d < now w') then Inl (Inl ComfyTimeout, w')
               else Inr (w'\<lparr>now := now w' + poll_interval c\<rparr>)))"

text \<open>\<open>None\<close>: the loop has not ended within \<open>fuel\<close> rounds.\<close>

definition wait_for_terminal :: "nat \<Rightarrow> comfy \<Rightarrow> string \<Rightarrow> rat option \<Rightarrow> world \<Rightarrow> (pydict res \<times> world) option" where
  "wait_for_terminal fuel c prompt_id timeout w =
     poll_loop fuel (wait_step c prompt_id (map_option (\<lambda>t. now w + t) timeout)) w"

section \<open>Downloading the artifact\<close>

datatype view_reply =
    ViewError
  | ViewResp int "string option" "chunk list" \<comment> \<open>status, content-length header, body\<close>

definition invalid_reference :: exn where
  "invalid_reference = backend_error ''The media backend returned an invalid artifact reference.''"

definition artifact_too_large :: exn where
  "artifact_too_large = backend_error ''Generated artifact exceeded the size limit.''"

definition download_failed :: exn where
  "download_failed = backend_error ''Downloading the generated asset failed.''"

definition view_params :: "pydict \<Rightarrow> (string \<times> string) res" where
  "view_params item =
     (let filename = get_none item ''filename'';
          subfolder = (if truthy (get_none item ''subfolder'') then get_none item ''subfolder'' else PStr []);
          kind = (if truthy (get_none item ''type'') then get_none item ''type'' else PStr ''output'')
      in raise_if (\<not> is_str filename \<or> \<not> truthy filename) invalid_reference
         (raise_if (\<not> safe_ref filename \<or> \<not> safe_ref subfolder) invalid_reference
         (raise_if (kind \<noteq> PStr ''output'') invalid_reference
         (raise_if (max_ref_length < length (str_of filename) \<or> max_subfolder_length < length (str_of subfolder))
            invalid_reference
            (Inr (str_of filename, str_of subfolder))))))"

definition read_view :: "view_reply \<Rightarrow> bytes res" where
  "read_view r =
     (case r of
        ViewError \<Rightarrow> Inl download_failed
      | ViewResp st len chunks \<Rightarrow>
          if st \<noteq> 200 then Inl download_failed
          else
            bindE (case len of
                     None \<Rightarrow> Inr ()
                   | Some l \<Rightarrow>
                       (case parse_int l of
                          None \<Rightarrow> Inl (backend_error ''The media backend returned an invalid artifact length.'')
                        | Some n \<Rightarrow> if int max_artifact_bytes < n then Inl artifact_too_large else Inr ()))
              (\<lambda>_. accumulate max_artifact_bytes artifact_too_large download_failed chunks []))"

definition fetch_view :: "comfy \<Rightarrow> pydict \<Rightarrow> view_reply \<Rightarrow> bytes res" where
  "fetch_view c item r =
     bindE (view_params item) (\<lambda>_. if \<not> running c then Inl not_running else read_view r)"

section \<open>Cancellation\<close>

definition entry_prompt_id :: "pyval \<Rightarrow> string option" where
  "entry_prompt_id entry =
     (case entry of PList (_ # PStr p # _) \<Rightarrow> Some p | _ \<Rightarrow> None)"

definition classify_queue :: "string \<Rightarrow> reply \<Rightarrow> bool option" where
  "classify_queue prompt_id r =
     (case r of
        HTTPError \<Rightarrow> None
      | Resp st body \<Rightarrow>
          if st \<noteq> 200 then None
          else
            (case body of
               Some (PDict d) \<Rightarrow>
                 (case (get_none d ''queue_running'', get_none d ''queue_pending'') of
                    (PList run, PList pending) \<Rightarrow>
                      if list_ex (\<lambda>e. entry_prompt_id e = Some prompt_id) run then Some True
                      else if list_ex (\<lambda>e. entry_prompt_id e = Some prompt_id) pending then Some False
                      else Some False
                  | _ \<Rightarrow> None)
             | _ \<Rightarrow> None))"

definition queue_state :: "comfy \<Rightarrow> string \<Rightarrow> bool option io" where
  "queue_state c prompt_id =
     bindIO (call c (Get ''/queue'')) (\<lambda>r. retIO (classify_queue prompt_id r))"

definition proven :: "comfy \<Rightarrow> string \<Rightarrow> bool io" where
  "proven c prompt_id =
     bindIO (history_or_none c prompt_id) (\<lambda>e. liftIO (history_proven_terminal e))"

fun interrupt_loop :: "comfy \<Rightarrow> string \<Rightarrow> nat \<Rightarrow> bool io" where
  "interrupt_loop c prompt_id 0 = proven c prompt_id"
| "interrupt_loop c prompt_id (Suc n) =
     bindIO (proven c prompt_id) (\<lambda>t.
       if t then retIO True
       else bindIO (queue_state c prompt_id) (\<lambda>q.
         if q = Some False then proven c prompt_id
         else bindIO (sleepIO (poll_interval c)) (\<lambda>_. interrupt_loop c prompt_id n)))"

definition cancel_own_job :: "comfy \<Rightarrow> string \<Rightarrow> bool io" where
  "cancel_own_job c prompt_id =
     bindIO (call c (Post ''/queue'' (PDict [(''delete'', PList [PStr prompt_id])]))) (\<lambda>_.
     bindIO (proven c prompt_id) (\<lambda>t.
       if t then retIO True
       else bindIO (queue_state c prompt_id) (\<lambda>q.
         case q of
           None \<Rightarrow> proven c prompt_id
         | Some True \<Rightarrow>
             bindIO (call c (Post ''/interrupt'' (PDict [(''prompt_id'', PStr prompt_id)]))) (\<lambda>r.
               case r of
                 HTTPError \<Rightarrow> retIO False
               | Resp st _ \<Rightarrow> if st \<noteq> 200 then retIO False else interrupt_loop c prompt_id 20)
         | Some False \<Rightarrow> proven c prompt_id)))"

definition delete_history :: "comfy \<Rightarrow> string \<Rightarrow> bool io" where
  "delete_history c prompt_id =
     bindIO (call c (Post ''/history'' (PDict [(''delete'', PList [PStr prompt_id])]))) (\<lambda>r.
       retIO (case r of HTTPError \<Rightarrow> False | Resp st _ \<Rightarrow> st = 200))"

section \<open>What the client sends\<close>

lemma confined_call [io_intros]: "req \<in> S \<Longrightarrow> confined S (call c req)"
  by (auto simp: confined_def call_def send_def extends_def Let_def)

definition own_requests :: "string \<Rightarrow> request set" where
  "own_requests p =
     {Post ''/queue'' (PDict [(''delete'', PList [PStr p])]), Get (''/history/'' @ p), Get ''/queue'',
      Post ''/interrupt'' (PDict [(''prompt_id'', PStr p)]),
      Post ''/history'' (PDict [(''delete'', PList [PStr p])])}"

lemma own_requests_intros [io_intros]:
  "Post ''/queue'' (PDict [(''delete'', PList [PStr p])]) \<in> own_requests p"
  "Get (''/history/'' @ p) \<in> own_requests p" "Get ''/queue'' \<in> own_requests p"
  "Post ''/interrupt'' (PDict [(''prompt_id'', PStr p)]) \<in> own_requests p"
  "Post ''/history'' (PDict [(''delete'', PList [PStr p])]) \<in> own_requests p"
  by (simp_all add: own_requests_def)

lemma confined_history [io_intros]: "confined (own_requests p) (history c p)"
  unfolding history_def by (intro io_intros)

lemma confined_history_or_none [io_intros]: "confined (own_requests p) (history_or_none c p)"
  unfolding history_or_none_def
  by (intro io_intros) (auto split: if_splits intro: io_intros)

lemma confined_proven [io_intros]: "confined (own_requests p) (proven c p)"
  unfolding proven_def by (intro io_intros)

lemma confined_queue_state [io_intros]: "confined (own_requests p) (queue_state c p)"
  unfolding queue_state_def by (intro io_intros)

lemma confined_interrupt_loop [io_intros]: "confined (own_requests p) (interrupt_loop c p n)"
  by (induction n) (auto intro!: io_intros)

lemma confined_cancel: "confined (own_requests p) (cancel_own_job c p)"
  unfolding cancel_own_job_def by (intro io_intros)

lemma confined_delete_history: "confined (own_requests p) (delete_history c p)"
  unfolding delete_history_def by (intro io_intros)

section \<open>What a proof of termination rests on\<close>

definition terminal_reply :: "string \<Rightarrow> reply \<Rightarrow> bool" where
  "terminal_reply p r = (\<exists>e. classify_history p r = Inr (Some e) \<and> entry_terminal e = Inr True)"

definition seen_terminal :: "string \<Rightarrow> world \<Rightarrow> world \<Rightarrow> bool" where
  "seen_terminal p w w' = (\<exists>i. calls w \<le> i \<and> i < calls w' \<and> terminal_reply p (net w i))"

lemma seen_terminal_extend:
  "extends S w v \<Longrightarrow> seen_terminal p v w' \<Longrightarrow> seen_terminal p w w'"
  unfolding seen_terminal_def extends_def by (metis order_trans)

definition proves :: "string \<Rightarrow> bool io \<Rightarrow> bool" where
  "proves p m = (\<forall>w w'. m w = (Inr True, w') \<longrightarrow> seen_terminal p w w')"

lemma proves_proven: "proves p (proven c p)"
  unfolding proves_def
  by (auto simp: proven_def history_or_none_def history_def io_defs call_def send_def Let_def
      history_proven_terminal_def history_terminal_def seen_terminal_def terminal_reply_def
      split: if_splits sum.splits option.splits intro!: exI [of _ "calls _"])

lemma proves_False: "proves p (retIO False)"
  by (simp add: proves_def retIO_def)

lemma proves_bind:
  assumes "confined S m" "\<And>a. proves p (f a)"
  shows "proves p (bindIO m f)"
  unfolding proves_def
proof (intro allI impI)
  fix w w' assume b: "bindIO m f w = (Inr True, w')"
  obtain r v where m: "m w = (r, v)" by (cases "m w")
  with b obtain a where a: "r = Inr a" "f a v = (Inr True, w')" by (auto simp: bindIO_def split: sum.splits)
  with assms(2) have "seen_terminal p v w'" by (auto simp: proves_def)
  with confinedD [OF assms(1) m] show "seen_terminal p w w'" by (rule seen_terminal_extend)
qed

text \<open>\<open>if proven: return True\<close>, then the rest.\<close>

lemma proves_bind_proven:
  assumes "\<And>w. proves p m"
  shows "proves p (bindIO (proven c p) (\<lambda>t. if t then retIO True else m))"
  unfolding proves_def
proof (intro allI impI)
  fix w w' assume b: "bindIO (proven c p) (\<lambda>t. if t then retIO True else m) w = (Inr True, w')"
  obtain r v where pr: "proven c p w = (r, v)" by (cases "proven c p w")
  show "seen_terminal p w w'"
  proof (cases "r = Inr True")
    case True
    with pr b have "w' = v" by (simp add: bindIO_def retIO_def)
    with pr True proves_proven show ?thesis by (auto simp: proves_def)
  next
    case False
    with pr b have "m v = (Inr True, w')" by (auto simp: bindIO_def split: sum.splits)
    with assms have "seen_terminal p v w'" by (auto simp: proves_def)
    with confinedD [OF confined_proven pr] show ?thesis by (rule seen_terminal_extend)
  qed
qed

lemma proves_interrupt_loop: "proves p (interrupt_loop c p n)"
proof (induction n)
  case 0
  show ?case by (simp add: proves_proven)
next
  case (Suc n)
  have "proves p (bindIO (sleepIO (poll_interval c)) (\<lambda>_. interrupt_loop c p n))"
    by (rule proves_bind [OF confined_sleep Suc])
  then show ?case
    by (auto intro!: proves_bind_proven proves_bind [OF confined_queue_state] simp: proves_proven)
qed

lemma proves_cancel: "proves p (cancel_own_job c p)"
  unfolding cancel_own_job_def
  by (intro proves_bind [OF confined_call [OF own_requests_intros(1)]] proves_bind_proven
      proves_bind [OF confined_queue_state])
    (auto split: option.splits bool.splits reply.splits
      intro!: proves_proven proves_False proves_interrupt_loop
        proves_bind [OF confined_call [OF own_requests_intros(4)]])

section \<open>The references that leave the client\<close>

lemma safe_ref_str:
  "safe_ref (PStr s) \<Longrightarrow> \<not> prefix ''/'' s \<and> ''..'' \<notin> set (ref_parts s)
     \<and> CHR 0x00 \<notin> set s \<and> CHR 0x5C \<notin> set s"
  by (auto simp: safe_ref_def ref_parts_single split: if_splits)

interpretation view_ref: confined_ref "\<lambda>s. safe_ref (PStr s)"
  by unfold_locales (auto simp: safe_ref_str)

lemma safe_ref_is_str: "safe_ref v \<Longrightarrow> \<exists>s. v = PStr s"
  by (auto simp: safe_ref_def split: pyval.splits)

lemma ref_parts_dropWhile: "ref_parts (dropWhile (\<lambda>c. c = slash) s) = ref_parts s"
  by (induction s) auto

lemma ref_parts_snoc_slash: "ref_parts (s @ [slash]) = ref_parts s"
  using ref_parts_append [of s "[]"] by simp

lemma ref_parts_strip_end: "ref_parts (rev (dropWhile (\<lambda>c. c = slash) s)) = ref_parts (rev s)"
  by (induction s) (auto simp: ref_parts_snoc_slash)

lemma ref_parts_strip: "ref_parts (strip_char slash s) = ref_parts s"
  by (simp add: strip_char_def ref_parts_strip_end ref_parts_dropWhile)

lemma strip_not_abs: "\<not> prefix [d] (strip_char d s)"
proof (cases "dropWhile (\<lambda>c. c = d) s")
  case Nil
  then show ?thesis unfolding strip_char_def by (simp only:) simp
next
  case (Cons c u)
  then have c: "c \<noteq> d" using hd_dropWhile [of "\<lambda>c. c = d" s] by simp
  have "dropWhile (\<lambda>c. c = d) (v @ [c]) = dropWhile (\<lambda>c. c = d) v @ [c]" for v
    using c by (induction v) auto
  then have "strip_char d s = c # rev (dropWhile (\<lambda>c. c = d) (rev u))"
    unfolding strip_char_def Cons by simp
  with c show ?thesis by simp
qed

lemma set_strip_char: "set (strip_char d s) \<subseteq> set s"
  by (auto simp: strip_char_def dest!: set_dropWhileD)

lemma upload_ref_of_parts:
  assumes "upload_ref_of body = Inr r"
  shows "''..'' \<notin> set (ref_parts r) \<and> \<not> prefix ''/'' r \<and> CHR 0x00 \<notin> set r \<and> CHR 0x5C \<notin> set r"
proof -
  from assms obtain d where d: "body = Some (PDict d)"
    by (auto simp: upload_ref_of_def split: option.splits pyval.splits)
  let ?n = "get_none d ''name''" and ?s = "get_none d ''subfolder''"
  from assms d obtain nm where n: "?n = PStr nm" "safe_ref (PStr nm)" "nm \<noteq> []"
    by (cases ?n) (auto simp: upload_ref_of_def Let_def)
  note ns = safe_ref_str [OF n(2)]
  show ?thesis
  proof (cases "?s = PNone \<or> ?s = PStr []")
    case True
    with assms d n(1) have "r = nm" by (auto simp: upload_ref_of_def Let_def str_of_def)
    with ns show ?thesis by simp
  next
    case False
    with assms d have "safe_ref ?s" by (auto simp: upload_ref_of_def Let_def)
    then obtain sub where s: "?s = PStr sub" "safe_ref (PStr sub)"
      using safe_ref_is_str by metis
    with False assms d n(1) have r: "r = strip_char slash (sub @ ''/'' @ nm)"
      by (auto simp: upload_ref_of_def Let_def str_of_def)
    have "ref_parts r = ref_parts sub @ ref_parts nm"
      unfolding r ref_parts_strip by (simp add: ref_parts_append)
    moreover have "\<not> prefix ''/'' r" unfolding r by (rule strip_not_abs)
    moreover have "set r \<subseteq> set sub \<union> {slash} \<union> set nm"
      using set_strip_char [of slash "sub @ ''/'' @ nm"] by (auto simp: r)
    ultimately show ?thesis using ns safe_ref_str [OF s(2)] by auto
  qed
qed

lemma view_params_safe:
  assumes "view_params item = Inr (f, sub)"
  shows "safe_ref (PStr f) \<and> safe_ref (PStr sub) \<and> f \<noteq> []"
proof -
  let ?s = "if truthy (get_none item ''subfolder'') then get_none item ''subfolder'' else PStr []"
  from assms have h: "is_str (get_none item ''filename'')" "truthy (get_none item ''filename'')"
    "safe_ref (get_none item ''filename'')" "safe_ref ?s"
    "f = str_of (get_none item ''filename'')" "sub = str_of ?s"
    by (simp_all only: view_params_def Let_def raise_if_eq_Inr) auto
  from h(1,2,3,5) have "safe_ref (PStr f) \<and> f \<noteq> []"
    by (cases "get_none item ''filename''") (simp_all add: str_of_def)
  moreover from safe_ref_is_str [OF h(4)] h(4,6) have "safe_ref (PStr sub)"
    by (cases ?s) (simp_all add: str_of_def)
  ultimately show ?thesis by simp
qed

lemma accumulate_error: "accumulate n ov br cs acc = Inl x \<Longrightarrow> x \<in> {ov, br}"
  by (induction n ov br cs acc rule: accumulate.induct) (auto split: if_splits)

lemma fetch_view_errors:
  assumes "fetch_view c item r = Inl e"
  shows "e \<in> {not_running, invalid_reference, download_failed, artifact_too_large,
      backend_error ''The media backend returned an invalid artifact length.''}"
proof -
  have v: "view_params item = Inl x \<Longrightarrow> x = invalid_reference" for x
    by (auto simp: view_params_def Let_def raise_if_def split: if_splits)
  show ?thesis
    using assms v accumulate_error [of max_artifact_bytes artifact_too_large download_failed]
    by (auto simp: fetch_view_def read_view_def bindE_eq_Inl
        split: if_splits view_reply.splits option.splits)
qed

lemma fetch_view_raises: "fetch_view c item r = Inl e \<Longrightarrow> bridge_status e \<in> {Some 502, Some 503}"
  using fetch_view_errors [of c item r e]
  by (auto simp: not_running_def invalid_reference_def download_failed_def artifact_too_large_def)

section \<open>Waiting terminates\<close>

lemma call_clock:
  "call c req w = (r, w') \<Longrightarrow> \<forall>i. 0 \<le> latency w i \<Longrightarrow>
   now w \<le> now w' \<and> latency w' = latency w"
  by (auto simp: call_def send_def Let_def split: if_splits)

lemma history_clock:
  assumes "history c p w = (r, w')" and "\<forall>i. 0 \<le> latency w i"
  shows "now w \<le> now w' \<and> latency w' = latency w"
proof -
  obtain x v where x: "call c (Get (''/history/'' @ p)) w = (x, v)"
    by (cases "call c (Get (''/history/'' @ p)) w")
  with assms(1) have "v = w'" by (auto simp: history_def bindIO_def liftIO_def split: sum.splits)
  with call_clock [OF x assms(2)] show ?thesis by simp
qed

lemma wait_step_Inr:
  assumes "wait_step c p (Some d) w = Inr w'"
  shows "\<exists>r v. history c p w = (r, v) \<and> now v \<le> d \<and> w' = v\<lparr>now := now v + poll_interval c\<rparr>"
  using assms by (auto simp: wait_step_def split: prod.splits sum.splits option.splits if_splits)

interpretation wait: bounded_poll "wait_step c p (Some d)" now "\<lambda>w. \<forall>i. 0 \<le> latency w i"
  "d + poll_interval c" "poll_interval c" for c p d
proof
  fix w w' assume inv: "\<forall>i. 0 \<le> latency w i" and st: "wait_step c p (Some d) w = Inr w'"
  from wait_step_Inr [OF st] obtain r v
    where v: "history c p w = (r, v)" "now v \<le> d" "w' = v\<lparr>now := now v + poll_interval c\<rparr>"
    by blast
  from history_clock [OF v(1) inv] v(2,3) inv
  show "now w + poll_interval c \<le> now w'" "now w' \<le> d + poll_interval c"
    "\<forall>i. 0 \<le> latency w' i"
    by auto
qed

text \<open>Rounds that certainly suffice for a budget of \<open>t\<close> at \<open>d\<close> per round.\<close>

definition enough_rounds :: "rat \<Rightarrow> rat \<Rightarrow> nat" where
  "enough_rounds t d = Suc (nat \<lceil>t / d\<rceil> + 2)"

lemma enough_rounds_cover:
  assumes "0 < (d::rat)"
  shows "t + d < of_nat (nat \<lceil>t / d\<rceil> + 2) * d"
proof -
  have "t / d \<le> of_nat (nat \<lceil>t / d\<rceil>)" by (rule of_nat_ceiling)
  then have "t \<le> of_nat (nat \<lceil>t / d\<rceil>) * d" using assms by (simp add: divide_le_eq)
  with assms show ?thesis by (simp add: distrib_right)
qed

lemma wait_step_success:
  assumes "wait_step c p dl w = Inl (Inr e, w')"
  shows "\<exists>i. classify_history p (net w i) = Inr (Some e) \<and> calls w \<le> i \<and>
    entry_terminal e = Inr True \<and> is_error e = Inr False \<and> \<not> truthy (get_none e ''execution_cancelled'')"
  using assms
  by (auto simp: wait_step_def terminal_result_def history_def call_def send_def io_defs Let_def
      split: prod.splits sum.splits option.splits if_splits intro!: exI [of _ "calls w"])

lemma wait_step_frame: "wait_step c p dl w = Inr w' \<Longrightarrow> net w' = net w \<and> calls w \<le> calls w'"
  by (auto simp: wait_step_def history_def call_def send_def io_defs Let_def
      split: prod.splits sum.splits option.splits if_splits)

section \<open>Properties\<close>

text \<open>The client cancels or cleans up nothing but its own job: every request that
  \<open>cancel_own_job\<close> and \<open>delete_history\<close> add to the log is one of the five requests that name
  the given prompt id (or read the queue), whatever ComfyUI answers.\<close>

theorem client_touches_own_job_only:
  "confined (own_requests p) (cancel_own_job c p) \<and> confined (own_requests p) (delete_history c p)"
  using confined_cancel confined_delete_history by blast

text \<open>C15. \<open>cancel_own_job\<close> returns \<open>True\<close> only on proof: one of the replies it received was a
  history response that held an entry for exactly this prompt id in a terminal state. A
  missing entry, an accepted delete or an accepted interrupt never suffices.\<close>

theorem cancel_true_is_proven:
  "cancel_own_job c p w = (Inr True, w') \<Longrightarrow>
   \<exists>i e. calls w \<le> i \<and> i < calls w' \<and> classify_history p (net w i) = Inr (Some e)
     \<and> entry_terminal e = Inr True"
  using proves_cancel [of p c] by (auto simp: proves_def seen_terminal_def terminal_reply_def)

definition demo_comfy :: comfy where
  "demo_comfy = \<lparr>base_url = ''http://127.0.0.1:8188'', running = True, poll_interval = 1,
     poll_timeout = 10, instance_id = ''i'', cancelled = False\<rparr>"

definition demo_entry :: pydict where
  "demo_entry = [(''status'', PDict [(''status_str'', PStr ''success'')])]"

definition demo_world :: world where
  "demo_world = \<lparr>net = (\<lambda>i. if i = 0 then Resp 200 None else Resp 200 (Some (PDict [(''p'', PDict demo_entry)]))),
     latency = (\<lambda>_. 0), calls = 0, now = 0, sent = []\<rparr>"

lemmas demo_defs = demo_comfy_def demo_entry_def demo_world_def

theorem cancel_true_is_proven_witness:
  "\<exists>i e. calls demo_world \<le> i \<and> i < 2 \<and> classify_history ''p'' (net demo_world i) = Inr (Some e)
     \<and> entry_terminal e = Inr True"
proof -
  have "cancel_own_job demo_comfy ''p'' demo_world =
      (Inr True, snd (cancel_own_job demo_comfy ''p'' demo_world))
      \<and> calls (snd (cancel_own_job demo_comfy ''p'' demo_world)) = 2"
    by (simp add: cancel_own_job_def proven_def history_or_none_def history_def io_defs call_def send_def
        demo_defs classify_history_def history_proven_terminal_def history_terminal_def
        entry_terminal_def status_of_def get_none_def terminal_status_def Let_def)
  then show ?thesis using cancel_true_is_proven [of demo_comfy "''p''" demo_world] by metis
qed

text \<open>A submission is reported as a proven rejection (502) exactly when ComfyUI answered with
  a 4xx status, and as accepted exactly when it answered 200 and echoed the prompt id; every
  other outcome (transport error, redirect, 5xx, unreadable or foreign body, no client) is the
  uncertain 503.\<close>

theorem submit_classification:
  "((\<exists>e. fst (submit c g cl p w) = Inl e \<and> bridge_status e = Some 502) \<longleftrightarrow>
      running c \<and> (\<exists>st b. net w (calls w) = Resp st b \<and> 400 \<le> st \<and> st < 500))
   \<and> ((\<exists>q. fst (submit c g cl p w) = Inr q) \<longleftrightarrow>
      running c \<and> (\<exists>d. net w (calls w) = Resp 200 (Some (PDict d)) \<and> get_none d ''prompt_id'' = PStr p))
   \<and> (\<exists>e. fst (submit c g cl p w) = Inr p \<or> fst (submit c g cl p w) = Inl e
          \<and> bridge_status e \<in> {Some 502, Some 503})"
proof -
  have s: "fst (submit c g cl p w) =
      (if running c then classify_submit p (net w (calls w)) else Inl not_running)"
    by (simp add: submit_def call_def send_def io_defs Let_def)
  have n: "bridge_status not_running = Some 503" "bridge_status submit_rejected = Some 502"
    by (simp_all add: not_running_def submit_rejected_def)
  show ?thesis
    unfolding s
    by (auto simp: n classify_submit_def split: reply.splits option.splits pyval.splits if_splits)
qed

text \<open>Under a finite budget the wait for a terminal state ends: with a positive poll interval
  \<open>d\<close> and a clock that never runs backwards, \<open>ceiling (T / d) + 3\<close> rounds are enough for a
  timeout of \<open>T\<close>, whatever ComfyUI answers.\<close>

theorem wait_for_terminal_ends:
  assumes "0 < poll_interval c" and "\<forall>i. 0 \<le> latency w i"
  shows "\<exists>r. wait_for_terminal (enough_rounds t (poll_interval c)) c p (Some t) w = Some r"
  unfolding wait_for_terminal_def enough_rounds_def
  using wait.fuel_enough [OF assms(1,2)] enough_rounds_cover [OF assms(1), of t] by simp

theorem wait_for_terminal_ends_witness:
  "\<exists>r. wait_for_terminal (enough_rounds 10 1) demo_comfy ''p'' (Some 10) demo_world = Some r"
  using wait_for_terminal_ends [of demo_comfy demo_world 10 "''p''"] by (simp add: demo_defs)

text \<open>Success is never guessed: a returned entry is one that ComfyUI's history held under this
  prompt id, in a terminal state that reports neither an error nor a cancellation.\<close>

theorem wait_for_terminal_sound:
  assumes "wait_for_terminal n c p t w = Some (Inr e, w')"
  shows "\<exists>i. calls w \<le> i \<and> classify_history p (net w i) = Inr (Some e)
    \<and> entry_terminal e = Inr True \<and> is_error e = Inr False
    \<and> \<not> truthy (get_none e ''execution_cancelled'')"
proof -
  let ?I = "\<lambda>v. net v = net w \<and> calls w \<le> calls v"
  have "\<exists>v. ?I v \<and> wait_step c p (map_option (\<lambda>t. now w + t) t) v = Inl (Inr e, w')"
    by (rule poll_loop_result [OF assms [unfolded wait_for_terminal_def]])
      (auto dest: wait_step_frame)
  then obtain v where v: "?I v" "wait_step c p (map_option (\<lambda>t. now w + t) t) v = Inl (Inr e, w')"
    by blast
  from wait_step_success [OF v(2)] v(1) show ?thesis by (auto intro: order_trans)
qed

theorem wait_for_terminal_sound_witness:
  "\<exists>i. classify_history ''p'' (net demo_world i) = Inr (Some demo_entry)
     \<and> entry_terminal demo_entry = Inr True \<and> is_error demo_entry = Inr False"
proof -
  have "wait_for_terminal 1 demo_comfy ''p'' None (demo_world\<lparr>calls := 1\<rparr>) =
      Some (Inr demo_entry, snd (the (wait_for_terminal 1 demo_comfy ''p'' None (demo_world\<lparr>calls := 1\<rparr>))))"
    by (simp add: wait_for_terminal_def wait_step_def history_def io_defs call_def send_def demo_defs
        classify_history_def terminal_result_def entry_terminal_def status_of_def get_none_def
        terminal_status_def is_error_def Let_def)
  from wait_for_terminal_sound [OF this] show ?thesis by auto
qed

text \<open>A downloaded artifact is the complete body of a 200 response, never longer than the
  200 MiB cap, and was requested by a reference that names a file below ComfyUI's output
  directory.\<close>

theorem fetch_view_bounded:
  assumes "fetch_view c item r = Inr d"
  shows "length d \<le> max_artifact_bytes
    \<and> (\<exists>len bs. r = ViewResp 200 len (map Chunk bs) \<and> d = concat bs)
    \<and> (\<exists>f sub. view_params item = Inr (f, sub) \<and> f \<noteq> [] \<and> ''..'' \<notin> set (ref_parts f)
         \<and> ''..'' \<notin> set (ref_parts sub) \<and> \<not> prefix ''/'' f \<and> \<not> prefix ''/'' sub)"
proof -
  from assms obtain f sub where v: "view_params item = Inr (f, sub)" and r: "read_view r = Inr d"
    by (auto simp: fetch_view_def split: if_splits)
  from r obtain len cs where rep: "r = ViewResp 200 len cs"
    and acc: "accumulate max_artifact_bytes artifact_too_large download_failed cs [] = Inr d"
    by (auto simp: read_view_def split: view_reply.splits if_splits)
  from accumulate_ok [OF acc] obtain bs where "length d \<le> max_artifact_bytes" "cs = map Chunk bs" "d = concat bs"
    by auto
  moreover note view_params_safe [OF v]
  ultimately show ?thesis using rep v safe_ref_str [of f] safe_ref_str [of sub] by auto
qed

theorem fetch_view_bounded_witness:
  "fetch_view demo_comfy [(''filename'', PStr ''a.png'')] (ViewResp 200 None [Chunk ''ab'']) = Inr ''ab''
   \<and> length ''ab'' \<le> max_artifact_bytes"
proof -
  have h: "fetch_view demo_comfy [(''filename'', PStr ''a.png'')] (ViewResp 200 None [Chunk ''ab'']) = Inr ''ab''"
    by (simp add: fetch_view_def view_params_def read_view_def demo_comfy_def get_none_def Let_def
        safe_ref_def ref_parts_def str_of_def max_ref_length_def max_subfolder_length_def
        max_artifact_bytes_def)
  from fetch_view_bounded [OF h] h show ?thesis by simp
qed

text \<open>Nothing of a backend's reply reaches a caller through an error: whatever ComfyUI answers,
  an exception of the readiness check, the upload, the submission or the download is one of a
  few fixed ones with a fixed message.\<close>

theorem client_errors_fixed:
  "(fst (system_stats c w) = Inl e \<longrightarrow> e \<in> {not_running, unavailable_default})
   \<and> (fst (upload_image c data fname ctype w) = Inl e \<longrightarrow> e \<in> {not_running, upload_failed})
   \<and> (fst (submit c g cl p w) = Inl e \<longrightarrow> e \<in> {not_running, submit_rejected, unavailable_default})
   \<and> (fetch_view c item r = Inl e \<longrightarrow> e \<in> {not_running, invalid_reference, download_failed,
        artifact_too_large, backend_error ''The media backend returned an invalid artifact length.''})"
proof (intro conjI impI)
  assume "fst (system_stats c w) = Inl e"
  then show "e \<in> {not_running, unavailable_default}"
    by (auto simp: system_stats_def call_def send_def io_defs Let_def split: reply.splits option.splits if_splits)
next
  assume "fst (upload_image c data fname ctype w) = Inl e"
  then show "e \<in> {not_running, upload_failed}"
    by (auto simp: upload_image_def call_def send_def io_defs Let_def upload_ref_of_def raise_if_def
        split: reply.splits option.splits pyval.splits if_splits)
next
  assume "fst (submit c g cl p w) = Inl e"
  then show "e \<in> {not_running, submit_rejected, unavailable_default}"
    by (auto simp: submit_def classify_submit_def call_def send_def io_defs Let_def
        split: reply.splits option.splits pyval.splits if_splits)
next
  assume "fetch_view c item r = Inl e"
  then show "e \<in> {not_running, invalid_reference, download_failed, artifact_too_large,
      backend_error ''The media backend returned an invalid artifact length.''}"
    by (rule fetch_view_errors)
qed

theorem client_errors_fixed_witness:
  "fst (system_stats (demo_comfy\<lparr>running := False\<rparr>) demo_world) = Inl not_running"
proof -
  have "fst (system_stats (demo_comfy\<lparr>running := False\<rparr>) demo_world) = Inl not_running"
    by (simp add: system_stats_def call_def io_defs)
  with client_errors_fixed [of "demo_comfy\<lparr>running := False\<rparr>" demo_world not_running] show ?thesis by blast
qed

text \<open>The reference that an accepted upload puts into a graph stays inside ComfyUI's input
  directory: it is not absolute, has no parent component, no NUL and no backslash, whatever the
  backend answers.\<close>

theorem upload_reference_confined:
  assumes "upload_image c data fname ctype w = (Inr ref, w')"
  shows "''..'' \<notin> set (ref_parts ref) \<and> \<not> prefix ''/'' ref \<and> CHR 0x00 \<notin> set ref \<and> CHR 0x5C \<notin> set ref"
proof -
  from assms obtain body where "upload_ref_of body = Inr ref"
    by (auto simp: upload_image_def call_def send_def io_defs Let_def split: reply.splits if_splits)
  then show ?thesis by (rule upload_ref_of_parts)
qed

theorem upload_reference_confined_witness:
  "''..'' \<notin> set (ref_parts ''sub/a.png'')"
proof -
  let ?w = "demo_world\<lparr>net := \<lambda>_. Resp 200 (Some (PDict [(''name'', PStr ''a.png''), (''subfolder'', PStr ''sub'')]))\<rparr>"
  have "upload_ref_of (Some (PDict [(''name'', PStr ''a.png''), (''subfolder'', PStr ''sub'')])) = Inr ''sub/a.png''"
    by code_simp
  then have "upload_image demo_comfy [] ''a.png'' ''image/png'' ?w =
      (Inr ''sub/a.png'', snd (upload_image demo_comfy [] ''a.png'' ''image/png'' ?w))"
    by (simp add: upload_image_def call_def send_def io_defs Let_def demo_comfy_def demo_world_def)
  from upload_reference_confined [OF this] show ?thesis by simp
qed

end
