(* ===== verification/Jobs.thy ===== *)
theory Jobs
  imports Comfy_Client
begin

text \<open>
  \<open>backends/comfyui-media/bridge/jobs.py\<close>: the runner that owns the one backend slot. A
  coroutine is cut at its \<open>await\<close>s: between two of them it runs without interruption, so each
  stretch is one function of the runner's state and a step of the system is one stretch, one
  reply or one move of the backend. The sections under \<open>self._lock\<close> contain no \<open>await\<close>, so
  the lock is never contended and each section is one function of the slot. The backend's
  view of a prompt, \<open>gpu\<close>, is a ghost of the model that the code cannot read.
\<close>

section \<open>The slot\<close>

record slot =
  busy :: bool
  unhealthy :: bool
  reason :: string
  owner :: "string option"

definition free_slot :: slot where
  "free_slot = \<lparr>busy = False, unhealthy = False, reason = ''unknown'', owner = None\<rparr>"

definition acquire :: "string \<Rightarrow> slot \<Rightarrow> slot res" where
  "acquire ow s =
     (if unhealthy s then Inl unavailable_default
      else if busy s then Inl busy_error
      else Inr (s\<lparr>busy := True, owner := Some ow\<rparr>))"

definition release :: "string \<Rightarrow> slot \<Rightarrow> slot" where
  "release ow s = (if owner s = Some ow then s\<lparr>busy := False, owner := None\<rparr> else s)"

definition retain_busy :: "string \<Rightarrow> string \<Rightarrow> slot \<Rightarrow> slot" where
  "retain_busy ow why s = (if owner s = Some ow then s\<lparr>unhealthy := True, reason := why\<rparr> else s)"

definition release_terminal :: "string \<Rightarrow> slot \<Rightarrow> slot" where
  "release_terminal ow s =
     (if owner s \<noteq> Some ow then s
      else
        let s' = s\<lparr>busy := False, owner := None\<rparr> in
        if unhealthy s' then s'\<lparr>unhealthy := False, reason := ''unknown''\<rparr> else s')"

text \<open>
  The contract of a slot with one holder: it is acquired only when it has none, and only its
  holder's release has an effect. \<open>slot_run\<close> performs a sequence of such operations, a refused
  acquisition changing nothing.
\<close>

datatype 'o slot_op = Acq 'o | Rel 'o

fun slot_run :: "('o \<Rightarrow> 's \<Rightarrow> 'e + 's) \<Rightarrow> ('o \<Rightarrow> 's \<Rightarrow> 's) \<Rightarrow> 'o slot_op list \<Rightarrow> 's \<Rightarrow> 's" where
  "slot_run acq rel [] s = s"
| "slot_run acq rel (Acq a # ops) s = slot_run acq rel ops (case acq a s of Inl _ \<Rightarrow> s | Inr s' \<Rightarrow> s')"
| "slot_run acq rel (Rel a # ops) s = slot_run acq rel ops (rel a s)"

locale exclusive_slot =
  fixes acq :: "'o \<Rightarrow> 's \<Rightarrow> 'e + 's"
    and rel :: "'o \<Rightarrow> 's \<Rightarrow> 's"
    and holder :: "'s \<Rightarrow> 'o option"
    and good :: "'s \<Rightarrow> bool"
  assumes acq_free: "good s \<Longrightarrow> acq a s = Inr s' \<Longrightarrow> holder s = None \<and> holder s' = Some a \<and> good s'"
    and rel_own: "good s \<Longrightarrow> holder s = Some a \<Longrightarrow> holder (rel a s) = None \<and> good (rel a s)"
    and rel_other: "holder s \<noteq> Some a \<Longrightarrow> rel a s = s"
begin

lemma holder_kept:
  "good s \<Longrightarrow> holder s = Some a \<Longrightarrow> Rel a \<notin> set ops \<Longrightarrow> slot_run acq rel ops s = s"
proof (induction ops)
  case Nil
  then show ?case by simp
next
  case (Cons op ops)
  show ?case
  proof (cases op)
    case (Acq b)
    with Cons acq_free [of s b] show ?thesis by (cases "acq b s") auto
  next
    case (Rel b)
    with Cons rel_other [of s b] show ?thesis by auto
  qed
qed

lemma one_holder:
  "good s \<Longrightarrow> acq a s = Inr s' \<Longrightarrow> Rel a \<notin> set ops \<Longrightarrow> acq b (slot_run acq rel ops s') = Inr t \<Longrightarrow> False"
  using acq_free [of s a s'] holder_kept [of s' a ops] acq_free [of s' b t] by auto

end

definition holder_ok :: "slot \<Rightarrow> bool" where
  "holder_ok sl = (busy sl \<longleftrightarrow> owner sl \<noteq> None)"

interpretation plain_slot: exclusive_slot acquire release owner holder_ok
  by unfold_locales (auto simp: acquire_def release_def holder_ok_def split: if_splits)

interpretation proven_slot: exclusive_slot acquire release_terminal owner holder_ok
  by unfold_locales (auto simp: acquire_def release_terminal_def holder_ok_def Let_def split: if_splits)

section \<open>Reading a history entry\<close>

definition terminal_of :: "pydict \<Rightarrow> bool res" where
  "terminal_of entry =
     (let s = get_none entry ''status'' in
      if \<not> truthy s then Inr False
      else case s of
        PDict status \<Rightarrow>
          Inr (get_none status ''completed'' = PBool True
               \<or> get_none status ''status_str'' \<in> {PStr ''success'', PStr ''error''})
      | _ \<Rightarrow> Inl AttributeErr)"

definition output_keys :: "string list" where
  "output_keys = [''images'', ''gifs'', ''video'', ''videos'', ''audio'', ''audios'', ''files'']"

definition flatten_items :: "pyval \<Rightarrow> pydict list" where
  "flatten_items items =
     (case items of
        PList xs \<Rightarrow>
          concat (map (\<lambda>x. case x of PDict d \<Rightarrow> if truthy (get_none d ''filename'') then [d] else [] | _ \<Rightarrow> []) xs)
      | _ \<Rightarrow> [])"

definition flatten :: "pyval \<Rightarrow> pydict list" where
  "flatten node_output =
     (case node_output of
        PDict d \<Rightarrow> concat (map (\<lambda>k. flatten_items (get_none d k)) output_keys)
      | _ \<Rightarrow> [])"

definition pick_output :: "pydict \<Rightarrow> string option \<Rightarrow> pydict option" where
  "pick_output entry output_node =
     (let outputs = get_none entry ''outputs'';
          candidates =
            (case (output_node, outputs) of
               (Some key, PDict d) \<Rightarrow> (case map_of d key of Some v \<Rightarrow> flatten v | None \<Rightarrow> [])
             | _ \<Rightarrow> [])
      in case candidates of [] \<Rightarrow> None | x # _ \<Rightarrow> Some x)"

definition no_artifact :: exn where
  "no_artifact = backend_error ''The media backend produced no artifact.''"

definition unexpected_output :: exn where
  "unexpected_output = backend_error ''The media backend produced an unexpected output type.''"

definition validate_output_ref :: "pydict option \<Rightarrow> string \<Rightarrow> unit res" where
  "validate_output_ref item out_kind =
     (case item of
        None \<Rightarrow> Inl no_artifact
      | Some d \<Rightarrow>
          raise_if (get_none d ''type'' \<noteq> PStr ''output'') invalid_reference
          (case get_none d ''filename'' of
             PStr filename \<Rightarrow>
               raise_if (filename = []) invalid_reference
               (let lowered = py_lower filename; wanted = expected_media_suffix out_kind in
                raise_if (\<not> suffix wanted lowered \<and> \<not> (out_kind = ''audio'' \<and> suffix ''.flac'' lowered))
                  unexpected_output (Inr ()))
           | _ \<Rightarrow> Inl invalid_reference))"

text \<open>What follows the download: the conversion of a FLAC file, or the last checks.\<close>

definition needs_wav :: "string \<Rightarrow> bytes \<Rightarrow> bool" where
  "needs_wav out_kind data = (out_kind = ''audio'' \<and> prefix ''fLaC'' data)"

definition flac_named :: "pydict \<Rightarrow> bool res" where
  "flac_named item =
     (case get_default item ''filename'' (PStr []) of
        PStr f \<Rightarrow> Inr (suffix ''.flac'' (py_lower f))
      | _ \<Rightarrow> Inl AttributeErr)"

definition mime_of :: "string \<Rightarrow> string" where
  "mime_of k = (if k = ''video'' then ''video/mp4'' else if k = ''audio'' then ''audio/wav'' else ''image/png'')"

definition final_checks :: "string \<Rightarrow> string \<Rightarrow> pydict option \<Rightarrow> bytes \<Rightarrow> (bytes \<times> string) res" where
  "final_checks kind out_kind item data =
     raise_if (\<not> media_matches_kind data out_kind) unexpected_output
     (bindE (validate_output_ref item out_kind) (\<lambda>_.
        raise_if (out_kind \<noteq> kind) unexpected_output (Inr (data, mime_of out_kind))))"

section \<open>State of the runner\<close>

datatype pc =
    Building
  | Submitting
  | Waiting
  | Fetching
  | Converting
  | TimeoutCancel
  | TimeoutHistory
  | Finished "(bytes \<times> string) res"

text \<open>The local variables of one call of \<open>run\<close>.\<close>

record run =
  r_prompt :: string
  r_kind :: string
  r_upload_ref :: "string list"
  r_upload_names :: "string list"
  r_submit_started :: bool
  r_submitted :: bool
  r_terminal :: bool
  r_output_node :: "string option"
  r_out_kind :: string
  r_output_item :: "pydict option"
  r_pc :: pc

datatype reap_stage = Queued | Interrupting | AfterSubmit | Reaping "rat option"

record reaper =
  p_stage :: reap_stage
  p_owner :: string
  p_prompt :: string
  p_output_node :: "string option"
  p_upload_names :: "string list"

record cleanup =
  k_prompt :: string
  k_item :: "pydict option"
  k_uploads :: "string list"

datatype submit_task = InFlight | Settled "string res"

datatype gpu = Idle | Sent | Active | Ended | Refused

record runner =
  slot :: slot
  runs :: "string \<Rightarrow> run option"
  reaps :: "reaper list"
  cleanups :: "cleanup list"
  submits :: "string \<times> string \<Rightarrow> submit_task option"
  clock :: rat
  gpu :: "string \<Rightarrow> gpu"
  used :: "string list" \<comment> \<open>prompt ids of the admitted runs\<close>
  removed :: "(string \<times> string \<times> pyval) list" \<comment> \<open>prompt, category and reference of each removal\<close>

definition reap_budget_seconds :: rat where
  "reap_budget_seconds = 300"

definition initial_runner :: runner where
  "initial_runner = \<lparr>slot = free_slot, runs = (\<lambda>_. None), reaps = [], cleanups = [],
     submits = (\<lambda>_. None), clock = 0, gpu = (\<lambda>_. Idle), used = [], removed = []\<rparr>"

definition on_slot :: "(slot \<Rightarrow> slot) \<Rightarrow> runner \<Rightarrow> runner" where
  "on_slot f s = s\<lparr>slot := f (slot s)\<rparr>"

definition set_run :: "string \<Rightarrow> run \<Rightarrow> runner \<Rightarrow> runner" where
  "set_run ow r s = s\<lparr>runs := (runs s)(ow := Some r)\<rparr>"

definition finish :: "string \<Rightarrow> run \<Rightarrow> (bytes \<times> string) res \<Rightarrow> runner \<Rightarrow> runner" where
  "finish ow r res s = set_run ow (r\<lparr>r_pc := Finished res\<rparr>) s"

definition pop_submit :: "string \<Rightarrow> string \<Rightarrow> runner \<Rightarrow> runner" where
  "pop_submit ow p s = s\<lparr>submits := (submits s)((ow, p) := None)\<rparr>"

definition schedule_reap :: "reap_stage \<Rightarrow> string \<Rightarrow> run \<Rightarrow> runner \<Rightarrow> runner" where
  "schedule_reap st ow r s =
     s\<lparr>reaps := reaps s @ [\<lparr>p_stage = st, p_owner = ow, p_prompt = r_prompt r,
        p_output_node = r_output_node r, p_upload_names = r_upload_names r\<rparr>]\<rparr>"

definition cleanup_after_fetch :: "string \<Rightarrow> pydict option \<Rightarrow> string list \<Rightarrow> runner \<Rightarrow> runner" where
  "cleanup_after_fetch p item ups s =
     s\<lparr>cleanups := cleanups s @ [\<lparr>k_prompt = p, k_item = item, k_uploads = ups\<rparr>]\<rparr>"

text \<open>\<open>if upload_ref: upload_names = list(upload_ref)\<close>.\<close>

definition refresh_uploads :: "run \<Rightarrow> run" where
  "refresh_uploads r = (if r_upload_ref r \<noteq> [] then r\<lparr>r_upload_names := r_upload_ref r\<rparr> else r)"

section \<open>The exits of a run\<close>

definition run_cancelled :: "string \<Rightarrow> run \<Rightarrow> runner \<Rightarrow> runner" where
  "run_cancelled ow r s =
     (let r = refresh_uploads r in
      finish ow r (Inl AsyncCancelled)
        (if r_submitted r then schedule_reap Interrupting ow r s
         else if r_submit_started r then
           schedule_reap AfterSubmit ow r (on_slot (retain_busy ow ''submit-uncertain'') s)
         else
           on_slot (release ow) (cleanup_after_fetch (r_prompt r) (r_output_item r) (r_upload_names r) s)))"

definition run_uncertain :: "string \<Rightarrow> run \<Rightarrow> runner \<Rightarrow> runner" where
  "run_uncertain ow r s =
     (let r = refresh_uploads r in
      finish ow r (Inl unavailable_default)
        (schedule_reap Queued ow r (on_slot (retain_busy ow ''submit-uncertain'') s)))"

definition run_raised :: "string \<Rightarrow> run \<Rightarrow> exn \<Rightarrow> runner \<Rightarrow> runner" where
  "run_raised ow r e s =
     (let r = refresh_uploads r in
      finish ow r (Inl e)
        (if \<not> r_submitted r \<or> r_terminal r then
           on_slot (release ow) (cleanup_after_fetch (r_prompt r) (r_output_item r) (r_upload_names r) s)
         else s))"

definition run_handler :: "string \<Rightarrow> run \<Rightarrow> exn \<Rightarrow> runner \<Rightarrow> runner" where
  "run_handler ow r e s =
     (if e = AsyncCancelled then run_cancelled ow r s
      else if e = SubmitUncertain then run_uncertain ow r s
      else run_raised ow r e s)"

text \<open>The handlers of the inner \<open>try\<close>, around the wait and the download.\<close>

definition inner_handler :: "string \<Rightarrow> run \<Rightarrow> exn \<Rightarrow> runner \<Rightarrow> runner" where
  "inner_handler ow r e s =
     (case e of
        ComfyTimeout \<Rightarrow> set_run ow (r\<lparr>r_pc := TimeoutCancel\<rparr>) s
      | ComfyJobFailed \<Rightarrow>
          run_handler ow (r\<lparr>r_terminal := True\<rparr>)
            (backend_error ''The media backend failed to generate the asset.'')
            (cleanup_after_fetch (r_prompt r) (r_output_item r) (r_upload_names r) s)
      | ComfyPollError \<Rightarrow>
          run_handler ow r unavailable_default
            (schedule_reap Queued ow r (on_slot (retain_busy ow ''poll-error'') s))
      | ComfyCancelled \<Rightarrow>
          run_handler ow r unavailable_default
            (schedule_reap Queued ow r (on_slot (retain_busy ow ''poll-error'') s))
      | _ \<Rightarrow> run_handler ow r e s)"

section \<open>The stretches of a run\<close>

definition initial_run :: "string \<Rightarrow> string \<Rightarrow> string list \<Rightarrow> run" where
  "initial_run p kind uploads =
     refresh_uploads
       \<lparr>r_prompt = p, r_kind = kind, r_upload_ref = uploads, r_upload_names = [],
         r_submit_started = False, r_submitted = False, r_terminal = False,
         r_output_node = None, r_out_kind = [], r_output_item = None, r_pc = Building\<rparr>"

definition start_run :: "string \<Rightarrow> string \<Rightarrow> string \<Rightarrow> string list \<Rightarrow> runner \<Rightarrow> exn + runner" where
  "start_run ow p kind uploads s =
     bindE (acquire ow (slot s)) (\<lambda>sl.
       Inr (set_run ow (initial_run p kind uploads) (s\<lparr>slot := sl, used := p # used s\<rparr>)))"

definition media_kinds :: "string list" where
  "media_kinds = [''video'', ''audio'', ''image'']"

text \<open>\<open>graph, output_node, out_kind = await build(self.comfy)\<close> has returned or raised.\<close>

definition built :: "string \<Rightarrow> run \<Rightarrow> (string option \<times> string) res \<Rightarrow> runner \<Rightarrow> runner" where
  "built ow r res s =
     (case res of
        Inl e \<Rightarrow> run_handler ow r e s
      | Inr (node, out_kind) \<Rightarrow>
          let r1 = r\<lparr>r_output_node := node, r_out_kind := out_kind\<rparr> in
          if out_kind \<notin> set media_kinds then
            run_handler ow r1 (backend_error ''The media backend produced an unsupported output.'') s
          else
            let p = r_prompt r in
            set_run ow ((refresh_uploads r1)\<lparr>r_submit_started := True, r_pc := Submitting\<rparr>)
              (s\<lparr>submits := (submits s)((ow, p) := Some InFlight), gpu := (gpu s)(p := Sent)\<rparr>))"

text \<open>The foreground of \<open>_submit\<close>, once the shielded task has an outcome.\<close>

definition submit_done :: "string \<Rightarrow> run \<Rightarrow> string res \<Rightarrow> runner \<Rightarrow> runner" where
  "submit_done ow r out s =
     (let s = pop_submit ow (r_prompt r) s in
      case out of
        Inl e \<Rightarrow>
          if bridge_status e = Some 502 then run_handler ow r e s
          else run_handler ow r SubmitUncertain s
      | Inr _ \<Rightarrow> set_run ow (r\<lparr>r_submitted := True, r_pc := Waiting\<rparr>) s)"

definition waited :: "string \<Rightarrow> run \<Rightarrow> pydict res \<Rightarrow> runner \<Rightarrow> runner" where
  "waited ow r res s =
     (case res of
        Inl e \<Rightarrow> inner_handler ow r e s
      | Inr entry \<Rightarrow>
          let r1 = r\<lparr>r_terminal := True\<rparr> in
          (case pick_output entry (r_output_node r) of
             None \<Rightarrow> inner_handler ow r1 no_artifact s
           | Some item \<Rightarrow> set_run ow (r1\<lparr>r_output_item := Some item, r_pc := Fetching\<rparr>) s))"

definition deliver :: "string \<Rightarrow> run \<Rightarrow> bytes \<Rightarrow> runner \<Rightarrow> runner" where
  "deliver ow r data s =
     (case final_checks (r_kind r) (r_out_kind r) (r_output_item r) data of
        Inl e \<Rightarrow> run_handler ow r e s
      | Inr res \<Rightarrow>
          finish ow r (Inr res)
            (on_slot (release_terminal ow)
              (cleanup_after_fetch (r_prompt r) (r_output_item r) (r_upload_names r) s)))"

definition fetched :: "string \<Rightarrow> run \<Rightarrow> bytes res \<Rightarrow> runner \<Rightarrow> runner" where
  "fetched ow r res s =
     (case res of
        Inl e \<Rightarrow> inner_handler ow r e s
      | Inr data \<Rightarrow>
          if data = [] then
            run_handler ow r (backend_error ''The media backend produced an empty artifact.'') s
          else if needs_wav (r_out_kind r) data then
            (case (case r_output_item r of None \<Rightarrow> Inl AttributeErr | Some d \<Rightarrow> flac_named d) of
               Inl e \<Rightarrow> run_handler ow r e s
             | Inr False \<Rightarrow> run_handler ow r unexpected_output s
             | Inr True \<Rightarrow> set_run ow (r\<lparr>r_pc := Converting\<rparr>) s)
          else deliver ow r data s)"

definition converted :: "string \<Rightarrow> run \<Rightarrow> bytes res \<Rightarrow> runner \<Rightarrow> runner" where
  "converted ow r res s =
     (case res of Inl e \<Rightarrow> run_handler ow r e s | Inr data \<Rightarrow> deliver ow r data s)"

definition timed_out :: exn where
  "timed_out = backend_error ''Media generation timed out.''"

definition timeout_unresolved :: "string \<Rightarrow> run \<Rightarrow> runner \<Rightarrow> runner" where
  "timeout_unresolved ow r s =
     run_handler ow r timed_out
       (schedule_reap Queued ow r (on_slot (retain_busy ow ''timeout-unresolved'') s))"

text \<open>\<open>_reap_after_timeout\<close>: after \<open>cancel_own_job\<close>, and after the history it asks for then.\<close>

definition timeout_cancelled :: "string \<Rightarrow> run \<Rightarrow> bool res \<Rightarrow> runner \<Rightarrow> runner" where
  "timeout_cancelled ow r res s =
     (case res of
        Inr True \<Rightarrow> set_run ow (r\<lparr>r_pc := TimeoutHistory\<rparr>) s
      | Inr False \<Rightarrow> timeout_unresolved ow r s
      | Inl e \<Rightarrow> if e = AsyncCancelled then run_handler ow r e s else timeout_unresolved ow r s)"

text \<open>\<open>try: entry = await history(..) except ComfyPollError: entry = None\<close>.\<close>

definition poll_entry :: "pydict option res \<Rightarrow> pydict option res" where
  "poll_entry res = (case res of Inl e \<Rightarrow> if e = ComfyPollError then Inr None else Inl e | Inr x \<Rightarrow> Inr x)"

definition terminal_entry :: "pydict option res \<Rightarrow> pydict option res" where
  "terminal_entry res =
     bindE (poll_entry res) (\<lambda>entry.
       case entry of
         None \<Rightarrow> Inr None
       | Some en \<Rightarrow> bindE (terminal_of en) (\<lambda>t. Inr (if t then Some en else None)))"

definition timeout_history :: "string \<Rightarrow> run \<Rightarrow> pydict option res \<Rightarrow> runner \<Rightarrow> runner" where
  "timeout_history ow r res s =
     (case terminal_entry res of
        Inl e \<Rightarrow> run_handler ow r e s
      | Inr None \<Rightarrow> timeout_unresolved ow r s
      | Inr (Some en) \<Rightarrow>
          run_handler ow r timed_out
            (on_slot (release_terminal ow)
              (cleanup_after_fetch (r_prompt r) (pick_output en (r_output_node r)) (r_upload_names r) s)))"

section \<open>The stretches of a reaper\<close>

definition reap_begin :: "reaper \<Rightarrow> runner \<Rightarrow> reaper" where
  "reap_begin t s = t\<lparr>p_stage := Reaping (Some (clock s + reap_budget_seconds))\<rparr>"

text \<open>What one round of the loop of \<open>_reap\<close> does with the reply to its poll.\<close>

datatype reap_verdict = ReapEntry pydict | ReapGiveUp | ReapDies exn | ReapAgain

definition reap_decide :: "rat option \<Rightarrow> rat \<Rightarrow> pydict option res \<Rightarrow> reap_verdict" where
  "reap_decide deadline time res =
     (case terminal_entry res of
        Inl e \<Rightarrow> ReapDies e
      | Inr (Some en) \<Rightarrow> ReapEntry en
      | Inr None \<Rightarrow>
          if (case deadline of None \<Rightarrow> False | Some d \<Rightarrow> d < time) then ReapGiveUp else ReapAgain)"

text \<open>The loop itself, as it runs on its own against the world: one poll per round.\<close>

definition reap_round ::
  "comfy \<Rightarrow> string \<Rightarrow> rat option \<Rightarrow> world \<Rightarrow> (reap_verdict \<times> world) + world" where
  "reap_round c prompt_id deadline w =
     (case history c prompt_id w of
        (res, w') \<Rightarrow>
          (case reap_decide deadline (now w') res of
             ReapAgain \<Rightarrow> Inr (w'\<lparr>now := now w' + min 1 (poll_interval c)\<rparr>)
           | v \<Rightarrow> Inl (v, w')))"

definition reap_loop :: "nat \<Rightarrow> comfy \<Rightarrow> string \<Rightarrow> rat \<Rightarrow> world \<Rightarrow> (reap_verdict \<times> world) option" where
  "reap_loop fuel c prompt_id stop_after w =
     poll_loop fuel (reap_round c prompt_id (Some (now w + stop_after))) w"

lemma reap_round_Inr:
  assumes "reap_round c p (Some d) w = Inr w'"
  shows "\<exists>r v. history c p w = (r, v) \<and> now v \<le> d \<and> w' = v\<lparr>now := now v + min 1 (poll_interval c)\<rparr>"
  using assms
  by (auto simp: reap_round_def reap_decide_def split: prod.splits sum.splits option.splits if_splits reap_verdict.splits)

interpretation reap: bounded_poll "reap_round c p (Some d)" now "\<lambda>w. \<forall>i. 0 \<le> latency w i"
  "d + min 1 (poll_interval c)" "min 1 (poll_interval c)" for c p d
proof
  fix w w' assume lat: "\<forall>i. 0 \<le> latency w i" and st: "reap_round c p (Some d) w = Inr w'"
  from reap_round_Inr [OF st] obtain r v
    where v: "history c p w = (r, v)" "now v \<le> d" "w' = v\<lparr>now := now v + min 1 (poll_interval c)\<rparr>"
    by blast
  from history_clock [OF v(1) lat] v(2,3) lat
  show "now w + min 1 (poll_interval c) \<le> now w'" "now w' \<le> d + min 1 (poll_interval c)"
    "\<forall>i. 0 \<le> latency w' i"
    by auto
qed

text \<open>The reaper that goes on, if it does, and the runner after the round.\<close>

definition reap_polled :: "rat option \<Rightarrow> reaper \<Rightarrow> pydict option res \<Rightarrow> runner \<Rightarrow> reaper option \<times> runner" where
  "reap_polled deadline t res s =
     (case reap_decide deadline (clock s) res of
        ReapDies e \<Rightarrow> (None, s)
      | ReapEntry en \<Rightarrow>
          (None, on_slot (release_terminal (p_owner t))
             (cleanup_after_fetch (p_prompt t) (pick_output en (p_output_node t)) (p_upload_names t) s))
      | ReapGiveUp \<Rightarrow> (None, on_slot (retain_busy (p_owner t) ''unresolved-job'') s)
      | ReapAgain \<Rightarrow> (Some t, s))"

definition after_submit :: "reaper \<Rightarrow> string res \<Rightarrow> runner \<Rightarrow> reaper option \<times> runner" where
  "after_submit t out s =
     (let s' = pop_submit (p_owner t) (p_prompt t) s in
      if (case out of Inl e \<Rightarrow> bridge_status e = Some 502 | Inr _ \<Rightarrow> False) then
        (None, on_slot (release_terminal (p_owner t))
           (cleanup_after_fetch (p_prompt t) None (p_upload_names t) s'))
      else
        (Some (reap_begin t s'), on_slot (retain_busy (p_owner t) ''submit-uncertain'') s'))"

definition after_submit_missing :: "reaper \<Rightarrow> runner \<Rightarrow> reaper option \<times> runner" where
  "after_submit_missing t s =
     (Some (reap_begin t s), on_slot (retain_busy (p_owner t) ''submit-uncertain'') s)"

text \<open>\<open>_cleanup\<close>, after \<open>delete_history\<close>: what is handed to the data roots.\<close>

definition cleanup_refs :: "bool \<Rightarrow> cleanup \<Rightarrow> (string \<times> pyval) list" where
  "cleanup_refs enabled k =
     (if \<not> enabled then []
      else map (\<lambda>n. (''input'', PStr n)) (k_uploads k)
           @ (case k_item k of None \<Rightarrow> [] | Some d \<Rightarrow> (case output_ref d of None \<Rightarrow> [] | Some r \<Rightarrow> [r])))"

section \<open>Steps of the system\<close>

datatype submit_end = Replied reply | NoClient | Crashed

datatype event =
    Start string string string "string list"
  | Publish string string              \<comment> \<open>the build closure appends an upload reference\<close>
  | Built string "(string option \<times> string) res"
  | SubmitEnds string string submit_end
  | SubmitDone string
  | Waited string "pydict res"
  | Fetched string "bytes res"
  | Converted string "bytes res"
  | CancelReplied string "bool res"
  | HistoryReplied string "pydict option res"
  | Disconnect string                  \<comment> \<open>the run is cancelled at its current await\<close>
  | ReapStep nat "pydict option res"
  | CleanupStep nat bool
  | Tick rat
  | Accepts string
  | Ends string

definition submit_outcome :: "string \<Rightarrow> submit_end \<Rightarrow> string res" where
  "submit_outcome p r =
     (case r of Replied reply \<Rightarrow> classify_submit p reply | NoClient \<Rightarrow> Inl not_running
      | Crashed \<Rightarrow> Inl OtherExn)"

definition proven_rejection :: "submit_end \<Rightarrow> bool" where
  "proven_rejection r = (case r of Replied (Resp st b) \<Rightarrow> 400 \<le> st \<and> st < 500 | _ \<Rightarrow> False)"

definition when_at :: "string \<Rightarrow> pc \<Rightarrow> (run \<Rightarrow> runner) \<Rightarrow> runner \<Rightarrow> runner option" where
  "when_at ow l f s =
     (case runs s ow of Some r \<Rightarrow> if r_pc r = l then Some (f r) else None | None \<Rightarrow> None)"

definition is_finished :: "pc \<Rightarrow> bool" where
  "is_finished l = (case l of Finished _ \<Rightarrow> True | _ \<Rightarrow> False)"

definition put_reaper :: "nat \<Rightarrow> reaper option \<times> runner \<Rightarrow> runner" where
  "put_reaper i x =
     (case x of
        (None, s) \<Rightarrow> s\<lparr>reaps := take i (reaps s) @ drop (Suc i) (reaps s)\<rparr>
      | (Some t, s) \<Rightarrow> s\<lparr>reaps := (reaps s)[i := t]\<rparr>)"

definition reaper_step :: "reaper \<Rightarrow> pydict option res \<Rightarrow> runner \<Rightarrow> (reaper option \<times> runner) option" where
  "reaper_step t res s =
     (case p_stage t of
        Queued \<Rightarrow> Some (Some (reap_begin t s), s)
      | Interrupting \<Rightarrow> Some (Some (reap_begin t s), s)
      | AfterSubmit \<Rightarrow>
          (case submits s (p_owner t, p_prompt t) of
             None \<Rightarrow> Some (after_submit_missing t s)
           | Some InFlight \<Rightarrow> None
           | Some (Settled out) \<Rightarrow> Some (after_submit t out s))
      | Reaping d \<Rightarrow> Some (reap_polled d t res s))"

definition fresh :: "string \<Rightarrow> string \<Rightarrow> runner \<Rightarrow> bool" where
  "fresh ow p s = (runs s ow = None \<and> p \<notin> set (used s))"

fun step :: "runner \<Rightarrow> event \<Rightarrow> runner option" where
  "step s (Start ow p kind ups) =
     (case start_run ow p kind ups s of Inl _ \<Rightarrow> Some s | Inr s' \<Rightarrow> Some s')"
| "step s (Publish ow u) = when_at ow Building (\<lambda>r. set_run ow (r\<lparr>r_upload_ref := r_upload_ref r @ [u]\<rparr>) s) s"
| "step s (Built ow res) = when_at ow Building (\<lambda>r. built ow r res s) s"
| "step s (SubmitEnds ow p e) =
     (if submits s (ow, p) = Some InFlight then
        Some (s\<lparr>submits := (submits s)((ow, p) := Some (Settled (submit_outcome p e))),
                gpu := (if proven_rejection e then (gpu s)(p := Refused) else gpu s)\<rparr>)
      else None)"
| "step s (SubmitDone ow) =
     (case runs s ow of
        None \<Rightarrow> None
      | Some r \<Rightarrow>
          (case submits s (ow, r_prompt r) of
             Some (Settled out) \<Rightarrow> when_at ow Submitting (\<lambda>r. submit_done ow r out s) s
           | _ \<Rightarrow> None))"
| "step s (Waited ow res) = when_at ow Waiting (\<lambda>r. waited ow r res s) s"
| "step s (Fetched ow res) = when_at ow Fetching (\<lambda>r. fetched ow r res s) s"
| "step s (Converted ow res) = when_at ow Converting (\<lambda>r. converted ow r res s) s"
| "step s (CancelReplied ow res) = when_at ow TimeoutCancel (\<lambda>r. timeout_cancelled ow r res s) s"
| "step s (HistoryReplied ow res) = when_at ow TimeoutHistory (\<lambda>r. timeout_history ow r res s) s"
| "step s (Disconnect ow) =
     (case runs s ow of
        None \<Rightarrow> None
      | Some r \<Rightarrow> if is_finished (r_pc r) then None else Some (run_handler ow r AsyncCancelled s))"
| "step s (ReapStep i res) =
     (if i < length (reaps s) then map_option (put_reaper i) (reaper_step (reaps s ! i) res s) else None)"
| "step s (CleanupStep i enabled) =
     (if i < length (cleanups s) then
        let k = cleanups s ! i in
        Some (s\<lparr>cleanups := take i (cleanups s) @ drop (Suc i) (cleanups s),
                removed := removed s @ map (Pair (k_prompt k)) (cleanup_refs enabled k)\<rparr>)
      else None)"
| "step s (Tick d) = (if 0 \<le> d then Some (s\<lparr>clock := clock s + d\<rparr>) else None)"
| "step s (Accepts p) = (if gpu s p = Sent then Some (s\<lparr>gpu := (gpu s)(p := Active)\<rparr>) else None)"
| "step s (Ends p) = (if gpu s p = Active then Some (s\<lparr>gpu := (gpu s)(p := Ended)\<rparr>) else None)"

text \<open>
  What ComfyUI and \<open>uuid4\<close> are relied on for: identifiers are new, a prompt that is answered
  with a 4xx status was not and will not be queued, and a history entry that reports a terminal
  state is about a prompt that left the GPU. That a download raises only a \<open>BridgeError\<close> is
  what \<open>fetch_view\<close> does.
\<close>

definition terminal_reply_ok :: "runner \<Rightarrow> string \<Rightarrow> pydict option res \<Rightarrow> bool" where
  "terminal_reply_ok s p res =
     (case terminal_entry res of Inr (Some _) \<Rightarrow> gpu s p = Ended | _ \<Rightarrow> True)"

fun truthful :: "runner \<Rightarrow> event \<Rightarrow> bool" where
  "truthful s (Start ow p kind ups) =
     fresh ow p s"
| "truthful s (SubmitEnds ow p e) = (\<not> proven_rejection e \<or> gpu s p = Sent)"
| "truthful s (Waited ow res) =
     (case runs s ow of
        None \<Rightarrow> True
      | Some r \<Rightarrow>
          (case res of
             Inr _ \<Rightarrow> gpu s (r_prompt r) = Ended
           | Inl e \<Rightarrow> e \<noteq> ComfyJobFailed \<or> gpu s (r_prompt r) = Ended))"
| "truthful s (Fetched ow res) = (case res of Inr _ \<Rightarrow> True | Inl e \<Rightarrow> bridge_status e \<noteq> None)"
| "truthful s (HistoryReplied ow res) =
     (case runs s ow of None \<Rightarrow> True | Some r \<Rightarrow> terminal_reply_ok s (r_prompt r) res)"
| "truthful s (ReapStep i res) =
     (if i < length (reaps s) then terminal_reply_ok s (p_prompt (reaps s ! i)) res else True)"
| "truthful s _ = True"

text \<open>The states reached by truthful steps whose events satisfy \<open>ok\<close>.\<close>

inductive reaches :: "(event \<Rightarrow> bool) \<Rightarrow> runner \<Rightarrow> bool" for ok where
  reaches_init: "reaches ok initial_runner"
| reaches_step: "reaches ok s \<Longrightarrow> ok ev \<Longrightarrow> truthful s ev \<Longrightarrow> step s ev = Some s' \<Longrightarrow> reaches ok s'"

abbreviation any_event :: "event \<Rightarrow> bool" where
  "any_event \<equiv> \<lambda>_. True"

text \<open>A run of the system as a function, for concrete event lists.\<close>

fun exec :: "runner \<Rightarrow> event list \<Rightarrow> runner option" where
  "exec s [] = Some s"
| "exec s (ev # evs) =
     (if truthful s ev then (case step s ev of None \<Rightarrow> None | Some s' \<Rightarrow> exec s' evs) else None)"

lemma exec_reaches: "reaches ok s \<Longrightarrow> list_all ok evs \<Longrightarrow> exec s evs = Some t \<Longrightarrow> reaches ok t"
proof (induction evs arbitrary: s)
  case Nil
  then show ?case by simp
next
  case (Cons ev evs)
  then show ?case by (auto split: if_splits option.splits intro: reaches_step)
qed

lemma reaches_mono: "reaches ok s \<Longrightarrow> reaches any_event s"
  by (induction rule: reaches.induct) (auto intro: reaches.intros)

definition may_run :: "runner \<Rightarrow> string \<Rightarrow> bool" where
  "may_run s p = (gpu s p = Sent \<or> gpu s p = Active)"

end
