(* ===== verification/Jobs_Safety.thy ===== *)
theory Jobs_Safety
  imports Jobs
begin

text \<open>
  The safety of the runner: an invariant of every reachable state of \<open>Jobs\<close>, kept by each
  stretch of a run, each reaper and each move of ComfyUI. From it: at most one prompt can be
  on the GPU, the slot is held while one is, files are removed only for prompts that do not
  run, and a quarantine ends only with the job it was declared for.
\<close>

section \<open>The invariant\<close>

text \<open>A prompt that does not run and never will.\<close>

definition dead :: "runner \<Rightarrow> string \<Rightarrow> bool" where
  "dead s p =
     (gpu s p = Ended \<or> gpu s p = Refused
      \<or> (gpu s p = Idle \<and> p \<in> set (used s)
         \<and> (\<forall>ow r. runs s ow = Some r \<and> r_prompt r = p \<longrightarrow> is_finished (r_pc r))))"

definition slot_ok :: "slot \<Rightarrow> bool" where
  "slot_ok sl = ((busy sl \<longleftrightarrow> owner sl \<noteq> None) \<and> (unhealthy sl \<longrightarrow> busy sl))"

text \<open>What the flags and the position of a run say of its prompt and of the slot.\<close>

definition flags_ok :: "runner \<Rightarrow> run \<Rightarrow> bool" where
  "flags_ok s r =
     ((r_terminal r \<longrightarrow> gpu s (r_prompt r) = Ended)
      \<and> (r_submitted r \<longrightarrow> r_submit_started r)
      \<and> (\<not> r_submit_started r \<longrightarrow> gpu s (r_prompt r) = Idle))"

definition place_ok :: "run \<Rightarrow> bool" where
  "place_ok r =
     (case r_pc r of
        Building \<Rightarrow> \<not> r_submit_started r \<and> \<not> r_terminal r
      | Submitting \<Rightarrow> r_submit_started r \<and> \<not> r_submitted r \<and> \<not> r_terminal r
      | Fetching \<Rightarrow> r_submitted r \<and> r_terminal r
      | Converting \<Rightarrow> r_submitted r \<and> r_terminal r
      | Finished _ \<Rightarrow> True
      | _ \<Rightarrow> r_submitted r \<and> \<not> r_terminal r)"

definition holds_slot :: "slot \<Rightarrow> string \<Rightarrow> bool" where
  "holds_slot sl ow = (owner sl = Some ow \<and> \<not> unhealthy sl)"

definition run_ok :: "runner \<Rightarrow> string \<Rightarrow> run \<Rightarrow> bool" where
  "run_ok s ow r =
     (r_prompt r \<in> set (used s) \<and> (may_run s (r_prompt r) \<longrightarrow> owner (slot s) = Some ow)
      \<and> (\<not> is_finished (r_pc r) \<longrightarrow> holds_slot (slot s) ow) \<and> flags_ok s r \<and> place_ok r)"

definition ended :: "runner \<Rightarrow> string \<Rightarrow> string \<Rightarrow> bool" where
  "ended s ow p = (\<exists>r. runs s ow = Some r \<and> r_prompt r = p \<and> is_finished (r_pc r))"

definition runs_inv :: "runner \<Rightarrow> bool" where
  "runs_inv s =
     ((\<forall>ow r. runs s ow = Some r \<longrightarrow> run_ok s ow r)
      \<and> (\<forall>ow ow' r r'. runs s ow = Some r \<and> runs s ow' = Some r' \<and> r_prompt r = r_prompt r' \<longrightarrow> ow = ow')
      \<and> (\<forall>p. gpu s p \<noteq> Idle \<longrightarrow> (\<exists>ow r. runs s ow = Some r \<and> r_prompt r = p)))"

definition submits_inv :: "runner \<Rightarrow> bool" where
  "submits_inv s =
     ((\<forall>ow p out. submits s (ow, p) = Some out \<longrightarrow>
         (\<exists>r. runs s ow = Some r \<and> r_prompt r = p \<and> r_submit_started r))
      \<and> (\<forall>ow p e. submits s (ow, p) = Some (Settled (Inl e)) \<and> bridge_status e = Some 502
           \<longrightarrow> gpu s p = Refused))"

definition tasks_inv :: "runner \<Rightarrow> bool" where
  "tasks_inv s =
     ((\<forall>t\<in>set (reaps s). ended s (p_owner t) (p_prompt t))
      \<and> (\<forall>k\<in>set (cleanups s). dead s (k_prompt k))
      \<and> (\<forall>x\<in>set (removed s). dead s (fst x)))"

definition inv :: "runner \<Rightarrow> bool" where
  "inv s = (slot_ok (slot s) \<and> runs_inv s \<and> submits_inv s \<and> tasks_inv s)"

lemmas inv_defs = inv_def runs_inv_def submits_inv_def tasks_inv_def

lemma inv_run: "inv s \<Longrightarrow> runs s ow = Some r \<Longrightarrow> run_ok s ow r"
  by (simp add: inv_defs)

lemma inv_unique:
  "inv s \<Longrightarrow> runs s ow = Some r \<Longrightarrow> runs s ow' = Some r' \<Longrightarrow> r_prompt r = r_prompt r' \<Longrightarrow> ow = ow'"
  unfolding inv_def runs_inv_def by blast

lemma inv_rejected:
  "inv s \<Longrightarrow> submits s (ow, p) = Some (Settled (Inl e)) \<Longrightarrow> bridge_status e = Some 502 \<Longrightarrow> gpu s p = Refused"
  unfolding inv_def submits_inv_def by blast

lemma place_ok_simps [simp]:
  "r_pc r = Building \<Longrightarrow> place_ok r = (\<not> r_submit_started r \<and> \<not> r_terminal r)"
  "r_pc r = Submitting \<Longrightarrow> place_ok r = (r_submit_started r \<and> \<not> r_submitted r \<and> \<not> r_terminal r)"
  "r_pc r = Waiting \<Longrightarrow> place_ok r = (r_submitted r \<and> \<not> r_terminal r)"
  "r_pc r = TimeoutCancel \<Longrightarrow> place_ok r = (r_submitted r \<and> \<not> r_terminal r)"
  "r_pc r = TimeoutHistory \<Longrightarrow> place_ok r = (r_submitted r \<and> \<not> r_terminal r)"
  "r_pc r = Fetching \<Longrightarrow> place_ok r = (r_submitted r \<and> r_terminal r)"
  "r_pc r = Converting \<Longrightarrow> place_ok r = (r_submitted r \<and> r_terminal r)"
  "r_pc r = Finished x \<Longrightarrow> place_ok r"
  by (simp_all add: place_ok_def)

section \<open>Updates that keep the invariant\<close>

lemma owner_retain [simp]: "owner (retain_busy ow why sl) = owner sl"
  by (simp add: retain_busy_def)

lemma slot_ok_retain [simp]: "slot_ok sl \<Longrightarrow> slot_ok (retain_busy ow why sl)"
  by (auto simp: retain_busy_def slot_ok_def)

text \<open>Moves of the slot by the owner of a finished run.\<close>

lemma inv_on_slot:
  assumes "inv s" "slot_ok (f (slot s))"
    and "\<And>w r. runs s w = Some r \<Longrightarrow> may_run s (r_prompt r) \<Longrightarrow> owner (f (slot s)) = Some w"
    and "\<And>w r. runs s w = Some r \<Longrightarrow> \<not> is_finished (r_pc r) \<Longrightarrow> holds_slot (f (slot s)) w"
  shows "inv (on_slot f s)"
  using assms
  by (auto simp: inv_defs on_slot_def run_ok_def may_run_def flags_ok_def dead_def ended_def)

lemma inv_retain:
  assumes "inv s" "ended s ow p"
  shows "inv (on_slot (retain_busy ow why) s)"
proof (rule inv_on_slot [OF assms(1)])
  show "slot_ok (retain_busy ow why (slot s))" using assms(1) by (simp add: inv_def)
next
  fix w r assume "runs s w = Some r"
  note ok = inv_run [OF assms(1) this]
  { assume "may_run s (r_prompt r)"
    with ok show "owner (retain_busy ow why (slot s)) = Some w" by (simp add: run_ok_def) }
  { assume "\<not> is_finished (r_pc r)"
    with ok assms \<open>runs s w = Some r\<close> show "holds_slot (retain_busy ow why (slot s)) w"
      by (auto simp: run_ok_def holds_slot_def retain_busy_def ended_def) }
qed

lemma inv_freed:
  assumes "inv s" "ended s ow p" "\<not> may_run s p"
    and "owner (slot s) = Some ow \<Longrightarrow> owner (f (slot s)) = None \<and> slot_ok (f (slot s))"
    and "owner (slot s) \<noteq> Some ow \<Longrightarrow> f (slot s) = slot s"
  shows "inv (on_slot f s)"
proof (cases "owner (slot s) = Some ow")
  case False
  with assms(1,5) show ?thesis by (simp add: on_slot_def)
next
  case True
  show ?thesis
  proof (rule inv_on_slot [OF assms(1)])
    show "slot_ok (f (slot s))" using assms(4) True by simp
  next
    fix w r assume w: "runs s w = Some r"
    note ok = inv_run [OF assms(1) this]
    { assume "may_run s (r_prompt r)"
      with ok True have "w = ow" by (simp add: run_ok_def)
      with w assms(2,3) \<open>may_run s (r_prompt r)\<close> show "owner (f (slot s)) = Some w" by (auto simp: ended_def) }
    { assume n: "\<not> is_finished (r_pc r)"
      with ok True have "w = ow" by (simp add: run_ok_def holds_slot_def)
      with w assms(2) n show "holds_slot (f (slot s)) w" by (auto simp: ended_def) }
  qed
qed

lemma inv_release_terminal:
  "inv s \<Longrightarrow> ended s ow p \<Longrightarrow> \<not> may_run s p \<Longrightarrow> inv (on_slot (release_terminal ow) s)"
  by (erule (2) inv_freed) (auto simp: release_terminal_def slot_ok_def Let_def)

lemma inv_release:
  "inv s \<Longrightarrow> ended s ow p \<Longrightarrow> \<not> may_run s p \<Longrightarrow> \<not> unhealthy (slot s) \<Longrightarrow> inv (on_slot (release ow) s)"
  by (erule (2) inv_freed) (auto simp: release_def slot_ok_def)


lemma set_run_simps [simp]:
  "slot (set_run ow r s) = slot s" "gpu (set_run ow r s) = gpu s" "used (set_run ow r s) = used s"
  "reaps (set_run ow r s) = reaps s" "cleanups (set_run ow r s) = cleanups s"
  "removed (set_run ow r s) = removed s" "submits (set_run ow r s) = submits s"
  "runs (set_run ow r s) = (runs s)(ow := Some r)" "clock (set_run ow r s) = clock s"
  by (simp_all add: set_run_def)

lemma flags_ok_cong [simp]: "flags_ok (set_run ow r s) r' = flags_ok s r'"
  by (simp add: flags_ok_def)

lemma may_run_set_run [simp]: "may_run (set_run ow r s) p = may_run s p"
  by (simp add: may_run_def)

lemma run_ok_set_run [simp]: "run_ok (set_run ow r s) w r' = run_ok s w r'"
  by (simp add: run_ok_def)

lemma inv_set_run:
  assumes i: "inv s" and r0: "runs s ow = Some r0" and p: "r_prompt r = r_prompt r0" and ok: "run_ok s ow r"
    and fin: "is_finished (r_pc r0) \<Longrightarrow> is_finished (r_pc r)"
    and st: "r_submit_started r0 \<Longrightarrow> r_submit_started r"
  shows "inv (set_run ow r s)"
proof -
  have e: "ended s w q \<Longrightarrow> ended (set_run ow r s) w q" for w q
    using r0 p fin by (auto simp: ended_def)
  have d: "dead s q \<Longrightarrow> dead (set_run ow r s) q" for q
    using r0 p fin by (auto simp: dead_def split: if_splits)
  have "runs_inv (set_run ow r s)"
    unfolding runs_inv_def
  proof (intro conjI allI impI)
    fix w r' assume "runs (set_run ow r s) w = Some r'"
    then show "run_ok (set_run ow r s) w r'"
      using ok inv_run [OF i] by (auto split: if_splits)
  next
    fix w w' r1 r2
    assume "runs (set_run ow r s) w = Some r1 \<and> runs (set_run ow r s) w' = Some r2 \<and> r_prompt r1 = r_prompt r2"
    then show "w = w'" using inv_unique [OF i] r0 p by (auto split: if_splits)
  next
    fix q assume "gpu (set_run ow r s) q \<noteq> Idle"
    then obtain w r' where "runs s w = Some r'" "r_prompt r' = q"
      using i by (auto simp: inv_def runs_inv_def)
    then show "\<exists>w r'. runs (set_run ow r s) w = Some r' \<and> r_prompt r' = q"
      using r0 p by (intro exI [of _ w]) auto
  qed
  moreover have "submits_inv (set_run ow r s)"
    unfolding submits_inv_def
  proof (intro conjI allI impI)
    fix w q out assume "submits (set_run ow r s) (w, q) = Some out"
    with i obtain r' where "runs s w = Some r'" "r_prompt r' = q" "r_submit_started r'"
      unfolding inv_def submits_inv_def by auto
    with r0 p st show "\<exists>r'. runs (set_run ow r s) w = Some r' \<and> r_prompt r' = q \<and> r_submit_started r'"
      by (cases "w = ow") auto
  next
    fix w q e assume "submits (set_run ow r s) (w, q) = Some (Settled (Inl e)) \<and> bridge_status e = Some 502"
    then show "gpu (set_run ow r s) q = Refused" using inv_rejected [OF i] by auto
  qed
  moreover have "tasks_inv (set_run ow r s)"
    using i e d by (auto simp: inv_def tasks_inv_def)
  ultimately show ?thesis using i by (simp add: inv_def)
qed

lemma inv_cleanup: "inv s \<Longrightarrow> dead s p \<Longrightarrow> inv (cleanup_after_fetch p item ups s)"
  by (auto simp: inv_def cleanup_after_fetch_def slot_ok_def runs_inv_def run_ok_def may_run_def flags_ok_def
      submits_inv_def tasks_inv_def dead_def ended_def)

lemma inv_schedule: "inv s \<Longrightarrow> ended s ow (r_prompt r) \<Longrightarrow> inv (schedule_reap st ow r s)"
  by (auto simp: inv_def schedule_reap_def slot_ok_def runs_inv_def run_ok_def may_run_def flags_ok_def
      submits_inv_def tasks_inv_def dead_def ended_def)

lemma inv_pop: "inv s \<Longrightarrow> inv (pop_submit ow p s)"
  by (auto simp: inv_def pop_submit_def slot_ok_def runs_inv_def run_ok_def may_run_def flags_ok_def
      submits_inv_def tasks_inv_def dead_def ended_def)

section \<open>The exits of a run keep the invariant\<close>

lemma refresh_simps [simp]:
  "r_prompt (refresh_uploads r) = r_prompt r" "r_submit_started (refresh_uploads r) = r_submit_started r"
  "r_submitted (refresh_uploads r) = r_submitted r" "r_terminal (refresh_uploads r) = r_terminal r"
  "r_pc (refresh_uploads r) = r_pc r" "r_output_item (refresh_uploads r) = r_output_item r"
  "r_output_node (refresh_uploads r) = r_output_node r" "r_kind (refresh_uploads r) = r_kind r"
  "r_out_kind (refresh_uploads r) = r_out_kind r"
  by (simp_all add: refresh_uploads_def)

lemma finish_commute:
  "finish ow r x (on_slot f s) = on_slot f (finish ow r x s)"
  "finish ow r x (schedule_reap st w r' s) = schedule_reap st w r' (finish ow r x s)"
  "finish ow r x (cleanup_after_fetch p item ups s) = cleanup_after_fetch p item ups (finish ow r x s)"
  by (simp_all add: finish_def set_run_def on_slot_def schedule_reap_def cleanup_after_fetch_def)

definition exiting :: "runner \<Rightarrow> string \<Rightarrow> run \<Rightarrow> bool" where
  "exiting s ow r =
     (inv s \<and> flags_ok s r
      \<and> (\<exists>r0. runs s ow = Some r0 \<and> \<not> is_finished (r_pc r0) \<and> r_prompt r = r_prompt r0
           \<and> r_submit_started r = r_submit_started r0))"

lemma exiting_refresh [simp]: "exiting s ow (refresh_uploads r) = exiting s ow r"
  by (simp add: exiting_def flags_ok_def)

lemma is_finished_simps [simp]:
  "is_finished (Finished x)" "\<not> is_finished Building" "\<not> is_finished Submitting"
  "\<not> is_finished Waiting" "\<not> is_finished Fetching" "\<not> is_finished Converting"
  "\<not> is_finished TimeoutCancel" "\<not> is_finished TimeoutHistory"
  by (simp_all add: is_finished_def)

lemma finish_simps [simp]:
  "slot (finish ow r x s) = slot s" "may_run (finish ow r x s) p = may_run s p"
  "gpu (finish ow r x s) = gpu s" "used (finish ow r x s) = used s"
  "ended (finish ow r x s) ow p \<longleftrightarrow> r_prompt r = p"
  by (simp_all add: finish_def ended_def)

lemma exiting_slot: "exiting s ow r \<Longrightarrow> \<not> unhealthy (slot s) \<and> owner (slot s) = Some ow"
  by (auto simp: exiting_def run_ok_def holds_slot_def dest: inv_run)

lemma inv_finish:
  assumes "exiting s ow r"
  shows "inv (finish ow r x s)"
proof -
  from assms obtain r0 where i: "inv s" and r0: "runs s ow = Some r0" "r_prompt r = r_prompt r0"
    "r_submit_started r = r_submit_started r0" and f: "flags_ok s r"
    by (auto simp: exiting_def)
  from inv_run [OF i r0(1)] r0 f have "run_ok s ow (r\<lparr>r_pc := Finished x\<rparr>)"
    by (simp add: run_ok_def flags_ok_def)
  with r0 show ?thesis unfolding finish_def by (intro inv_set_run [OF i r0(1)]) simp_all
qed

lemma cleanup_simps [simp]:
  "may_run (cleanup_after_fetch p item ups s) q = may_run s q"
  "ended (cleanup_after_fetch p item ups s) ow q = ended s ow q"
  "slot (cleanup_after_fetch p item ups s) = slot s" "gpu (cleanup_after_fetch p item ups s) = gpu s"
  by (simp_all add: cleanup_after_fetch_def may_run_def ended_def)

lemma dead_finish:
  assumes "exiting s ow r" "\<not> may_run s (r_prompt r)"
  shows "dead (finish ow r x s) (r_prompt r)"
proof -
  from assms(1) obtain r0 where r0: "inv s" "runs s ow = Some r0" "r_prompt r = r_prompt r0"
    by (auto simp: exiting_def)
  from inv_run [OF r0(1,2)] have "r_prompt r \<in> set (used s)" by (simp add: run_ok_def r0(3))
  moreover have "is_finished (r_pc r1)"
    if "runs (finish ow r x s) w = Some r1" "r_prompt r1 = r_prompt r" for w r1
    using that inv_unique [OF r0(1) _ r0(2), of w r1] r0(3) by (auto simp: finish_def split: if_splits)
  ultimately show ?thesis
    using assms(2) unfolding dead_def by (cases "gpu s (r_prompt r)") (auto simp: may_run_def)
qed

lemma inv_hand_back:
  assumes "exiting s ow r" "\<not> may_run s (r_prompt r)"
  shows "inv (finish ow r x (on_slot (release ow) (cleanup_after_fetch (r_prompt r) item ups s)))"
proof -
  have "inv (cleanup_after_fetch (r_prompt r) item ups (finish ow r x s))"
    by (rule inv_cleanup [OF inv_finish [OF assms(1)] dead_finish [OF assms]])
  from inv_release [where p = "r_prompt r", OF this] show ?thesis
    using exiting_slot [OF assms(1)] assms(2) by (simp add: finish_commute)
qed

lemma inv_abandon:
  assumes "exiting s ow r" "r_prompt r' = r_prompt r"
  shows "inv (finish ow r x (schedule_reap st ow r' (on_slot (retain_busy ow why) s)))"
proof -
  have "inv (on_slot (retain_busy ow why) (finish ow r x s))"
    by (rule inv_retain [OF inv_finish [OF assms(1)], where p = "r_prompt r"]) simp
  moreover have "ended (on_slot (retain_busy ow why) (finish ow r x s)) ow (r_prompt r')"
    by (simp add: on_slot_def ended_def finish_def assms(2))
  ultimately show ?thesis unfolding finish_commute by (rule inv_schedule)
qed

lemma inv_run_cancelled: "exiting s ow r \<Longrightarrow> inv (run_cancelled ow r s)"
proof -
  assume x: "exiting s ow r"
  let ?r = "refresh_uploads r"
  from x have x': "exiting s ow ?r" by simp
  consider "r_submitted r" | "\<not> r_submitted r" "r_submit_started r" | "\<not> r_submitted r" "\<not> r_submit_started r"
    by blast
  then show ?thesis
  proof cases
    case 1
    have "inv (schedule_reap Interrupting ow ?r (finish ow ?r (Inl AsyncCancelled) s))"
      by (rule inv_schedule [OF inv_finish [OF x']]) simp
    with 1 show ?thesis by (simp add: run_cancelled_def Let_def finish_commute)
  next
    case 2
    with inv_abandon [OF x' refl] show ?thesis by (simp add: run_cancelled_def Let_def)
  next
    case 3
    with x have "\<not> may_run s (r_prompt ?r)" by (simp add: exiting_def flags_ok_def may_run_def)
    with 3 inv_hand_back [OF x'] show ?thesis by (simp add: run_cancelled_def Let_def)
  qed
qed

lemma inv_run_uncertain: "exiting s ow r \<Longrightarrow> inv (run_uncertain ow r s)"
  using inv_abandon [of s ow "refresh_uploads r"] by (simp add: run_uncertain_def Let_def)

lemma inv_run_raised:
  assumes "exiting s ow r" "\<not> r_submitted r \<Longrightarrow> \<not> may_run s (r_prompt r)"
  shows "inv (run_raised ow r e s)"
proof -
  from assms(1) have x': "exiting s ow (refresh_uploads r)" by simp
  show ?thesis
  proof (cases "\<not> r_submitted r \<or> r_terminal r")
    case True
    with assms have "\<not> may_run s (r_prompt (refresh_uploads r))"
      by (auto simp: exiting_def flags_ok_def may_run_def)
    with True inv_hand_back [OF x'] show ?thesis by (simp add: run_raised_def Let_def)
  next
    case False
    with inv_finish [OF x'] show ?thesis by (simp add: run_raised_def Let_def)
  qed
qed

lemma inv_run_handler:
  "exiting s ow r \<Longrightarrow> (\<not> r_submitted r \<Longrightarrow> e \<noteq> AsyncCancelled \<Longrightarrow> e \<noteq> SubmitUncertain \<Longrightarrow> \<not> may_run s (r_prompt r)) \<Longrightarrow>
   inv (run_handler ow r e s)"
  by (simp add: run_handler_def inv_run_cancelled inv_run_uncertain inv_run_raised)

lemma inv_give_up:
  assumes "exiting s ow r" "r_submitted r" "\<not> r_terminal r" "e \<noteq> AsyncCancelled" "e \<noteq> SubmitUncertain"
  shows "inv (run_handler ow r e (schedule_reap st ow r (on_slot (retain_busy ow why) s)))"
  using assms inv_abandon [of s ow "refresh_uploads r" r]
  by (simp add: run_handler_def run_raised_def Let_def)

section \<open>The steps keep the invariant\<close>

lemma exiting_here: "inv s \<Longrightarrow> runs s ow = Some r \<Longrightarrow> \<not> is_finished (r_pc r) \<Longrightarrow> exiting s ow r"
  using inv_run [of s ow r] by (auto simp: exiting_def run_ok_def)

lemma exiting_cleanup: "exiting s ow r \<Longrightarrow> dead s p \<Longrightarrow> exiting (cleanup_after_fetch p item ups s) ow r"
  using inv_cleanup [of s p item ups] by (auto simp: exiting_def flags_ok_def cleanup_after_fetch_def)

lemma exiting_terminal:
  "exiting s ow r \<Longrightarrow> gpu s (r_prompt r) = Ended \<Longrightarrow> exiting s ow (r\<lparr>r_terminal := True\<rparr>)"
  by (auto simp: exiting_def flags_ok_def)

lemma dead_Ended: "gpu s p = Ended \<Longrightarrow> dead s p"
  by (simp add: dead_def)

lemma no_artifact_plain [simp]:
  "no_artifact \<noteq> AsyncCancelled" "no_artifact \<noteq> SubmitUncertain" "bridge_status no_artifact = Some 502"
  "timed_out \<noteq> AsyncCancelled" "timed_out \<noteq> SubmitUncertain"
  "unavailable_default \<noteq> AsyncCancelled" "unavailable_default \<noteq> SubmitUncertain"
  by (simp_all add: no_artifact_def timed_out_def error_defs bridge_status_def)

lemma inner_handler_bridge: "bridge_status e \<noteq> None \<Longrightarrow> inner_handler ow r e s = run_handler ow r e s"
  by (cases e) (simp_all add: inner_handler_def bridge_status_def)

lemma inv_inner_handler:
  assumes "inv s" "runs s ow = Some r" "r_pc r = Waiting" "e = ComfyJobFailed \<Longrightarrow> gpu s (r_prompt r) = Ended"
  shows "inv (inner_handler ow r e s)"
proof -
  from assms(1-3) have x: "exiting s ow r" by (simp add: exiting_here)
  from inv_run [OF assms(1,2)] assms(3) have f: "r_submitted r" "\<not> r_terminal r"
    and ok: "run_ok s ow r" by (auto simp: run_ok_def)
  show ?thesis
  proof (cases e)
    case ComfyTimeout
    from ok assms(3) have "run_ok s ow (r\<lparr>r_pc := TimeoutCancel\<rparr>)"
      by (auto simp: run_ok_def flags_ok_def)
    with inv_set_run [OF assms(1,2), of "r\<lparr>r_pc := TimeoutCancel\<rparr>"] assms(3) ComfyTimeout
    show ?thesis by (simp add: inner_handler_def)
  next
    case ComfyJobFailed
    with assms(4) have g: "gpu s (r_prompt r) = Ended" by simp
    show ?thesis
      unfolding inner_handler_def ComfyJobFailed
      using inv_run_handler [OF exiting_cleanup [OF exiting_terminal [OF x g] dead_Ended [OF g]]] f
      by simp
  next
    case ComfyPollError
    with x f show ?thesis by (simp add: inner_handler_def inv_give_up)
  next
    case ComfyCancelled
    with x f show ?thesis by (simp add: inner_handler_def inv_give_up)
  qed (use x f in \<open>auto simp: inner_handler_def intro!: inv_run_handler\<close>)
qed

lemma inv_waited:
  assumes "inv s" "runs s ow = Some r" "r_pc r = Waiting" "truthful s (Waited ow res)"
  shows "inv (waited ow r res s)"
proof (cases res)
  case (Inl e)
  with assms inv_inner_handler [of s ow r e] show ?thesis by (auto simp: waited_def)
next
  case (Inr entry)
  with assms have g: "gpu s (r_prompt r) = Ended" by simp
  from assms have x: "exiting s ow r" by (simp add: exiting_here)
  from inv_run [OF assms(1,2)] assms(3) have f: "r_submitted r" and ok: "run_ok s ow r"
    by (auto simp: run_ok_def)
  show ?thesis
  proof (cases "pick_output entry (r_output_node r)")
    case None
    with Inr f inv_run_handler [OF exiting_terminal [OF x g]] show ?thesis
      by (simp add: waited_def inner_handler_bridge)
  next
    case (Some item)
    let ?r = "r\<lparr>r_terminal := True, r_output_item := Some item, r_pc := Fetching\<rparr>"
    from ok f g assms(3) have "run_ok s ow ?r" by (auto simp: run_ok_def flags_ok_def)
    with inv_set_run [OF assms(1,2), of ?r] assms(3) Inr Some show ?thesis by (simp add: waited_def)
  qed
qed

lemma inv_deliver:
  assumes "exiting s ow r" "gpu s (r_prompt r) = Ended" "r_submitted r"
  shows "inv (deliver ow r data s)"
proof (cases "final_checks (r_kind r) (r_out_kind r) (r_output_item r) data")
  case (Inl e)
  with assms inv_run_handler [of s ow r e] show ?thesis by (simp add: deliver_def)
next
  case (Inr res)
  have "dead (finish ow r (Inr res) s) (r_prompt r)" using assms(2) by (simp add: dead_def)
  from inv_cleanup [OF inv_finish [OF assms(1)] this]
    inv_release_terminal [where ow = ow and p = "r_prompt r"] assms(2)
  have "inv (on_slot (release_terminal ow)
      (cleanup_after_fetch (r_prompt r) (r_output_item r) (r_upload_names r) (finish ow r (Inr res) s)))"
    by (auto simp: ended_def finish_def cleanup_after_fetch_def may_run_def)
  with Inr show ?thesis by (simp add: deliver_def finish_commute)
qed

lemma inv_fetched:
  assumes "inv s" "runs s ow = Some r" "r_pc r = Fetching" "truthful s (Fetched ow res)"
  shows "inv (fetched ow r res s)"
proof -
  from assms have x: "exiting s ow r" by (simp add: exiting_here)
  from inv_run [OF assms(1,2)] assms(3) have f: "r_submitted r" "r_terminal r" "gpu s (r_prompt r) = Ended"
    and ok: "run_ok s ow r"
    by (auto simp: run_ok_def flags_ok_def)
  have h: "inv (run_handler ow r e s)" for e using inv_run_handler [OF x] f(1) by simp
  from ok f assms(3) have "run_ok s ow (r\<lparr>r_pc := Converting\<rparr>)"
    by (auto simp: run_ok_def flags_ok_def)
  with inv_set_run [OF assms(1,2), of "r\<lparr>r_pc := Converting\<rparr>"] assms(3)
  have c: "inv (set_run ow (r\<lparr>r_pc := Converting\<rparr>) s)" by simp
  show ?thesis
  proof (cases res)
    case (Inl e)
    with assms(4) h show ?thesis by (simp add: fetched_def inner_handler_bridge)
  next
    case (Inr data)
    then show ?thesis
      using h c inv_deliver [OF x f(3,1)]
      by (simp add: fetched_def split: sum.split bool.split option.split)
  qed
qed

lemma inv_converted:
  assumes "inv s" "runs s ow = Some r" "r_pc r = Converting"
  shows "inv (converted ow r res s)"
proof -
  from assms have x: "exiting s ow r" by (simp add: exiting_here)
  from inv_run [OF assms(1,2)] assms(3) have f: "r_submitted r" "gpu s (r_prompt r) = Ended"
    by (auto simp: run_ok_def flags_ok_def)
  show ?thesis
    using inv_run_handler [OF x] inv_deliver [OF x f(2,1)] f(1)
    by (simp add: converted_def split: sum.split)
qed

lemma inv_timeout_cancelled:
  assumes "inv s" "runs s ow = Some r" "r_pc r = TimeoutCancel"
  shows "inv (timeout_cancelled ow r res s)"
proof -
  from assms have x: "exiting s ow r" by (simp add: exiting_here)
  from inv_run [OF assms(1,2)] assms(3) have f: "r_submitted r" "\<not> r_terminal r" and ok: "run_ok s ow r"
    by (auto simp: run_ok_def)
  from ok f assms(3) have "run_ok s ow (r\<lparr>r_pc := TimeoutHistory\<rparr>)"
    by (auto simp: run_ok_def flags_ok_def)
  with inv_set_run [OF assms(1,2), of "r\<lparr>r_pc := TimeoutHistory\<rparr>"] assms(3)
  have c: "inv (set_run ow (r\<lparr>r_pc := TimeoutHistory\<rparr>) s)" by simp
  have u: "inv (timeout_unresolved ow r s)"
    unfolding timeout_unresolved_def using inv_give_up [OF x f] by simp
  have "inv (run_handler ow r e s)" for e using inv_run_handler [OF x] f(1) by simp
  with c u show ?thesis by (simp add: timeout_cancelled_def split: sum.split bool.split)
qed

lemma inv_timeout_history:
  assumes "inv s" "runs s ow = Some r" "r_pc r = TimeoutHistory" "truthful s (HistoryReplied ow res)"
  shows "inv (timeout_history ow r res s)"
proof -
  from assms have x: "exiting s ow r" by (simp add: exiting_here)
  from inv_run [OF assms(1,2)] assms(3) have f: "r_submitted r" "\<not> r_terminal r"
    by (auto simp: run_ok_def)
  show ?thesis
  proof (cases "terminal_entry res")
    case (Inl e)
    with inv_run_handler [OF x] f show ?thesis by (simp add: timeout_history_def)
  next
    case (Inr oe)
    show ?thesis
    proof (cases oe)
      case None
      with Inr inv_give_up [OF x f] show ?thesis by (simp add: timeout_history_def timeout_unresolved_def)
    next
      case (Some en)
      with Inr assms(2,4) have g: "gpu s (r_prompt r) = Ended" by (simp add: terminal_reply_ok_def)
      let ?r = "refresh_uploads r"
      let ?t = "finish ow ?r (Inl timed_out) s"
      from x have x': "exiting s ow ?r" by simp
      have "inv (on_slot (release_terminal ow) (cleanup_after_fetch (r_prompt r) i u ?t))" for i u
        using inv_cleanup [OF inv_finish [OF x', of "Inl timed_out"], of "r_prompt r" i u] g
        by (intro inv_release_terminal [where p = "r_prompt r"])
          (auto simp: ended_def finish_def cleanup_after_fetch_def may_run_def dead_def)
      with Inr Some f show ?thesis
        by (simp add: timeout_history_def run_handler_def run_raised_def Let_def finish_commute)
    qed
  qed
qed

lemma inv_built:
  assumes "inv s" "runs s ow = Some r" "r_pc r = Building"
  shows "inv (built ow r res s)"
proof -
  from assms have x: "exiting s ow r" by (simp add: exiting_here)
  from inv_run [OF assms(1,2)] assms(3) have n: "\<not> r_submit_started r" "\<not> may_run s (r_prompt r)"
    and g: "gpu s (r_prompt r) = Idle" and ok: "run_ok s ow r"
    by (auto simp: run_ok_def flags_ok_def may_run_def)
  show ?thesis
  proof (cases res)
    case (Inl e)
    with inv_run_handler [OF x] n show ?thesis by (simp add: built_def)
  next
    case (Inr nk)
    obtain node k where nk: "nk = (node, k)" by (cases nk)
    let ?r1 = "r\<lparr>r_output_node := node, r_out_kind := k\<rparr>"
    let ?r2 = "(refresh_uploads ?r1)\<lparr>r_submit_started := True, r_pc := Submitting\<rparr>"
    from x have x1: "exiting s ow ?r1" by (simp add: exiting_def flags_ok_def)
    show ?thesis
    proof (cases "k \<in> set media_kinds")
      case False
      with Inr nk inv_run_handler [OF x1] n show ?thesis by (simp add: built_def)
    next
      case True
      let ?p = "r_prompt r"
      let ?s = "s\<lparr>submits := (submits s)((ow, ?p) := Some InFlight), gpu := (gpu s)(?p := Sent)\<rparr>"
      let ?t = "set_run ow ?r2 ?s"
      have uniq: "w = ow" if "runs s w = Some q" "r_prompt q = ?p" for w q
        using inv_unique [OF assms(1) that(1) assms(2)] that(2) by simp
      have own: "owner (slot s) = Some ow \<and> \<not> unhealthy (slot s)" using exiting_slot [OF x] by simp
      from ok assms(3) n(1) have nf: "\<not> r_submitted r" "\<not> r_terminal r" by (auto simp: run_ok_def flags_ok_def)
      have "run_ok ?t ow ?r2"
        using ok own nf by (simp add: run_ok_def holds_slot_def flags_ok_def)
      moreover have "run_ok ?t w q" if "runs s w = Some q" "w \<noteq> ow" for w q
        using inv_run [OF assms(1) that(1)] uniq [OF that(1)] that(2)
        by (auto simp: run_ok_def flags_ok_def may_run_def)
      ultimately have "run_ok ?t w q" if "runs ?t w = Some q" for w q
        using that by (cases "w = ow") auto
      moreover have "w = w'" if "runs ?t w = Some q" "runs ?t w' = Some q'" "r_prompt q = r_prompt q'" for w w' q q'
        using that inv_unique [OF assms(1)] assms(2) by (auto split: if_splits)
      moreover have "\<exists>w q'. runs ?t w = Some q' \<and> r_prompt q' = q" if "gpu ?t q \<noteq> Idle" for q
      proof (cases "q = ?p")
        case True
        then show ?thesis by (intro exI [of _ ow]) simp
      next
        case False
        with that have "gpu s q \<noteq> Idle" by simp
        with assms(1) obtain w q' where "runs s w = Some q'" "r_prompt q' = q"
          unfolding inv_def runs_inv_def by blast
        with False assms(2) show ?thesis by (intro exI [of _ w]) auto
      qed
      ultimately have "runs_inv ?t" unfolding runs_inv_def by blast
      moreover have "submits_inv ?t"
        unfolding submits_inv_def
      proof (intro conjI allI impI)
        fix w q out assume "submits ?t (w, q) = Some out"
        then have "(w, q) = (ow, ?p) \<or> submits s (w, q) = Some out" by (auto split: if_splits)
        then have "(w, q) = (ow, ?p) \<or> (\<exists>r'. runs s w = Some r' \<and> r_prompt r' = q \<and> r_submit_started r')"
          using assms(1) unfolding inv_def submits_inv_def by blast
        then show "\<exists>r'. runs ?t w = Some r' \<and> r_prompt r' = q \<and> r_submit_started r'"
          using assms(2) n(1) by (cases "w = ow") auto
      next
        fix w q e assume h: "submits ?t (w, q) = Some (Settled (Inl e)) \<and> bridge_status e = Some 502"
        then have "submits s (w, q) = Some (Settled (Inl e))" by (auto split: if_splits)
        with inv_rejected [OF assms(1)] h g show "gpu ?t q = Refused" by fastforce
      qed
      moreover have "ended ?t w q" if "ended s w q" for w q
        using that assms(2,3) by (auto simp: ended_def)
      moreover have "dead ?t q" if d: "dead s q" for q
      proof -
        from d g assms(2) have "q = ?p \<Longrightarrow> is_finished (r_pc r)" unfolding dead_def by force
        with assms(3) have "q \<noteq> ?p" by auto
        with d uniq show ?thesis by (auto simp: dead_def split: if_splits)
      qed
      ultimately have "inv ?t" using assms(1) by (simp add: inv_def tasks_inv_def)
      with Inr nk True show ?thesis by (simp add: built_def Let_def)
    qed
  qed
qed

lemma inv_submit_done:
  assumes "inv s" "runs s ow = Some r" "r_pc r = Submitting" "submits s (ow, r_prompt r) = Some (Settled out)"
  shows "inv (submit_done ow r out s)"
proof -
  let ?s = "pop_submit ow (r_prompt r) s"
  from inv_pop [OF assms(1)] have i: "inv ?s" .
  have rs: "runs ?s ow = Some r" using assms(2) by (simp add: pop_submit_def)
  from i rs assms(3) have x: "exiting ?s ow r" by (simp add: exiting_here)
  from inv_run [OF i rs] assms(3) have f: "r_submit_started r" "\<not> r_submitted r" and ok: "run_ok ?s ow r"
    by (auto simp: run_ok_def)
  show ?thesis
  proof (cases out)
    case (Inr a)
    have "run_ok ?s ow (r\<lparr>r_submitted := True, r_pc := Waiting\<rparr>)"
      using ok f assms(3) by (auto simp: run_ok_def flags_ok_def)
    then show ?thesis
      using inv_set_run [OF i rs, of "r\<lparr>r_submitted := True, r_pc := Waiting\<rparr>"] assms(3) Inr
      by (simp add: submit_done_def Let_def)
  next
    case (Inl e)
    show ?thesis
    proof (cases "bridge_status e = Some 502")
      case True
      with assms(4) Inl have "gpu s (r_prompt r) = Refused" using inv_rejected [OF assms(1)] by simp
      then have "\<not> may_run ?s (r_prompt r)" by (simp add: may_run_def pop_submit_def)
      with True Inl inv_run_handler [OF x] show ?thesis by (simp add: submit_done_def Let_def)
    next
      case False
      with Inl inv_run_handler [OF x, of SubmitUncertain] show ?thesis by (simp add: submit_done_def Let_def)
    qed
  qed
qed


lemma inv_start:
  assumes "inv s" "start_run ow p kind ups s = Inr s'" "fresh ow p s"
  shows "inv s'"
proof -
  let ?r = "initial_run p kind ups"
  from assms(2) obtain sl where sl: "acquire ow (slot s) = Inr sl"
    and s': "s' = set_run ow ?r (s\<lparr>slot := sl, used := p # used s\<rparr>)"
    by (auto simp: start_run_def)
  have r: "r_prompt ?r = p" "\<not> r_submit_started ?r" "\<not> r_submitted ?r" "\<not> r_terminal ?r" "r_pc ?r = Building"
    by (simp_all add: initial_run_def)
  from sl have free: "owner (slot s) = None" "\<not> unhealthy (slot s)"
    and own: "owner sl = Some ow" "\<not> unhealthy sl" "slot_ok sl"
    using assms(1) by (auto simp: acquire_def inv_def slot_ok_def split: if_splits)
  from assms(3) have new: "runs s ow = None" "p \<notin> set (used s)" by (simp_all add: fresh_def)
  have others: "r_prompt q \<noteq> p" "\<not> may_run s (r_prompt q)" "is_finished (r_pc q)" "run_ok s w q" "w \<noteq> ow"
    if "runs s w = Some q" for w q
    using inv_run [OF assms(1) that] new that free(1) by (auto simp: run_ok_def holds_slot_def)
  have idle: "gpu s p = Idle"
    using assms(1) others(1) unfolding inv_def runs_inv_def by blast
  have "run_ok s' w q" if "runs s' w = Some q" for w q
  proof (cases "w = ow")
    case True
    with that s' r idle own show ?thesis by (auto simp: run_ok_def flags_ok_def holds_slot_def)
  next
    case False
    with that s' have q: "runs s w = Some q" by simp
    from others [OF q] s' show ?thesis by (auto simp: run_ok_def flags_ok_def may_run_def)
  qed
  moreover have "w = w'" if "runs s' w = Some q" "runs s' w' = Some q'" "r_prompt q = r_prompt q'" for w w' q q'
    using that inv_unique [OF assms(1)] others(1) r(1) by (auto simp: s' split: if_splits)
  moreover have "\<exists>w q'. runs s' w = Some q' \<and> r_prompt q' = q" if "gpu s' q \<noteq> Idle" for q
  proof -
    from that have "gpu s q \<noteq> Idle" by (simp add: s')
    with assms(1) obtain w q' where q': "runs s w = Some q'" "r_prompt q' = q"
      unfolding inv_def runs_inv_def by blast
    with others(5) show ?thesis by (intro exI [of _ w]) (auto simp: s')
  qed
  ultimately have "runs_inv s'" unfolding runs_inv_def by blast
  moreover have "submits_inv s'"
    unfolding submits_inv_def
  proof (intro conjI allI impI)
    fix w q out assume "submits s' (w, q) = Some out"
    with assms(1) obtain r' where r': "runs s w = Some r'" "r_prompt r' = q" "r_submit_started r'"
      unfolding inv_def submits_inv_def by (auto simp: s')
    with others(5) show "\<exists>r'. runs s' w = Some r' \<and> r_prompt r' = q \<and> r_submit_started r'"
      by (auto simp: s')
  next
    fix w q e assume "submits s' (w, q) = Some (Settled (Inl e)) \<and> bridge_status e = Some 502"
    then show "gpu s' q = Refused" using inv_rejected [OF assms(1)] by (auto simp: s')
  qed
  moreover have "ended s' w q" if "ended s w q" for w q
    using that others(5) by (auto simp: ended_def s')
  moreover have "dead s' q" if d: "dead s q" for q
    using d new(2) by (auto simp: dead_def s' r(1) split: if_splits)
  ultimately show ?thesis using assms(1) own(3) by (simp add: inv_def tasks_inv_def s')
qed

lemma inv_publish:
  assumes "inv s" "runs s ow = Some r" "r_pc r = Building"
  shows "inv (set_run ow (r\<lparr>r_upload_ref := u\<rparr>) s)"
  using inv_run [OF assms(1,2)] assms(3)
  by (intro inv_set_run [OF assms(1,2)]) (auto simp: run_ok_def flags_ok_def)

text \<open>Moves that change only the backend's view of one prompt, or the submit table.\<close>

lemma inv_gpu:
  assumes "inv s" "may_run s p" "g \<noteq> Idle"
  shows "inv (s\<lparr>gpu := (gpu s)(p := g)\<rparr>)"
proof -
  let ?s = "s\<lparr>gpu := (gpu s)(p := g)\<rparr>"
  have ni: "gpu s p \<noteq> Idle" "gpu s p \<noteq> Ended" "gpu s p \<noteq> Refused"
    using assms(2) by (auto simp: may_run_def)
  have "dead ?s q" if "dead s q" for q using that ni by (auto simp: dead_def)
  moreover have "run_ok ?s w r" if "runs s w = Some r" for w r
    using inv_run [OF assms(1) that] assms(2,3) ni
    by (auto simp: run_ok_def flags_ok_def may_run_def)
  moreover have "submits_inv ?s"
    using assms(1) ni inv_rejected [OF assms(1)] by (auto simp: inv_def submits_inv_def)
  ultimately show ?thesis
    using assms(1) ni(1) by (auto simp: inv_def runs_inv_def tasks_inv_def ended_def)
qed

lemma outcome_502:
  "submit_outcome p r = Inl e \<Longrightarrow> bridge_status e = Some 502 \<Longrightarrow> proven_rejection r"
  by (auto simp: submit_outcome_def classify_submit_def proven_rejection_def not_running_def
      bridge_status_def backend_unavailable_def mk_error_def unavailable_default_def
      split: submit_end.splits reply.splits if_splits option.splits pyval.splits)

lemma inv_settle:
  assumes "inv s" "submits s (ow, p) = Some x" "\<And>e. out = Inl e \<Longrightarrow> bridge_status e = Some 502 \<Longrightarrow> gpu s p = Refused"
  shows "inv (s\<lparr>submits := (submits s)((ow, p) := Some (Settled out))\<rparr>)"
proof -
  let ?s = "s\<lparr>submits := (submits s)((ow, p) := Some (Settled out))\<rparr>"
  have "submits_inv ?s"
    unfolding submits_inv_def
  proof (intro conjI allI impI)
    fix w q y assume "submits ?s (w, q) = Some y"
    then have "\<exists>y. submits s (w, q) = Some y" using assms(2) by (auto split: if_splits)
    then show "\<exists>r. runs ?s w = Some r \<and> r_prompt r = q \<and> r_submit_started r"
      using assms(1) unfolding inv_def submits_inv_def by auto
  next
    fix w q e assume "submits ?s (w, q) = Some (Settled (Inl e)) \<and> bridge_status e = Some 502"
    then show "gpu ?s q = Refused" using inv_rejected [OF assms(1)] assms(3) by (auto split: if_splits)
  qed
  then show ?thesis
    using assms(1)
    by (auto simp: inv_def runs_inv_def tasks_inv_def ended_def dead_def run_ok_def flags_ok_def may_run_def)
qed

lemma inv_submit_ends:
  assumes "inv s" "submits s (ow, p) = Some InFlight" "truthful s (SubmitEnds ow p e)"
  shows "inv (s\<lparr>submits := (submits s)((ow, p) := Some (Settled (submit_outcome p e))),
    gpu := (if proven_rejection e then (gpu s)(p := Refused) else gpu s)\<rparr>)"
proof (cases "proven_rejection e")
  case True
  with assms(3) have "may_run s p" by (simp add: may_run_def)
  from inv_gpu [OF assms(1) this, of Refused] have "inv (s\<lparr>gpu := (gpu s)(p := Refused)\<rparr>)" by simp
  from inv_settle [OF this, of ow p InFlight "submit_outcome p e"] assms(2)
  have "inv (s\<lparr>gpu := (gpu s)(p := Refused), submits := (submits s)((ow, p) := Some (Settled (submit_outcome p e)))\<rparr>)"
    by simp
  moreover have "s\<lparr>submits := f, gpu := g\<rparr> = s\<lparr>gpu := g, submits := f\<rparr>" for f g by simp
  ultimately show ?thesis using True by (simp only: if_True)
next
  case False
  with inv_settle [OF assms(1,2), of "submit_outcome p e"] outcome_502 show ?thesis by fastforce
qed

section \<open>Reapers\<close>

lemma set_take_drop: "set (take i xs @ drop j xs) \<subseteq> set xs"
  using set_take_subset set_drop_subset by fastforce

lemma inv_fewer_reaps: "inv s \<Longrightarrow> set xs \<subseteq> set (reaps s) \<Longrightarrow> inv (s\<lparr>reaps := xs\<rparr>)"
  by (auto simp: inv_def slot_ok_def runs_inv_def run_ok_def may_run_def flags_ok_def
      submits_inv_def tasks_inv_def dead_def ended_def)

lemma inv_put_reaper:
  assumes "inv s" "\<And>t. x = Some t \<Longrightarrow> ended s (p_owner t) (p_prompt t)"
  shows "inv (put_reaper i (x, s))"
proof (cases x)
  case None
  with inv_fewer_reaps [OF assms(1) set_take_drop] show ?thesis by (simp add: put_reaper_def)
next
  case (Some t)
  have "ended (s\<lparr>reaps := (reaps s)[i := t]\<rparr>) (p_owner u) (p_prompt u)" if "u \<in> set ((reaps s)[i := t])" for u
  proof -
    from that have "u = t \<or> u \<in> set (reaps s)" using set_update_subset_insert by fastforce
    then have "ended s (p_owner u) (p_prompt u)"
      using assms Some by (auto simp: inv_def tasks_inv_def)
    then show ?thesis by (simp add: ended_def)
  qed
  with assms(1) have "inv (s\<lparr>reaps := (reaps s)[i := t]\<rparr>)"
    by (auto simp: inv_def runs_inv_def run_ok_def may_run_def flags_ok_def
      submits_inv_def tasks_inv_def dead_def)
  with Some show ?thesis by (simp add: put_reaper_def)
qed

lemma on_slot_simps [simp]:
  "ended (on_slot f s) w q = ended s w q" "gpu (on_slot f s) = gpu s" "may_run (on_slot f s) q = may_run s q"
  "dead (on_slot f s) q = dead s q"
  by (simp_all add: on_slot_def ended_def may_run_def dead_def)

lemma pop_simps [simp]:
  "ended (pop_submit ow p s) w q = ended s w q" "gpu (pop_submit ow p s) = gpu s"
  "dead (pop_submit ow p s) q = dead s q"
  by (simp_all add: pop_submit_def ended_def may_run_def dead_def)

lemma inv_reaper_step:
  assumes "inv s" "t \<in> set (reaps s)" "reaper_step t res s = Some (x, s')" "terminal_reply_ok s (p_prompt t) res"
  shows "inv s' \<and> (\<forall>u. x = Some u \<longrightarrow> ended s' (p_owner u) (p_prompt u))"
proof -
  from assms(1,2) have e: "ended s (p_owner t) (p_prompt t)" by (simp add: inv_def tasks_inv_def)
  have b: "p_owner (reap_begin t u) = p_owner t" "p_prompt (reap_begin t u) = p_prompt t" for u
    by (simp_all add: reap_begin_def)
  have ret: "inv (on_slot (retain_busy (p_owner t) w) u)"
    if "inv u" "ended u (p_owner t) (p_prompt t)" for w u
    using inv_retain [OF that] .
  have free: "inv (on_slot (release_terminal (p_owner t)) (cleanup_after_fetch (p_prompt t) i (p_upload_names t) u))"
    if "inv u" "ended u (p_owner t) (p_prompt t)" "gpu u (p_prompt t) \<in> {Ended, Refused}" for i u
    using that by (intro inv_release_terminal [where p = "p_prompt t"] inv_cleanup)
      (auto simp: dead_def may_run_def)
  show ?thesis
  proof (cases "p_stage t")
    case (Reaping d)
    with assms(3) have p: "reap_polled d t res s = (x, s')" by (simp add: reaper_step_def)
    show ?thesis
    proof (cases "reap_decide d (clock s) res")
      case (ReapEntry en)
      then have "terminal_entry res = Inr (Some en)"
        by (auto simp: reap_decide_def split: sum.splits option.splits if_splits)
      with assms(4) have "gpu s (p_prompt t) = Ended" by (simp add: terminal_reply_ok_def)
      with p ReapEntry free [OF assms(1) e] show ?thesis by (auto simp: reap_polled_def)
    qed (use p e assms(1) ret [OF assms(1) e] in \<open>auto simp: reap_polled_def\<close>)
  next
    case AfterSubmit
    show ?thesis
    proof (cases "submits s (p_owner t, p_prompt t)")
      case None
      with AfterSubmit assms(3) ret [OF assms(1) e] e show ?thesis
        by (auto simp: reaper_step_def after_submit_missing_def b)
    next
      case (Some y)
      with AfterSubmit assms(3) obtain out where out: "y = Settled out"
        by (auto simp: reaper_step_def split: submit_task.splits)
      let ?s = "pop_submit (p_owner t) (p_prompt t) s"
      have i: "inv ?s" "ended ?s (p_owner t) (p_prompt t)" using inv_pop [OF assms(1)] e by auto
      have g: "gpu s (p_prompt t) = Refused" if "out = Inl ex" "bridge_status ex = Some 502" for ex
        using inv_rejected [OF assms(1)] Some out that by blast
      have r: "after_submit t out s = (x, s')" using AfterSubmit Some out assms(3)
        by (simp add: reaper_step_def)
      show ?thesis
      proof (cases "case out of Inl e \<Rightarrow> bridge_status e = Some 502 | Inr _ \<Rightarrow> False")
        case True
        with g have "gpu ?s (p_prompt t) = Refused" by (auto split: sum.splits)
        with r True free [OF i, of None] show ?thesis by (auto simp: after_submit_def Let_def)
      next
        case False
        with r ret [OF i] e show ?thesis by (auto simp: after_submit_def Let_def b)
      qed
    qed
  qed (use assms(1,3) e in \<open>auto simp: reaper_step_def b\<close>)
qed

lemma inv_cleanup_step:
  assumes "inv s" "k \<in> set (cleanups s)" "set ks \<subseteq> set (cleanups s)"
  shows "inv (s\<lparr>cleanups := ks, removed := removed s @ map (Pair (k_prompt k)) refs\<rparr>)"
  using assms
  by (auto simp: inv_def runs_inv_def run_ok_def may_run_def flags_ok_def submits_inv_def tasks_inv_def
      dead_def ended_def)

lemma inv_tick: "inv s \<Longrightarrow> inv (s\<lparr>clock := c\<rparr>)"
  by (auto simp: inv_def runs_inv_def run_ok_def may_run_def flags_ok_def
      submits_inv_def tasks_inv_def dead_def ended_def)

lemma inv_initial: "inv initial_runner"
  by (simp add: inv_defs initial_runner_def free_slot_def slot_ok_def)

lemma when_at_Some: "when_at ow l f s = Some s' \<longleftrightarrow> (\<exists>r. runs s ow = Some r \<and> r_pc r = l \<and> s' = f r)"
  by (auto simp: when_at_def split: option.splits)

lemma inv_step:
  assumes "inv s" "truthful s ev" "step s ev = Some s'"
  shows "inv s'"
proof (cases ev)
  case (Start ow p kind ups)
  with assms inv_start [OF assms(1)] show ?thesis by (auto split: sum.splits)
next
  case (Publish ow u)
  with assms inv_publish [OF assms(1)] show ?thesis by (auto simp: when_at_Some)
next
  case (Built ow res)
  with assms inv_built show ?thesis by (auto simp: when_at_Some)
next
  case (SubmitEnds ow p e)
  with assms(3) have "submits s (ow, p) = Some InFlight" by (auto split: if_splits)
  with SubmitEnds assms inv_submit_ends show ?thesis by auto
next
  case (SubmitDone ow)
  with assms inv_submit_done show ?thesis
    by (auto simp: when_at_Some split: option.splits submit_task.splits)
next
  case (Waited ow res)
  with assms inv_waited [OF assms(1)] show ?thesis by (auto simp: when_at_Some)
next
  case (Fetched ow res)
  with assms inv_fetched [OF assms(1)] show ?thesis by (auto simp: when_at_Some)
next
  case (Converted ow res)
  with assms inv_converted show ?thesis by (auto simp: when_at_Some)
next
  case (CancelReplied ow res)
  with assms inv_timeout_cancelled show ?thesis by (auto simp: when_at_Some)
next
  case (HistoryReplied ow res)
  with assms inv_timeout_history [OF assms(1)] show ?thesis by (auto simp: when_at_Some)
next
  case (Disconnect ow)
  with assms(3) obtain r where r: "runs s ow = Some r" "\<not> is_finished (r_pc r)"
    and s': "s' = run_handler ow r AsyncCancelled s"
    by (auto split: option.splits if_splits)
  from inv_run_cancelled [OF exiting_here [OF assms(1) r]] s' show ?thesis by (simp add: run_handler_def)
next
  case (ReapStep i res)
  with assms(3) obtain x s1 where i: "i < length (reaps s)"
    and x: "reaper_step (reaps s ! i) res s = Some (x, s1)" and s': "s' = put_reaper i (x, s1)"
    by (auto split: if_splits)
  from ReapStep assms(2) i have "terminal_reply_ok s (p_prompt (reaps s ! i)) res" by simp
  from inv_reaper_step [OF assms(1) nth_mem [OF i] x this] s' show ?thesis
    by (auto intro: inv_put_reaper)
next
  case (CleanupStep i en)
  with assms(3) have "i < length (cleanups s)" by (auto split: if_splits)
  with CleanupStep assms inv_cleanup_step [OF assms(1) nth_mem set_take_drop] show ?thesis
    by (auto simp: Let_def)
next
  case (Tick d)
  with assms inv_tick show ?thesis by (auto split: if_splits)
next
  case (Accepts p)
  with assms inv_gpu [OF assms(1), of p Active] show ?thesis by (auto simp: may_run_def split: if_splits)
next
  case (Ends p)
  with assms inv_gpu [OF assms(1), of p Ended] show ?thesis by (auto simp: may_run_def split: if_splits)
qed

lemma reaches_inv: "reaches ok s \<Longrightarrow> inv s"
  by (induction rule: reaches.induct) (auto intro: inv_initial inv_step)

section \<open>No slot is lost\<close>

text \<open>
  What a well-behaved backend never makes the polling code do: raise anything but the
  exceptions its handlers name.
\<close>

fun orderly :: "event \<Rightarrow> bool" where
  "orderly (Waited ow res) =
     (case res of Inl e \<Rightarrow> e \<in> {ComfyTimeout, ComfyJobFailed, ComfyPollError, ComfyCancelled} | Inr _ \<Rightarrow> True)"
| "orderly (HistoryReplied ow res) = (case terminal_entry res of Inl _ \<Rightarrow> False | Inr _ \<Rightarrow> True)"
| "orderly (ReapStep i res) = (case terminal_entry res of Inl _ \<Rightarrow> False | Inr _ \<Rightarrow> True)"
| "orderly _ = True"

text \<open>Somebody is still going to decide about the slot of this owner.\<close>

definition live :: "runner \<Rightarrow> string \<Rightarrow> bool" where
  "live s ow =
     ((\<exists>r. runs s ow = Some r \<and> \<not> is_finished (r_pc r)) \<or> (\<exists>t\<in>set (reaps s). p_owner t = ow))"

definition watched :: "runner \<Rightarrow> bool" where
  "watched s = (\<forall>ow. owner (slot s) = Some ow \<longrightarrow> unhealthy (slot s) \<or> live s ow)"

lemma watched_owner:
  "owner (slot s) = None \<or> owner (slot s) = Some ow \<and> (unhealthy (slot s) \<or> live s ow) \<Longrightarrow> watched s"
  by (auto simp: watched_def)

lemma live_set_run: "\<not> is_finished (r_pc r) \<Longrightarrow> live (set_run ow r s) ow"
  by (simp add: live_def)

lemma live_schedule [simp]: "live (schedule_reap st ow r s) ow"
  by (simp add: live_def schedule_reap_def)

lemma live_schedule_finish [simp]: "live (finish ow r x (schedule_reap st ow r' s)) ow"
  by (simp add: live_def schedule_reap_def finish_def)

lemma slot_simps [simp]:
  "slot (schedule_reap st ow r s) = slot s" "slot (pop_submit ow p s) = slot s"
  "slot (on_slot f s) = f (slot s)"
  by (simp_all add: schedule_reap_def pop_submit_def on_slot_def)

lemma release_owner [simp]:
  "owner sl = Some ow \<Longrightarrow> owner (release ow sl) = None"
  "owner sl = Some ow \<Longrightarrow> owner (release_terminal ow sl) = None"
  by (simp_all add: release_def release_terminal_def Let_def)

lemma retain_owner [simp]: "owner sl = Some ow \<Longrightarrow> unhealthy (retain_busy ow why sl)"
  by (simp add: retain_busy_def)

lemma watched_cancelled: "owner (slot s) = Some ow \<Longrightarrow> watched (run_cancelled ow r s)"
  by (rule watched_owner [of _ ow]) (simp add: run_cancelled_def Let_def)

lemma watched_uncertain: "owner (slot s) = Some ow \<Longrightarrow> watched (run_uncertain ow r s)"
  by (rule watched_owner [of _ ow]) (simp add: run_uncertain_def Let_def)

lemma watched_raised:
  "owner (slot s) = Some ow \<Longrightarrow> (r_submitted r \<Longrightarrow> \<not> r_terminal r \<Longrightarrow> unhealthy (slot s)) \<Longrightarrow>
   watched (run_raised ow r e s)"
  by (rule watched_owner [of _ ow]) (auto simp: run_raised_def Let_def)

lemma watched_handler:
  "owner (slot s) = Some ow \<Longrightarrow> (r_submitted r \<Longrightarrow> \<not> r_terminal r \<Longrightarrow> unhealthy (slot s)) \<Longrightarrow>
   watched (run_handler ow r e s)"
  by (simp add: run_handler_def watched_cancelled watched_uncertain watched_raised)

lemma watched_set_run:
  "owner (slot s) = Some ow \<Longrightarrow> \<not> is_finished (r_pc r) \<Longrightarrow> watched (set_run ow r s)"
  by (rule watched_owner [of _ ow]) (simp add: live_set_run)

lemma watched_give_up:
  "owner (slot s) = Some ow \<Longrightarrow>
   watched (run_handler ow r e (schedule_reap st ow r' (on_slot (retain_busy ow why) s)))"
  by (rule watched_handler) simp_all

lemma watched_released:
  "owner (slot s) = Some ow \<Longrightarrow> e \<noteq> AsyncCancelled \<Longrightarrow> e \<noteq> SubmitUncertain \<Longrightarrow>
   watched (run_handler ow r e (on_slot (release_terminal ow) (cleanup_after_fetch p i u s)))"
  by (rule watched_owner [of _ ow])
    (simp add: run_handler_def run_raised_def Let_def release_def)

lemma watched_inner:
  assumes "owner (slot s) = Some ow" "e \<in> {ComfyTimeout, ComfyJobFailed, ComfyPollError, ComfyCancelled}"
  shows "watched (inner_handler ow r e s)"
  using assms
  by (auto simp: inner_handler_def intro!: watched_set_run watched_give_up watched_handler)

lemma watched_deliver:
  "owner (slot s) = Some ow \<Longrightarrow> r_terminal r \<Longrightarrow> watched (deliver ow r d s)"
  using watched_handler [of s ow r]
  by (cases "final_checks (r_kind r) (r_out_kind r) (r_output_item r) d")
    (auto simp: deliver_def intro: watched_owner [of _ ow])

lemma watched_run:
  assumes i: "inv s" and r: "runs s ow = Some r"
  shows "r_pc r = Building \<Longrightarrow> watched (built ow r bres s)"
    and "r_pc r = Submitting \<Longrightarrow> watched (submit_done ow r out s)"
    and "r_pc r = Waiting \<Longrightarrow> orderly (Waited ow wres) \<Longrightarrow> watched (waited ow r wres s)"
    and "r_pc r = Fetching \<Longrightarrow> truthful s (Fetched ow fres) \<Longrightarrow> watched (fetched ow r fres s)"
    and "r_pc r = Converting \<Longrightarrow> watched (converted ow r fres s)"
    and "r_pc r = TimeoutCancel \<Longrightarrow> watched (timeout_cancelled ow r cres s)"
    and "r_pc r = TimeoutHistory \<Longrightarrow> orderly (HistoryReplied ow hres) \<Longrightarrow> watched (timeout_history ow r hres s)"
proof -
  have own: "owner (slot s) = Some ow" if "\<not> is_finished (r_pc r)"
    using exiting_slot [OF exiting_here [OF i r that]] by simp
  note ok = inv_run [OF i r]
  { assume p: "r_pc r = Building"
    with own have o: "owner (slot s) = Some ow" by simp
    from p ok have f: "\<not> r_submitted r" by (auto simp: run_ok_def flags_ok_def)
    show "watched (built ow r bres s)"
      using o f by (auto simp: built_def Let_def intro!: watched_handler watched_set_run split: sum.split prod.split) }
  { assume p: "r_pc r = Submitting"
    with own have o: "owner (slot s) = Some ow" by simp
    from p ok have f: "\<not> r_submitted r" by (auto simp: run_ok_def)
    show "watched (submit_done ow r out s)"
      using o f by (auto simp: submit_done_def Let_def intro!: watched_handler watched_set_run split: sum.split) }
  { assume p: "r_pc r = Waiting" and oo: "orderly (Waited ow wres)"
    with own have o: "owner (slot s) = Some ow" by simp
    show "watched (waited ow r wres s)"
      using o oo by (auto simp: waited_def inner_handler_bridge Let_def split: sum.split option.split
          intro!: watched_handler watched_set_run watched_inner) }
  { assume p: "r_pc r = Fetching" and t: "truthful s (Fetched ow fres)"
    with own have o: "owner (slot s) = Some ow" by simp
    from p ok have f: "r_terminal r" by (auto simp: run_ok_def)
    show "watched (fetched ow r fres s)"
      using o f t by (auto simp: fetched_def inner_handler_bridge split: sum.split option.split bool.split
          intro!: watched_handler watched_set_run watched_deliver) }
  { assume p: "r_pc r = Converting"
    with own have o: "owner (slot s) = Some ow" by simp
    from p ok have f: "r_terminal r" by (auto simp: run_ok_def)
    show "watched (converted ow r fres s)"
      using o f by (auto simp: converted_def split: sum.split intro!: watched_handler watched_deliver) }
  { assume p: "r_pc r = TimeoutCancel"
    with own have o: "owner (slot s) = Some ow" by simp
    show "watched (timeout_cancelled ow r cres s)"
      using o by (auto simp: timeout_cancelled_def timeout_unresolved_def run_handler_def [of _ _ AsyncCancelled]
          split: sum.split bool.split intro!: watched_set_run watched_give_up watched_cancelled) }
  { assume p: "r_pc r = TimeoutHistory" and oo: "orderly (HistoryReplied ow hres)"
    with own have o: "owner (slot s) = Some ow" by simp
    show "watched (timeout_history ow r hres s)"
      using o oo by (auto simp: timeout_history_def timeout_unresolved_def
          split: sum.split sum.splits option.split intro!: watched_give_up watched_released) }
qed


lemma watched_same:
  "watched s \<Longrightarrow> slot s' = slot s \<Longrightarrow> runs s' = runs s \<Longrightarrow> reaps s' = reaps s \<Longrightarrow> watched s'"
  by (simp add: watched_def live_def)

lemma live_other_reaper:
  assumes "live s w" "i < length (reaps s)" "p_owner (reaps s ! i) \<noteq> w"
    and "runs s' = runs s" "set (take i (reaps s)) \<union> set (drop (Suc i) (reaps s)) \<subseteq> set (reaps s')"
  shows "live s' w"
proof -
  have "set (reaps s) = insert (reaps s ! i) (set (take i (reaps s)) \<union> set (drop (Suc i) (reaps s)))"
    using id_take_nth_drop [OF assms(2)] by (metis list.simps(15) set_append Un_insert_right)
  with assms show ?thesis unfolding live_def by auto
qed

lemma watched_put:
  assumes w: "watched s" and i: "i < length (reaps s)" and same: "runs s1 = runs s" "reaps s1 = reaps s"
    and keep: "owner (slot s) \<noteq> Some (p_owner (reaps s ! i)) \<Longrightarrow> slot s1 = slot s"
    and own: "owner (slot s1) = Some (p_owner (reaps s ! i)) \<Longrightarrow> unhealthy (slot s1) \<or> x \<noteq> None"
    and freed: "owner (slot s) = Some (p_owner (reaps s ! i)) \<Longrightarrow>
      owner (slot s1) = None \<or> owner (slot s1) = Some (p_owner (reaps s ! i))"
    and x: "\<And>t. x = Some t \<Longrightarrow> p_owner t = p_owner (reaps s ! i)"
  shows "watched (put_reaper i (x, s1))"
  unfolding watched_def
proof (intro allI impI)
  fix w assume o: "owner (slot (put_reaper i (x, s1))) = Some w"
  have sl: "slot (put_reaper i (x, s1)) = slot s1" by (simp add: put_reaper_def split: option.splits)
  have rs: "runs (put_reaper i (x, s1)) = runs s" by (simp add: put_reaper_def same split: option.splits)
  let ?r = "put_reaper i (x, s1)"
  show "unhealthy (slot ?r) \<or> live ?r w"
  proof (cases "w = p_owner (reaps s ! i)")
    case True
    with own o sl have "unhealthy (slot s1) \<or> x \<noteq> None" by simp
    moreover have "live ?r w" if "x = Some t" for t
      using that i x [OF that] True same set_update_memI [of i "reaps s" t]
      by (auto simp: live_def put_reaper_def)
    ultimately show ?thesis using sl by auto
  next
    case False
    have "owner (slot s) \<noteq> Some (p_owner (reaps s ! i))" using freed o sl False by auto
    with keep o sl w have "unhealthy (slot s1) \<or> live s w" by (auto simp: watched_def)
    moreover have "live ?r w" if "live s w"
    proof (rule live_other_reaper [OF that i])
      show "set (take i (reaps s)) \<union> set (drop (Suc i) (reaps s)) \<subseteq> set (reaps ?r)"
        using i by (auto simp: put_reaper_def same upd_conv_take_nth_drop split: option.splits)
    qed (use False rs in auto)
    ultimately show ?thesis using sl by auto
  qed
qed

lemma reaper_step_frame:
  assumes "reaper_step t res s = Some (x, s1)" "orderly (ReapStep i res)"
  shows "runs s1 = runs s \<and> reaps s1 = reaps s
    \<and> (owner (slot s) \<noteq> Some (p_owner t) \<longrightarrow> slot s1 = slot s)
    \<and> (owner (slot s1) = Some (p_owner t) \<longrightarrow> unhealthy (slot s1) \<or> x \<noteq> None)
    \<and> (owner (slot s) = Some (p_owner t) \<longrightarrow> owner (slot s1) = None \<or> owner (slot s1) = Some (p_owner t))
    \<and> (\<forall>u. x = Some u \<longrightarrow> p_owner u = p_owner t)"
  using assms
  by (auto simp: reaper_step_def after_submit_missing_def after_submit_def reap_polled_def reap_decide_def
      reap_begin_def Let_def on_slot_def pop_submit_def cleanup_after_fetch_def retain_busy_def
      release_terminal_def
      split: reap_stage.splits option.splits submit_task.splits sum.splits if_splits reap_verdict.splits)

lemma watched_step:
  assumes "inv s" "watched s" "orderly ev" "truthful s ev" "step s ev = Some s'"
  shows "watched s'"
proof (cases ev)
  case (Start ow p kind ups)
  show ?thesis
  proof (cases "start_run ow p kind ups s")
    case (Inl e)
    with Start assms show ?thesis by simp
  next
    case (Inr t)
    then obtain sl where "acquire ow (slot s) = Inr sl"
      "t = set_run ow (initial_run p kind ups) (s\<lparr>slot := sl, used := p # used s\<rparr>)"
      by (auto simp: start_run_def)
    then have "watched t"
      by (auto simp: acquire_def initial_run_def intro!: watched_set_run split: if_splits)
    with Inr Start assms show ?thesis by simp
  qed
next
  case (Publish ow u)
  with assms(5) obtain r where r: "runs s ow = Some r" "r_pc r = Building"
    "s' = set_run ow (r\<lparr>r_upload_ref := r_upload_ref r @ [u]\<rparr>) s"
    by (auto simp: when_at_Some)
  then show ?thesis using exiting_slot [OF exiting_here [OF assms(1) r(1)]] by (auto intro!: watched_set_run)
next
  case (Disconnect ow)
  with assms(5) obtain r where r: "runs s ow = Some r" "\<not> is_finished (r_pc r)"
    and s': "s' = run_handler ow r AsyncCancelled s"
    by (auto split: option.splits if_splits)
  with exiting_slot [OF exiting_here [OF assms(1) r]] show ?thesis
    by (simp add: run_handler_def watched_cancelled)
next
  case (ReapStep i res)
  with assms(5) obtain x s1 where i: "i < length (reaps s)"
    and x: "reaper_step (reaps s ! i) res s = Some (x, s1)" and s': "s' = put_reaper i (x, s1)"
    by (auto split: if_splits)
  from ReapStep assms(3) have "orderly (ReapStep i res)" by simp
  from reaper_step_frame [OF x this] watched_put [OF assms(2) i] show ?thesis unfolding s' by blast
next
  case (SubmitDone ow)
  with assms watched_run(2) show ?thesis
    by (auto simp: when_at_Some split: option.splits submit_task.splits)
qed (use assms watched_run [OF assms(1)] in
  \<open>auto simp: when_at_Some Let_def intro: watched_same split: if_splits\<close>)

lemma reaches_watched: "reaches orderly s \<Longrightarrow> watched s"
proof (induction rule: reaches.induct)
  case reaches_init
  show ?case by (simp add: watched_def initial_runner_def free_slot_def)
next
  case (reaches_step s ev s')
  then show ?case using watched_step reaches_inv by blast
qed

section \<open>What a finished run returned\<close>

definition result_ok :: "run \<Rightarrow> bool" where
  "result_ok r =
     (\<forall>x. r_pc r = Finished (Inr x) \<longrightarrow>
        r_terminal r \<and> final_checks (r_kind r) (r_out_kind r) (r_output_item r) (fst x) = Inr x)"

definition results_inv :: "runner \<Rightarrow> bool" where
  "results_inv s = (\<forall>ow r. runs s ow = Some r \<longrightarrow> result_ok r)"

definition sets_run :: "string \<Rightarrow> runner \<Rightarrow> runner \<Rightarrow> bool" where
  "sets_run ow s s' = (\<exists>r. runs s' = (runs s)(ow := Some r) \<and> result_ok r)"

lemma results_sets_run: "results_inv s \<Longrightarrow> sets_run ow s s' \<Longrightarrow> results_inv s'"
  by (auto simp: results_inv_def sets_run_def split: if_splits)

lemma runs_simps [simp]:
  "runs (on_slot f s) = runs s" "runs (schedule_reap st ow r s) = runs s"
  "runs (cleanup_after_fetch p i u s) = runs s" "runs (pop_submit ow p s) = runs s"
  by (simp_all add: on_slot_def schedule_reap_def cleanup_after_fetch_def pop_submit_def)

lemma result_ok_simps [simp]:
  "result_ok (r\<lparr>r_pc := Finished (Inl e)\<rparr>)" "\<not> is_finished (r_pc r) \<Longrightarrow> result_ok r"
  by (auto simp: result_ok_def)

lemma sets_finish: "runs s1 = runs s \<Longrightarrow> sets_run ow s (finish ow r (Inl e) s1)"
  by (auto simp: sets_run_def finish_def)

lemma sets_set_run: "runs s1 = runs s \<Longrightarrow> \<not> is_finished (r_pc r) \<Longrightarrow> sets_run ow s (set_run ow r s1)"
  by (auto simp: sets_run_def)

lemma sets_handler: "runs s1 = runs s \<Longrightarrow> sets_run ow s (run_handler ow r e s1)"
  by (auto simp: run_handler_def run_cancelled_def run_uncertain_def run_raised_def Let_def intro!: sets_finish)

lemma sets_inner: "sets_run ow s (inner_handler ow r e s)"
  by (cases e) (auto simp: inner_handler_def intro!: sets_handler sets_set_run)

lemma final_checks_data: "final_checks k ok item d = Inr x \<Longrightarrow> fst x = d"
  by (auto simp: final_checks_def)

lemma sets_deliver: "r_terminal r \<Longrightarrow> sets_run ow s (deliver ow r d s)"
proof (cases "final_checks (r_kind r) (r_out_kind r) (r_output_item r) d")
  case (Inr x)
  moreover assume "r_terminal r"
  ultimately show ?thesis
    using final_checks_data [OF Inr]
    by (auto simp: deliver_def sets_run_def finish_def result_ok_def)
qed (auto simp: deliver_def intro!: sets_handler)

lemmas sets_intros = sets_handler sets_inner sets_set_run sets_deliver

lemma runs_put_reaper: "runs (put_reaper i (x, s)) = runs s"
  by (simp add: put_reaper_def split: option.split)

lemma runs_reap_polled: "runs (snd (reap_polled d t res s)) = runs s"
  by (simp add: reap_polled_def split: reap_verdict.split)

lemma runs_after_submit: "runs (snd (after_submit t out s)) = runs s"
  by (simp add: after_submit_def Let_def)

lemma runs_reaper_step: "reaper_step t res s = Some (x, s1) \<Longrightarrow> runs s1 = runs s"
  using runs_reap_polled [of _ t res s] runs_after_submit [of t _ s]
  by (auto simp: reaper_step_def after_submit_missing_def split: reap_stage.splits option.splits submit_task.splits)
    (metis snd_conv)+

lemma results_step:
  assumes "inv s" "results_inv s" "step s ev = Some s'"
  shows "results_inv s'"
proof -
  have same: "results_inv s'" if "runs s' = runs s" using assms(2) that by (simp add: results_inv_def)
  have t: "r_terminal r" if "runs s ow = Some r" "r_pc r = Fetching \<or> r_pc r = Converting" for ow r
    using inv_run [OF assms(1) that(1)] that(2) by (auto simp: run_ok_def)
  note set = results_sets_run [OF assms(2)]
  show ?thesis
  proof (cases ev)
    case (Start ow p kind ups)
    show ?thesis
    proof (cases "start_run ow p kind ups s")
      case (Inl e)
      with Start assms show ?thesis by simp
    next
      case (Inr x)
      then obtain sl where x: "x = set_run ow (initial_run p kind ups) (s\<lparr>slot := sl, used := p # used s\<rparr>)"
        by (auto simp: start_run_def)
      have "\<not> is_finished (r_pc (initial_run p kind ups))" by (simp add: initial_run_def)
      then have "sets_run ow s x" unfolding x by (intro sets_set_run) simp_all
      with Inr Start assms(3) have "sets_run ow s s'" by simp
      then show ?thesis by (rule set)
    qed
  next
    case (Publish ow u)
    with assms(3) have "sets_run ow s s'" by (auto simp: when_at_Some intro!: sets_intros)
    then show ?thesis by (rule set)
  next
    case (Built ow res)
    with assms(3) have "sets_run ow s s'"
      by (auto simp: when_at_Some built_def Let_def intro!: sets_intros split: sum.split)
    then show ?thesis by (rule set)
  next
    case (SubmitDone ow)
    with assms(3) have "sets_run ow s s'"
      by (auto simp: when_at_Some submit_done_def Let_def intro!: sets_intros
          split: sum.split option.splits submit_task.splits)
    then show ?thesis by (rule set)
  next
    case (Waited ow res)
    with assms(3) have "sets_run ow s s'"
      by (auto simp: when_at_Some waited_def Let_def intro!: sets_intros split: sum.split option.split)
    then show ?thesis by (rule set)
  next
    case (Fetched ow res)
    with assms(3) t have "sets_run ow s s'"
      by (auto simp: when_at_Some fetched_def intro!: sets_intros split: sum.split option.split bool.split)
    then show ?thesis by (rule set)
  next
    case (Converted ow res)
    with assms(3) t have "sets_run ow s s'"
      by (auto simp: when_at_Some converted_def intro!: sets_intros split: sum.split)
    then show ?thesis by (rule set)
  next
    case (CancelReplied ow res)
    with assms(3) have "sets_run ow s s'"
      by (auto simp: when_at_Some timeout_cancelled_def timeout_unresolved_def intro!: sets_intros
          split: sum.split bool.split)
    then show ?thesis by (rule set)
  next
    case (HistoryReplied ow res)
    with assms(3) have "sets_run ow s s'"
      by (auto simp: when_at_Some timeout_history_def timeout_unresolved_def intro!: sets_intros
          split: sum.split option.split)
    then show ?thesis by (rule set)
  next
    case (Disconnect ow)
    with assms(3) have "sets_run ow s s'" by (auto intro!: sets_intros split: option.splits if_splits)
    then show ?thesis by (rule set)
  next
    case (ReapStep i res)
    with assms(3) obtain x s1 where "reaper_step (reaps s ! i) res s = Some (x, s1)" "s' = put_reaper i (x, s1)"
      by (auto split: if_splits)
    then have "runs s' = runs s" by (simp add: runs_put_reaper runs_reaper_step)
    then show ?thesis by (rule same)
  qed (use assms(2,3) in \<open>auto simp: Let_def results_inv_def split: if_splits\<close>)
qed

lemma reaches_results: "reaches ok s \<Longrightarrow> results_inv s"
proof (induction rule: reaches.induct)
  case reaches_init
  show ?case by (simp add: results_inv_def initial_runner_def)
next
  case (reaches_step s ev s')
  then show ?case using results_step reaches_inv by blast
qed


section \<open>Properties\<close>

text \<open>C1. One GPU job at a time: in every reachable state a prompt that was sent and is not known
  to have ended or to have been refused is the only one, the slot is held for exactly its run,
  and every admission is refused; nothing is assumed of the order in which builds, submissions,
  polls, disconnects, timeouts, reapers and ComfyUI take their steps.\<close>

theorem single_flight:
  assumes "reaches any_event s" and "may_run s p"
  shows "(\<exists>ow r. owner (slot s) = Some ow \<and> runs s ow = Some r \<and> r_prompt r = p)
    \<and> (\<forall>q. may_run s q \<longrightarrow> q = p)
    \<and> (\<forall>ow. \<exists>e. acquire ow (slot s) = Inl e \<and> bridge_status e \<in> {Some 429, Some 503})"
proof -
  from assms(1) have i: "inv s" by (rule reaches_inv)
  have holder: "\<exists>ow r. owner (slot s) = Some ow \<and> runs s ow = Some r \<and> r_prompt r = q" if "may_run s q" for q
  proof -
    from that have "gpu s q \<noteq> Idle" by (auto simp: may_run_def)
    with i obtain ow r where r: "runs s ow = Some r" "r_prompt r = q"
      unfolding inv_def runs_inv_def by blast
    with inv_run [OF i r(1)] that show ?thesis by (auto simp: run_ok_def)
  qed
  from holder [OF assms(2)] i have "busy (slot s)" by (auto simp: inv_def slot_ok_def)
  then have "\<exists>e. acquire ow (slot s) = Inl e \<and> bridge_status e \<in> {Some 429, Some 503}" for ow
    by (simp add: acquire_def)
  moreover have "q = p" if "may_run s q" for q
    using holder [OF that] holder [OF assms(2)] by auto
  ultimately show ?thesis using holder [OF assms(2)] by blast
qed

definition demo_events :: "event list" where
  "demo_events = [Start ''a'' ''p'' ''video'' [], Built ''a'' (Inr (Some ''9'', ''video'')), Accepts ''p'']"

theorem single_flight_witness:
  "\<exists>s. exec initial_runner demo_events = Some s \<and> may_run s ''p'' \<and> owner (slot s) = Some ''a''"
proof -
  have "\<exists>s. exec initial_runner demo_events = Some s \<and> may_run s ''p'' \<and> (\<forall>ow. owner (slot s) = Some ow \<longrightarrow> ow = ''a'')"
    by (simp add: demo_events_def initial_runner_def start_run_def acquire_def free_slot_def initial_run_def
        refresh_uploads_def fresh_def when_at_def built_def media_kinds_def set_run_def Let_def may_run_def)
  then obtain s where s: "exec initial_runner demo_events = Some s" "may_run s ''p''"
    "\<forall>ow. owner (slot s) = Some ow \<longrightarrow> ow = ''a''" by blast
  have "reaches any_event s"
    by (rule exec_reaches [OF reaches_init _ s(1)]) (simp add: demo_events_def)
  from single_flight [OF this s(2)] obtain ow where "owner (slot s) = Some ow" by blast
  with s show ?thesis by blast
qed

text \<open>C6. Cleanup never touches a job that may still run: every file the runner has handed to the
  data roots belongs to a prompt that ended, was refused or was never sent, and this stays so
  in every later state.\<close>

theorem cleanup_after_end:
  assumes "reaches any_event s" and "(p, category, ref) \<in> set (removed s)"
  shows "\<not> may_run s p \<and> (\<forall>ow r. runs s ow = Some r \<and> r_prompt r = p \<longrightarrow> r_pc r \<noteq> Building)"
proof -
  from assms(1) have i: "inv s" by (rule reaches_inv)
  with assms(2) have d: "dead s p" unfolding inv_def tasks_inv_def by fastforce
  have "r_pc r \<noteq> Building" if "runs s ow = Some r" "r_prompt r = p" for ow r
  proof
    assume "r_pc r = Building"
    with inv_run [OF i that(1)] that(2) have "gpu s p = Idle" by (auto simp: run_ok_def flags_ok_def)
    with d have "\<forall>ow r. runs s ow = Some r \<and> r_prompt r = p \<longrightarrow> is_finished (r_pc r)"
      by (simp add: dead_def) blast
    with that have "is_finished (r_pc r)" by blast
    with \<open>r_pc r = Building\<close> show False by simp
  qed
  with d show ?thesis by (auto simp: dead_def may_run_def)
qed

theorem cleanup_after_end_witness:
  "\<exists>s. exec initial_runner [Start ''a'' ''p'' ''video'' [''u.png''], Disconnect ''a'', CleanupStep 0 True] = Some s
     \<and> removed s = [(''p'', ''input'', PStr ''u.png'')] \<and> \<not> may_run s ''p''"
proof -
  let ?evs = "[Start ''a'' ''p'' ''video'' [''u.png''], Disconnect ''a'', CleanupStep 0 True]"
  have "\<exists>s. exec initial_runner ?evs = Some s \<and> removed s = [(''p'', ''input'', PStr ''u.png'')]"
    by (simp add: initial_runner_def start_run_def acquire_def free_slot_def initial_run_def
        refresh_uploads_def fresh_def set_run_def Let_def run_handler_def run_cancelled_def finish_def
        on_slot_def cleanup_after_fetch_def cleanup_refs_def)
  then obtain s where s: "exec initial_runner ?evs = Some s" "removed s = [(''p'', ''input'', PStr ''u.png'')]"
    by blast
  have "reaches any_event s" by (rule exec_reaches [OF reaches_init _ s(1)]) simp
  from cleanup_after_end [OF this, of "''p''" "''input''" "PStr ''u.png''"] s show ?thesis by auto
qed

text \<open>C7. No slot is lost while the backend's replies have the documented form: the slot's owner is a
  run that is still going on, or a reaper is at work for it, or the slot is marked unhealthy;
  and the unhealthy mark never outlives the hold, so a free slot always admits.\<close>

theorem slot_watched:
  assumes "reaches orderly s"
  shows "(owner (slot s) = None \<longrightarrow> (\<exists>sl. acquire w (slot s) = Inr sl))
    \<and> (\<forall>ow. owner (slot s) = Some ow \<longrightarrow> unhealthy (slot s)
        \<or> (\<exists>r. runs s ow = Some r \<and> \<not> is_finished (r_pc r)) \<or> (\<exists>t\<in>set (reaps s). p_owner t = ow))"
proof -
  from reaches_watched [OF assms] have "watched s" .
  moreover from reaches_inv [OF assms] have "slot_ok (slot s)" by (simp add: inv_def)
  ultimately show ?thesis by (auto simp: watched_def live_def slot_ok_def acquire_def)
qed

theorem slot_watched_witness:
  "\<exists>s. exec initial_runner demo_events = Some s
     \<and> (\<exists>r. runs s ''a'' = Some r \<and> \<not> is_finished (r_pc r))"
proof -
  have "\<exists>s. exec initial_runner demo_events = Some s \<and> owner (slot s) = Some ''a'' \<and> \<not> unhealthy (slot s) \<and> reaps s = []"
    by (simp add: demo_events_def initial_runner_def start_run_def acquire_def free_slot_def initial_run_def
        refresh_uploads_def fresh_def when_at_def built_def media_kinds_def set_run_def Let_def)
  then obtain s where s: "exec initial_runner demo_events = Some s" "owner (slot s) = Some ''a''"
    "\<not> unhealthy (slot s)" "reaps s = []" by blast
  have "reaches orderly s"
    by (rule exec_reaches [OF reaches_init _ s(1)]) (simp add: demo_events_def)
  from slot_watched [OF this] s show ?thesis by auto
qed


text \<open>C8. What a run returns was checked: the bytes are of the kind the endpoint promised, the
  artifact reference is a native output with the suffix of that kind (FLAC being converted for
  audio), the MIME type belongs to the kind, and the backend job had ended.\<close>

theorem result_checked:
  assumes "reaches any_event s" and "runs s ow = Some r" and "r_pc r = Finished (Inr (d, m))"
  shows "media_matches_kind d (r_kind r) \<and> m = mime_of (r_kind r) \<and> gpu s (r_prompt r) = Ended
    \<and> (\<exists>item f. r_output_item r = Some item \<and> get_none item ''type'' = PStr ''output''
         \<and> get_none item ''filename'' = PStr f
         \<and> (suffix (expected_media_suffix (r_kind r)) (py_lower f)
            \<or> r_kind r = ''audio'' \<and> suffix ''.flac'' (py_lower f)))"
proof -
  from reaches_results [OF assms(1)] assms(2,3)
  have t: "r_terminal r" and c: "final_checks (r_kind r) (r_out_kind r) (r_output_item r) d = Inr (d, m)"
    by (auto simp: results_inv_def result_ok_def)
  from inv_run [OF reaches_inv [OF assms(1)] assms(2)] t have "gpu s (r_prompt r) = Ended"
    by (simp add: run_ok_def flags_ok_def)
  with c show ?thesis
    by (auto simp: final_checks_def validate_output_ref_def Let_def split: option.splits pyval.splits)
qed

definition demo_png :: bytes where
  "demo_png = png_magic @ ''data''"

definition demo_result_events :: "event list" where
  "demo_result_events =
     [Start ''a'' ''p'' ''image'' [], Built ''a'' (Inr (Some ''9'', ''image'')), Accepts ''p'', Ends ''p'',
      SubmitEnds ''a'' ''p'' (Replied (Resp 200 (Some (PDict [(''prompt_id'', PStr ''p'')])))), SubmitDone ''a'',
      Waited ''a'' (Inr [(''outputs'', PDict [(''9'', PDict [(''images'', PList [PDict
        [(''filename'', PStr ''o.png''), (''type'', PStr ''output'')]])])])]),
      Fetched ''a'' (Inr demo_png)]"

lemma demo_png_checked:
  "final_checks ''image'' ''image'' (Some [(''filename'', PStr ''o.png''), (''type'', PStr ''output'')]) demo_png
     = Inr (demo_png, ''image/png'')"
  "demo_png \<noteq> []" "\<not> needs_wav ''image'' demo_png"
  by code_simp+

theorem result_checked_witness:
  "\<exists>s r. exec initial_runner demo_result_events = Some s \<and> runs s ''a'' = Some r
     \<and> r_pc r = Finished (Inr (demo_png, ''image/png'')) \<and> media_matches_kind demo_png (r_kind r)"
proof -
  have "\<exists>s r. exec initial_runner demo_result_events = Some s \<and> runs s ''a'' = Some r
      \<and> r_pc r = Finished (Inr (demo_png, ''image/png''))"
    by (simp add: demo_result_events_def initial_runner_def start_run_def acquire_def free_slot_def
      initial_run_def refresh_uploads_def fresh_def when_at_def built_def media_kinds_def set_run_def Let_def
      proven_rejection_def submit_outcome_def classify_submit_def get_none_def submit_done_def pop_submit_def
      waited_def pick_output_def flatten_def flatten_items_def output_keys_def fetched_def
      demo_png_checked deliver_def finish_def cleanup_after_fetch_def on_slot_def)
  then obtain s r where s: "exec initial_runner demo_result_events = Some s" "runs s ''a'' = Some r"
    "r_pc r = Finished (Inr (demo_png, ''image/png''))" by blast
  have "reaches any_event s"
    by (rule exec_reaches [OF reaches_init _ s(1)]) (simp add: demo_result_events_def)
  from result_checked [OF this s(2,3)] s show ?thesis by blast
qed

text \<open>C14. A reaper is bounded: with a positive poll interval and a clock that never runs backwards
  its loop ends within the budget's number of rounds, with an entry that ComfyUI's history held
  in a terminal state, with a quarantine, or with an exception of the client.\<close>

theorem reap_ends:
  assumes "0 < poll_interval c" and "\<forall>i. 0 \<le> latency w i"
  shows "\<exists>v w'. reap_loop (enough_rounds reap_budget_seconds (min 1 (poll_interval c))) c p reap_budget_seconds w
      = Some (v, w') \<and> v \<noteq> ReapAgain
      \<and> (\<forall>en. v = ReapEntry en \<longrightarrow>
           (\<exists>i\<ge>calls w. classify_history p (net w i) = Inr (Some en) \<and> terminal_of en = Inr True))"
proof -
  let ?d = "Some (now w + reap_budget_seconds)"
  let ?n = "enough_rounds reap_budget_seconds (min 1 (poll_interval c))"
  have "0 < min 1 (poll_interval c)" using assms(1) by simp
  from reap.fuel_enough [OF this assms(2)] enough_rounds_cover [OF this, of reap_budget_seconds]
  obtain v w' where l: "reap_loop ?n c p reap_budget_seconds w = Some (v, w')"
    unfolding reap_loop_def enough_rounds_def by fastforce
  let ?I = "\<lambda>u. net u = net w \<and> calls w \<le> calls u"
  have "\<exists>u. ?I u \<and> reap_round c p ?d u = Inl (v, w')"
    by (rule poll_loop_result [OF l [unfolded reap_loop_def]])
      (auto simp: reap_round_def history_def call_def send_def io_defs Let_def
        split: prod.splits sum.splits reap_verdict.splits if_splits)
  then obtain u where u: "?I u" "reap_round c p ?d u = Inl (v, w')" by blast
  obtain res u' where h: "history c p u = (res, u')" by (cases "history c p u")
  with u(2) have v: "v \<noteq> ReapAgain" "reap_decide ?d (now u') res = v"
    by (auto simp: reap_round_def split: reap_verdict.splits)
  moreover have "\<exists>i\<ge>calls w. classify_history p (net w i) = Inr (Some en) \<and> terminal_of en = Inr True"
    if "v = ReapEntry en" for en
  proof -
    from that v(2) have "res = Inr (Some en)" "terminal_of en = Inr True"
      by (auto simp: reap_decide_def terminal_entry_def poll_entry_def
          split: sum.splits option.splits if_splits)
    moreover from h this(1) have "classify_history p (net u (calls u)) = Inr (Some en)"
      by (auto simp: history_def call_def send_def io_defs Let_def split: if_splits)
    ultimately show ?thesis using u(1) by auto
  qed
  ultimately show ?thesis using l by blast
qed

theorem reap_ends_witness:
  "\<exists>v w'. reap_loop (enough_rounds reap_budget_seconds 1) demo_comfy ''p'' reap_budget_seconds demo_world = Some (v, w')
     \<and> v \<noteq> ReapAgain"
  using reap_ends [of demo_comfy demo_world "''p''"] by (auto simp: demo_defs)

text \<open>C13. Only the holder ends a hold: after a run acquired the slot, any sequence of
  acquisitions and releases by others, successful or refused, leaves the slot as it is; so a
  second acquisition succeeds only after the holder's own release.\<close>

theorem hold_is_exclusive:
  assumes "holder_ok sl" and "acquire a sl = Inr sl'" and "Rel a \<notin> set ops"
  shows "slot_run acquire release ops sl' = sl' \<and> slot_run acquire release_terminal ops sl' = sl'
    \<and> (\<exists>e. acquire b (slot_run acquire release ops sl') = Inl e)"
proof -
  from plain_slot.acq_free [OF assms(1,2)] have h: "owner sl' = Some a" "holder_ok sl'" by auto
  have "\<exists>e. acquire b (slot_run acquire release ops sl') = Inl e"
    using plain_slot.one_holder [OF assms] by (cases "acquire b (slot_run acquire release ops sl')") auto
  then show ?thesis
    using plain_slot.holder_kept [OF h(2,1) assms(3)] proven_slot.holder_kept [OF h(2,1) assms(3)] by simp
qed

theorem hold_is_exclusive_witness:
  "\<exists>sl. acquire ''a'' free_slot = Inr sl \<and> slot_run acquire release [Acq ''b'', Rel ''b'', Rel ''c''] sl = sl"
proof -
  have "holder_ok free_slot" by (simp add: holder_ok_def free_slot_def)
  moreover have "acquire ''a'' free_slot = Inr (free_slot\<lparr>busy := True, owner := Some ''a''\<rparr>)"
    by (simp add: acquire_def free_slot_def)
  ultimately show ?thesis using hold_is_exclusive [of free_slot "''a''" _ "[Acq ''b'', Rel ''b'', Rel ''c'']"] by auto
qed

end
