(* ===== verification/Py_Json.thy ===== *)
theory Py_Json
  imports Py_Number
begin

text \<open>
  \<open>json.dumps\<close> of a JSON value, with and without \<open>ensure_ascii\<close> and for any pair of separators.
  \<open>json.loads\<close> is a parameter of the definitions that use it: its result on a document with
  escapes above U+00FF is outside the text type of the model.
\<close>

definition json_u :: "char \<Rightarrow> string" where
  "json_u c = CHR 0x5C # ''u00'' @ hex2 (cp c)"

definition json_char :: "bool \<Rightarrow> char \<Rightarrow> string" where
  "json_char ascii c =
     (if c = CHR 0x22 then [CHR 0x5C, CHR 0x22]
      else if c = CHR 0x5C then [CHR 0x5C, CHR 0x5C]
      else if c = CHR 0x0A then CHR 0x5C # ''n''
      else if c = CHR 0x0D then CHR 0x5C # ''r''
      else if c = CHR 0x09 then CHR 0x5C # ''t''
      else if c = CHR 0x08 then CHR 0x5C # ''b''
      else if c = CHR 0x0C then CHR 0x5C # ''f''
      else if cp c < 32 \<or> ascii \<and> 126 < cp c then json_u c
      else [c])"

definition json_str :: "bool \<Rightarrow> string \<Rightarrow> string" where
  "json_str ascii s = [CHR 0x22] @ concat (map (json_char ascii) s) @ [CHR 0x22]"

fun dumps :: "bool \<Rightarrow> string \<Rightarrow> string \<Rightarrow> pyval \<Rightarrow> string" where
  "dumps a sep col PNone = ''null''"
| "dumps a sep col (PBool b) = (if b then ''true'' else ''false'')"
| "dumps a sep col (PInt i) = show_int i"
| "dumps a sep col (PFloat r) = float_repr r"
| "dumps a sep col (PNonFinite n) =
     (case n of NaN \<Rightarrow> ''NaN'' | PosInf \<Rightarrow> ''Infinity'' | NegInf \<Rightarrow> ''-Infinity'')"
| "dumps a sep col (PStr s) = json_str a s"
| "dumps a sep col (PList xs) = ''['' @ join_with sep (map (dumps a sep col) xs) @ '']''"
| "dumps a sep col (PDict d) =
     ''{'' @ join_with sep (map (\<lambda>(k, v). json_str a k @ col @ dumps a sep col v) d) @ ''}''"

end
