(* ===== verification/Graph_Base.thy ===== *)
theory Graph_Base
  imports Bridge_Errors Py_Json
begin

text \<open>
  \<open>backends/comfyui-media/graphs/graphs.py\<close>, first part: the model table, the readers of
  request fields, the \<open>Graph\<close> builder, the geometry and frame-count rules and the
  normalisation of a video payload. A graph is the list of its nodes in the order of \<open>add\<close>;
  the node added as the \<open>n\<close>-th has the key \<open>str(n)\<close>, and \<open>Link n i\<close> is the JSON value
  \<open>[str(n), i]\<close>. A builder step is a function of the graph that raises or returns a value and
  the new graph. A float literal of the source is the nearest binary64 value, \<open>flt\<close>.
\<close>

section \<open>Models\<close>

record model_entry =
  m_kind :: string
  m_family :: "string option"

definition models :: "(string \<times> model_entry) list" where
  "models =
    [(''black-forest-labs/FLUX.2-klein-4B'', \<lparr>m_kind = ''image'', m_family = Some ''flux2''\<rparr>),
     (''Qwen/Qwen-Image-2512'', \<lparr>m_kind = ''image'', m_family = Some ''qwen-image''\<rparr>),
     (''Qwen/Qwen-Image-2512-Lightning'', \<lparr>m_kind = ''image'', m_family = Some ''qwen-image-lightning''\<rparr>),
     (''Qwen/Qwen-Image-Edit-2511'', \<lparr>m_kind = ''image'', m_family = Some ''qwen-image-edit''\<rparr>),
     (''Qwen/Qwen-Image-2.1'', \<lparr>m_kind = ''image'', m_family = Some ''qwen-image-21''\<rparr>),
     (''BennyDaBall/Qwen-Image-2.1-NVFP4'', \<lparr>m_kind = ''image'', m_family = Some ''qwen-image-21''\<rparr>),
     (''Comfy-Org/Ideogram-4'', \<lparr>m_kind = ''image'', m_family = Some ''ideogram4''\<rparr>),
     (''Comfy-Org/Krea-2-Turbo'', \<lparr>m_kind = ''image'', m_family = Some ''krea2''\<rparr>),
     (''MiniMaxAI/MiniMax-H3'', \<lparr>m_kind = ''video'', m_family = None\<rparr>),
     (''MiniMaxAI/MiniMax-H3-Turbo'', \<lparr>m_kind = ''video'', m_family = None\<rparr>),
     (''Lightricks/LTX-2.5'', \<lparr>m_kind = ''video'', m_family = None\<rparr>),
     (''Lightricks/LTX-2.5-Comfy-Full'', \<lparr>m_kind = ''video'', m_family = None\<rparr>),
     (''MiniMaxAI/MiniMax-Music3'', \<lparr>m_kind = ''audio'', m_family = None\<rparr>),
     (''ACE-Step/ACE-Step-1.5-XL-SFT'', \<lparr>m_kind = ''audio'', m_family = None\<rparr>),
     (''ACE-Step/ACE-Step-1.5-XL-Turbo'', \<lparr>m_kind = ''audio'', m_family = None\<rparr>),
     (''Comfy-Org/YuE2-3B'', \<lparr>m_kind = ''audio'', m_family = Some ''yue2''\<rparr>)]"

definition quality_steps :: "(string \<times> int) list" where
  "quality_steps = [(''auto'', 40), (''high'', 40), (''medium'', 25), (''low'', 12)]"

record checkpoint_set =
  ck_diffusion :: string
  ck_encoder :: string
  ck_vae :: string

definition qwen_image_21_checkpoints :: "(string \<times> checkpoint_set) list" where
  "qwen_image_21_checkpoints =
    [(''Qwen/Qwen-Image-2.1'',
       \<lparr>ck_diffusion = ''qwen_image_2.1_int8_convrot.safetensors'',
        ck_encoder = ''qwen3vl_8b_int8_convrot.safetensors'',
        ck_vae = ''qwen_image_2.1_vae_bf16.safetensors''\<rparr>),
     (''BennyDaBall/Qwen-Image-2.1-NVFP4'',
       \<lparr>ck_diffusion = ''qwen_image_2.1_nvfp4.safetensors'',
        ck_encoder = ''qwen3vl_8b_nvfp4.safetensors'',
        ck_vae = ''qwen_image_2.1_vae_bf16.safetensors''\<rparr>)]"

definition image_edit_families :: "string list" where
  "image_edit_families = [''qwen-image-21'', ''qwen-image-edit'']"

definition supports_image_edit :: "string \<Rightarrow> bool" where
  "supports_image_edit model_id =
     (case map_of models model_id of
        None \<Rightarrow> False
      | Some e \<Rightarrow> m_kind e = ''image''
          \<and> (case m_family e of None \<Rightarrow> False | Some f \<Rightarrow> f \<in> set image_edit_families))"

section \<open>Fields of a request\<close>

definition flt :: "rat \<Rightarrow> pyval" where
  "flt x = PFloat (rnd53 x)"

text \<open>\<open>math.isfinite\<close> of an integer converts it to a float first.\<close>

definition too_large_for_float :: "int \<Rightarrow> bool" where
  "too_large_for_float i = (2 ^ 1024 - 2 ^ 970 \<le> \<bar>i\<bar>)"

definition qualifier :: "string \<Rightarrow> string option \<Rightarrow> string" where
  "qualifier name describe =
     (case describe of None \<Rightarrow> [] | Some d \<Rightarrow> if d = [] \<or> d = name then [] else '' for '' @ d)"

definition not_finite :: "string \<Rightarrow> string option \<Rightarrow> exn" where
  "not_finite name describe = ValueErr (name @ qualifier name describe @ '' must be a finite number'')"

text \<open>The exact value of a field, checked against its range.\<close>

definition checked :: "string \<Rightarrow> rat \<Rightarrow> pyval \<Rightarrow> pyval \<Rightarrow> bool \<Rightarrow> string option \<Rightarrow> pyval res" where
  "checked name x low high integer describe =
     raise_if (integer \<and> x \<noteq> of_int \<lfloor>x\<rfloor>)
       (ValueErr (name @ qualifier name describe @ '' must be a whole number''))
     (raise_if (\<not> (the (num_of low) \<le> x \<and> x \<le> the (num_of high)))
       (ValueErr (name @ qualifier name describe @
          (if num_of low = num_of high then '' must be exactly '' @ num_str low
           else '' must be between '' @ num_str low @ '' and '' @ num_str high)))
     (Inr (if integer then PInt \<lfloor>x\<rfloor> else PFloat (rnd53 x))))"

definition number :: "pydict \<Rightarrow> string \<Rightarrow> pyval \<Rightarrow> pyval \<Rightarrow> pyval \<Rightarrow> bool \<Rightarrow> string option \<Rightarrow> pyval res" where
  "number p name dflt low high integer describe =
     (case get_default p name dflt of
        PInt i \<Rightarrow>
          if too_large_for_float i then Inl OverflowErr
          else checked name (of_int i) low high integer describe
      | PFloat r \<Rightarrow> checked name r low high integer describe
      | _ \<Rightarrow> Inl (not_finite name describe))"

text \<open>The two ways it is called: for an integer between integers, and for a float.\<close>

definition int_field :: "pydict \<Rightarrow> string \<Rightarrow> int \<Rightarrow> int \<Rightarrow> int \<Rightarrow> string option \<Rightarrow> int res" where
  "int_field p name d l h describe =
     bindE (number p name (PInt d) (PInt l) (PInt h) True describe)
       (\<lambda>v. case v of PInt i \<Rightarrow> Inr i | _ \<Rightarrow> Inl TypeErr)"

definition float_field :: "pydict \<Rightarrow> string \<Rightarrow> pyval \<Rightarrow> pyval \<Rightarrow> pyval \<Rightarrow> string option \<Rightarrow> rat res" where
  "float_field p name d l h describe =
     bindE (number p name d l h False describe)
       (\<lambda>v. case v of PFloat r \<Rightarrow> Inr r | _ \<Rightarrow> Inl TypeErr)"

definition text_field :: "pydict \<Rightarrow> string \<Rightarrow> string \<Rightarrow> nat \<Rightarrow> string res" where
  "text_field p name dflt limit =
     (case get_default p name (PStr dflt) of
        PStr s \<Rightarrow> if limit < length s then Inl (ValueErr (name @ '' must be bounded text'')) else Inr s
      | _ \<Rightarrow> Inl (ValueErr (name @ '' must be bounded text'')))"

definition qwen_image_21_steps :: "pydict \<Rightarrow> int res" where
  "qwen_image_21_steps p =
     (let bad = ValueErr (''quality must be one of '' @ join_with '', '' (sort (map fst quality_steps))) in
      bindE
        (if has_key p ''quality'' then
           (case get_none p ''quality'' of
              PStr q \<Rightarrow> (case map_of quality_steps q of None \<Rightarrow> Inl bad | Some n \<Rightarrow> Inr (Some n))
            | _ \<Rightarrow> Inl bad)
         else Inr None)
        (\<lambda>q. if has_key p ''steps'' then int_field p ''steps'' 40 1 60 None
             else Inr (case q of None \<Rightarrow> 40 | Some n \<Rightarrow> n)))"

section \<open>Graphs\<close>

datatype ginput = Val pyval | Link nat nat

type_synonym node = "string \<times> (string \<times> ginput) list"
type_synonym graph = "node list"
type_synonym link = "nat \<times> nat"
type_synonym 'a builder = "graph \<Rightarrow> exn + ('a \<times> graph)"

definition retG :: "'a \<Rightarrow> 'a builder" where
  "retG a g = Inr (a, g)"

definition liftG :: "'a res \<Rightarrow> 'a builder" where
  "liftG r g = (case r of Inl e \<Rightarrow> Inl e | Inr a \<Rightarrow> Inr (a, g))"

definition bindG :: "'a builder \<Rightarrow> ('a \<Rightarrow> 'b builder) \<Rightarrow> 'b builder" where
  "bindG m f g = (case m g of Inl e \<Rightarrow> Inl e | Inr (a, g') \<Rightarrow> f a g')"

definition raiseG :: "bool \<Rightarrow> exn \<Rightarrow> 'a builder \<Rightarrow> 'a builder" where
  "raiseG c e m = (if c then (\<lambda>g. Inl e) else m)"

definition add :: "string \<Rightarrow> (string \<times> ginput) list \<Rightarrow> link builder" where
  "add cls inputs g = Inr ((length g + 1, 0), g @ [(cls, inputs)])"

text \<open>\<open>g.nodes[key]["inputs"][name] = value\<close>.\<close>

definition set_input :: "nat \<Rightarrow> string \<Rightarrow> ginput \<Rightarrow> unit builder" where
  "set_input n name v g =
     (if 1 \<le> n \<and> n \<le> length g
      then Inr ((), g[n - 1 := (fst (g ! (n - 1)), AList.update name v (snd (g ! (n - 1))))])
      else Inl OtherExn)"

abbreviation L :: "link \<Rightarrow> ginput" where
  "L l \<equiv> Link (fst l) (snd l)"

text \<open>\<open>[l[0], i]\<close>.\<close>

abbreviation out_of :: "link \<Rightarrow> nat \<Rightarrow> link" where
  "out_of l i \<equiv> (fst l, i)"

abbreviation S :: "string \<Rightarrow> ginput" where
  "S s \<equiv> Val (PStr s)"

abbreviation I :: "int \<Rightarrow> ginput" where
  "I i \<equiv> Val (PInt i)"

abbreviation F :: "rat \<Rightarrow> ginput" where
  "F x \<equiv> Val (flt x)"

abbreviation FV :: "rat \<Rightarrow> ginput" where
  "FV x \<equiv> Val (PFloat x)"

abbreviation B :: "bool \<Rightarrow> ginput" where
  "B b \<equiv> Val (PBool b)"

definition sample ::
  "link \<Rightarrow> link \<Rightarrow> link \<Rightarrow> link \<Rightarrow> int \<Rightarrow> int \<Rightarrow> pyval \<Rightarrow> link builder" where
  "sample model positive negative latent seed steps cfg =
     add ''KSampler''
       [(''model'', L model), (''positive'', L positive), (''negative'', L negative),
        (''latent_image'', L latent), (''seed'', I seed), (''steps'', I steps), (''cfg'', Val cfg),
        (''sampler_name'', S ''euler''), (''scheduler'', S ''simple''), (''denoise'', F 1)]"

definition advanced ::
  "link \<Rightarrow> link \<Rightarrow> link \<Rightarrow> link \<Rightarrow> int \<Rightarrow> string \<Rightarrow> pyval \<Rightarrow> pyval \<Rightarrow> link option \<Rightarrow> link builder" where
  "advanced model positive negative latent seed sigmas video_cfg audio_cfg schedule =
     bindG (add ''LTXVDualCFGGuider''
       [(''model'', L model), (''positive'', L positive), (''negative'', L negative),
        (''video_cfg'', Val video_cfg), (''audio_cfg'', Val audio_cfg)]) (\<lambda>guider.
     bindG (add ''RandomNoise'' [(''noise_seed'', I seed)]) (\<lambda>noise.
     bindG (add ''KSamplerSelect'' [(''sampler_name'', S ''euler_ancestral'')]) (\<lambda>sampler.
     bindG (case schedule of Some s \<Rightarrow> retG s | None \<Rightarrow> add ''ManualSigmas'' [(''sigmas'', S sigmas)]) (\<lambda>sched.
     add ''SamplerCustomAdvanced''
       [(''noise'', L noise), (''guider'', L guider), (''sampler'', L sampler), (''sigmas'', L sched),
        (''latent_image'', L latent)]))))"

text \<open>The JSON value of a graph.\<close>

definition render_input :: "ginput \<Rightarrow> pyval" where
  "render_input v = (case v of Val x \<Rightarrow> x | Link n i \<Rightarrow> PList [PStr (show_nat n), PInt (int i)])"

definition render_node :: "node \<Rightarrow> pyval" where
  "render_node nd =
     PDict [(''class_type'', PStr (fst nd)), (''inputs'', PDict (map (\<lambda>(k, v). (k, render_input v)) (snd nd)))]"

definition render :: "graph \<Rightarrow> pyval" where
  "render g = PDict (map (\<lambda>i. (show_nat (i + 1), render_node (g ! i))) [0..<length g])"

section \<open>Geometry\<close>

text \<open>\<open>re.fullmatch("(\d{3,4})x(\d{3,4})", s)\<close> and the two integers.\<close>

definition dim_digits :: "string \<Rightarrow> bool" where
  "dim_digits s = (list_all is_digit s \<and> 3 \<le> length s \<and> length s \<le> 4)"

definition parse_size :: "string \<Rightarrow> (int \<times> int) option" where
  "parse_size s =
     (case split_on (CHR ''x'') s of
        [a, b] \<Rightarrow> if dim_digits a \<and> dim_digits b then Some (int_of_digits a, int_of_digits b) else None
      | _ \<Rightarrow> None)"

definition size_or :: "bool \<Rightarrow> pydict \<Rightarrow> int \<times> int \<Rightarrow> (int \<times> int) res" where
  "size_or given p dflt =
     (if given then
        (case parse_size (py_str (get_none p ''size'')) of
           None \<Rightarrow> Inl (ValueErr ''size must be WIDTHxHEIGHT'')
         | Some wh \<Rightarrow> Inr wh)
      else Inr dflt)"

definition geometry :: "pydict \<Rightarrow> bool \<Rightarrow> (int \<times> int) res" where
  "geometry p ltx =
     bindE (size_or (get_none p ''size'' \<noteq> PNone) p (832, 480)) (\<lambda>(w0, h0).
     let lo = (if ltx then 128 else 256) in
     bindE (int_field p ''width'' w0 lo 1344 None) (\<lambda>w.
     bindE (int_field p ''height'' h0 lo 1344 None) (\<lambda>h1.
     let multiple = (if ltx then 64 else 32);
         h = (if ltx \<and> \<not> has_key p ''height'' \<and> \<not> has_key p ''size'' then 512 else h1)
     in raise_if (w mod multiple \<noteq> 0 \<or> h mod multiple \<noteq> 0)
          (ValueErr (''Dimensions must be a multiple of '' @ show_int multiple @ '' for this model''))
        (raise_if (1344 * 768 < w * h) (ValueErr ''Dimensions must stay within 1344x768 pixels'')
        (bindE (float_field p ''fps'' (PInt 24) (PInt 24) (PInt 24) None) (\<lambda>fps.
           raise_if (fps \<noteq> 24) (ValueErr ''Only 24 fps is supported'') (Inr (w, h))))))))"

definition image_geometry :: "pydict \<Rightarrow> (int \<times> int) res" where
  "image_geometry p =
     bindE (size_or (get_none p ''size'' \<noteq> PNone) p (1024, 1024)) (\<lambda>(w0, h0).
     bindE (int_field p ''width'' w0 512 1536 None) (\<lambda>w.
     bindE (int_field p ''height'' h0 512 1536 None) (\<lambda>h.
     raise_if (w mod 32 \<noteq> 0 \<or> h mod 32 \<noteq> 0 \<or> 2000000 < w * h)
       (ValueErr ''Image dimensions must be multiples of 32 and at most 2 megapixels'')
       (Inr (w, h)))))"

definition ideogram_geometry :: "pydict \<Rightarrow> (int \<times> int) res" where
  "ideogram_geometry p =
     bindE (size_or (get_none p ''size'' \<noteq> PNone) p (1024, 1024)) (\<lambda>(w0, h0).
     bindE (int_field p ''width'' w0 256 2048 (Some ''Comfy-Org/Ideogram-4'')) (\<lambda>w.
     bindE (int_field p ''height'' h0 256 2048 (Some ''Comfy-Org/Ideogram-4'')) (\<lambda>h.
     raise_if (w mod 16 \<noteq> 0 \<or> h mod 16 \<noteq> 0 \<or> 4000000 < w * h)
       (ValueErr ''Image dimensions must be multiples of 16 and at most 4 megapixels'')
       (Inr (w, h)))))"

definition qwen_image_21_geometry :: "pydict \<Rightarrow> int \<Rightarrow> (int \<times> int) res" where
  "qwen_image_21_geometry p resolution =
     bindE (size_or (has_key p ''size'') p (resolution, resolution)) (\<lambda>(w0, h0).
     bindE (int_field p ''width'' w0 256 3072 None) (\<lambda>w.
     bindE (int_field p ''height'' h0 256 3072 None) (\<lambda>h.
     raise_if (w mod 32 \<noteq> 0 \<or> h mod 32 \<noteq> 0 \<or> (9 / 2) * 1024 * 1024 < (of_int (w * h) :: rat))
       (ValueErr ''Dimensions must be multiples of 32 and at most 4.5 megapixels'')
       (Inr (w, h)))))"

definition aspect_ratio :: "int \<Rightarrow> int \<Rightarrow> string" where
  "aspect_ratio width height =
     (let d = (if gcd width height = 0 then 1 else gcd width height)
      in show_int (width div d) @ '':'' @ show_int (height div d))"

definition ideogram_caption :: "(string \<Rightarrow> pyval res) \<Rightarrow> string \<Rightarrow> int \<Rightarrow> int \<Rightarrow> string res" where
  "ideogram_caption loads prompt width height =
     bindE (case loads prompt of
              Inr v \<Rightarrow> Inr v
            | Inl (ValueErr _) \<Rightarrow> Inr PNone
            | Inl TypeErr \<Rightarrow> Inr PNone
            | Inl e \<Rightarrow> Inl e)
       (\<lambda>parsed. Inr
          (if (case parsed of PDict d \<Rightarrow> truthy (get_none d ''high_level_description'') | _ \<Rightarrow> False)
           then prompt
           else dumps True '', '' '': ''
             (PDict [(''aspect_ratio'', PStr (aspect_ratio width height)),
                     (''high_level_description'', PStr prompt)])))"

section \<open>Frame counts\<close>

definition frame_count :: "pydict \<Rightarrow> int \<Rightarrow> int \<Rightarrow> int \<Rightarrow> int \<Rightarrow> int \<Rightarrow> int res" where
  "frame_count p dflt low high block offset =
     (let v = get_default p ''num_frames'' (get_default p ''frames'' (PInt dflt)) in
      bindE (int_field [(''num_frames'', v)] ''num_frames'' dflt low high None) (\<lambda>n.
      raise_if ((n - offset) mod block \<noteq> 0) (ValueErr (''Frame count does not match this model'' @ [CHR 0x27] @ ''s temporal grid''))
      (raise_if (has_key p ''frames'' \<and> has_key p ''num_frames'' \<and> \<not> py_eq (get_none p ''frames'') (PInt n))
        (ValueErr ''Conflicting frame counts'')
      (raise_if (has_key p ''duration'' \<and> n \<noteq> dflt)
        (ValueErr ''duration and frame count disagree'') (Inr n)))))"

text \<open>\<open>math.ceil\<close> of a float expression, each operation rounded.\<close>

definition h3_default_frames :: "rat \<Rightarrow> int" where
  "h3_default_frames duration = \<lceil>rnd53 (rnd53 (rnd53 (duration * 24) - 5) / 17)\<rceil> * 17 + 5"

definition ltx_default_frames :: "rat \<Rightarrow> int" where
  "ltx_default_frames duration = \<lceil>rnd53 (rnd53 (duration * 24) / 8)\<rceil> * 8 + 1"

end
