(* ===== verification/Graph_Build.thy ===== *)
theory Graph_Build
  imports Graph_Base
begin

text \<open>
  \<open>backends/comfyui-media/graphs/graphs.py\<close>, second part: the normalisation of a video
  payload, one builder per model lane and \<open>build_graph\<close>, which selects the lane, checks what
  no lane may receive and adds the output node. \<open>ltx\<close> is cut into the stretches its comments
  name. The random seed and \<open>json.loads\<close> are parameters.
\<close>

section \<open>Video payloads\<close>

definition common_video_fields :: "string list" where
  "common_video_fields =
    [''model'', ''prompt'', ''image'', ''first_frame'', ''last_frame'', ''audio'', ''video'', ''width'',
     ''height'', ''size'', ''duration'', ''num_frames'', ''frames'', ''fps'', ''frame_rate'', ''seed'',
     ''steps'', ''n'', ''response_format'']"

definition has :: "pydict \<Rightarrow> string \<Rightarrow> bool" where
  "has p k = truthy (get_none p k)"

definition err :: "string \<Rightarrow> exn" where
  "err msg = ValueErr msg"

text \<open>The prompt text of an H3 request: a structured prompt is dumped, a transcript appended.\<close>

definition h3_prompt :: "pydict \<Rightarrow> string res" where
  "h3_prompt p =
     (case (case get_none p ''prompt'' of PDict d \<Rightarrow> PStr (dumps False '','' '':'' (PDict d)) | v \<Rightarrow> v) of
        PStr s \<Rightarrow> if py_strip s = [] then Inl (err ''prompt must be non-empty text or a structured object'')
                 else Inr s
      | _ \<Rightarrow> Inl (err ''prompt must be non-empty text or a structured object''))"

definition add_transcript :: "pydict \<Rightarrow> string \<Rightarrow> (pydict \<times> string) res" where
  "add_transcript p prompt =
     (if \<not> has_key p ''transcript'' then Inr (p, prompt)
      else
        (case get_none p ''transcript'' of
           PStr t \<Rightarrow>
             if py_strip t = [] \<or> 4000 < length t
             then Inl (err ''transcript must be non-empty text of at most 4000 characters'')
             else
               let audio_index = (if has p ''video'' \<and> has p ''video_audio'' then 2 else 1 :: int);
                   voice = (if has p ''audio''
                            then '' Use <Audio '' @ show_int audio_index @ ''> as the voice reference.'' else [])
               in Inr (AList.delete ''transcript'' p,
                       prompt @ [CHR 0x0A] @ ''Spoken dialogue, exactly: '' @ dumps False '', '' '': '' (PStr t) @ voice)
         | _ \<Rightarrow> Inl (err ''transcript must be non-empty text of at most 4000 characters'')))"

definition normalize_h3 :: "pydict \<Rightarrow> pydict res" where
  "normalize_h3 p =
     raise_if (get_default p ''workflow'' (PStr ''auto'') \<notin> {PStr ''auto'', PStr ''frames'', PStr ''reference''})
       (err ''workflow must be auto, frames or reference'')
     (raise_if (get_none p ''workflow'' = PStr ''frames'' \<and> (has p ''audio'' \<or> has p ''video''))
       (err ''audio/video references require the reference workflow'')
     (raise_if (has_key p ''video_audio'' \<and> (\<not> is_bool (get_none p ''video_audio'') \<or> \<not> has p ''video''))
       (err ''video_audio requires a video and a boolean'')
     (raise_if (get_none p ''ref_image_size'' \<noteq> PNone
          \<and> \<not> (has p ''audio'' \<or> has p ''video'' \<or> get_none p ''workflow'' = PStr ''reference''))
       (err ''ref_image_size applies only to the reference workflow'')
     (bindE (h3_prompt p) (\<lambda>prompt.
      bindE (add_transcript p prompt) (\<lambda>(q, prompt2).
        Inr (AList.update ''prompt'' (PStr prompt2) q)))))))"

definition is_h3 :: "string \<Rightarrow> bool" where
  "is_h3 model_id = prefix ''MiniMaxAI/MiniMax-H3'' model_id"

definition allowed_video_fields :: "string \<Rightarrow> string list" where
  "allowed_video_fields model_id =
     common_video_fields @
     (if is_h3 model_id then [''transcript'', ''workflow'', ''ref_image_size'', ''video_audio'']
      else [''negative_prompt'', ''image_strength'', ''voice_reference'', ''voice_identity'', ''voice_start'',
            ''voice_end''] @ (if suffix ''Comfy-Full'' model_id then [''guidance_scale''] else []))"

definition unknown_fields :: "string list \<Rightarrow> pydict \<Rightarrow> string list" where
  "unknown_fields allowed p = sort (remdups (filter (\<lambda>k. k \<notin> set allowed) (map fst p)))"

text \<open>\<open>p[new] = p.pop(old)\<close>, refused when both are given.\<close>

definition rename_field :: "string \<Rightarrow> string \<Rightarrow> string \<Rightarrow> pydict \<Rightarrow> pydict res" where
  "rename_field old new msg p =
     (if has_key p old then
        if has_key p new then Inl (err msg)
        else Inr (AList.update new (get_none p old) (AList.delete old p))
      else Inr p)"

definition normalize_video_payload :: "string \<Rightarrow> pydict \<Rightarrow> pydict res" where
  "normalize_video_payload model_id payload =
     (if \<not> is_h3 model_id \<and> model_id \<notin> {''Lightricks/LTX-2.5'', ''Lightricks/LTX-2.5-Comfy-Full''}
      then Inr payload
      else
        bindE (if is_h3 model_id then normalize_h3 payload else Inr payload) (\<lambda>p.
        let unknown = unknown_fields (allowed_video_fields model_id) p in
        raise_if (unknown \<noteq> []) (err (''Unsupported video fields: '' @ join_with '', '' unknown))
        (raise_if (has_key p ''size'' \<and> (has_key p ''width'' \<or> has_key p ''height''))
          (err ''Use size or width/height, not both'')
        (bindE (rename_field ''frame_rate'' ''fps'' ''Use fps or frame_rate, not both'' p)
          (rename_field ''first_frame'' ''image'' ''Use image or first_frame, not both'')))))"

section \<open>Loaders\<close>

definition unet :: "string \<Rightarrow> link builder" where
  "unet f = add ''UNETLoader'' [(''unet_name'', S f), (''weight_dtype'', S ''default'')]"

definition clip_loader :: "string \<Rightarrow> string \<Rightarrow> link builder" where
  "clip_loader f ty = add ''CLIPLoader'' [(''clip_name'', S f), (''type'', S ty), (''device'', S ''default'')]"

definition vae_loader :: "string \<Rightarrow> link builder" where
  "vae_loader f = add ''VAELoader'' [(''vae_name'', S f)]"

definition load_image :: "string \<Rightarrow> link builder" where
  "load_image f = add ''LoadImage'' [(''image'', S f)]"

definition encode_text :: "link \<Rightarrow> string \<Rightarrow> link builder" where
  "encode_text clip t = add ''CLIPTextEncode'' [(''clip'', L clip), (''text'', S t)]"

definition zero_out :: "link \<Rightarrow> link builder" where
  "zero_out c = add ''ConditioningZeroOut'' [(''conditioning'', L c)]"

definition vae_decode :: "link \<Rightarrow> link \<Rightarrow> link builder" where
  "vae_decode samples vae = add ''VAEDecode'' [(''samples'', L samples), (''vae'', L vae)]"

definition vae_decode_audio :: "link \<Rightarrow> link \<Rightarrow> link builder" where
  "vae_decode_audio samples vae = add ''VAEDecodeAudio'' [(''samples'', L samples), (''vae'', L vae)]"

definition empty_latent :: "string \<Rightarrow> int \<Rightarrow> int \<Rightarrow> link builder" where
  "empty_latent cls w h = add cls [(''width'', I w), (''height'', I h), (''batch_size'', I 1)]"

definition sampler_custom :: "link \<Rightarrow> link \<Rightarrow> link \<Rightarrow> link \<Rightarrow> link \<Rightarrow> link builder" where
  "sampler_custom noise guider sampler sigmas latent =
     add ''SamplerCustomAdvanced''
       [(''noise'', L noise), (''guider'', L guider), (''sampler'', L sampler), (''sigmas'', L sigmas),
        (''latent_image'', L latent)]"

section \<open>Image lanes\<close>

definition krea2 :: "pydict \<Rightarrow> string \<Rightarrow> int \<Rightarrow> link builder" where
  "krea2 p prompt seed =
     bindG (liftG (image_geometry p)) (\<lambda>(width, height).
     bindG (liftG (int_field p ''steps'' 8 8 8 (Some ''Comfy-Org/Krea-2-Turbo''))) (\<lambda>_.
     bindG (liftG (float_field p ''cfg'' (flt 1) (flt 1) (flt 1) (Some ''Comfy-Org/Krea-2-Turbo''))) (\<lambda>cfg.
     bindG (unet ''krea2_turbo_int8_convrot.safetensors'') (\<lambda>model.
     bindG (clip_loader ''qwen3vl_4b_fp8_scaled.safetensors'' ''krea2'') (\<lambda>clip.
     bindG (vae_loader ''qwen_image_vae.safetensors'') (\<lambda>vae.
     bindG (encode_text clip prompt) (\<lambda>positive.
     bindG (zero_out positive) (\<lambda>negative.
     bindG (empty_latent ''EmptyLatentImage'' width height) (\<lambda>latent.
     bindG (sample model positive negative latent seed 8 (PFloat cfg)) (\<lambda>sampled.
     vae_decode sampled vae))))))))))"

definition ideogram4_presets :: "(string \<times> int \<times> rat \<times> rat) list" where
  "ideogram4_presets = [(''Quality'', 48, 0, 3 / 2), (''Default'', 20, 0, 7 / 4), (''Turbo'', 12, 1 / 2, 7 / 4)]"

text \<open>\<open>preset not in IDEOGRAM4_PRESETS\<close> hashes the value: a list or an object raises.\<close>

definition ideogram4_preset :: "pyval \<Rightarrow> (int \<times> rat \<times> rat) res" where
  "ideogram4_preset preset =
     (case preset of
        PList _ \<Rightarrow> Inl TypeErr
      | PDict _ \<Rightarrow> Inl TypeErr
      | PStr s \<Rightarrow>
          (case map_of ideogram4_presets s of
             None \<Rightarrow> Inl (err ''preset must be one of Quality, Default, Turbo'')
           | Some t \<Rightarrow> Inr t)
      | _ \<Rightarrow> Inl (err ''preset must be one of Quality, Default, Turbo''))"

definition ideogram4 :: "(string \<Rightarrow> pyval res) \<Rightarrow> pydict \<Rightarrow> string \<Rightarrow> int \<Rightarrow> link builder" where
  "ideogram4 loads p prompt seed =
     raiseG (has_key p ''negative_prompt'') (err ''Comfy-Org/Ideogram-4 does not accept a negative_prompt'') (
     bindG (liftG (ideogram_geometry p)) (\<lambda>(width, height).
     bindG (liftG (ideogram_caption loads prompt width height)) (\<lambda>caption.
     bindG (liftG (ideogram4_preset (get_default p ''preset'' (PStr ''Default'')))) (\<lambda>(steps0, mu0, std0).
     bindG (liftG (int_field p ''steps'' steps0 1 200 (Some ''Comfy-Org/Ideogram-4''))) (\<lambda>steps.
     bindG (liftG (float_field p ''mu'' (flt mu0) (flt (- 10)) (flt 10) (Some ''Comfy-Org/Ideogram-4''))) (\<lambda>mu.
     bindG (liftG (float_field p ''std'' (flt std0) (flt (1 / 10)) (flt 5) (Some ''Comfy-Org/Ideogram-4''))) (\<lambda>std.
     bindG (vae_loader ''flux2-vae.safetensors'') (\<lambda>vae.
     bindG (clip_loader ''qwen3vl_8b_fp8_scaled.safetensors'' ''ideogram4'') (\<lambda>clip.
     bindG (unet ''ideogram4_int8_convrot.safetensors'') (\<lambda>model.
     bindG (unet ''ideogram4_unconditional_int8_convrot.safetensors'') (\<lambda>uncond.
     bindG (encode_text clip caption) (\<lambda>positive.
     bindG (zero_out positive) (\<lambda>negative.
     bindG (empty_latent ''EmptyFlux2LatentImage'' width height) (\<lambda>latent.
     bindG (add ''RandomNoise'' [(''noise_seed'', I seed)]) (\<lambda>noise.
     bindG (add ''KSamplerSelect'' [(''sampler_name'', S ''euler'')]) (\<lambda>sampler.
     bindG (add ''Ideogram4Scheduler''
       [(''steps'', I steps), (''width'', I width), (''height'', I height), (''mu'', FV mu), (''std'', FV std)]) (\<lambda>sigmas.
     bindG (add ''DualModelGuider''
       [(''model'', L model), (''model_negative'', L uncond), (''positive'', L positive),
        (''negative'', L negative), (''cfg'', F 7)]) (\<lambda>guider.
     bindG (sampler_custom noise guider sampler sigmas latent) (\<lambda>sampled.
     vae_decode sampled vae)))))))))))))))))))"

definition qwen_image :: "pydict \<Rightarrow> string \<Rightarrow> int \<Rightarrow> bool \<Rightarrow> link builder" where
  "qwen_image p prompt seed lightning =
     bindG (liftG (image_geometry p)) (\<lambda>(width, height).
     bindG (unet ''qwen_image_2512_fp8_e4m3fn.safetensors'') (\<lambda>model1.
     bindG (add ''ModelSamplingAuraFlow'' [(''model'', L model1), (''shift'', F (31 / 10))]) (\<lambda>model2.
     bindG (if lightning then
              add ''LoraLoaderModelOnly''
                [(''model'', L model2),
                 (''lora_name'', S ''Qwen-Image-2512-Lightning-4steps-V1.0-bf16.safetensors''),
                 (''strength_model'', F 1)]
            else retG model2) (\<lambda>model.
     bindG (clip_loader ''qwen_2.5_vl_7b_nvfp4.safetensors'' ''qwen_image'') (\<lambda>clip.
     bindG (vae_loader ''qwen_image_vae.safetensors'') (\<lambda>vae.
     bindG (encode_text clip prompt) (\<lambda>positive.
     bindG (liftG (text_field p ''negative_prompt''
       ''low resolution, blurry text, malformed anatomy, oversaturated, waxy skin, cluttered composition'' 8000)) (\<lambda>neg.
     bindG (encode_text clip neg) (\<lambda>negative.
     bindG (empty_latent ''EmptySD3LatentImage'' width height) (\<lambda>latent.
     bindG (liftG
       (if lightning then
          bindE (int_field p ''steps'' 4 4 4 None) (\<lambda>_.
          bindE (float_field p ''cfg'' (flt 1) (flt 1) (flt 1) None) (\<lambda>cfg. Inr (4, cfg)))
        else
          bindE (int_field p ''steps'' 50 20 60 None) (\<lambda>steps.
          bindE (float_field p ''cfg'' (flt 4) (flt 1) (flt 8) None) (\<lambda>cfg. Inr (steps, cfg))))) (\<lambda>(steps, cfg).
     bindG (sample model positive negative latent seed steps (PFloat cfg)) (\<lambda>sampled.
     vae_decode sampled vae))))))))))))"

definition edit_plus :: "link \<Rightarrow> link \<Rightarrow> link \<Rightarrow> string \<Rightarrow> link builder" where
  "edit_plus clip vae img prompt =
     add ''TextEncodeQwenImageEditPlus''
       [(''clip'', L clip), (''vae'', L vae), (''image1'', L img), (''prompt'', S prompt)]"

definition names_geometry :: "pydict \<Rightarrow> bool" where
  "names_geometry p = list_ex (has_key p) [''size'', ''width'', ''height'']"

definition qwen_image_edit :: "pydict \<Rightarrow> string \<Rightarrow> int \<Rightarrow> string \<Rightarrow> link builder" where
  "qwen_image_edit p prompt seed image_filename =
     raiseG (names_geometry p) (err ''Qwen edit output geometry follows the reference image'') (
     bindG (unet ''qwen_image_edit_2511_fp8mixed.safetensors'') (\<lambda>model1.
     bindG (add ''ModelSamplingAuraFlow'' [(''model'', L model1), (''shift'', F (31 / 10))]) (\<lambda>model2.
     bindG (add ''CFGNorm'' [(''model'', L model2), (''strength'', F 1)]) (\<lambda>model.
     bindG (clip_loader ''qwen_2.5_vl_7b_nvfp4.safetensors'' ''qwen_image'') (\<lambda>clip.
     bindG (vae_loader ''qwen_image_vae.safetensors'') (\<lambda>vae.
     bindG (load_image image_filename) (\<lambda>image1.
     bindG (add ''FluxKontextImageScale'' [(''image'', L image1)]) (\<lambda>img.
     bindG (edit_plus clip vae img prompt) (\<lambda>positive.
     bindG (liftG (text_field p ''negative_prompt'' [] 8000)) (\<lambda>neg.
     bindG (edit_plus clip vae img neg) (\<lambda>negative.
     bindG (add ''VAEEncode'' [(''pixels'', L img), (''vae'', L vae)]) (\<lambda>latent.
     bindG (liftG (int_field p ''steps'' 40 20 60 None)) (\<lambda>steps.
     bindG (liftG (float_field p ''cfg'' (flt 4) (flt 1) (flt 8) None)) (\<lambda>cfg.
     bindG (sample model positive negative latent seed steps (PFloat cfg)) (\<lambda>sampled.
     vae_decode sampled vae)))))))))))))))"

definition qwen_21_fields :: "string list" where
  "qwen_21_fields =
    [''model'', ''prompt'', ''negative_prompt'', ''image'', ''size'', ''width'', ''height'', ''resolution'',
     ''quality'', ''steps'', ''seed'', ''cfg'', ''n'', ''response_format'']"

definition encode_21 :: "link \<Rightarrow> link \<Rightarrow> string \<Rightarrow> string \<Rightarrow> int \<Rightarrow> link builder" where
  "encode_21 clip vae prompt neg resolution =
     add ''TextEncodeQwenImage21''
       [(''clip'', L clip), (''vae'', L vae), (''prompt'', S prompt), (''negative_prompt'', S neg),
        (''resolution'', I resolution)]"

text \<open>The conditioning of an edit: the reference is spliced into the encode node afterwards.\<close>

definition condition_edit_21 ::
  "pydict \<Rightarrow> string \<Rightarrow> int \<Rightarrow> string \<Rightarrow> link \<Rightarrow> link \<Rightarrow> (link \<times> link \<times> link) builder" where
  "condition_edit_21 p prompt resolution image_filename clip vae =
     raiseG (names_geometry p)
       (err ''Qwen 2.1 edits follow the reference image; use resolution instead'') (
     bindG (liftG (text_field p ''negative_prompt'' [] 8000)) (\<lambda>neg.
     bindG (encode_21 clip vae prompt neg resolution) (\<lambda>encode.
     bindG (load_image image_filename) (\<lambda>img.
     bindG (add ''JoinImageWithAlpha'' [(''image'', L (out_of img 0)), (''alpha'', L (out_of img 1))]) (\<lambda>rgba.
     bindG (set_input (fst encode) ''images.image_1'' (L rgba)) (\<lambda>_.
     retG (encode, out_of encode 1, out_of encode 2)))))))"

definition condition_text_21 ::
  "pydict \<Rightarrow> string \<Rightarrow> int \<Rightarrow> link \<Rightarrow> link \<Rightarrow> (link \<times> link \<times> link) builder" where
  "condition_text_21 p prompt resolution clip vae =
     bindG (liftG (qwen_image_21_geometry p resolution)) (\<lambda>(width, height).
     bindG (liftG (text_field p ''negative_prompt'' [] 8000)) (\<lambda>neg.
     bindG (encode_21 clip vae prompt neg 1024) (\<lambda>encode.
     bindG (empty_latent ''EmptyLatentImage'' width height) (\<lambda>latent.
     retG (encode, out_of encode 1, latent)))))"

definition qwen_image_21 :: "pydict \<Rightarrow> string \<Rightarrow> int \<Rightarrow> string option \<Rightarrow> string \<Rightarrow> link builder" where
  "qwen_image_21 p prompt seed image_filename model_id =
     (let unknown = unknown_fields qwen_21_fields p in
      raiseG (unknown \<noteq> []) (err (''Unsupported Qwen Image 2.1 fields: '' @ join_with '', '' unknown)) (
      raiseG (get_default p ''negative_prompt'' (PStr []) \<noteq> PStr [])
        (err ''negative_prompt is unsupported because Qwen Image 2.1 uses cfg=1'') (
      raiseG (has_key p ''size'' \<and> (has_key p ''width'' \<or> has_key p ''height''))
        (err ''Use size or width/height, not both'') (
      bindG (liftG (int_field p ''resolution'' 1024 256 2048 (Some ''the reference-image pixel budget''))) (\<lambda>resolution.
      raiseG (resolution mod 32 \<noteq> 0) (err ''resolution must be a multiple of 32'') (
      bindG (liftG (case map_of qwen_image_21_checkpoints model_id of None \<Rightarrow> Inl OtherExn | Some c \<Rightarrow> Inr c)) (\<lambda>ck.
      bindG (unet (ck_diffusion ck)) (\<lambda>model.
      bindG (clip_loader (ck_encoder ck) ''qwen_image'') (\<lambda>clip.
      bindG (vae_loader (ck_vae ck)) (\<lambda>vae.
      bindG (case image_filename of
               Some f \<Rightarrow> condition_edit_21 p prompt resolution f clip vae
             | None \<Rightarrow> condition_text_21 p prompt resolution clip vae) (\<lambda>(positive, negative, latent).
      bindG (liftG (qwen_image_21_steps p)) (\<lambda>steps.
      bindG (liftG (float_field p ''cfg'' (flt 1) (flt 1) (flt 1) None)) (\<lambda>cfg.
      bindG (sample model positive negative latent seed steps (PFloat cfg)) (\<lambda>sampled.
      vae_decode sampled vae))))))))))))))"

definition flux2_reference :: "string \<Rightarrow> link \<Rightarrow> link \<Rightarrow> link \<Rightarrow> (link \<times> link) builder" where
  "flux2_reference image_filename vae positive negative =
     bindG (load_image image_filename) (\<lambda>image1.
     bindG (add ''ImageScaleToTotalPixels''
       [(''image'', L image1), (''upscale_method'', S ''nearest-exact''), (''megapixels'', F 1),
        (''resolution_steps'', I 1)]) (\<lambda>img.
     bindG (add ''VAEEncode'' [(''pixels'', L img), (''vae'', L vae)]) (\<lambda>reference.
     bindG (add ''ReferenceLatent'' [(''conditioning'', L positive), (''latent'', L reference)]) (\<lambda>pos.
     bindG (add ''ReferenceLatent'' [(''conditioning'', L negative), (''latent'', L reference)]) (\<lambda>neg.
     retG (pos, neg))))))"

definition flux2_klein :: "pydict \<Rightarrow> string \<Rightarrow> int \<Rightarrow> string option \<Rightarrow> link builder" where
  "flux2_klein p prompt seed image_filename =
     bindG (liftG (image_geometry p)) (\<lambda>(width, height).
     bindG (liftG (int_field p ''steps'' 4 4 4 None)) (\<lambda>_.
     bindG (liftG (float_field p ''cfg'' (flt 1) (flt 1) (flt 5) None)) (\<lambda>cfg.
     bindG (unet ''flux-2-klein-4b-nvfp4.safetensors'') (\<lambda>model.
     bindG (clip_loader ''qwen_3_4b_fp4_mixed.safetensors'' ''flux2'') (\<lambda>clip.
     bindG (vae_loader ''flux2-vae.safetensors'') (\<lambda>vae.
     bindG (encode_text clip prompt) (\<lambda>positive1.
     bindG (liftG (text_field p ''negative_prompt'' [] 8000)) (\<lambda>neg.
     bindG (encode_text clip neg) (\<lambda>negative1.
     bindG (case image_filename of
              Some f \<Rightarrow> flux2_reference f vae positive1 negative1
            | None \<Rightarrow> retG (positive1, negative1)) (\<lambda>(positive, negative).
     bindG (empty_latent ''EmptyFlux2LatentImage'' width height) (\<lambda>latent.
     bindG (add ''RandomNoise'' [(''noise_seed'', I seed)]) (\<lambda>noise.
     bindG (add ''CFGGuider''
       [(''model'', L model), (''positive'', L positive), (''negative'', L negative), (''cfg'', FV cfg)]) (\<lambda>guider.
     bindG (add ''KSamplerSelect'' [(''sampler_name'', S ''euler'')]) (\<lambda>sampler.
     bindG (add ''Flux2Scheduler'' [(''steps'', I 4), (''width'', I width), (''height'', I height)]) (\<lambda>sigmas.
     bindG (sampler_custom noise guider sampler sigmas latent) (\<lambda>sampled.
     vae_decode sampled vae))))))))))))))))"

end
