(* ===== verification/Graph_Lanes.thy ===== *)
theory Graph_Lanes
  imports Graph_Build
begin

text \<open>
  \<open>backends/comfyui-media/graphs/graphs.py\<close>, third part: the music and video lanes and
  \<open>build_graph\<close>. \<open>ltx\<close> is cut into the stretches its comments name; each returns the links the
  next one reads.
\<close>

section \<open>Music lanes\<close>

definition music3 :: "pydict \<Rightarrow> string \<Rightarrow> string \<Rightarrow> rat \<Rightarrow> int \<Rightarrow> link builder" where
  "music3 p caption lyrics duration seed =
     bindG (unet ''minimax_music3_dit_fp16.safetensors'') (\<lambda>model.
     bindG (clip_loader ''minimax_music3_text_encoder_pruned_int8_convrot.safetensors'' ''minimax'') (\<lambda>clip.
     bindG (vae_loader ''minimax_music3_dav.safetensors'') (\<lambda>vae.
     bindG (add ''MiniMaxMusic3TextEncode''
       [(''clip'', L clip), (''caption'', S caption), (''lyrics'', S lyrics), (''seed'', I seed),
        (''max_duration'', FV duration), (''cfg_scale'', F (17 / 10)), (''top_k'', I 50)]) (\<lambda>cond.
     bindG (zero_out cond) (\<lambda>neg.
     bindG (add ''EmptyMiniMaxMusic3LatentAudio''
       [(''seconds'', L (out_of cond 1)), (''batch_size'', I 1)]) (\<lambda>latent.
     bindG (liftG (int_field p ''steps'' 30 20 50 None)) (\<lambda>steps.
     bindG (sample model cond neg latent seed steps (flt (17 / 10))) (\<lambda>sampled.
     add ''VAEDecodeAudioTiled''
       [(''samples'', L sampled), (''vae'', L vae), (''tile_size'', I 1536), (''overlap'', I 64)]))))))))"

definition ace_languages :: "string list" where
  "ace_languages = split_on (CHR '' '')
    ''ar az bg bn ca cs da de el en es fa fi fr he hi hr ht hu id is it ja ko la lt ms ne nl no pa pl pt ro ru sa sk sr sv sw ta te th tl tr uk ur vi yue zh unknown''"

definition ace_condition ::
  "pydict \<Rightarrow> string \<Rightarrow> string \<Rightarrow> rat \<Rightarrow> int \<Rightarrow> bool \<Rightarrow> link \<Rightarrow> link builder" where
  "ace_condition p caption lyrics duration seed turbo clip =
     bindG (liftG (text_field p ''language'' ''en'' 16)) (\<lambda>language.
     raiseG (language \<notin> set ace_languages) (err ''Unsupported music language'') (
     bindG (liftG (int_field p ''bpm'' 100 10 300 None)) (\<lambda>bpm.
     add ''TextEncodeAceStepAudio1.5''
       [(''clip'', L clip), (''tags'', S caption), (''lyrics'', S lyrics), (''seed'', I seed),
        (''bpm'', I bpm), (''duration'', FV duration), (''timesignature'', S ''4''),
        (''language'', S language), (''keyscale'', S ''C major''), (''generate_audio_codes'', B True),
        (''cfg_scale'', F 2), (''temperature'', F (85 / 100)),
        (''top_p'', F (if turbo then 9 / 10 else 1)), (''top_k'', I 0), (''min_p'', F 0)])))"

definition ace :: "pydict \<Rightarrow> string \<Rightarrow> string \<Rightarrow> rat \<Rightarrow> int \<Rightarrow> bool \<Rightarrow> link builder" where
  "ace p caption lyrics duration seed turbo =
     bindG (unet (if turbo then ''acestep_v1.5_xl_turbo_bf16.safetensors''
                  else ''acestep_v1.5_xl_sft_bf16.safetensors'')) (\<lambda>model1.
     bindG (add ''ModelSamplingAuraFlow'' [(''model'', L model1), (''shift'', F 3)]) (\<lambda>model.
     bindG (add ''DualCLIPLoader''
       [(''clip_name1'', S ''qwen_0.6b_ace15.safetensors''), (''clip_name2'', S ''qwen_4b_ace15.safetensors''),
        (''type'', S ''ace''), (''device'', S ''default'')]) (\<lambda>clip.
     bindG (vae_loader ''ace_1.5_vae.safetensors'') (\<lambda>vae.
     bindG (ace_condition p caption lyrics duration seed turbo clip) (\<lambda>cond.
     bindG (zero_out cond) (\<lambda>neg.
     bindG (add ''EmptyAceStep1.5LatentAudio'' [(''seconds'', FV duration), (''batch_size'', I 1)]) (\<lambda>latent.
     bindG (liftG (int_field p ''steps'' (if turbo then 8 else 50) (if turbo then 8 else 20)
                     (if turbo then 8 else 100) None)) (\<lambda>steps.
     bindG (sample model cond neg latent seed steps (flt (if turbo then 1 else 7))) (\<lambda>sampled.
     vae_decode_audio sampled vae)))))))))"

definition yue2_abc ::
  "string option \<Rightarrow> bool \<Rightarrow> link \<Rightarrow> string \<Rightarrow> string \<Rightarrow> int \<Rightarrow> pyval \<Rightarrow> ginput builder" where
  "yue2_abc caller_abc abc_planning clip style lyrics seed mode =
     (case caller_abc of
        Some a \<Rightarrow> retG (S a)
      | None \<Rightarrow>
          if abc_planning then
            bindG (add ''YuE2GenerateABC''
              [(''clip'', L clip), (''style'', S style), (''lyrics'', S lyrics), (''seed'', I seed),
               (''mode'', Val mode), (''max_abc_tokens'', I 8192), (''temperature'', F (7 / 10)),
               (''top_p'', F (9 / 10)), (''top_k'', I 30), (''repetition_penalty'', F (1005 / 1000)),
               (''penalty_window'', I 100)]) (\<lambda>l. retG (L l))
          else retG (S []))"

definition yue2 :: "pydict \<Rightarrow> string \<Rightarrow> string \<Rightarrow> int \<Rightarrow> int \<Rightarrow> link builder" where
  "yue2 p style lyrics duration seed =
     (let label = Some ''Comfy-Org/YuE2-3B''; mode = get_default p ''mode'' (PStr ''full'');
          planning = get_default p ''abc_planning'' (PBool False)
      in
     raiseG (mode \<notin> {PStr ''full'', PStr ''melody''}) (err ''mode must be full or melody'') (
     bindG (liftG (int_field p ''steps'' 32 8 64 label)) (\<lambda>steps.
     bindG (liftG (float_field p ''cfg'' (flt 1) (flt 1) (flt 4) label)) (\<lambda>cfg.
     raiseG (\<not> is_bool planning) (err ''abc_planning must be true or false'') (
     bindG (liftG (text_field p ''abc'' [] 20000)) (\<lambda>abc_text.
     let caller_abc = (if py_strip abc_text = [] then None else Some (py_strip abc_text)) in
     bindG (add ''CheckpointLoaderSimple'' [(''ckpt_name'', S ''yue2_3b_int8_convrot.safetensors'')]) (\<lambda>checkpoint.
     let model = checkpoint; clip = out_of checkpoint 1; vae = out_of checkpoint 2 in
     bindG (yue2_abc caller_abc (truthy planning) clip style lyrics seed mode) (\<lambda>abc.
     bindG (add ''YuE2GenerateMusic''
       [(''clip'', L clip), (''style'', S style), (''lyrics'', S lyrics), (''abc'', abc), (''seed'', I seed),
        (''mode'', Val mode), (''max_duration'', I duration), (''temperature'', F 1),
        (''top_p'', F (95 / 100)), (''top_k'', I 100), (''repetition_penalty'', F (12 / 10))]) (\<lambda>music.
     bindG (zero_out music) (\<lambda>negative.
     bindG (add ''EmptyYuE2LatentAudio'' [(''seconds'', L (out_of music 1)), (''batch_size'', I 1)]) (\<lambda>latent.
     bindG (add ''KSampler''
       [(''model'', L model), (''positive'', L music), (''negative'', L negative), (''latent_image'', L latent),
        (''seed'', I seed), (''steps'', I steps), (''cfg'', FV cfg), (''sampler_name'', S ''dpm_2''),
        (''scheduler'', S ''sgm_uniform''), (''denoise'', F 1)]) (\<lambda>sampled.
     vae_decode_audio sampled vae))))))))))))"

section \<open>MiniMax-H3\<close>

definition opt_load :: "string option \<Rightarrow> (string \<Rightarrow> link builder) \<Rightarrow> link option builder" where
  "opt_load f m = (case f of Some s \<Rightarrow> if s = [] then retG None else bindG (m s) (\<lambda>l. retG (Some l)) | None \<Rightarrow> retG None)"

definition opt_input :: "string \<Rightarrow> link option \<Rightarrow> (string \<times> ginput) list" where
  "opt_input k l = (case l of None \<Rightarrow> [] | Some x \<Rightarrow> [(k, L x)])"

definition load_audio :: "string \<Rightarrow> link builder" where
  "load_audio f = add ''LoadAudio'' [(''audio'', S f)]"

definition load_video :: "string \<Rightarrow> link builder" where
  "load_video f = bindG (add ''LoadVideo'' [(''file'', S f)]) (\<lambda>l. add ''GetVideoComponents'' [(''video'', L l)])"

definition create_video :: "link \<Rightarrow> link \<Rightarrow> link builder" where
  "create_video images audio = add ''CreateVideo'' [(''images'', L images), (''audio'', L audio), (''fps'', F 24)]"

text \<open>What both H3 graphs end with.\<close>

definition h3_sample :: "link \<Rightarrow> link \<Rightarrow> link \<Rightarrow> link \<Rightarrow> link \<Rightarrow> int \<Rightarrow> int \<Rightarrow> link builder" where
  "h3_sample model positive latent vae audio_vae seed steps =
     bindG (add ''BasicGuider'' [(''model'', L model), (''conditioning'', L positive)]) (\<lambda>guider.
     bindG (add ''RandomNoise'' [(''noise_seed'', I seed)]) (\<lambda>noise.
     bindG (add ''KSamplerSelect'' [(''sampler_name'', S ''res_multistep'')]) (\<lambda>sampler.
     bindG (add ''BasicScheduler''
       [(''model'', L model), (''scheduler'', S ''simple''), (''steps'', I steps), (''denoise'', F 1)]) (\<lambda>sigmas.
     bindG (sampler_custom noise guider sampler sigmas latent) (\<lambda>sampled.
     bindG (vae_decode sampled vae) (\<lambda>images.
     bindG (vae_decode_audio sampled audio_vae) (\<lambda>audio.
     create_video images audio)))))))"

definition h3_condition ::
  "string \<Rightarrow> string \<Rightarrow> (string \<times> ginput) list \<Rightarrow> link \<Rightarrow> link \<Rightarrow> int \<Rightarrow> int \<Rightarrow> int \<Rightarrow> (string \<times> ginput) list \<Rightarrow> link builder" where
  "h3_condition cls prompt extra clip vae width height frames refs =
     add cls ([(''clip'', L clip), (''vae'', L vae)] @ extra @
       [(''prompt'', S prompt), (''width'', I width), (''height'', I height), (''length'', I frames)] @ refs)"

definition h3_references ::
  "pydict \<Rightarrow> string option \<Rightarrow> string option \<Rightarrow> string option \<Rightarrow> (string \<times> ginput) list builder" where
  "h3_references p image_filename audio_filename video_filename =
     bindG (opt_load image_filename load_image) (\<lambda>img.
     bindG (opt_load audio_filename load_audio) (\<lambda>aud.
     bindG (opt_load video_filename load_video) (\<lambda>vid.
     retG (opt_input ''ref_images.ref_image_1'' img @ opt_input ''ref_audios.ref_audio_1'' aud
           @ opt_input ''ref_videos.ref_video_1'' vid
           @ (if truthy (get_default p ''video_audio'' (PBool False))
              then opt_input ''ref_video_audios.ref_video_audio_1'' (map_option (\<lambda>l. out_of l 1) vid) else [])))))"

definition h3_ref2va ::
  "pydict \<Rightarrow> string \<Rightarrow> int \<Rightarrow> string option \<Rightarrow> string option \<Rightarrow> string option \<Rightarrow> int \<Rightarrow> int \<Rightarrow> int \<Rightarrow> int
   \<Rightarrow> string option \<Rightarrow> link builder" where
  "h3_ref2va p prompt seed image_filename audio_filename last_image_filename width height frames steps video_filename =
     bindG (unet ''minimax_h3_ref2va_pruned_int8_convrot.safetensors'') (\<lambda>model.
     bindG (clip_loader ''qwen3vl_32b_minimax_h3_nvfp4_awq.safetensors'' ''minimax'') (\<lambda>clip.
     bindG (vae_loader ''minimax_h3_video_vae_fp16.safetensors'') (\<lambda>vae.
     bindG (vae_loader ''minimax_h3_audio_vae_fp32.safetensors'') (\<lambda>audio_vae.
     bindG (h3_references p image_filename audio_filename video_filename) (\<lambda>refs.
     let ref_size = get_default p ''ref_image_size'' (PStr ''match'') in
     raiseG (ref_size \<notin> {PStr ''match'', PStr ''max''}) (err ''ref_image_size must be match or max'') (
     bindG (h3_condition ''MiniMaxH3ReferenceToVideo'' prompt [(''audio_vae'', L audio_vae)] clip vae width height frames
       ((''ref_image_size'', Val ref_size) # refs)) (\<lambda>condition.
     bindG (opt_load last_image_filename load_image) (\<lambda>endpoint.
     bindG (case endpoint of
              None \<Rightarrow> retG condition
            | Some e \<Rightarrow>
                add ''MiniMaxH3AddGuide''
                  [(''positive'', L condition), (''latent'', L (out_of condition 1)), (''vae'', L vae),
                   (''image'', L e), (''frame_idx'', I (- 1))]) (\<lambda>positive.
     h3_sample model positive (out_of condition 1) vae audio_vae seed steps)))))))))"

definition h3_frames ::
  "string \<Rightarrow> int \<Rightarrow> int \<Rightarrow> int \<Rightarrow> int \<Rightarrow> int \<Rightarrow> string option \<Rightarrow> string option \<Rightarrow> bool \<Rightarrow> link builder" where
  "h3_frames prompt seed width height frames steps image_filename last_image_filename turbo =
     bindG (unet (if turbo then ''minimax_h3_fl2va_turbo8_merged_mxfp8.safetensors''
                  else ''minimax_h3_fl2va_pruned_int8_convrot.safetensors'')) (\<lambda>model.
     bindG (clip_loader ''qwen3vl_32b_minimax_h3_nvfp4_awq.safetensors'' ''minimax'') (\<lambda>clip.
     bindG (vae_loader ''minimax_h3_video_vae_fp16.safetensors'') (\<lambda>vae.
     bindG (vae_loader ''minimax_h3_audio_vae_fp32.safetensors'') (\<lambda>audio_vae.
     bindG (opt_load image_filename load_image) (\<lambda>first.
     bindG (opt_load last_image_filename load_image) (\<lambda>last_frame.
     bindG (h3_condition ''MiniMaxH3ImageToVideo'' prompt [] clip vae width height frames
       (opt_input ''first_frame'' first @ opt_input ''last_frame'' last_frame)) (\<lambda>condition.
     h3_sample model condition (out_of condition 1) vae audio_vae seed steps)))))))"

definition h3_label :: "bool \<Rightarrow> string" where
  "h3_label turbo = (if turbo then ''MiniMax-H3-Turbo'' else ''MiniMax-H3'')"

definition h3 ::
  "pydict \<Rightarrow> string \<Rightarrow> int \<Rightarrow> string option \<Rightarrow> string option \<Rightarrow> bool \<Rightarrow> string option \<Rightarrow> string option \<Rightarrow> link builder" where
  "h3 p prompt seed image_filename last_image_filename turbo audio_filename video_filename =
     (let label = h3_label turbo in
     bindG (liftG (geometry p False)) (\<lambda>(width, height).
     bindG (liftG (float_field p ''duration'' (PInt 5) (PInt 5) (PInt 15) (Some label))) (\<lambda>duration.
     bindG (liftG (frame_count p (h3_default_frames duration) 124 362 17 5)) (\<lambda>frames.
     bindG (liftG (int_field p ''steps'' (if turbo then 8 else 20) (if turbo then 4 else 10)
                     (if turbo then 8 else 50) (Some label))) (\<lambda>steps.
     raiseG (turbo \<and> steps \<notin> {4, 8}) (err (''steps for '' @ label @ '' must be 4 or 8'')) (
     if audio_filename \<noteq> None \<or> video_filename \<noteq> None \<or> get_none p ''workflow'' = PStr ''reference'' then
       raiseG turbo (err ''MiniMax-H3-Turbo does not accept reference audio'') (
       raiseG (\<not> (opt_true image_filename \<or> opt_true audio_filename \<or> opt_true video_filename))
         (err ''H3 reference workflow requires image, audio or video'')
         (h3_ref2va p prompt seed image_filename audio_filename last_image_filename width height frames steps
            video_filename))
     else h3_frames prompt seed width height frames steps image_filename last_image_filename turbo))))))"

section \<open>LTX-2.5\<close>

definition voice_fields :: "string list" where
  "voice_fields = [''voice_reference'', ''voice_identity'', ''voice_start'', ''voice_end'']"

definition ltx_checks :: "pydict \<Rightarrow> string option \<Rightarrow> string option \<Rightarrow> unit res" where
  "ltx_checks p image_filename audio_filename =
     (let controls = filter (has_key p) voice_fields in
      raise_if (has_key p ''image_strength'' \<and> image_filename = None)
        (err ''image_strength requires image or first_frame'')
      (raise_if (controls \<noteq> [] \<and> audio_filename = None) (err ''voice controls require audio'')
      (raise_if (py_eq (get_none p ''voice_reference'') (PInt 0) \<and> filter (\<lambda>k. k \<noteq> ''voice_reference'') controls \<noteq> [])
        (err ''voice guidance controls require voice_reference=1'')
      (bindE (float_field p ''voice_start'' (PInt 0) (PInt 0) (PInt 1) None) (\<lambda>start.
       bindE (float_field p ''voice_end'' (PInt 1) (PInt 0) (PInt 1) None) (\<lambda>stop.
         raise_if (stop < start) (err ''voice_start must not exceed voice_end'') (Inr ())))))))"

definition ltx_guide :: "link \<Rightarrow> link \<Rightarrow> link \<Rightarrow> link \<Rightarrow> link option \<Rightarrow> (link \<times> link \<times> link) builder" where
  "ltx_guide pos neg vae latent endpoint =
     (case endpoint of
        None \<Rightarrow> retG (pos, neg, latent)
      | Some e \<Rightarrow>
          bindG (add ''LTXVAddGuide''
            [(''positive'', L pos), (''negative'', L neg), (''vae'', L vae), (''latent'', L latent),
             (''image'', L e), (''frame_idx'', I (- 1)), (''strength'', F 1)]) (\<lambda>guide.
          retG (guide, out_of guide 1, out_of guide 2)))"

definition ltx_crop :: "link \<Rightarrow> link \<Rightarrow> link \<Rightarrow> link option \<Rightarrow> (link \<times> link \<times> link) builder" where
  "ltx_crop pos neg latent endpoint =
     (case endpoint of
        None \<Rightarrow> retG (pos, neg, latent)
      | Some _ \<Rightarrow>
          bindG (add ''LTXVCropGuides'' [(''positive'', L pos), (''negative'', L neg), (''latent'', L latent)]) (\<lambda>c.
          retG (c, out_of c 1, out_of c 2)))"

definition ltx_image_to_video :: "link \<Rightarrow> link option \<Rightarrow> link \<Rightarrow> pyval \<Rightarrow> link builder" where
  "ltx_image_to_video vae img latent strength =
     (case img of
        None \<Rightarrow> retG latent
      | Some i \<Rightarrow>
          add ''LTXVImgToVideoInplace''
            [(''vae'', L vae), (''image'', L i), (''latent'', L latent), (''strength'', Val strength),
             (''bypass'', B False)])"

definition ltx_load_first :: "string option \<Rightarrow> link option builder" where
  "ltx_load_first image_filename =
     opt_load image_filename (\<lambda>f.
       bindG (load_image f) (\<lambda>i. add ''LTXVPreprocess'' [(''image'', L i), (''img_compression'', I 18)]))"

text \<open>A supplied clip: its fixed latent, the loaded waveform and, if asked for, its timbre.\<close>

definition ltx_voice ::
  "pydict \<Rightarrow> link \<Rightarrow> link \<Rightarrow> link \<Rightarrow> link \<Rightarrow> link \<Rightarrow> (link \<times> link \<times> link) builder" where
  "ltx_voice p model pos neg loaded audio_vae =
     bindG (liftG (int_field p ''voice_reference'' 1 0 1 None)) (\<lambda>use_voice.
     if use_voice = 0 then retG (model, pos, neg)
     else
       bindG (liftG (float_field p ''voice_identity'' (flt 3) (flt 0) (flt 20) None)) (\<lambda>identity.
       bindG (liftG (float_field p ''voice_start'' (flt 0) (flt 0) (flt 1) None)) (\<lambda>start.
       bindG (liftG (float_field p ''voice_end'' (flt 1) (flt 0) (flt 1) None)) (\<lambda>stop.
       bindG (add ''LTXVReferenceAudio''
         [(''model'', L model), (''positive'', L pos), (''negative'', L neg), (''reference_audio'', L loaded),
          (''audio_vae'', L audio_vae), (''identity_guidance_scale'', FV identity),
          (''start_percent'', FV start), (''end_percent'', FV stop)]) (\<lambda>guided.
       retG (out_of guided 0, out_of guided 1, out_of guided 2))))))"

definition ltx_audio ::
  "pydict \<Rightarrow> string option \<Rightarrow> int \<Rightarrow> link \<Rightarrow> link \<Rightarrow> link \<Rightarrow> link
   \<Rightarrow> (link \<times> link option \<times> link \<times> link \<times> link) builder" where
  "ltx_audio p audio_filename frames model pos neg audio_vae =
     bindG (opt_load audio_filename load_audio) (\<lambda>loaded.
     case loaded of
       Some l \<Rightarrow>
         bindG (add ''LTXVAudioVAEEncode'' [(''audio'', L l), (''audio_vae'', L audio_vae)]) (\<lambda>encoded.
         bindG (add ''SolidMask'' [(''value'', F 0), (''width'', I 1), (''height'', I 1)]) (\<lambda>mask.
         bindG (add ''SetLatentNoiseMask'' [(''samples'', L encoded), (''mask'', L mask)]) (\<lambda>audio.
         bindG (ltx_voice p model pos neg l audio_vae) (\<lambda>(model2, pos2, neg2).
         retG (audio, Some l, model2, pos2, neg2)))))
     | None \<Rightarrow>
         bindG (add ''LTXVEmptyLatentAudio''
           [(''frames_number'', I frames), (''frame_rate'', F 24), (''batch_size'', I 1),
            (''audio_vae'', L audio_vae)]) (\<lambda>audio.
         retG (audio, None, model, pos, neg)))"

definition concat_av :: "link \<Rightarrow> link \<Rightarrow> link builder" where
  "concat_av video audio = add ''LTXVConcatAVLatent'' [(''video_latent'', L video), (''audio_latent'', L audio)]"

definition separate_av :: "link \<Rightarrow> link builder" where
  "separate_av l = add ''LTXVSeparateAVLatent'' [(''av_latent'', L l)]"

definition ltx_stage_one ::
  "bool \<Rightarrow> bool \<Rightarrow> link \<Rightarrow> link \<Rightarrow> link \<Rightarrow> link \<Rightarrow> link \<Rightarrow> int \<Rightarrow> int \<Rightarrow> pyval \<Rightarrow> link builder" where
  "ltx_stage_one full with_audio model pos neg latent av seed steps cfg =
     (if full then
        bindG (add ''LTXVScheduler''
          [(''steps'', I steps), (''max_shift'', F (205 / 100)), (''base_shift'', F (95 / 100)),
           (''stretch'', B True), (''terminal'', F (1 / 10)), (''latent'', L latent)]) (\<lambda>schedule.
        advanced model pos neg av seed [] cfg (flt (if with_audio then 1 else 7)) (Some schedule))
      else
        advanced model pos neg av seed
          ''1.0, 0.99375, 0.9875, 0.98125, 0.975, 0.909375, 0.725, 0.421875, 0.0'' (flt 1) (flt 1) None)"

definition ltx_stage_two ::
  "bool \<Rightarrow> link \<Rightarrow> link \<Rightarrow> link \<Rightarrow> link \<Rightarrow> int \<Rightarrow> link builder" where
  "ltx_stage_two full model pos neg av seed =
     bindG (if full then
              add ''LoraLoaderModelOnly''
                [(''model'', L model), (''lora_name'', S ''ltx-2.5-22b-distilled-lora-450-bf16.safetensors''),
                 (''strength_model'', F 1)]
            else retG model) (\<lambda>model2.
     advanced model2 pos neg av (seed + 1) ''0.85, 0.7250, 0.4219, 0.0'' (flt 1) (flt 1) None)"

text \<open>From the separated first stage to the refined joint latent.\<close>

definition ltx_upscale ::
  "bool \<Rightarrow> link \<Rightarrow> link \<Rightarrow> link \<Rightarrow> link \<Rightarrow> link option \<Rightarrow> link option \<Rightarrow> link \<Rightarrow> int
   \<Rightarrow> (link \<times> link \<times> link) builder" where
  "ltx_upscale full model pos neg separate img endpoint vae seed =
     bindG (ltx_crop pos neg separate endpoint) (\<lambda>(pos1, neg1, video_latent).
     bindG (add ''LatentUpscaleModelLoader''
       [(''model_name'', S ''ltx-2.5-latent-spatial-upscaler-x2-bf16-1.0.safetensors'')]) (\<lambda>upscaler.
     bindG (add ''LTXVLatentUpsampler''
       [(''samples'', L video_latent), (''upscale_model'', L upscaler), (''vae'', L vae)]) (\<lambda>upscaled1.
     bindG (ltx_image_to_video vae img upscaled1 (flt 1)) (\<lambda>upscaled2.
     bindG (ltx_guide pos1 neg1 vae upscaled2 endpoint) (\<lambda>(pos2, neg2, upscaled3).
     bindG (concat_av upscaled3 (out_of separate 1)) (\<lambda>av.
     bindG (ltx_stage_two full model pos2 neg2 av seed) (\<lambda>sampled.
     retG (pos2, neg2, sampled))))))))"

definition ltx_finish ::
  "link \<Rightarrow> link \<Rightarrow> link \<Rightarrow> link option \<Rightarrow> link \<Rightarrow> link \<Rightarrow> link option \<Rightarrow> link builder" where
  "ltx_finish pos neg sampled endpoint vae audio_vae loaded =
     bindG (separate_av sampled) (\<lambda>separate.
     bindG (case endpoint of
              None \<Rightarrow> retG separate
            | Some _ \<Rightarrow>
                bindG (add ''LTXVCropGuides''
                  [(''positive'', L pos), (''negative'', L neg), (''latent'', L separate)]) (\<lambda>c. retG (out_of c 2))) (\<lambda>video_latent.
     bindG (add ''VAEDecodeTiled''
       [(''samples'', L video_latent), (''vae'', L vae), (''tile_size'', I 512), (''overlap'', I 64),
        (''temporal_size'', I 64), (''temporal_overlap'', I 16)]) (\<lambda>frames.
     bindG (case loaded of
              Some l \<Rightarrow> retG l
            | None \<Rightarrow> add ''LTXVAudioVAEDecode''
                [(''samples'', L (out_of separate 1)), (''audio_vae'', L audio_vae)]) (\<lambda>audio.
     create_video frames audio))))"

definition ltx_negative :: string where
  "ltx_negative = ''pc game, console game, video game, cartoon, childish, ugly''"

text \<open>The numeric fields: geometry, steps, guidance, strength of the first frame, frames.\<close>

definition ltx_numbers :: "pydict \<Rightarrow> bool \<Rightarrow> (int \<times> int \<times> int \<times> pyval \<times> rat \<times> int) res" where
  "ltx_numbers p full =
     (let label = Some ''Lightricks/LTX-2.5'' in
      bindE (geometry p True) (\<lambda>(width, height).
      bindE (float_field p ''duration'' (PInt 5) (PInt 1) (PInt 10) label) (\<lambda>duration.
      bindE (int_field p ''steps'' (if full then 30 else 8) (if full then 10 else 8) (if full then 60 else 8) label) (\<lambda>steps.
      bindE (if full then bindE (float_field p ''guidance_scale'' (flt 3) (flt 1) (flt 20) None) (\<lambda>c. Inr (PFloat c))
             else Inr (flt 1)) (\<lambda>cfg.
      bindE (float_field p ''image_strength'' (flt (7 / 10)) (flt 0) (flt 1) label) (\<lambda>strength.
      bindE (frame_count p (ltx_default_frames duration) 25 241 8 1) (\<lambda>frames.
      Inr (width, height, steps, cfg, strength, frames))))))))"

definition ltx ::
  "pydict \<Rightarrow> string \<Rightarrow> int \<Rightarrow> string option \<Rightarrow> string option \<Rightarrow> string option \<Rightarrow> bool \<Rightarrow> link builder" where
  "ltx p prompt seed image_filename last_image_filename audio_filename full =
     bindG (liftG (ltx_checks p image_filename audio_filename)) (\<lambda>_.
     bindG (liftG (ltx_numbers p full)) (\<lambda>(width, height, steps, cfg, strength, frames).
     bindG (unet (if full then ''ltx-2.5-22b-dev-transformer-bf16.safetensors''
                  else ''ltx-2.5-22b-distilled-transformer-comfy-int8-convrot.safetensors'')) (\<lambda>model1.
     bindG (clip_loader ''gemma4-12b-with-proj-ltx-2.5-comfy-int8-convrot.safetensors'' ''ltxv'') (\<lambda>clip.
     bindG (vae_loader ''ltx-2.5-video-vae-bf16.safetensors'') (\<lambda>vae.
     bindG (vae_loader ''ltx-2.5-audio-vae-bf16.safetensors'') (\<lambda>audio_vae.
     bindG (encode_text clip prompt) (\<lambda>pos0.
     bindG (liftG (text_field p ''negative_prompt'' ltx_negative 8000)) (\<lambda>neg_text.
     bindG (encode_text clip neg_text) (\<lambda>neg0.
     bindG (add ''LTXVConditioning''
       [(''positive'', L pos0), (''negative'', L neg0), (''frame_rate'', F 24)]) (\<lambda>cond.
     bindG (add ''EmptyLTXVLatentVideo''
       [(''width'', I (width div 2)), (''height'', I (height div 2)), (''length'', I frames),
        (''batch_size'', I 1)]) (\<lambda>latent0.
     bindG (ltx_load_first image_filename) (\<lambda>img.
     bindG (ltx_image_to_video vae img latent0 (PFloat strength)) (\<lambda>latent1.
     bindG (opt_load last_image_filename load_image) (\<lambda>endpoint.
     bindG (ltx_guide cond (out_of cond 1) vae latent1 endpoint) (\<lambda>(pos1, neg1, latent2).
     bindG (ltx_audio p audio_filename frames model1 pos1 neg1 audio_vae) (\<lambda>(audio, loaded, model2, pos2, neg2).
     bindG (concat_av latent2 audio) (\<lambda>av.
     bindG (ltx_stage_one full (opt_true audio_filename) model2 pos2 neg2 latent2 av seed steps cfg) (\<lambda>sampled1.
     bindG (separate_av sampled1) (\<lambda>separate.
     bindG (ltx_upscale full model2 pos2 neg2 separate img endpoint vae seed) (\<lambda>(pos3, neg3, sampled2).
     ltx_finish pos3 neg3 sampled2 endpoint vae audio_vae loaded))))))))))))))))))))"

section \<open>Selection of the lane\<close>

definition name_char :: "char \<Rightarrow> bool" where
  "name_char c = (is_alnum c \<or> c = CHR ''_'' \<or> c = CHR ''-'')"

definition valid_prefix :: "string \<Rightarrow> bool" where
  "valid_prefix s = (list_all name_char s \<and> 1 \<le> length s \<and> length s \<le> 64)"

text \<open>\<open>re.fullmatch("[A-Za-z0-9_-]{1,80}\.(e1|e2)", f)\<close>.\<close>

definition generated_name :: "string list \<Rightarrow> string \<Rightarrow> bool" where
  "generated_name exts f =
     (case split_on (CHR ''.'') f of
        [a, e] \<Rightarrow> list_all name_char a \<and> 1 \<le> length a \<and> length a \<le> 80 \<and> e \<in> set exts
      | _ \<Rightarrow> False)"

definition check_image_name :: "string \<Rightarrow> string option \<Rightarrow> unit res" where
  "check_image_name name f =
     (case f of
        None \<Rightarrow> Inr ()
      | Some s \<Rightarrow> if generated_name [''png'', ''jpg''] s then Inr ()
                 else Inl (err (''Invalid generated '' @ name @ '' name'')))"

definition check_audio_name :: "string \<Rightarrow> string option \<Rightarrow> unit res" where
  "check_audio_name model_id f =
     (case f of
        None \<Rightarrow> Inr ()
      | Some s \<Rightarrow>
          if \<not> generated_name [''wav'', ''flac'', ''mp3''] s then Inl (err ''Invalid generated audio name'')
          else if \<not> prefix ''Lightricks/'' model_id \<and> model_id \<noteq> ''MiniMaxAI/MiniMax-H3''
            then Inl (err (''Audio conditioning is not supported by '' @ model_id))
          else Inr ())"

definition check_video_name :: "string \<Rightarrow> string option \<Rightarrow> unit res" where
  "check_video_name model_id f =
     (case f of
        None \<Rightarrow> Inr ()
      | Some s \<Rightarrow>
          if model_id \<noteq> ''MiniMaxAI/MiniMax-H3''
            then Inl (err (model_id @ '' does not support reference video''))
          else if \<not> generated_name [''mp4''] s then Inl (err ''Invalid generated video name'')
          else Inr ())"

definition forbidden_fields :: "string list" where
  "forbidden_fields = [''graph'', ''checkpoint'', ''model_path'', ''output_path'', ''image_url'']"

record media_names =
  image_name :: "string option"
  last_image_name :: "string option"
  audio_name :: "string option"
  video_name :: "string option"

definition check_names :: "string \<Rightarrow> media_names \<Rightarrow> unit res" where
  "check_names model_id f =
     bindE (check_image_name ''first frame'' (image_name f)) (\<lambda>_.
     bindE (check_image_name ''last frame'' (last_image_name f)) (\<lambda>_.
     bindE (check_audio_name model_id (audio_name f)) (\<lambda>_.
     check_video_name model_id (video_name f))))"

definition family_of :: "model_entry \<Rightarrow> string" where
  "family_of e = (case m_family e of None \<Rightarrow> [] | Some x \<Rightarrow> x)"

definition graph_seed :: "int \<Rightarrow> model_entry \<Rightarrow> pydict \<Rightarrow> int res" where
  "graph_seed randbits e p =
     (if \<not> has_key p ''seed'' \<and> family_of e = ''qwen-image-21'' then Inr randbits
      else int_field p ''seed'' 42 0 ((if family_of e = ''qwen-image-21'' then 2 ^ 53 else 2 ^ 63) - 1) None)"

definition required_prompt :: "pydict \<Rightarrow> string res" where
  "required_prompt p =
     bindE (text_field p ''prompt'' [] 8000) (\<lambda>prompt.
       raise_if (py_strip prompt = []) (err ''prompt is required'') (Inr prompt))"

definition image_lane ::
  "(string \<Rightarrow> pyval res) \<Rightarrow> string \<Rightarrow> string \<Rightarrow> pydict \<Rightarrow> string \<Rightarrow> int \<Rightarrow> string option \<Rightarrow> link builder" where
  "image_lane loads model_id family p prompt seed image_filename =
     (if family = ''qwen-image-21'' then qwen_image_21 p prompt seed image_filename model_id
      else if family = ''qwen-image-edit'' then
        (case image_filename of
           None \<Rightarrow> liftG (Inl (err ''Qwen image editing requires an image''))
         | Some f \<Rightarrow> qwen_image_edit p prompt seed f)
      else if prefix ''qwen-image'' family then
        raiseG (image_filename \<noteq> None) (err ''Qwen image generation does not accept a reference image'')
          (qwen_image p prompt seed (suffix ''lightning'' family))
      else if family \<in> {''krea2'', ''ideogram4''} then
        raiseG (image_filename \<noteq> None \<or> get_none p ''image'' \<noteq> PNone)
          (err (model_id @ '' does not accept a reference image''))
          (if family = ''krea2'' then krea2 p prompt seed else ideogram4 loads p prompt seed)
      else flux2_klein p prompt seed image_filename)"

definition video_lane :: "string \<Rightarrow> pydict \<Rightarrow> int \<Rightarrow> media_names \<Rightarrow> link builder" where
  "video_lane model_id payload seed f =
     bindG (liftG (normalize_video_payload model_id payload)) (\<lambda>p.
     bindG (liftG (required_prompt p)) (\<lambda>prompt.
     if is_h3 model_id then
       h3 p prompt seed (image_name f) (last_image_name f) (suffix ''Turbo'' model_id) (audio_name f) (video_name f)
     else
       ltx p prompt seed (image_name f) (last_image_name f) (audio_name f) (suffix ''Comfy-Full'' model_id)))"

definition audio_lane :: "string \<Rightarrow> string \<Rightarrow> pydict \<Rightarrow> int \<Rightarrow> media_names \<Rightarrow> link builder" where
  "audio_lane model_id family p seed f =
     raiseG (image_name f \<noteq> None \<or> last_image_name f \<noteq> None \<or> get_none p ''image'' \<noteq> PNone)
       (err ''Music models do not accept images'') (
     bindG (liftG (text_field p ''prompt'' ''Instrumental music'' 8000)) (\<lambda>prompt.
     bindG (liftG (text_field p ''instructions'' prompt 8000)) (\<lambda>caption.
     bindG (liftG (text_field p ''input'' ''[Instrumental]'' 20000)) (\<lambda>words.
     bindG (liftG (text_field p ''lyrics'' words 20000)) (\<lambda>lyrics.
     raiseG (get_none p ''duration'' \<noteq> PNone \<and> get_none p ''max_duration'' \<noteq> PNone
         \<and> \<not> py_eq (get_none p ''duration'') (get_none p ''max_duration''))
       (err ''duration and max_duration must agree when both are set'') (
     if family = ''yue2'' then
       bindG (liftG (int_field [(''duration'', get_default p ''duration'' (get_default p ''max_duration'' (PInt 120)))]
         ''duration'' 120 15 360 (Some ''Comfy-Org/YuE2-3B''))) (\<lambda>duration.
       yue2 p caption lyrics duration seed)
     else
       bindG (liftG (float_field p ''duration'' (PInt 30) (PInt 10) (PInt 300) None)) (\<lambda>duration.
       if model_id = ''MiniMaxAI/MiniMax-Music3'' then music3 p caption lyrics duration seed
       else ace p caption lyrics duration seed (suffix ''Turbo'' model_id))))))))"

definition output_inputs :: "string \<Rightarrow> link \<Rightarrow> string \<Rightarrow> (string \<times> ginput) list" where
  "output_inputs kind result pre =
     (if kind = ''image'' then [(''images'', L result), (''filename_prefix'', S pre)]
      else if kind = ''video'' then
        [(''video'', L result), (''filename_prefix'', S pre), (''format'', S ''mp4''), (''codec'', S ''h264'')]
      else [(''audio'', L result), (''filename_prefix'', S pre)])"

definition save_class :: "string \<Rightarrow> string" where
  "save_class kind =
     (if kind = ''image'' then ''SaveImage'' else if kind = ''video'' then ''SaveVideo'' else ''SaveAudio'')"

text \<open>The graph, the key of its output node and its kind.\<close>

definition build_graph ::
  "(string \<Rightarrow> pyval res) \<Rightarrow> int \<Rightarrow> string \<Rightarrow> pyval \<Rightarrow> media_names \<Rightarrow> string \<Rightarrow> (graph \<times> string \<times> string) res" where
  "build_graph loads randbits model_id payload files pre =
     (case (map_of models model_id, payload) of
        (Some e, PDict p) \<Rightarrow>
          raise_if (\<not> valid_prefix pre) (err ''Invalid output prefix'')
          (bindE (check_names model_id files) (\<lambda>_.
           raise_if (list_ex (has_key p) forbidden_fields)
             (err ''Arbitrary graphs, paths and URLs are not supported'')
           (raise_if (has_key p ''workflow'' \<and> model_id \<noteq> ''MiniMaxAI/MiniMax-H3'')
             (err ''workflow selection is supported only for MiniMax-H3'')
           (bindE (graph_seed randbits e p) (\<lambda>seed.
            bindE (int_field p ''n'' 1 1 1 None) (\<lambda>n.
            raise_if (n \<noteq> 1) (err ''Only one output per request is supported'')
            (bindE
              (bindG
                (if m_kind e = ''image'' then
                   bindG (liftG (required_prompt p)) (\<lambda>prompt.
                     image_lane loads model_id (family_of e) p prompt seed (image_name files))
                 else if m_kind e = ''video'' then video_lane model_id p seed files
                 else audio_lane model_id (family_of e) p seed files)
                (\<lambda>result. add (save_class (m_kind e)) (output_inputs (m_kind e) result pre)) [])
              (\<lambda>(out, g). Inr (g, show_nat (fst out), m_kind e)))))))))
      | _ \<Rightarrow> Inl (err ''Unsupported model or request''))"

end
