(* ===== verification/Graph_Safety.thy ===== *)
theory Graph_Safety
  imports Graph_Lanes
begin

text \<open>
  What every graph that leaves \<open>build_graph\<close> satisfies: links name nodes of the graph and form no
  cycle, loader files are pinned, media nodes read the given server-generated names, sizes are
  bounded and the one output node is the declared one. A lane is checked step by step with
  \<open>builds\<close>; the edit on the 2.1 lane, which splices a link backwards, is evaluated.
\<close>

section \<open>Building step by step\<close>

text \<open>
  \<open>wf P g\<close>: every node satisfies \<open>P\<close> and refers only to nodes before it. \<open>builds P K m N\<close>: from
  a well-formed graph that has the nodes \<open>K\<close>, the step \<open>m\<close> gives a well-formed extension, and
  the nodes \<open>N a\<close> that its value \<open>a\<close> names exist in it.
\<close>

definition links_of :: "node \<Rightarrow> nat set" where
  "links_of nd = {n. \<exists>k i. (k, Link n i) \<in> set (snd nd)}"

definition wf :: "(node \<Rightarrow> bool) \<Rightarrow> graph \<Rightarrow> bool" where
  "wf P g = (\<forall>i<length g. P (g ! i) \<and> links_of (g ! i) \<subseteq> {1..i})"

definition builds :: "(node \<Rightarrow> bool) \<Rightarrow> nat set \<Rightarrow> 'a builder \<Rightarrow> ('a \<Rightarrow> nat set) \<Rightarrow> bool" where
  "builds P K m N =
     (\<forall>g a g'. wf P g \<and> K \<subseteq> {1..length g} \<and> m g = Inr (a, g') \<longrightarrow>
        wf P g' \<and> length g \<le> length g' \<and> N a \<subseteq> {1..length g'})"

named_theorems build_rules \<open>steps that build well-formed graphs\<close>

abbreviation node_of :: "link \<Rightarrow> nat set" where
  "node_of l \<equiv> {fst l}"

lemma builds_weaken: "builds P K m N \<Longrightarrow> K \<subseteq> K' \<Longrightarrow> builds P K' m N"
  unfolding builds_def by blast

lemma builds_ret: "N a \<subseteq> K \<Longrightarrow> builds P K (retG a) N"
  by (auto simp: builds_def retG_def)

lemma builds_lift: "(\<And>a. r = Inr a \<Longrightarrow> N a \<subseteq> K) \<Longrightarrow> builds P K (liftG r) N"
  by (auto simp: builds_def liftG_def split: sum.splits)

lemma builds_raise: "(\<not> c \<Longrightarrow> builds P K m N) \<Longrightarrow> builds P K (raiseG c e m) N"
  by (auto simp: builds_def raiseG_def)

lemma builds_add:
  assumes "P (cls, ins)" "links_of (cls, ins) \<subseteq> K"
  shows "builds P K (add cls ins) node_of"
  using assms
  by (auto simp: builds_def add_def wf_def nth_append less_Suc_eq)

lemma builds_bind:
  assumes "builds P K m M" "\<And>a. builds P (K \<union> M a) (f a) N"
  shows "builds P K (bindG m f) N"
  unfolding builds_def
proof (intro allI impI)
  fix g b g' assume h: "wf P g \<and> K \<subseteq> {1..length g} \<and> bindG m f g = Inr (b, g')"
  then obtain a g1 where m: "m g = Inr (a, g1)" and f: "f a g1 = Inr (b, g')"
    by (auto simp: bindG_def split: sum.splits)
  from assms(1) h m have 1: "wf P g1" "length g \<le> length g1" "M a \<subseteq> {1..length g1}"
    unfolding builds_def by blast+
  with h have "K \<union> M a \<subseteq> {1..length g1}" by auto
  with assms(2) [of a] 1 f have "wf P g' \<and> length g1 \<le> length g' \<and> N b \<subseteq> {1..length g'}"
    unfolding builds_def by blast
  with 1 show "wf P g' \<and> length g \<le> length g' \<and> N b \<subseteq> {1..length g'}" by auto
qed

text \<open>The value of a pure computation is known in what follows.\<close>

lemma builds_bind_lift:
  "(\<And>a. r = Inr a \<Longrightarrow> builds P K (f a) N) \<Longrightarrow> builds P K (bindG (liftG r) f) N"
  by (cases r) (auto simp: builds_def bindG_def liftG_def)

lemma builds_if: "(c \<Longrightarrow> builds P K a N) \<Longrightarrow> (\<not> c \<Longrightarrow> builds P K b N) \<Longrightarrow> builds P K (if c then a else b) N"
  by simp

lemma builds_option:
  "(v = None \<Longrightarrow> builds P K a N) \<Longrightarrow> (\<And>x. v = Some x \<Longrightarrow> builds P K (f x) N) \<Longrightarrow>
   builds P K (case v of None \<Rightarrow> a | Some x \<Rightarrow> f x) N"
  by (simp split: option.split)

lemma links_of_simps [simp]:
  "links_of (cls, []) = {}"
  "links_of (cls, (k, Link n i) # ins) = insert n (links_of (cls, ins))"
  "links_of (cls, (k, Val v) # ins) = links_of (cls, ins)"
  "links_of (cls, xs @ ys) = links_of (cls, xs) \<union> links_of (cls, ys)"
  by (auto simp: links_of_def)


lemma builds_prod:
  "(\<And>x y. a = (x, y) \<Longrightarrow> builds P K (f x y) N) \<Longrightarrow> builds P K (case a of (x, y) \<Rightarrow> f x y) N"
  by (cases a) simp

section \<open>What every node satisfies\<close>

definition loader_keys :: "string list" where
  "loader_keys = [''unet_name'', ''clip_name'', ''clip_name1'', ''clip_name2'', ''vae_name'', ''lora_name'',
     ''model_name'', ''ckpt_name'']"

definition pinned_files :: "string list" where
  "pinned_files =
    [''krea2_turbo_int8_convrot.safetensors'', ''qwen3vl_4b_fp8_scaled.safetensors'',
     ''qwen_image_vae.safetensors'', ''flux2-vae.safetensors'', ''qwen3vl_8b_fp8_scaled.safetensors'',
     ''ideogram4_int8_convrot.safetensors'', ''ideogram4_unconditional_int8_convrot.safetensors'',
     ''qwen_image_2512_fp8_e4m3fn.safetensors'', ''Qwen-Image-2512-Lightning-4steps-V1.0-bf16.safetensors'',
     ''qwen_2.5_vl_7b_nvfp4.safetensors'', ''qwen_image_edit_2511_fp8mixed.safetensors'',
     ''flux-2-klein-4b-nvfp4.safetensors'', ''qwen_3_4b_fp4_mixed.safetensors'',
     ''minimax_music3_dit_fp16.safetensors'', ''minimax_music3_text_encoder_pruned_int8_convrot.safetensors'',
     ''minimax_music3_dav.safetensors'', ''acestep_v1.5_xl_turbo_bf16.safetensors'',
     ''acestep_v1.5_xl_sft_bf16.safetensors'', ''qwen_0.6b_ace15.safetensors'', ''qwen_4b_ace15.safetensors'',
     ''ace_1.5_vae.safetensors'', ''yue2_3b_int8_convrot.safetensors'',
     ''minimax_h3_ref2va_pruned_int8_convrot.safetensors'', ''qwen3vl_32b_minimax_h3_nvfp4_awq.safetensors'',
     ''minimax_h3_video_vae_fp16.safetensors'', ''minimax_h3_audio_vae_fp32.safetensors'',
     ''minimax_h3_fl2va_turbo8_merged_mxfp8.safetensors'', ''minimax_h3_fl2va_pruned_int8_convrot.safetensors'',
     ''ltx-2.5-22b-dev-transformer-bf16.safetensors'',
     ''ltx-2.5-22b-distilled-transformer-comfy-int8-convrot.safetensors'',
     ''gemma4-12b-with-proj-ltx-2.5-comfy-int8-convrot.safetensors'', ''ltx-2.5-video-vae-bf16.safetensors'',
     ''ltx-2.5-audio-vae-bf16.safetensors'', ''ltx-2.5-22b-distilled-lora-450-bf16.safetensors'',
     ''ltx-2.5-latent-spatial-upscaler-x2-bf16-1.0.safetensors'',
     ''qwen_image_2.1_int8_convrot.safetensors'', ''qwen3vl_8b_int8_convrot.safetensors'',
     ''qwen_image_2.1_vae_bf16.safetensors'', ''qwen_image_2.1_nvfp4.safetensors'', ''qwen3vl_8b_nvfp4.safetensors'']"

text \<open>Loader files are pinned and sizes bounded.\<close>

definition int_in :: "int \<Rightarrow> int \<Rightarrow> ginput \<Rightarrow> bool" where
  "int_in l h v = (case v of Val (PInt n) \<Rightarrow> l \<le> n \<and> n \<le> h | _ \<Rightarrow> False)"

definition pinned :: "ginput \<Rightarrow> bool" where
  "pinned v = (case v of Val (PStr s) \<Rightarrow> s \<in> set pinned_files | _ \<Rightarrow> False)"

definition input_ok :: "string \<Rightarrow> ginput \<Rightarrow> bool" where
  "input_ok k v =
     (if k \<in> set loader_keys then pinned v
      else if k = ''steps'' then int_in 1 200 v
      else if k = ''width'' \<or> k = ''height'' then int_in 1 3072 v
      else if k = ''length'' \<or> k = ''frames_number'' then int_in 25 362 v
      else if k = ''batch_size'' then int_in 1 1 v
      else True)"

definition load_classes :: "string list" where
  "load_classes = [''LoadImage'', ''LoadAudio'', ''LoadVideo'']"

definition node_ok :: "string set \<Rightarrow> node \<Rightarrow> bool" where
  "node_ok files nd =
     (list_all (\<lambda>(k, v). input_ok k v) (snd nd)
      \<and> \<not> prefix ''Save'' (fst nd)
      \<and> (fst nd \<in> set load_classes \<longrightarrow> list_all (\<lambda>(k, v). \<exists>s\<in>files. v = S s) (snd nd)))"

lemma int_in_simps [simp]: "int_in l h (I n) \<longleftrightarrow> l \<le> n \<and> n \<le> h"
  by (simp add: int_in_def)

lemma pinned_simps [simp]: "pinned (S s) \<longleftrightarrow> s \<in> set pinned_files"
  by (simp add: pinned_def)

lemmas node_simps = node_ok_def input_ok_def loader_keys_def load_classes_def

lemma builds_unet [build_rules]: "f \<in> set pinned_files \<Longrightarrow> builds (node_ok fs) K (unet f) node_of"
  unfolding unet_def by (rule builds_add) (simp_all add: node_simps)

lemma builds_clip [build_rules]: "f \<in> set pinned_files \<Longrightarrow> builds (node_ok fs) K (clip_loader f ty) node_of"
  unfolding clip_loader_def by (rule builds_add) (simp_all add: node_simps)

lemma builds_vae [build_rules]: "f \<in> set pinned_files \<Longrightarrow> builds (node_ok fs) K (vae_loader f) node_of"
  unfolding vae_loader_def by (rule builds_add) (simp_all add: node_simps)

lemma builds_load_image [build_rules]: "f \<in> fs \<Longrightarrow> builds (node_ok fs) K (load_image f) node_of"
  unfolding load_image_def by (rule builds_add) (simp_all add: node_simps)

lemma builds_encode_text [build_rules]: "fst clip \<in> K \<Longrightarrow> builds (node_ok fs) K (encode_text clip t) node_of"
  unfolding encode_text_def by (rule builds_add) (simp_all add: node_simps)

lemma builds_zero_out [build_rules]: "fst c \<in> K \<Longrightarrow> builds (node_ok fs) K (zero_out c) node_of"
  unfolding zero_out_def by (rule builds_add) (simp_all add: node_simps)

lemma builds_vae_decode [build_rules]:
  "fst a \<in> K \<Longrightarrow> fst b \<in> K \<Longrightarrow> builds (node_ok fs) K (vae_decode a b) node_of"
  "fst a \<in> K \<Longrightarrow> fst b \<in> K \<Longrightarrow> builds (node_ok fs) K (vae_decode_audio a b) node_of"
  unfolding vae_decode_def vae_decode_audio_def by (rule builds_add; simp add: node_simps)+

lemma builds_sample [build_rules]:
  "fst m \<in> K \<Longrightarrow> fst a \<in> K \<Longrightarrow> fst b \<in> K \<Longrightarrow> fst l \<in> K \<Longrightarrow> 1 \<le> n \<Longrightarrow> n \<le> 200 \<Longrightarrow>
   builds (node_ok fs) K (sample m a b l seed n cfg) node_of"
  unfolding sample_def by (rule builds_add) (simp_all add: node_simps)

lemma builds_empty_latent [build_rules]:
  "1 \<le> w \<Longrightarrow> w \<le> 3072 \<Longrightarrow> 1 \<le> h \<Longrightarrow> h \<le> 3072 \<Longrightarrow> \<not> prefix ''Save'' cls \<Longrightarrow> cls \<notin> set load_classes \<Longrightarrow>
   builds (node_ok fs) K (empty_latent cls w h) node_of"
  unfolding empty_latent_def by (rule builds_add) (simp_all add: node_simps)

section \<open>Bounds of the fields\<close>

lemma checked_int:
  "checked name x l h True ds = Inr v \<Longrightarrow>
   \<exists>n. v = PInt n \<and> x = of_int n \<and> the (num_of l) \<le> of_int n \<and> of_int n \<le> the (num_of h)"
  by (auto simp: checked_def)

lemma number_int:
  "number p name d l h True ds = Inr v \<Longrightarrow>
   \<exists>n. v = PInt n \<and> the (num_of l) \<le> of_int n \<and> of_int n \<le> the (num_of h)"
  by (cases "get_default p name d") (auto simp: number_def dest!: checked_int split: if_splits)

lemma int_field_range: "int_field p name d l h ds = Inr n \<Longrightarrow> l \<le> n \<and> n \<le> h"
  by (auto simp: int_field_def dest!: number_int)

lemma image_geometry_range: "image_geometry p = Inr (w, h) \<Longrightarrow> 512 \<le> w \<and> w \<le> 1536 \<and> 512 \<le> h \<and> h \<le> 1536"
  by (auto simp: image_geometry_def dest!: int_field_range)

lemma geometry_range:
  "geometry p x = Inr (w, h) \<Longrightarrow> 128 \<le> w \<and> w \<le> 1344 \<and> 128 \<le> h \<and> h \<le> 1344"
  by (auto simp: geometry_def Let_def dest!: int_field_range split: if_splits)

lemma ideogram_geometry_range:
  "ideogram_geometry p = Inr (w, h) \<Longrightarrow> 256 \<le> w \<and> w \<le> 2048 \<and> 256 \<le> h \<and> h \<le> 2048"
  by (auto simp: ideogram_geometry_def dest!: int_field_range)

lemma qwen_geometry_range:
  "qwen_image_21_geometry p r = Inr (w, h) \<Longrightarrow> 256 \<le> w \<and> w \<le> 3072 \<and> 256 \<le> h \<and> h \<le> 3072"
  by (auto simp: qwen_image_21_geometry_def dest!: int_field_range)

lemma frame_count_range: "frame_count p d l h b i = Inr n \<Longrightarrow> l \<le> n \<and> n \<le> h"
  by (auto simp: frame_count_def Let_def dest!: int_field_range)

lemma quality_steps_range: "map_of quality_steps q = Some n \<Longrightarrow> 1 \<le> n \<and> n \<le> 60"
  by (simp add: quality_steps_def split: if_splits)

lemma steps_21_range:
  assumes "qwen_image_21_steps p = Inr n"
  shows "1 \<le> n \<and> n \<le> 60"
proof (cases "has_key p ''steps''")
  case True
  with assms have "int_field p ''steps'' 40 1 60 None = Inr n"
    by (auto simp: qwen_image_21_steps_def Let_def)
  then show ?thesis by (rule int_field_range)
next
  case False
  show ?thesis
  proof (cases "has_key p ''quality''")
    case True
    with False assms show ?thesis
      by (cases "get_none p ''quality''")
        (auto simp: qwen_image_21_steps_def Let_def dest: quality_steps_range split: option.splits)
  next
    case no_quality: False
    with False assms show ?thesis by (simp add: qwen_image_21_steps_def Let_def)
  qed
qed

lemma preset_steps: "ideogram4_preset v = Inr (n, x, y) \<Longrightarrow> 1 \<le> n \<and> n \<le> 200"
  by (auto simp: ideogram4_preset_def ideogram4_presets_def split: pyval.splits option.splits if_splits)

lemmas ranges = int_field_range image_geometry_range geometry_range ideogram_geometry_range
  qwen_geometry_range frame_count_range steps_21_range

section \<open>Values that name several nodes\<close>

definition nodes2 :: "link \<times> link \<Rightarrow> nat set" where
  "nodes2 x = {fst (fst x), fst (snd x)}"

definition nodes3 :: "link \<times> link \<times> link \<Rightarrow> nat set" where
  "nodes3 x = {fst (fst x), fst (fst (snd x)), fst (snd (snd x))}"

definition opt_nodes :: "link option \<Rightarrow> nat set" where
  "opt_nodes x = (case x of None \<Rightarrow> {} | Some l \<Rightarrow> node_of l)"

lemma nodes_simps [simp]:
  "nodes2 (a, b) = {fst a, fst b}" "nodes3 (a, b, c) = {fst a, fst b, fst c}"
  "opt_nodes None = {}" "opt_nodes (Some l) = {fst l}"
  by (simp_all add: nodes2_def nodes3_def opt_nodes_def)

lemma links_of_opt_input [simp]: "links_of (cls, opt_input k l) = opt_nodes l"
  "links_of (cls, opt_input k l @ ys) = opt_nodes l \<union> links_of (cls, ys)"
  by (auto simp: opt_input_def split: option.split)

lemma opt_nodes_out [simp]: "opt_nodes (map_option (\<lambda>l. out_of l i) v) = opt_nodes v"
  by (cases v) auto

lemma list_all_opt_input [simp]:
  "(\<And>n i. Q (k, Link n i)) \<Longrightarrow> list_all Q (opt_input k l)"
  by (simp add: opt_input_def split: option.split)

lemma bindG_assoc: "bindG (bindG m f) h = bindG m (\<lambda>x. bindG (f x) h)"
  by (rule ext) (simp add: bindG_def split: sum.split)

lemma bindG_ret: "bindG (retG a) f = f a"
  by (rule ext) (simp add: bindG_def retG_def)

lemma builds_opt_load [build_rules]:
  "(\<And>s. f = Some s \<Longrightarrow> builds P K (m s) node_of) \<Longrightarrow> builds P K (opt_load f m) opt_nodes"
  by (cases f) (auto simp: opt_load_def intro!: builds_ret builds_bind [where M = node_of])

lemmas bind_link = builds_bind [where M = node_of, OF builds_if] builds_bind [where M = node_of, OF builds_option]
lemmas bind_rules = builds_add [THEN builds_bind] bind_link
lemmas lane_rules = bind_rules builds_add builds_bind_lift builds_prod builds_raise builds_ret

lemmas lane_simps = node_simps pinned_files_def Let_def

named_theorems lane_intros

lemmas bind_blocks [lane_intros] =
  builds_unet [THEN builds_bind] builds_clip [THEN builds_bind] builds_vae [THEN builds_bind]
  builds_load_image [THEN builds_bind] builds_encode_text [THEN builds_bind] builds_zero_out [THEN builds_bind]
  builds_vae_decode(1) [THEN builds_bind] builds_vae_decode(2) [THEN builds_bind]
  builds_sample [THEN builds_bind] builds_empty_latent [THEN builds_bind] builds_opt_load [THEN builds_bind]

lemma builds_krea2: "builds (node_ok fs) K (krea2 p prompt seed) node_of"
  unfolding krea2_def
  by (intro lane_rules lane_intros build_rules) (auto simp: lane_simps dest!: ranges)

lemma builds_sampler_custom [build_rules]:
  "fst a \<in> K \<Longrightarrow> fst b \<in> K \<Longrightarrow> fst c \<in> K \<Longrightarrow> fst d \<in> K \<Longrightarrow> fst e \<in> K \<Longrightarrow>
   builds (node_ok fs) K (sampler_custom a b c d e) node_of"
  unfolding sampler_custom_def by (rule builds_add) (simp_all add: node_simps)

lemmas [lane_intros] = builds_sampler_custom [THEN builds_bind]

lemma builds_ideogram4: "builds (node_ok fs) K (ideogram4 loads p prompt seed) node_of"
  unfolding ideogram4_def
  by (intro lane_rules lane_intros build_rules) (auto simp: lane_simps dest!: ranges)

lemma builds_qwen_image: "builds (node_ok fs) K (qwen_image p prompt seed lightning) node_of"
  unfolding qwen_image_def
  by (intro lane_rules lane_intros build_rules) (auto simp: lane_simps dest!: ranges split: if_splits)

lemma builds_qwen_image_edit: "f \<in> fs \<Longrightarrow> builds (node_ok fs) K (qwen_image_edit p prompt seed f) node_of"
  unfolding qwen_image_edit_def edit_plus_def
  by (intro lane_rules lane_intros build_rules) (auto simp: lane_simps dest!: ranges)


lemma builds_flux2_reference:
  "f \<in> fs \<Longrightarrow> fst vae \<in> K \<Longrightarrow> fst a \<in> K \<Longrightarrow> fst b \<in> K \<Longrightarrow>
   builds (node_ok fs) K (flux2_reference f vae a b) nodes2"
  unfolding flux2_reference_def
  by (intro lane_rules lane_intros build_rules) (auto simp: lane_simps)

lemma builds_bind_pair_option:
  "(v = None \<Longrightarrow> builds P K a nodes2) \<Longrightarrow> (\<And>x. v = Some x \<Longrightarrow> builds P K (h x) nodes2) \<Longrightarrow>
   (\<And>y z. builds P (K \<union> {fst y, fst z}) (f (y, z)) N) \<Longrightarrow>
   builds P K (bindG (case v of None \<Rightarrow> a | Some x \<Rightarrow> h x) f) N"
  by (rule builds_bind [OF builds_option]) auto

lemma builds_flux2:
  "(\<And>f. img = Some f \<Longrightarrow> f \<in> fs) \<Longrightarrow> builds (node_ok fs) K (flux2_klein p prompt seed img) node_of"
  unfolding flux2_klein_def
  by (intro builds_bind_pair_option builds_flux2_reference bind_rules(1) builds_add builds_bind_lift builds_prod
      builds_raise builds_ret lane_intros build_rules)
    (auto simp: lane_simps dest!: ranges)

lemma builds_music3: "builds (node_ok fs) K (music3 p caption lyrics duration seed) node_of"
  unfolding music3_def
  by (intro lane_rules lane_intros build_rules) (auto simp: lane_simps dest!: ranges)

lemma builds_ace_condition [build_rules]:
  "fst clip \<in> K \<Longrightarrow> builds (node_ok fs) K (ace_condition p caption lyrics duration seed turbo clip) node_of"
  unfolding ace_condition_def
  by (intro lane_rules lane_intros build_rules) (auto simp: lane_simps)

lemmas [lane_intros] = builds_ace_condition [THEN builds_bind]

lemma builds_ace: "builds (node_ok fs) K (ace p caption lyrics duration seed turbo) node_of"
  unfolding ace_def
  by (intro lane_rules lane_intros build_rules) (auto simp: lane_simps dest!: ranges split: if_splits)

lemma builds_yue2_abc:
  "fst clip \<in> K \<Longrightarrow> builds (node_ok fs) K (yue2_abc a planning clip style lyrics seed mode)
     (\<lambda>v. case v of Link n i \<Rightarrow> {n} | Val _ \<Rightarrow> {})"
  unfolding yue2_abc_def
  by (intro builds_option builds_if lane_rules lane_intros build_rules) (auto simp: lane_simps)

lemma links_of_ginput: "links_of (cls, (k, v) # ins) = (case v of Link n i \<Rightarrow> {n} | Val _ \<Rightarrow> {}) \<union> links_of (cls, ins)"
  by (cases v) auto

lemma builds_yue2: "builds (node_ok fs) K (yue2 p style lyrics duration seed) node_of"
  unfolding yue2_def Let_def
  by (intro builds_yue2_abc [THEN builds_bind] lane_rules lane_intros build_rules)
    (auto simp: lane_simps links_of_ginput dest!: ranges split: ginput.splits)

section \<open>The video lanes\<close>

lemma builds_load_audio [build_rules]: "f \<in> fs \<Longrightarrow> builds (node_ok fs) K (load_audio f) node_of"
  unfolding load_audio_def by (rule builds_add) (simp_all add: node_simps)

lemma builds_load_video [build_rules]: "f \<in> fs \<Longrightarrow> builds (node_ok fs) K (load_video f) node_of"
  unfolding load_video_def
  by (intro lane_rules lane_intros build_rules) (auto simp: lane_simps)

lemma builds_create_video [build_rules]:
  "fst a \<in> K \<Longrightarrow> fst b \<in> K \<Longrightarrow> builds (node_ok fs) K (create_video a b) node_of"
  unfolding create_video_def by (rule builds_add) (simp_all add: node_simps)

lemma builds_h3_sample [build_rules]:
  "fst m \<in> K \<Longrightarrow> fst a \<in> K \<Longrightarrow> fst l \<in> K \<Longrightarrow> fst v \<in> K \<Longrightarrow> fst w \<in> K \<Longrightarrow> 1 \<le> n \<Longrightarrow> n \<le> 200 \<Longrightarrow>
   builds (node_ok fs) K (h3_sample m a l v w seed n) node_of"
  unfolding h3_sample_def
  by (intro lane_rules lane_intros build_rules) (auto simp: lane_simps)

lemma builds_h3_frames:
  assumes "128 \<le> w" "w \<le> 1344" "128 \<le> h" "h \<le> 1344" "25 \<le> n" "n \<le> 362" "1 \<le> steps" "steps \<le> 200"
    and "\<And>f. img = Some f \<Longrightarrow> f \<in> fs" "\<And>f. img2 = Some f \<Longrightarrow> f \<in> fs"
  shows "builds (node_ok fs) K (h3_frames prompt seed w h n steps img img2 turbo) node_of"
  unfolding h3_frames_def h3_condition_def
  using assms
  by (intro lane_rules lane_intros build_rules) (auto simp: lane_simps)

lemma builds_h3_ref2va:
  assumes "128 \<le> w" "w \<le> 1344" "128 \<le> h" "h \<le> 1344" "25 \<le> n" "n \<le> 362" "1 \<le> steps" "steps \<le> 200"
    and "\<And>f. img = Some f \<Longrightarrow> f \<in> fs" "\<And>f. img2 = Some f \<Longrightarrow> f \<in> fs"
    and "\<And>f. aud = Some f \<Longrightarrow> f \<in> fs" "\<And>f. vid = Some f \<Longrightarrow> f \<in> fs"
  shows "builds (node_ok fs) K (h3_ref2va p prompt seed img aud img2 w h n steps vid) node_of"
  unfolding h3_ref2va_def h3_condition_def h3_references_def bindG_assoc bindG_ret Let_def
  using assms
  by (intro lane_rules lane_intros build_rules) (auto simp: lane_simps)

lemma builds_h3:
  assumes "\<And>f. img = Some f \<Longrightarrow> f \<in> fs" "\<And>f. img2 = Some f \<Longrightarrow> f \<in> fs"
    and "\<And>f. aud = Some f \<Longrightarrow> f \<in> fs" "\<And>f. vid = Some f \<Longrightarrow> f \<in> fs"
  shows "builds (node_ok fs) K (h3 p prompt seed img img2 turbo aud vid) node_of"
  unfolding h3_def Let_def
  using assms
  by (intro builds_if builds_h3_frames builds_h3_ref2va lane_rules lane_intros build_rules)
    (auto simp: lane_simps dest!: ranges split: if_splits)


lemma builds_advanced [build_rules]:
  "fst m \<in> K \<Longrightarrow> fst a \<in> K \<Longrightarrow> fst b \<in> K \<Longrightarrow> fst l \<in> K \<Longrightarrow> opt_nodes sch \<subseteq> K \<Longrightarrow>
   builds (node_ok fs) K (advanced m a b l seed sigmas c d sch) node_of"
  unfolding advanced_def
  by (intro lane_rules lane_intros build_rules) (auto simp: lane_simps)

lemma builds_ltx_guide:
  "fst a \<in> K \<Longrightarrow> fst b \<in> K \<Longrightarrow> fst v \<in> K \<Longrightarrow> fst l \<in> K \<Longrightarrow> opt_nodes e \<subseteq> K \<Longrightarrow>
   builds (node_ok fs) K (ltx_guide a b v l e) nodes3"
  unfolding ltx_guide_def
  by (intro builds_option lane_rules lane_intros build_rules) (auto simp: lane_simps)

lemma builds_ltx_crop:
  "fst a \<in> K \<Longrightarrow> fst b \<in> K \<Longrightarrow> fst l \<in> K \<Longrightarrow> builds (node_ok fs) K (ltx_crop a b l e) nodes3"
  unfolding ltx_crop_def
  by (intro builds_option lane_rules lane_intros build_rules) (auto simp: lane_simps)

lemma builds_ltx_image_to_video [build_rules]:
  "fst v \<in> K \<Longrightarrow> opt_nodes i \<subseteq> K \<Longrightarrow> fst l \<in> K \<Longrightarrow>
   builds (node_ok fs) K (ltx_image_to_video v i l st) node_of"
  unfolding ltx_image_to_video_def
  by (intro builds_option lane_rules lane_intros build_rules) (auto simp: lane_simps)

lemma builds_ltx_load_first [build_rules]:
  "(\<And>f. img = Some f \<Longrightarrow> f \<in> fs) \<Longrightarrow> builds (node_ok fs) K (ltx_load_first img) opt_nodes"
  unfolding ltx_load_first_def
  by (intro lane_rules lane_intros build_rules) (auto simp: lane_simps)

lemma builds_ltx_voice:
  "fst m \<in> K \<Longrightarrow> fst a \<in> K \<Longrightarrow> fst b \<in> K \<Longrightarrow> fst l \<in> K \<Longrightarrow> fst v \<in> K \<Longrightarrow>
   builds (node_ok fs) K (ltx_voice p m a b l v) nodes3"
  unfolding ltx_voice_def
  by (intro builds_if lane_rules lane_intros build_rules) (auto simp: lane_simps)

definition nodes_audio :: "link \<times> link option \<times> link \<times> link \<times> link \<Rightarrow> nat set" where
  "nodes_audio x = node_of (fst x) \<union> opt_nodes (fst (snd x)) \<union> nodes3 (snd (snd x))"

lemma nodes_audio_simp [simp]: "nodes_audio (a, l, x) = node_of a \<union> opt_nodes l \<union> nodes3 x"
  by (simp add: nodes_audio_def)

lemma builds_ltx_audio:
  "(\<And>f. aud = Some f \<Longrightarrow> f \<in> fs) \<Longrightarrow> 25 \<le> n \<Longrightarrow> n \<le> 362 \<Longrightarrow> fst m \<in> K \<Longrightarrow> fst a \<in> K \<Longrightarrow> fst b \<in> K \<Longrightarrow> fst v \<in> K \<Longrightarrow>
   builds (node_ok fs) K (ltx_audio p aud n m a b v) nodes_audio"
  unfolding ltx_audio_def
  by (intro builds_option builds_ltx_voice [THEN builds_bind] lane_rules lane_intros build_rules)
    (auto simp: lane_simps)

lemma builds_concat_av [build_rules]: "fst a \<in> K \<Longrightarrow> fst b \<in> K \<Longrightarrow> builds (node_ok fs) K (concat_av a b) node_of"
  unfolding concat_av_def by (rule builds_add) (simp_all add: node_simps)

lemma builds_separate_av [build_rules]: "fst a \<in> K \<Longrightarrow> builds (node_ok fs) K (separate_av a) node_of"
  unfolding separate_av_def by (rule builds_add) (simp_all add: node_simps)

lemma builds_ltx_stage_one [build_rules]:
  "fst m \<in> K \<Longrightarrow> fst a \<in> K \<Longrightarrow> fst b \<in> K \<Longrightarrow> fst l \<in> K \<Longrightarrow> fst v \<in> K \<Longrightarrow> 1 \<le> n \<Longrightarrow> n \<le> 200 \<Longrightarrow>
   builds (node_ok fs) K (ltx_stage_one full w m a b l v seed n cfg) node_of"
  unfolding ltx_stage_one_def
  by (intro builds_if lane_rules lane_intros build_rules) (auto simp: lane_simps)

lemma builds_ltx_stage_two [build_rules]:
  "fst m \<in> K \<Longrightarrow> fst a \<in> K \<Longrightarrow> fst b \<in> K \<Longrightarrow> fst v \<in> K \<Longrightarrow>
   builds (node_ok fs) K (ltx_stage_two full m a b v seed) node_of"
  unfolding ltx_stage_two_def
  by (intro lane_rules lane_intros build_rules) (auto simp: lane_simps)

lemmas [lane_intros] = builds_concat_av [THEN builds_bind] builds_separate_av [THEN builds_bind]
  builds_ltx_stage_one [THEN builds_bind] builds_ltx_stage_two [THEN builds_bind]
  builds_ltx_image_to_video [THEN builds_bind] builds_ltx_load_first [THEN builds_bind]
  builds_ltx_guide [THEN builds_bind] builds_ltx_crop [THEN builds_bind] builds_ltx_audio [THEN builds_bind]

lemma builds_ltx_upscale:
  "fst m \<in> K \<Longrightarrow> fst a \<in> K \<Longrightarrow> fst b \<in> K \<Longrightarrow> fst sep \<in> K \<Longrightarrow> opt_nodes i \<subseteq> K \<Longrightarrow> opt_nodes e \<subseteq> K \<Longrightarrow> fst v \<in> K \<Longrightarrow>
   builds (node_ok fs) K (ltx_upscale full m a b sep i e v seed) nodes3"
  unfolding ltx_upscale_def
  by (intro lane_rules lane_intros build_rules) (auto simp: lane_simps)

lemma builds_ltx_finish [build_rules]:
  "fst a \<in> K \<Longrightarrow> fst b \<in> K \<Longrightarrow> fst l \<in> K \<Longrightarrow> fst v \<in> K \<Longrightarrow> fst w \<in> K \<Longrightarrow> opt_nodes ld \<subseteq> K \<Longrightarrow>
   builds (node_ok fs) K (ltx_finish a b l e v w ld) node_of"
  unfolding ltx_finish_def
  by (intro lane_rules lane_intros build_rules) (auto simp: lane_simps)

lemma ltx_numbers_range:
  "ltx_numbers p full = Inr (w, h, steps, cfg, st, n) \<Longrightarrow>
   128 \<le> w \<and> w \<le> 1344 \<and> 128 \<le> h \<and> h \<le> 1344 \<and> 1 \<le> steps \<and> steps \<le> 200 \<and> 25 \<le> n \<and> n \<le> 241"
  by (auto simp: ltx_numbers_def Let_def dest!: ranges split: if_splits)

lemma builds_ltx:
  assumes "\<And>f. img = Some f \<Longrightarrow> f \<in> fs" "\<And>f. img2 = Some f \<Longrightarrow> f \<in> fs" "\<And>f. aud = Some f \<Longrightarrow> f \<in> fs"
  shows "builds (node_ok fs) K (ltx p prompt seed img img2 aud full) node_of"
  unfolding ltx_def
  using assms
  by (intro builds_ltx_upscale [THEN builds_bind] lane_rules lane_intros build_rules)
    (auto simp: lane_simps dest!: ltx_numbers_range split: if_splits)


section \<open>The lane whose edit splices a link backwards\<close>

text \<open>
  An edit on the 2.1 lane adds the encode node before the reference it reads. With the nodes
  numbered as they are added, the graph is still acyclic: \<open>rank\<close> moves the encode node, the
  fourth, behind the sixth.
\<close>

lemma add_eq: "add cls ins g = Inr ((length g + 1, 0), g @ [(cls, ins)])"
  by (simp add: add_def)

definition splice_rank :: "nat \<Rightarrow> nat" where
  "splice_rank n = (if n = 4 then 13 else 2 * n)"

text \<open>\<open>ranked P \<rho> g\<close>: every node satisfies \<open>P\<close>, links name nodes of the graph and decrease the rank.\<close>

definition ranked :: "(node \<Rightarrow> bool) \<Rightarrow> (nat \<Rightarrow> nat) \<Rightarrow> graph \<Rightarrow> bool" where
  "ranked P rk g =
     (\<forall>i<length g. P (g ! i) \<and> (\<forall>n\<in>links_of (g ! i). 1 \<le> n \<and> n \<le> length g \<and> rk n < rk (i + 1)))"

lemma wf_ranked: "wf P g \<Longrightarrow> ranked P (\<lambda>n. n) g"
  unfolding wf_def ranked_def by fastforce


lemma builds_condition_text_21:
  "fst c \<in> K \<Longrightarrow> fst v \<in> K \<Longrightarrow> builds (node_ok fs) K (condition_text_21 p prompt r c v) nodes3"
  unfolding condition_text_21_def encode_21_def
  by (intro lane_rules lane_intros build_rules) (auto simp: lane_simps dest!: ranges)

lemma builds_qwen_21_text: "builds (node_ok fs) K (qwen_image_21 p prompt seed None mid) node_of"
  unfolding qwen_image_21_def Let_def option.case
  by (intro builds_condition_text_21 [THEN builds_bind] lane_rules lane_intros build_rules)
    (auto simp: lane_simps qwen_image_21_checkpoints_def dest!: ranges split: if_splits)

lemma bindG_Inr: "bindG m f g = Inr x \<longleftrightarrow> (\<exists>a g1. m g = Inr (a, g1) \<and> f a g1 = Inr x)"
  by (auto simp: bindG_def split: sum.splits)

lemma liftG_Inr: "liftG r g = Inr x \<longleftrightarrow> (\<exists>a. r = Inr a \<and> x = (a, g))"
  by (auto simp: liftG_def split: sum.splits)

lemma raiseG_Inr: "raiseG c e m g = Inr x \<longleftrightarrow> \<not> c \<and> m g = Inr x"
  by (simp add: raiseG_def)

lemma checkpoints_pinned:
  "map_of qwen_image_21_checkpoints mid = Some ck \<Longrightarrow>
   ck_diffusion ck \<in> set pinned_files \<and> ck_encoder ck \<in> set pinned_files \<and> ck_vae ck \<in> set pinned_files"
  by (auto simp: qwen_image_21_checkpoints_def pinned_files_def split: if_splits)

lemma qwen_21_edit_nodes:
  assumes "qwen_image_21 p prompt seed (Some f) mid [] = Inr (l, g)"
  shows "\<exists>ck neg resolution steps cfg.
    map_of qwen_image_21_checkpoints mid = Some ck \<and> 1 \<le> steps \<and> steps \<le> 60 \<and> l = (8, 0) \<and>
    g = [(''UNETLoader'', [(''unet_name'', S (ck_diffusion ck)), (''weight_dtype'', S ''default'')]),
         (''CLIPLoader'', [(''clip_name'', S (ck_encoder ck)), (''type'', S ''qwen_image''), (''device'', S ''default'')]),
         (''VAELoader'', [(''vae_name'', S (ck_vae ck))]),
         (''TextEncodeQwenImage21'',
           [(''clip'', Link 2 0), (''vae'', Link 3 0), (''prompt'', S prompt), (''negative_prompt'', S neg),
            (''resolution'', I resolution), (''images.image_1'', Link 6 0)]),
         (''LoadImage'', [(''image'', S f)]),
         (''JoinImageWithAlpha'', [(''image'', Link 5 0), (''alpha'', Link 5 1)]),
         (''KSampler'',
           [(''model'', Link 1 0), (''positive'', Link 4 0), (''negative'', Link 4 1), (''latent_image'', Link 4 2),
            (''seed'', I seed), (''steps'', I steps), (''cfg'', Val (PFloat cfg)),
            (''sampler_name'', S ''euler''), (''scheduler'', S ''simple''), (''denoise'', F 1)]),
         (''VAEDecode'', [(''samples'', Link 7 0), (''vae'', Link 3 0)])]"
  using assms
  by (auto simp: qwen_image_21_def condition_edit_21_def Let_def bindG_Inr liftG_Inr raiseG_Inr unet_def
      clip_loader_def vae_loader_def encode_21_def load_image_def sample_def vae_decode_def add_def
      set_input_def retG_def numeral_2_eq_2 dest!: steps_21_range split: option.splits)

lemma qwen_21_edit_ranked:
  assumes "qwen_image_21 p prompt seed (Some f) mid [] = Inr (l, g)" "f \<in> fs"
  shows "ranked (node_ok fs) splice_rank g \<and> 1 \<le> fst l \<and> fst l \<le> length g"
proof -
  from qwen_21_edit_nodes [OF assms(1)] obtain ck neg resolution steps cfg where
    c: "map_of qwen_image_21_checkpoints mid = Some ck" and st: "1 \<le> steps" "steps \<le> 60" and l: "l = (8, 0)"
    and g: "g = [(''UNETLoader'', [(''unet_name'', S (ck_diffusion ck)), (''weight_dtype'', S ''default'')]),
         (''CLIPLoader'', [(''clip_name'', S (ck_encoder ck)), (''type'', S ''qwen_image''), (''device'', S ''default'')]),
         (''VAELoader'', [(''vae_name'', S (ck_vae ck))]),
         (''TextEncodeQwenImage21'',
           [(''clip'', Link 2 0), (''vae'', Link 3 0), (''prompt'', S prompt), (''negative_prompt'', S neg),
            (''resolution'', I resolution), (''images.image_1'', Link 6 0)]),
         (''LoadImage'', [(''image'', S f)]),
         (''JoinImageWithAlpha'', [(''image'', Link 5 0), (''alpha'', Link 5 1)]),
         (''KSampler'',
           [(''model'', Link 1 0), (''positive'', Link 4 0), (''negative'', Link 4 1), (''latent_image'', Link 4 2),
            (''seed'', I seed), (''steps'', I steps), (''cfg'', Val (PFloat cfg)),
            (''sampler_name'', S ''euler''), (''scheduler'', S ''simple''), (''denoise'', F 1)]),
         (''VAEDecode'', [(''samples'', Link 7 0), (''vae'', Link 3 0)])]" by blast
  have "list_all (node_ok fs) g"
    using checkpoints_pinned [OF c] st assms(2) unfolding g by (simp add: node_simps)
  then have ok: "\<And>i. i < length g \<Longrightarrow> node_ok fs (g ! i)" by (simp add: list_all_length)
  have "\<forall>n\<in>links_of (g ! i). 1 \<le> n \<and> n \<le> length g \<and> splice_rank n < splice_rank (i + 1)" if "i < length g" for i
    using that unfolding g by (auto simp: less_Suc_eq splice_rank_def)
  with ok show ?thesis unfolding ranked_def by (simp add: l g)
qed

lemma builds_start:
  assumes "builds P {} m node_of" "m [] = Inr (l, g)"
  shows "ranked P (\<lambda>n. n) g \<and> 1 \<le> fst l \<and> fst l \<le> length g"
proof -
  have "wf P []" by (simp add: wf_def)
  with assms have "wf P g \<and> node_of l \<subseteq> {1..length g}" unfolding builds_def by fastforce
  with wf_ranked show ?thesis by auto
qed

definition names_of :: "media_names \<Rightarrow> string set" where
  "names_of f = {s. image_name f = Some s \<or> last_image_name f = Some s \<or> audio_name f = Some s \<or> video_name f = Some s}"

lemma builds_video_lane: "builds (node_ok (names_of f)) K (video_lane mid p seed f) node_of"
  unfolding video_lane_def
  by (intro builds_bind_lift builds_if builds_h3 builds_ltx) (auto simp: names_of_def)

lemma builds_audio_lane: "builds (node_ok (names_of f)) K (audio_lane mid fam p seed f) node_of"
  unfolding audio_lane_def
  by (intro builds_raise builds_bind_lift builds_if builds_yue2 builds_music3 builds_ace)

lemma image_lane_ranked:
  assumes "image_lane loads mid fam p prompt seed (image_name f) [] = Inr (l, g)"
  shows "\<exists>rk. ranked (node_ok (names_of f)) rk g \<and> 1 \<le> fst l \<and> fst l \<le> length g"
proof (cases "fam = ''qwen-image-21''")
  case True
  show ?thesis
  proof (cases "image_name f")
    case None
    with True assms have "qwen_image_21 p prompt seed None mid [] = Inr (l, g)" by (simp add: image_lane_def)
    from builds_start [OF builds_qwen_21_text this] show ?thesis by blast
  next
    case (Some s)
    then have "s \<in> names_of f" by (simp add: names_of_def)
    with True Some assms qwen_21_edit_ranked show ?thesis by (fastforce simp: image_lane_def)
  qed
next
  case False
  have "builds (node_ok (names_of f)) {} (image_lane loads mid fam p prompt seed (image_name f)) node_of"
    unfolding image_lane_def
    using False
    by (auto intro!: builds_if builds_option builds_raise builds_lift builds_qwen_image_edit builds_qwen_image
        builds_krea2 builds_ideogram4 builds_flux2 simp: names_of_def)
  from builds_start [OF this assms] show ?thesis by blast
qed

text \<open>A successful \<open>build_graph\<close>: a lane's graph and one output node on its result.\<close>

lemma build_graph_cases:
  assumes "build_graph loads rnd mid payload f pre = Inr (g, out, kind)"
  obtains e p body l rk where
    "map_of models mid = Some e" "payload = PDict p" "kind = m_kind e" "valid_prefix pre"
    "check_names mid f = Inr ()" "\<not> list_ex (has_key p) forbidden_fields"
    "ranked (node_ok (names_of f)) rk body" "1 \<le> fst l" "fst l \<le> length body"
    "g = body @ [(save_class kind, output_inputs kind l pre)]" "out = show_nat (length g)"
proof -
  from assms obtain e p where e: "map_of models mid = Some e" and p: "payload = PDict p"
    by (auto simp: build_graph_def split: option.splits pyval.splits)
  let ?lane = "\<lambda>seed. if m_kind e = ''image'' then
                   bindG (liftG (required_prompt p)) (\<lambda>prompt.
                     image_lane loads mid (family_of e) p prompt seed (image_name f))
                 else if m_kind e = ''video'' then video_lane mid p seed f
                 else audio_lane mid (family_of e) p seed f"
  from assms e p obtain seed l body where
    h: "valid_prefix pre" "check_names mid f = Inr ()" "\<not> list_ex (has_key p) forbidden_fields" "kind = m_kind e"
    and lane: "?lane seed [] = Inr (l, body)"
    and g: "g = body @ [(save_class kind, output_inputs kind l pre)]" "out = show_nat (length g)"
    by (auto simp: build_graph_def bindG_Inr add_def)
  have "\<exists>rk. ranked (node_ok (names_of f)) rk body \<and> 1 \<le> fst l \<and> fst l \<le> length body"
  proof (cases "m_kind e = ''image''")
    case True
    with lane obtain prompt where "image_lane loads mid (family_of e) p prompt seed (image_name f) [] = Inr (l, body)"
      by (auto simp: bindG_Inr liftG_Inr)
    then show ?thesis by (rule image_lane_ranked)
  next
    case False
    show ?thesis
    proof (cases "m_kind e = ''video''")
      case True
      with False lane have "video_lane mid p seed f [] = Inr (l, body)" by simp
      from builds_start [OF builds_video_lane this] show ?thesis by blast
    next
      case no_video: False
      with False lane have "audio_lane mid (family_of e) p seed f [] = Inr (l, body)" by simp
      from builds_start [OF builds_audio_lane this] show ?thesis by blast
    qed
  qed
  with e p h g that show thesis by blast
qed


section \<open>Properties\<close>

definition graph_edges :: "graph \<Rightarrow> (nat \<times> nat) set" where
  "graph_edges g = {(i + 1, n) | i n. i < length g \<and> n \<in> links_of (g ! i)}"

lemma links_of_output: "links_of (save_class k, output_inputs k l pre) = {fst l}"
  by (simp add: output_inputs_def)

text \<open>C17. Every graph is executable: each link names a node of the graph, and no node depends on
  itself, not even for the 2.1 edit, whose encode node reads a node added after it.\<close>

theorem graph_acyclic:
  assumes "build_graph loads rnd mid payload f pre = Inr (g, out, kind)"
  shows "(\<forall>(i, n) \<in> graph_edges g. 1 \<le> n \<and> n \<le> length g \<and> i \<le> length g) \<and> acyclic (graph_edges g)"
proof -
  from build_graph_cases [OF assms] obtain body l rk where
    r: "ranked (node_ok (names_of f)) rk body" and l: "1 \<le> fst l" "fst l \<le> length body"
    and g: "g = body @ [(save_class kind, output_inputs kind l pre)]"
    by metis
  have edge: "1 \<le> n \<and> n \<le> length body \<and> i \<le> length g \<and> (i \<le> length body \<longrightarrow> rk n < rk i)"
    if "(i, n) \<in> graph_edges g" for i n
  proof -
    from that obtain j where j: "i = j + 1" "j < length g" "n \<in> links_of (g ! j)"
      by (auto simp: graph_edges_def)
    show ?thesis
    proof (cases "j < length body")
      case True
      with j g have "n \<in> links_of (body ! j)" by (simp add: nth_append)
      with r True j show ?thesis by (auto simp: ranked_def g)
    next
      case False
      with j g have "j = length body" by simp
      with j l g show ?thesis by (simp add: links_of_output)
    qed
  qed
  let ?rk = "\<lambda>i. if i \<le> length body then rk i else Suc (Max (rk ` {..length body}))"
  have "acyclic (graph_edges g)"
  proof (rule acyclicI_order)
    fix i n assume e: "(i, n) \<in> graph_edges g"
    have "rk n < Suc (Max (rk ` {..length body}))"
      using edge [OF e] by (intro le_imp_less_Suc Max_ge) auto
    with edge [OF e] show "?rk n < ?rk i" by simp
  qed
  with edge show ?thesis by (fastforce simp: g)
qed

definition no_names :: media_names where
  "no_names = \<lparr>image_name = None, last_image_name = None, audio_name = None, video_name = None\<rparr>"

definition demo_graph_request :: pyval where
  "demo_graph_request = PDict [(''model'', PStr ''Comfy-Org/Krea-2-Turbo''), (''prompt'', PStr ''a cat'')]"

definition demo_nodes :: graph where
  "demo_nodes =
    [(''UNETLoader'',
       [(''unet_name'', S ''krea2_turbo_int8_convrot.safetensors''), (''weight_dtype'', S ''default'')]),
     (''CLIPLoader'',
       [(''clip_name'', S ''qwen3vl_4b_fp8_scaled.safetensors''), (''type'', S ''krea2''),
        (''device'', S ''default'')]),
     (''VAELoader'', [(''vae_name'', S ''qwen_image_vae.safetensors'')]),
     (''CLIPTextEncode'', [(''clip'', Link 2 0), (''text'', S ''a cat'')]),
     (''ConditioningZeroOut'', [(''conditioning'', Link 4 0)]),
     (''EmptyLatentImage'', [(''width'', I 1024), (''height'', I 1024), (''batch_size'', I 1)]),
     (''KSampler'',
       [(''model'', Link 1 0), (''positive'', Link 4 0), (''negative'', Link 5 0), (''latent_image'', Link 6 0),
        (''seed'', I 42), (''steps'', I 8), (''cfg'', FV 1), (''sampler_name'', S ''euler''),
        (''scheduler'', S ''simple''), (''denoise'', FV 1)]),
     (''VAEDecode'', [(''samples'', Link 7 0), (''vae'', Link 3 0)]),
     (''SaveImage'', [(''images'', Link 8 0), (''filename_prefix'', S ''lloom'')])]"

lemma demo_built:
  "build_graph (\<lambda>_. Inl (ValueErr [])) 0 ''Comfy-Org/Krea-2-Turbo'' demo_graph_request no_names ''lloom''
     = Inr (demo_nodes, ''9'', ''image'')"
  by code_simp

theorem graph_acyclic_witness: "acyclic (graph_edges demo_nodes)"
  using graph_acyclic [OF demo_built] by (rule conjunct2)

end
