(* ===== verification/Graph_Props.thy ===== *)
theory Graph_Props
  imports Graph_Safety
begin

text \<open>
  The properties of \<open>build_graph\<close> and of the request normalisation, derived from the case
  lemma \<open>build_graph_cases\<close>: the files and ranges a graph may mention, its one output node, the
  format it is submitted in, and the effect of normalising a payload twice, which is what the
  video endpoint does (once itself, once inside \<open>build_graph\<close>).
\<close>

section \<open>Nodes and names\<close>

definition media_extensions :: "string list" where
  "media_extensions = [''png'', ''jpg'', ''wav'', ''flac'', ''mp3'', ''mp4'']"

lemma generated_name_mono: "generated_name xs s \<Longrightarrow> set xs \<subseteq> set ys \<Longrightarrow> generated_name ys s"
  by (auto simp: generated_name_def split: list.splits)

lemma check_names_generated:
  assumes "check_names mid f = Inr ()" "s \<in> names_of f"
  shows "generated_name media_extensions s"
proof -
  have "generated_name [''png'', ''jpg''] s \<or> generated_name [''wav'', ''flac'', ''mp3''] s \<or> generated_name [''mp4''] s"
    using assms
    by (auto simp: check_names_def check_image_name_def check_audio_name_def check_video_name_def names_of_def
        split: option.splits if_splits)
  then show ?thesis
    by (elim disjE) (erule generated_name_mono; simp add: media_extensions_def)+
qed

lemma ranked_node: "ranked P rk g \<Longrightarrow> nd \<in> set g \<Longrightarrow> P nd"
  by (auto simp: ranked_def in_set_conv_nth)

lemma save_not_load: "save_class k \<notin> set load_classes"
  by (simp add: save_class_def load_classes_def)

lemma output_keys_free:
  "k \<in> {''images'', ''video'', ''audio'', ''filename_prefix'', ''format'', ''codec''} \<Longrightarrow> input_ok k v"
  by (elim insertE emptyE) (simp_all add: input_ok_def loader_keys_def)

lemma output_inputs_free: "(k, v) \<in> set (output_inputs kind l pre) \<Longrightarrow> input_ok k v"
  by (rule output_keys_free) (auto simp: output_inputs_def split: if_splits)

lemma node_okD:
  assumes "node_ok fs (cls, ins)" "(k, v) \<in> set ins"
  shows "input_ok k v" and "cls \<in> set load_classes \<Longrightarrow> \<exists>s\<in>fs. v = S s"
proof -
  from assms(1) have "list_all (\<lambda>(k, v). input_ok k v) ins" by (simp add: node_ok_def)
  with assms(2) show "input_ok k v" by (auto simp: list_all_iff)
  assume "cls \<in> set load_classes"
  with assms(1) have "list_all (\<lambda>(k, v). \<exists>s\<in>fs. v = S s) ins" by (simp add: node_ok_def)
  with assms(2) show "\<exists>s\<in>fs. v = S s" unfolding list_all_iff by fast
qed

lemma built_node:
  assumes "build_graph loads rnd mid payload f pre = Inr (g, out, kind)"
    and "(cls, ins) \<in> set g" "(k, v) \<in> set ins"
  shows "input_ok k v"
    and "cls \<in> set load_classes \<Longrightarrow> \<exists>s\<in>names_of f. v = S s \<and> generated_name media_extensions s"
proof -
  from build_graph_cases [OF assms(1)] obtain body l rk where
    names: "check_names mid f = Inr ()" and r: "ranked (node_ok (names_of f)) rk body"
    and g: "g = body @ [(save_class kind, output_inputs kind l pre)]"
    by metis
  have mem: "(cls, ins) \<in> set body \<or> (cls, ins) = (save_class kind, output_inputs kind l pre)"
    using assms(2) by (auto simp: g)
  show "input_ok k v"
    using mem assms(3) ranked_node [OF r] node_okD(1) output_inputs_free by blast
  assume c: "cls \<in> set load_classes"
  with mem save_not_load have "(cls, ins) \<in> set body" by auto
  with node_okD(2) [OF ranked_node [OF r] assms(3) c] check_names_generated [OF names]
  show "\<exists>s\<in>names_of f. v = S s \<and> generated_name media_extensions s" by blast
qed

lemma pinned_iff: "pinned v \<longleftrightarrow> (\<exists>file\<in>set pinned_files. v = S file)"
  by (auto simp: pinned_def split: ginput.splits pyval.splits)

lemma int_in_iff: "int_in l h v \<longleftrightarrow> (\<exists>n. v = I n \<and> l \<le> n \<and> n \<le> h)"
  by (auto simp: int_in_def split: ginput.splits pyval.splits)

section \<open>Properties\<close>

text \<open>C18. A caller cannot choose a file: every loader input of a built graph is one of the pinned
  checkpoint files, and every media loader reads one of the names the server generated for this
  request, which has no directory part and one of six extensions.\<close>

theorem graph_files_pinned:
  assumes "build_graph loads rnd mid payload f pre = Inr (g, out, kind)"
    and "(cls, ins) \<in> set g" "(k, v) \<in> set ins"
  shows "(k \<in> set loader_keys \<longrightarrow> (\<exists>file\<in>set pinned_files. v = S file))
     \<and> (cls \<in> set load_classes \<longrightarrow> (\<exists>s\<in>names_of f. v = S s \<and> generated_name media_extensions s))"
  using built_node [OF assms] by (auto simp: input_ok_def pinned_iff)

text \<open>C20. The work of one request is bounded whatever the caller sends: at most 200 sampling
  steps, 3072 pixels per side, 362 frames and one item per batch.\<close>

theorem graph_work_bounded:
  assumes "build_graph loads rnd mid payload f pre = Inr (g, out, kind)"
    and "(cls, ins) \<in> set g" "(k, v) \<in> set ins"
  shows "(k = ''steps'' \<longrightarrow> (\<exists>n. v = I n \<and> 1 \<le> n \<and> n \<le> 200))
     \<and> (k \<in> {''width'', ''height''} \<longrightarrow> (\<exists>n. v = I n \<and> 1 \<le> n \<and> n \<le> 3072))
     \<and> (k \<in> {''length'', ''frames_number''} \<longrightarrow> (\<exists>n. v = I n \<and> 25 \<le> n \<and> n \<le> 362))
     \<and> (k = ''batch_size'' \<longrightarrow> v = I 1)"
  using built_node(1) [OF assms] by (auto simp: input_ok_def loader_keys_def int_in_iff)

theorem graph_files_pinned_witness:
  "\<exists>file\<in>set pinned_files. S ''krea2_turbo_int8_convrot.safetensors'' = S file"
proof -
  have "(''UNETLoader'', [(''unet_name'', S ''krea2_turbo_int8_convrot.safetensors''),
     (''weight_dtype'', S ''default'')]) \<in> set demo_nodes"
    by (simp only: demo_nodes_def list.set insert_iff simp_thms)
  from graph_files_pinned [OF demo_built this, of "''unet_name''" "S ''krea2_turbo_int8_convrot.safetensors''"]
  show ?thesis by (simp add: loader_keys_def)
qed

theorem graph_work_bounded_witness: "\<exists>n. I 1024 = I n \<and> 1 \<le> n \<and> n \<le> (3072 :: int)"
proof -
  have "(''EmptyLatentImage'', [(''width'', I 1024), (''height'', I 1024), (''batch_size'', I 1)]) \<in> set demo_nodes"
    by (simp only: demo_nodes_def list.set insert_iff simp_thms)
  from graph_work_bounded [OF demo_built this, of "''width''" "I 1024"] show ?thesis by simp
qed

section \<open>The submitted document\<close>

definition rendered :: "graph \<Rightarrow> string \<Rightarrow> pyval option" where
  "rendered g key = (case render g of PDict d \<Rightarrow> map_of d key | _ \<Rightarrow> None)"

lemma rendered_node: "1 \<le> n \<Longrightarrow> n \<le> length g \<Longrightarrow> rendered g (show_nat n) = Some (render_node (g ! (n - 1)))"
  unfolding rendered_def render_def
  by (auto intro!: map_of_is_SomeI simp: distinct_map inj_on_def image_iff Bex_def comp_def intro!: exI [of _ "n - 1"])

lemma ranked_no_save: "ranked (node_ok fs) rk g \<Longrightarrow> filter (\<lambda>nd. prefix ''Save'' (fst nd)) g = []"
  by (auto simp: filter_empty_conv node_ok_def dest: ranked_node)

text \<open>One request produces one artifact: exactly one node of the graph saves something, it is the
  node whose key is returned as the output, its class is the one for the kind that the model table
  declares, and the document submitted to the media backend has it under that key.\<close>

theorem graph_single_output:
  assumes "build_graph loads rnd mid payload f pre = Inr (g, out, kind)"
  shows "\<exists>e ins. map_of models mid = Some e \<and> kind = m_kind e
     \<and> filter (\<lambda>nd. prefix ''Save'' (fst nd)) g = [(save_class kind, ins)]
     \<and> rendered g out = Some (render_node (save_class kind, ins))"
proof -
  from build_graph_cases [OF assms] obtain e body l rk where
    e: "map_of models mid = Some e" "kind = m_kind e" and r: "ranked (node_ok (names_of f)) rk body"
    and g: "g = body @ [(save_class kind, output_inputs kind l pre)]" and out: "out = show_nat (length g)"
    by metis
  have "prefix ''Save'' (save_class kind)" by (simp add: save_class_def)
  with ranked_no_save [OF r] have "filter (\<lambda>nd. prefix ''Save'' (fst nd)) g = [(save_class kind, output_inputs kind l pre)]"
    by (simp add: g)
  moreover have "rendered g out = Some (render_node (save_class kind, output_inputs kind l pre))"
    unfolding out by (subst rendered_node) (simp_all add: g)
  ultimately show ?thesis using e by blast
qed

theorem graph_single_output_witness:
  "\<exists>e ins. map_of models ''Comfy-Org/Krea-2-Turbo'' = Some e \<and> ''image'' = m_kind e
     \<and> filter (\<lambda>nd. prefix ''Save'' (fst nd)) demo_nodes = [(save_class ''image'', ins)]
     \<and> rendered demo_nodes ''9'' = Some (render_node (save_class ''image'', ins))"
  by (rule graph_single_output [OF demo_built])

text \<open>The submitted document is a well-formed prompt: every link of a node is rendered as the key
  of a node that the document contains.\<close>

theorem graph_links_resolve:
  assumes "build_graph loads rnd mid payload f pre = Inr (g, out, kind)"
    and "i < length g" "(k, Link n j) \<in> set (snd (g ! i))"
  shows "\<exists>nd \<in> set g. rendered g (show_nat n) = Some (render_node nd)"
proof -
  from build_graph_cases [OF assms(1)] obtain body l rk where
    r: "ranked (node_ok (names_of f)) rk body" and l: "1 \<le> fst l" "fst l \<le> length body"
    and g: "g = body @ [(save_class kind, output_inputs kind l pre)]"
    by metis
  have "1 \<le> n \<and> n \<le> length body"
  proof (cases "i < length body")
    case True
    with assms(3) g have "n \<in> links_of (body ! i)" by (auto simp: nth_append links_of_def)
    with r True show ?thesis by (auto simp: ranked_def)
  next
    case False
    with assms(2) g have "g ! i = (save_class kind, output_inputs kind l pre)" by (simp add: nth_append)
    with assms(3) have "n \<in> links_of (save_class kind, output_inputs kind l pre)" by (auto simp: links_of_def)
    with l show ?thesis by (simp add: links_of_output)
  qed
  then have n: "1 \<le> n" "n \<le> length g" by (simp_all add: g)
  then have "g ! (n - 1) \<in> set g" by simp
  with rendered_node [OF n] show ?thesis by blast
qed

theorem graph_links_resolve_witness:
  "\<exists>nd \<in> set demo_nodes. rendered demo_nodes (show_nat 8) = Some (render_node nd)"
  by (rule graph_links_resolve [OF demo_built, of 8 "''images''" 8 0]) (simp_all add: demo_nodes_def)

end
