(* ===== verification/Py_Round.thy ===== *)
theory Py_Round
  imports Py_Number
begin

text \<open>
  How \<open>rnd53\<close> behaves at bounds: a number with at most 53 bits that bounds a value still bounds
  the rounded value. With it a chain of float operations, as in the frame-count rules, is followed
  exactly, without an error analysis.
\<close>

section \<open>Rounding keeps dyadic bounds\<close>

lemma bit_len_bounds: "0 < n \<Longrightarrow> 0 < bit_len n \<and> 2 ^ nat (bit_len n - 1) \<le> n \<and> n < 2 ^ nat (bit_len n)"
proof (induction n rule: bit_len.induct)
  case (1 n)
  show ?case
  proof (cases "n = 1")
    case True
    then show ?thesis by (simp add: bit_len_1)
  next
    case False
    with 1(2) have n: "1 < n" "0 < n div 2" by auto
    with 1(1) have h: "0 < bit_len (n div 2)" "2 ^ nat (bit_len (n div 2) - 1) \<le> n div 2" "n div 2 < 2 ^ nat (bit_len (n div 2))"
      by auto
    define k where "k = nat (bit_len (n div 2) - 1)"
    have b: "bit_len (n div 2) = int k + 1" "bit_len n = int k + 2"
      using h(1) n by (simp_all add: k_def bit_len.simps [of n])
    from h(2,3) have "2 ^ k \<le> n div 2" "n div 2 < 2 * 2 ^ k" unfolding b by (simp_all add: nat_add_distrib)
    then have "2 * 2 ^ k \<le> n \<and> n < 4 * 2 ^ k" by linarith
    then show ?thesis unfolding b by (simp add: nat_add_distrib)
  qed
qed

lemma pow2_pos [simp]: "0 < pow2 k"
  by (simp add: pow2_def)

lemma pow2_diff: "pow2 (int m - int n) = 2 ^ m / 2 ^ n"
proof (cases "n \<le> m")
  case True
  then show ?thesis by (simp add: pow2_def power_diff nat_diff_distrib)
next
  case False
  then have "nat (int n - int m) = n - m" "m \<le> n" by auto
  with False show ?thesis by (simp add: pow2_def power_diff)
qed

lemma lead_exp_le:
  assumes "0 < x"
  shows "pow2 (lead_exp x) \<le> x"
proof -
  obtain a b where q: "quotient_of x = (a, b)" by fastforce
  then have b: "0 < b" and x: "x = of_int a / of_int b"
    using quotient_of_denom_pos quotient_of_div by auto
  with assms have a: "0 < a" by (simp add: zero_less_divide_iff)
  let ?m = "nat (bit_len a - 1)" and ?n = "nat (bit_len b)"
  from bit_len_bounds [OF a] bit_len_bounds [OF b] have ab: "2 ^ ?m \<le> a" "b < 2 ^ ?n"
    and l: "bit_len a - bit_len b - 1 = int ?m - int ?n" by auto
  have "(of_int (2 ^ ?m) :: rat) \<le> of_int a" "(of_int b :: rat) \<le> of_int (2 ^ ?n)"
    unfolding of_int_le_iff using ab by simp_all
  then have "(2 ^ ?m :: rat) / 2 ^ ?n \<le> x"
    unfolding x using a b by (intro frac_le) simp_all
  then have "pow2 (bit_len a - bit_len b - 1) \<le> x" by (simp only: l pow2_diff)
  then show ?thesis by (simp add: lead_exp_def q Let_def)
qed

lemma pow2_powi: "pow2 k = 2 powi k"
  by (simp add: pow2_def power_int_def power_one_over inverse_eq_divide)

lemma pow2_mono: "j \<le> k \<Longrightarrow> pow2 j \<le> pow2 k"
  by (simp add: pow2_powi power_int_increasing)

lemma lead_exp_less:
  assumes "0 < x" "x < 2 ^ k"
  shows "lead_exp x < int k"
proof (rule ccontr)
  assume "\<not> ?thesis"
  then have "pow2 (int k) \<le> pow2 (lead_exp x)" by (intro pow2_mono) simp
  with lead_exp_le [OF assms(1)] assms(2) show False by (simp add: pow2_nat)
qed

lemma round_even_bounds: "of_int m \<le> q \<Longrightarrow> m \<le> round_even q" "q \<le> of_int m \<Longrightarrow> round_even q \<le> m"
proof -
  show "of_int m \<le> q \<Longrightarrow> m \<le> round_even q"
    by (auto simp: round_even_def Let_def le_floor_iff intro: order_trans [of _ "\<lfloor>q\<rfloor>"])
  assume q: "q \<le> of_int m"
  show "round_even q \<le> m"
  proof (cases "q = of_int m")
    case False
    with q have "\<lfloor>q\<rfloor> < m" by (simp add: floor_less_iff)
    then show ?thesis by (simp add: round_even_def Let_def)
  qed simp
qed

text \<open>A number with at most 53 bits at the scale \<open>1 / 2^j\<close> stays a bound after rounding.\<close>

lemma rnd53_dyadic:
  assumes "0 < x" "x < 2 ^ (53 - j)" "j \<le> 53"
  shows "of_int m / 2 ^ j \<le> x \<Longrightarrow> of_int m / 2 ^ j \<le> rnd53 x"
    and "x \<le> of_int m / 2 ^ j \<Longrightarrow> rnd53 x \<le> of_int m / 2 ^ j"
proof -
  let ?u = "pow2 (lead_exp x - 52)"
  define k where "k = nat (52 - lead_exp x) - j"
  from lead_exp_less [OF assms(1,2)] assms(3) have k: "lead_exp x - 52 = - int (j + k)"
    by (simp add: k_def)
  have "?u = 1 / 2 ^ (j + k)" unfolding k by (simp only: pow2_powi power_int_minus power_int_of_nat inverse_eq_divide)
  then have m: "of_int m / 2 ^ j = of_int (m * 2 ^ k) * ?u" by (simp add: power_add)
  have r: "rnd53 x = of_int (round_even (x / ?u)) * ?u" using assms(1) by (simp add: rnd53_def Let_def)
  have lower: "of_int n * ?u \<le> x \<Longrightarrow> of_int n * ?u \<le> rnd53 x" for n
    unfolding r mult_le_cancel_right_pos [OF pow2_pos] of_int_le_iff
    by (rule round_even_bounds(1)) (simp add: pos_le_divide_eq)
  have upper: "x \<le> of_int n * ?u \<Longrightarrow> rnd53 x \<le> of_int n * ?u" for n
    unfolding r mult_le_cancel_right_pos [OF pow2_pos] of_int_le_iff
    by (rule round_even_bounds(2)) (simp add: pos_divide_le_eq)
  show "of_int m / 2 ^ j \<le> x \<Longrightarrow> of_int m / 2 ^ j \<le> rnd53 x" unfolding m by (rule lower)
  show "x \<le> of_int m / 2 ^ j \<Longrightarrow> rnd53 x \<le> of_int m / 2 ^ j" unfolding m by (rule upper)
qed

lemma rnd53_bounds_int:
  "0 < x \<Longrightarrow> x < 1000000 \<Longrightarrow> of_int m \<le> x \<Longrightarrow> of_int m \<le> rnd53 x"
  "0 < x \<Longrightarrow> x < 1000000 \<Longrightarrow> x \<le> of_int m \<Longrightarrow> rnd53 x \<le> of_int m"
  using rnd53_dyadic [of x 0 m] by simp_all

lemma rnd53_ge_above:
  assumes "0 < x" "x < 1000000" "of_int m + 1 / 32 \<le> x"
  shows "of_int m < rnd53 x"
proof -
  have "of_int (32 * m + 1) / 2 ^ 5 \<le> rnd53 x"
    using assms by (intro rnd53_dyadic(1)) (simp_all add: add_divide_distrib)
  then show ?thesis by (simp add: add_divide_distrib)
qed

section \<open>Rounding is monotone\<close>

lemma lead_exp_above:
  assumes "0 < x"
  shows "x < pow2 (lead_exp x + 1)"
proof -
  obtain a b where q: "quotient_of x = (a, b)" by fastforce
  then have b: "0 < b" and x: "x = of_int a / of_int b"
    using quotient_of_denom_pos quotient_of_div by auto
  with assms have a: "0 < a" by (simp add: zero_less_divide_iff)
  let ?m = "nat (bit_len a)" and ?n = "nat (bit_len b - 1)"
  from bit_len_bounds [OF a] bit_len_bounds [OF b] have ab: "a < 2 ^ ?m" "2 ^ ?n \<le> b"
    and l: "bit_len a - bit_len b + 1 = int ?m - int ?n" by auto
  have "(of_int a :: rat) < of_int (2 ^ ?m)" "(of_int (2 ^ ?n) :: rat) \<le> of_int b"
    unfolding of_int_le_iff of_int_less_iff using ab by simp_all
  then have "x < 2 ^ ?m / 2 ^ ?n"
    unfolding x using a b by (intro frac_less) simp_all
  then have "x < pow2 (bit_len a - bit_len b + 1)" by (simp only: l pow2_diff)
  then show ?thesis by (simp add: lead_exp_def q Let_def)
qed

lemma round_even_mono: "x \<le> y \<Longrightarrow> round_even x \<le> round_even y"
proof (cases "\<lfloor>x\<rfloor> = \<lfloor>y\<rfloor>")
  case True
  assume "x \<le> y"
  with True show ?thesis by (auto simp: round_even_def Let_def)
next
  case False
  assume xy: "x \<le> y"
  with False have "\<lfloor>x\<rfloor> + 1 \<le> \<lfloor>y\<rfloor>" using floor_mono [OF xy] by linarith
  then have "of_int (\<lfloor>x\<rfloor> + 1) \<le> y" by (simp add: le_floor_iff)
  then have "\<lfloor>x\<rfloor> + 1 \<le> round_even y" by (rule round_even_bounds(1))
  moreover have "round_even x \<le> \<lfloor>x\<rfloor> + 1" by (rule round_even_bounds(2)) linarith
  ultimately show ?thesis by simp
qed

lemma pow2_add: "pow2 (k + int n) = of_int (2 ^ n) * pow2 k"
  by (simp add: pow2_powi power_int_add)

lemma rnd53_unit: "0 < x \<Longrightarrow> rnd53 x = of_int (round_even (x / pow2 (lead_exp x - 52))) * pow2 (lead_exp x - 52)"
  by (simp add: rnd53_def Let_def)

lemma rnd53_mono_pos:
  assumes "0 < x" "x \<le> y"
  shows "rnd53 x \<le> rnd53 y"
proof -
  have y: "0 < y" using assms by simp
  have le: "lead_exp x \<le> lead_exp y"
  proof (rule ccontr)
    assume "\<not> ?thesis"
    then have "pow2 (lead_exp y + 1) \<le> pow2 (lead_exp x)" by (intro pow2_mono) simp
    with lead_exp_le [OF assms(1)] lead_exp_above [OF y] assms(2) show False by linarith
  qed
  show ?thesis
  proof (cases "lead_exp x = lead_exp y")
    case True
    have "x / pow2 (lead_exp y - 52) \<le> y / pow2 (lead_exp y - 52)" using assms(2) by (intro divide_right_mono) (simp_all add: less_imp_le)
    then have "round_even (x / pow2 (lead_exp y - 52)) \<le> round_even (y / pow2 (lead_exp y - 52))" by (rule round_even_mono)
    then show ?thesis using True assms(1) y by (simp add: rnd53_unit)
  next
    case False
    let ?u = "pow2 (lead_exp x - 52)" and ?v = "pow2 (lead_exp y - 52)"
    have u: "pow2 (lead_exp x + 1) = of_int (2 ^ 53) * ?u"
      using pow2_add [of "lead_exp x - 52" 53] by (simp add: add.commute)
    have v: "pow2 (lead_exp y) = of_int (2 ^ 52) * ?v"
      using pow2_add [of "lead_exp y - 52" 52] by simp
    have "x \<le> of_int (2 ^ 53) * ?u" using lead_exp_above [OF assms(1)] u by linarith
    then have "round_even (x / ?u) \<le> 2 ^ 53" by (intro round_even_bounds(2)) (simp add: pos_divide_le_eq)
    then have "rnd53 x \<le> of_int (2 ^ 53) * ?u" unfolding rnd53_unit [OF assms(1)]
      by (intro mult_right_mono) (simp_all only: of_int_le_iff pow2_pos less_imp_le)
    also have "\<dots> = pow2 (lead_exp x + 1)" by (rule u [symmetric])
    also have "\<dots> \<le> pow2 (lead_exp y)" using le False by (intro pow2_mono) simp
    also have "\<dots> = of_int (2 ^ 52) * ?v" by (rule v)
    also have "\<dots> \<le> rnd53 y"
    proof -
      have "of_int (2 ^ 52) * ?v \<le> y" using lead_exp_le [OF y] v by linarith
      then have "2 ^ 52 \<le> round_even (y / ?v)" by (intro round_even_bounds(1)) (simp add: pos_le_divide_eq)
      then show ?thesis unfolding rnd53_unit [OF y]
        by (intro mult_right_mono) (simp_all only: of_int_le_iff pow2_pos less_imp_le)
    qed
    finally show ?thesis .
  qed
qed

lemma rnd53_pos: "0 < x \<Longrightarrow> 0 < rnd53 x"
proof -
  assume x: "0 < x"
  have "pow2 (lead_exp x - 52) \<le> pow2 (lead_exp x)" by (rule pow2_mono) simp
  with lead_exp_le [OF x] have "1 \<le> x / pow2 (lead_exp x - 52)" by (simp add: pos_le_divide_eq)
  then have "1 \<le> round_even (x / pow2 (lead_exp x - 52))" using round_even_bounds(1) [of 1] by simp
  with x show ?thesis by (simp add: rnd53_unit)
qed

lemma rnd53_nonneg: "0 \<le> x \<Longrightarrow> 0 \<le> rnd53 x"
  using rnd53_pos [of x] by (cases "x = 0") auto

end
