(* ===== verification/Graph_Requests.thy ===== *)
theory Graph_Requests
  imports Graph_Build Py_Round
begin

text \<open>
  What the request readers of \<open>graphs.py\<close> guarantee: which values a numeric field accepts, that
  normalising a video payload is idempotent, and that the frame counts computed from a duration are
  the ones the frame check accepts.
\<close>

section \<open>Numeric fields\<close>

lemma checked_Inr:
  "checked name x (PInt l) (PInt h) True ds = Inr v \<longleftrightarrow> (\<exists>n. v = PInt n \<and> x = of_int n \<and> l \<le> n \<and> n \<le> h)"
  by (auto simp: checked_def)

text \<open>An integer field accepts exactly the integers of its range, written as an integer or as an
  integral float; a \<open>bool\<close>, text, \<open>null\<close>, NaN, a fraction or an integer no float can hold is refused.\<close>

theorem int_field_accepts:
  "int_field p name d l h ds = Inr n \<longleftrightarrow>
     l \<le> n \<and> n \<le> h \<and>
     (case get_default p name (PInt d) of
        PInt i \<Rightarrow> i = n \<and> \<not> too_large_for_float i
      | PFloat r \<Rightarrow> r = of_int n
      | _ \<Rightarrow> False)"
  by (cases "get_default p name (PInt d)") (auto simp: int_field_def number_def checked_Inr)

section \<open>Normalising a video payload\<close>

lemma update_same: "map_of xs k = Some v \<Longrightarrow> AList.update k v xs = xs"
  by (induction xs) (auto split: if_splits)

lemma py_strip_Nil: "py_strip s = [] \<longleftrightarrow> list_all is_space s"
  by (auto simp: py_strip_def dropWhile_eq_Nil_conv list_all_iff dest: set_dropWhileD)
   (metis (no_types, lifting) dropWhile_eq_Nil_conv hd_dropWhile hd_in_set list.sel(1))

lemma py_strip_append: "py_strip s \<noteq> [] \<Longrightarrow> py_strip (s @ t) \<noteq> []"
  by (simp add: py_strip_Nil)

lemma get_delete [simp]:
  "get_none (AList.delete k d) j = (if j = k then PNone else get_none d j)"
  "get_default (AList.delete k d) j w = (if j = k then w else get_default d j w)"
  "has_key (AList.delete k d) j \<longleftrightarrow> j \<noteq> k \<and> has_key d j"
  by (simp_all add: get_none_def get_default_def has_key_def delete_conv')

lemmas dict_simps = get_none_update get_default_update has_key_update

lemma h3_prompt_ok: "h3_prompt p = Inr s \<Longrightarrow> py_strip s \<noteq> []"
  by (auto simp: h3_prompt_def split: pyval.splits if_splits)

lemma add_transcript_ok:
  assumes "add_transcript p s = Inr (q, t)" "py_strip s \<noteq> []"
  shows "(if has_key p ''transcript'' then q = AList.delete ''transcript'' p else q = p) \<and> py_strip t \<noteq> []"
  using assms
  by (auto simp: add_transcript_def Let_def py_strip_append simp flip: append_assoc split: if_splits pyval.splits)

text \<open>A payload that the H3 stage leaves as it is.\<close>

definition h3_normal :: "pydict \<Rightarrow> bool" where
  "h3_normal p =
     (get_default p ''workflow'' (PStr ''auto'') \<in> {PStr ''auto'', PStr ''frames'', PStr ''reference''}
      \<and> \<not> (get_none p ''workflow'' = PStr ''frames'' \<and> (has p ''audio'' \<or> has p ''video''))
      \<and> \<not> (has_key p ''video_audio'' \<and> (\<not> is_bool (get_none p ''video_audio'') \<or> \<not> has p ''video''))
      \<and> \<not> (get_none p ''ref_image_size'' \<noteq> PNone
           \<and> \<not> (has p ''audio'' \<or> has p ''video'' \<or> get_none p ''workflow'' = PStr ''reference''))
      \<and> \<not> has_key p ''transcript''
      \<and> (\<exists>s. py_get p ''prompt'' = Some (PStr s) \<and> py_strip s \<noteq> []))"

lemma normalize_h3_normal:
  assumes "normalize_h3 p = Inr q"
  shows "h3_normal q"
proof -
  from assms obtain s q0 t where s: "h3_prompt p = Inr s" and t: "add_transcript p s = Inr (q0, t)"
    and q: "q = AList.update ''prompt'' (PStr t) q0"
    by (auto simp: normalize_h3_def)
  from add_transcript_ok [OF t h3_prompt_ok [OF s]]
  have q0: "q0 = (if has_key p ''transcript'' then AList.delete ''transcript'' p else p)" and "py_strip t \<noteq> []"
    by (auto split: if_splits)
  then show ?thesis
    using assms unfolding q q0 h3_normal_def normalize_h3_def
    by (simp add: has_def dict_simps update_conv')
qed

lemma h3_normal_id:
  assumes "h3_normal p"
  shows "normalize_h3 p = Inr p"
proof -
  from assms obtain s where s: "py_get p ''prompt'' = Some (PStr s)" "py_strip s \<noteq> []"
    by (auto simp: h3_normal_def)
  then have "h3_prompt p = Inr s" by (simp add: h3_prompt_def get_none_def)
  moreover have "add_transcript p s = Inr (p, s)" using assms by (simp add: h3_normal_def add_transcript_def)
  ultimately show ?thesis
    using assms s by (simp add: h3_normal_def normalize_h3_def update_same)
qed

lemma rename_field_result:
  assumes "rename_field old nw msg p = Inr q" "old \<noteq> nw"
  shows "\<not> has_key q old \<and> (\<forall>k. k \<noteq> old \<longrightarrow> k \<noteq> nw \<longrightarrow> map_of q k = map_of p k)
     \<and> (\<forall>k. has_key q k \<longrightarrow> has_key p k \<or> k = nw)"
  using assms
  by (auto simp: rename_field_def has_key_def update_conv' delete_conv' split: if_splits)

lemma rename_field_id: "\<not> has_key p old \<Longrightarrow> rename_field old nw msg p = Inr p"
  by (simp add: rename_field_def)

lemma unknown_fields_iff: "unknown_fields allowed p = [] \<longleftrightarrow> (\<forall>k. has_key p k \<longrightarrow> k \<in> set allowed)"
proof -
  have "set (unknown_fields allowed p) = {k. has_key p k \<and> k \<notin> set allowed}"
    by (auto simp: unknown_fields_def has_key_iff)
  then show ?thesis by (auto simp flip: set_empty)
qed

definition video_normal :: "string \<Rightarrow> pydict \<Rightarrow> bool" where
  "video_normal mid p =
     ((is_h3 mid \<longrightarrow> h3_normal p) \<and> (\<forall>k. has_key p k \<longrightarrow> k \<in> set (allowed_video_fields mid))
      \<and> \<not> (has_key p ''size'' \<and> (has_key p ''width'' \<or> has_key p ''height''))
      \<and> \<not> has_key p ''frame_rate'' \<and> \<not> has_key p ''first_frame'')"

definition is_video_model :: "string \<Rightarrow> bool" where
  "is_video_model mid = (is_h3 mid \<or> mid \<in> {''Lightricks/LTX-2.5'', ''Lightricks/LTX-2.5-Comfy-Full''})"

lemma h3_normal_cong:
  assumes "\<And>k. k \<in> {''workflow'', ''audio'', ''video'', ''video_audio'', ''ref_image_size'', ''transcript'', ''prompt''} \<Longrightarrow>
      map_of q k = map_of p k"
  shows "h3_normal q = h3_normal p"
  by (simp add: h3_normal_def has_def get_none_def get_default_def has_key_def assms)

lemma renamed_fields_allowed: "''fps'' \<in> set (allowed_video_fields mid)" "''image'' \<in> set (allowed_video_fields mid)"
  by (simp_all add: allowed_video_fields_def common_video_fields_def)

lemma normalize_video_normal:
  assumes "normalize_video_payload mid p = Inr q" "is_video_model mid"
  shows "video_normal mid q"
proof -
  from assms obtain p1 r where
    p1: "is_h3 mid \<longrightarrow> h3_normal p1" and u: "unknown_fields (allowed_video_fields mid) p1 = []"
    and sz: "\<not> (has_key p1 ''size'' \<and> (has_key p1 ''width'' \<or> has_key p1 ''height''))"
    and r: "rename_field ''frame_rate'' ''fps'' ''Use fps or frame_rate, not both'' p1 = Inr r"
    and q: "rename_field ''first_frame'' ''image'' ''Use image or first_frame, not both'' r = Inr q"
    by (auto simp: normalize_video_payload_def is_video_model_def Let_def dest: normalize_h3_normal split: if_splits)
  from rename_field_result [OF r] have r:
    "\<not> has_key r ''frame_rate''" "\<And>k. k \<noteq> ''frame_rate'' \<Longrightarrow> k \<noteq> ''fps'' \<Longrightarrow> map_of r k = map_of p1 k"
    "\<And>k. has_key r k \<Longrightarrow> has_key p1 k \<or> k = ''fps''"
    by simp_all
  from rename_field_result [OF q] have q:
    "\<not> has_key q ''first_frame''" "\<And>k. k \<noteq> ''first_frame'' \<Longrightarrow> k \<noteq> ''image'' \<Longrightarrow> map_of q k = map_of r k"
    "\<And>k. has_key q k \<Longrightarrow> has_key r k \<or> k = ''image''"
    by simp_all
  have "\<forall>k. has_key q k \<longrightarrow> k \<in> set (allowed_video_fields mid)"
    using u q(3) r(3) renamed_fields_allowed unfolding unknown_fields_iff by blast
  moreover have "h3_normal q = h3_normal p1" by (rule h3_normal_cong) (auto simp: q(2) r(2))
  ultimately show ?thesis
    using p1 sz r(1) q(1) by (simp add: video_normal_def has_key_def q(2) r(2))
qed

text \<open>The video endpoint normalises a payload and \<open>build_graph\<close> normalises it again: the second
  pass changes nothing (a transcript is not appended twice, an alias is not renamed twice), so the
  checks made in between are on the payload that the graph is built from.\<close>

theorem normalize_video_idempotent:
  assumes "normalize_video_payload mid p = Inr q"
  shows "normalize_video_payload mid q = Inr q"
proof (cases "is_video_model mid")
  case True
  from normalize_video_normal [OF assms True] True show ?thesis
    by (simp add: normalize_video_payload_def video_normal_def is_video_model_def h3_normal_id
        unknown_fields_iff rename_field_id Let_def)
next
  case False
  then show ?thesis by (simp add: normalize_video_payload_def is_video_model_def)
qed

definition demo_video :: pydict where
  "demo_video = [(''model'', PStr ''MiniMaxAI/MiniMax-H3''), (''prompt'', PStr ''a street''),
     (''transcript'', PStr ''hello''), (''frame_rate'', PInt 24)]"

definition demo_video_normal :: pydict where
  "demo_video_normal = [(''model'', PStr ''MiniMaxAI/MiniMax-H3''),
     (''prompt'', PStr (''a street'' @ [CHR 0x0A] @ ''Spoken dialogue, exactly: '' @ [CHR 0x22] @ ''hello'' @ [CHR 0x22])),
     (''fps'', PInt 24)]"

theorem normalize_video_idempotent_witness:
  "normalize_video_payload ''MiniMaxAI/MiniMax-H3'' demo_video = Inr demo_video_normal \<and>
   normalize_video_payload ''MiniMaxAI/MiniMax-H3'' demo_video_normal = Inr demo_video_normal"
proof -
  have "normalize_video_payload ''MiniMaxAI/MiniMax-H3'' demo_video = Inr demo_video_normal" by code_simp
  with normalize_video_idempotent [OF this] show ?thesis by simp
qed

section \<open>Frame counts\<close>

lemma get_default_none [simp]: "\<not> has_key p k \<Longrightarrow> get_default p k d = d"
  by (rule get_default_absent)

lemma int_field_own: "l \<le> d \<Longrightarrow> d \<le> h \<Longrightarrow> \<not> too_large_for_float d \<Longrightarrow>
   int_field [(k, PInt d)] k d l h ds = Inr d"
  by (simp add: int_field_def number_def checked_def get_default_def)

lemma frame_count_default:
  assumes "\<not> has_key p ''num_frames''" "\<not> has_key p ''frames''"
    and "l \<le> n" "n \<le> h" "\<not> too_large_for_float n" "(n - i) mod b = 0"
  shows "frame_count p n l h b i = Inr n"
  using assms by (simp add: frame_count_def Let_def int_field_own)

lemma ltx_frames_range:
  assumes "1 \<le> d" "d \<le> 10"
  shows "25 \<le> ltx_default_frames d" "ltx_default_frames d \<le> 241"
    "d * 24 \<le> of_int (ltx_default_frames d)" "of_int (ltx_default_frames d) < d * 24 + 9"
proof -
  define x y c where "x = rnd53 (d * 24)" and "y = rnd53 (x / 8)" and "c = \<lceil>y\<rceil>"
  have f: "ltx_default_frames d = c * 8 + 1" by (simp add: ltx_default_frames_def x_def y_def c_def)
  have xr: "24 \<le> x" "x \<le> 240"
    unfolding x_def using assms rnd53_bounds_int [of "d * 24" 24] rnd53_bounds_int [of "d * 24" 240] by simp_all
  have yr: "3 \<le> y" "y \<le> 30"
    unfolding y_def using xr rnd53_bounds_int [of "x / 8" 3] rnd53_bounds_int [of "x / 8" 30] by simp_all
  show "25 \<le> ltx_default_frames d" "ltx_default_frames d \<le> 241"
    using yr by (simp_all add: f c_def le_ceiling_iff ceiling_le_iff)
  have cy: "y \<le> of_int c" "of_int c - 1 < y" by (simp_all add: c_def ceiling_correct)
  show "d * 24 \<le> of_int (ltx_default_frames d)"
  proof (rule ccontr)
    assume "\<not> ?thesis"
    then have "of_int (c * 8 + 1) \<le> d * 24" by (simp add: f)
    with assms have "of_int (c * 8 + 1) \<le> x" unfolding x_def by (intro rnd53_bounds_int(1)) simp_all
    with xr have "of_int c < y" unfolding y_def by (intro rnd53_ge_above) simp_all
    with cy show False by simp
  qed
  show "of_int (ltx_default_frames d) < d * 24 + 9"
  proof (rule ccontr)
    assume "\<not> ?thesis"
    then have "d * 24 \<le> of_int (8 * (c - 1))" by (simp add: f algebra_simps)
    with assms have "x \<le> of_int (8 * (c - 1))" unfolding x_def by (intro rnd53_bounds_int(2)) simp_all
    with xr have "y \<le> of_int (c - 1)" unfolding y_def by (intro rnd53_bounds_int(2)) simp_all
    with cy show False by simp
  qed
qed

lemma h3_frames_range:
  assumes "5 \<le> d" "d \<le> 15"
  shows "124 \<le> h3_default_frames d" "h3_default_frames d \<le> 362"
    "d * 24 < of_int (h3_default_frames d) + 1" "of_int (h3_default_frames d) < d * 24 + 17"
proof -
  define x z y c where "x = rnd53 (d * 24)" and "z = rnd53 (x - 5)" and "y = rnd53 (z / 17)" and "c = \<lceil>y\<rceil>"
  have f: "h3_default_frames d = c * 17 + 5" by (simp add: h3_default_frames_def x_def y_def z_def c_def)
  have xr: "120 \<le> x" "x \<le> 360"
    unfolding x_def using assms rnd53_bounds_int [of "d * 24" 120] rnd53_bounds_int [of "d * 24" 360] by simp_all
  have zr: "115 \<le> z" "z \<le> 355"
    unfolding z_def using xr rnd53_bounds_int [of "x - 5" 115] rnd53_bounds_int [of "x - 5" 355] by simp_all
  have yr: "6 < y" "y \<le> 21"
    unfolding y_def using zr rnd53_ge_above [of "z / 17" 6] rnd53_bounds_int [of "z / 17" 21] by simp_all
  show "124 \<le> h3_default_frames d" "h3_default_frames d \<le> 362"
    using yr by (simp_all add: f c_def le_ceiling_iff ceiling_le_iff)
  have cy: "y \<le> of_int c" "of_int c - 1 < y" by (simp_all add: c_def ceiling_correct)
  show "d * 24 < of_int (h3_default_frames d) + 1"
  proof (rule ccontr)
    assume "\<not> ?thesis"
    then have "of_int (c * 17 + 6) \<le> d * 24" by (simp add: f)
    with assms have "of_int (c * 17 + 6) \<le> x" unfolding x_def by (intro rnd53_bounds_int(1)) simp_all
    with xr have "of_int (c * 17 + 1) \<le> z" unfolding z_def by (intro rnd53_bounds_int(1)) simp_all
    with zr have "of_int c < y" unfolding y_def by (intro rnd53_ge_above) simp_all
    with cy show False by simp
  qed
  show "of_int (h3_default_frames d) < d * 24 + 17"
  proof (rule ccontr)
    assume "\<not> ?thesis"
    then have "d * 24 \<le> of_int (17 * (c - 1) + 5)" by (simp add: f algebra_simps)
    with assms have "x \<le> of_int (17 * (c - 1) + 5)" unfolding x_def by (intro rnd53_bounds_int(2)) simp_all
    with xr have "z \<le> of_int (17 * (c - 1))" unfolding z_def by (intro rnd53_bounds_int(2)) simp_all
    with zr have "y \<le> of_int (c - 1)" unfolding y_def by (intro rnd53_bounds_int(2)) simp_all
    with cy show False by simp
  qed
qed

lemma small_not_too_large: "0 \<le> i \<Longrightarrow> i \<le> 1000 \<Longrightarrow> \<not> too_large_for_float i"
proof -
  assume "0 \<le> i" "i \<le> 1000"
  moreover have "(1000 :: int) < 2 ^ 1024 - 2 ^ 970" by simp
  ultimately show ?thesis unfolding too_large_for_float_def by linarith
qed

lemma frames_grid: "(h3_default_frames d - 5) mod 17 = 0" "(ltx_default_frames d - 1) mod 8 = 0"
  by (simp_all add: h3_default_frames_def ltx_default_frames_def)

lemma h3_duration:
  assumes "\<not> has_key p ''num_frames''" "\<not> has_key p ''frames''" "5 \<le> d" "d \<le> 15"
  shows "frame_count p (h3_default_frames d) 124 362 17 5 = Inr (h3_default_frames d)"
proof -
  note r = h3_frames_range [OF assms(3,4)]
  have "\<not> too_large_for_float (h3_default_frames d)" using r(1,2) by (intro small_not_too_large) simp_all
  with frame_count_default [OF assms(1,2) r(1,2)] frames_grid show ?thesis by simp
qed

lemma ltx_duration:
  assumes "\<not> has_key p ''num_frames''" "\<not> has_key p ''frames''" "1 \<le> d" "d \<le> 10"
  shows "frame_count p (ltx_default_frames d) 25 241 8 1 = Inr (ltx_default_frames d)"
proof -
  note r = ltx_frames_range [OF assms(3,4)]
  have "\<not> too_large_for_float (ltx_default_frames d)" using r(1,2) by (intro small_not_too_large) simp_all
  with frame_count_default [OF assms(1,2) r(1,2)] frames_grid show ?thesis by simp
qed

text \<open>Asking only for a duration is always enough. The frame count computed from any duration in a
  lane's range, with every float operation rounded, lies on the lane's temporal grid and in its
  range, so the frame check accepts it; an LTX clip covers the duration at 24 frames per second with
  less than nine frames to spare, and an H3 clip is within one block of 17 frames of it.\<close>

theorem duration_alone_accepted:
  assumes "\<not> has_key p ''num_frames''" "\<not> has_key p ''frames''"
    and "5 \<le> d" "d \<le> 15" "1 \<le> e" "e \<le> 10"
  shows "frame_count p (h3_default_frames d) 124 362 17 5 = Inr (h3_default_frames d)
      \<and> d * 24 - 1 < of_int (h3_default_frames d) \<and> of_int (h3_default_frames d) < d * 24 + 17
      \<and> frame_count p (ltx_default_frames e) 25 241 8 1 = Inr (ltx_default_frames e)
      \<and> e * 24 \<le> of_int (ltx_default_frames e) \<and> of_int (ltx_default_frames e) < e * 24 + 9"
  using h3_duration [OF assms(1-4)] ltx_duration [OF assms(1,2,5,6)]
    h3_frames_range(3,4) [OF assms(3,4)] ltx_frames_range(3,4) [OF assms(5,6)]
  by simp

theorem duration_alone_accepted_witness:
  "frame_count [] (h3_default_frames (15 / 2)) 124 362 17 5 = Inr (h3_default_frames (15 / 2))
   \<and> frame_count [] (ltx_default_frames (5 / 2)) 25 241 8 1 = Inr (ltx_default_frames (5 / 2))"
  using duration_alone_accepted [of "[]" "15 / 2" "5 / 2"] by (simp add: has_key_def)

end
