(* ===== verification/Graph_Errors.thy ===== *)
theory Graph_Errors
  imports Graph_Safety Graph_Requests
begin

text \<open>
  Which exceptions can leave \<open>build_graph\<close>. The server turns \<open>ValueError\<close> into a client error and
  nothing else, so every other exception is a server fault reported for a caller's mistake. A step
  is checked with \<open>errs\<close>, one rule per way of composing steps.
\<close>

definition errs :: "(exn \<Rightarrow> bool) \<Rightarrow> 'a builder \<Rightarrow> bool" where
  "errs E m = (\<forall>g e. m g = Inl e \<longrightarrow> E e)"

definition plain_exn :: "exn \<Rightarrow> bool" where
  "plain_exn e = (e = OverflowErr \<or> (\<exists>m. e = ValueErr m))"

lemma plain_simps [simp]: "plain_exn OverflowErr" "plain_exn (ValueErr m)" "plain_exn (err m)"
  by (simp_all add: plain_exn_def err_def)

lemma errs_ret [err_rules]: "errs E (retG a)"
  by (simp add: errs_def retG_def)

lemma errs_add [err_rules]: "errs E (add c i)"
  by (simp add: errs_def add_def)

lemma errs_raise [err_rules]: "E e \<Longrightarrow> errs E m \<Longrightarrow> errs E (raiseG c e m)"
  by (simp add: errs_def raiseG_def)

lemma errs_bind [err_rules]: "errs E m \<Longrightarrow> (\<And>a. errs E (f a)) \<Longrightarrow> errs E (bindG m f)"
  unfolding errs_def bindG_def by (fastforce split: sum.splits)

lemma errs_if [err_rules]: "errs E a \<Longrightarrow> errs E b \<Longrightarrow> errs E (if c then a else b)"
  by simp

lemma errs_option [err_rules]: "errs E a \<Longrightarrow> (\<And>x. errs E (f x)) \<Longrightarrow> errs E (case v of None \<Rightarrow> a | Some x \<Rightarrow> f x)"
  by (simp split: option.split)

lemma errs_prod [err_rules]: "(\<And>x y. errs E (f x y)) \<Longrightarrow> errs E (case a of (x, y) \<Rightarrow> f x y)"
  by (simp split: prod.split)

section \<open>Fields\<close>

lemma errs_lift [err_rules]: "fails E r \<Longrightarrow> errs E (liftG r)"
  by (cases r) (auto simp: errs_def liftG_def fails_def)

lemma fails_number: "fails plain_exn (number p name d l h integer ds)"
  by (cases "get_default p name d")
    (auto simp: number_def checked_def not_finite_def intro!: err_rules)

lemma number_shape:
  assumes "number p name d l h integer ds = Inr v"
  shows "if integer then \<exists>n. v = PInt n else \<exists>r. v = PFloat r"
proof -
  have "checked name x l h integer ds = Inr v \<Longrightarrow> ?thesis" for x
    by (auto simp: checked_def)
  then show ?thesis using assms by (auto simp: number_def split: pyval.splits if_splits)
qed

lemmas number_shapes = number_shape [where integer = True, simplified] number_shape [where integer = False, simplified]

lemma fails_int_field [err_rules]: "fails plain_exn (int_field p name d l h ds)"
  using fails_number [of p name "PInt d" "PInt l" "PInt h" True ds]
  unfolding int_field_def
  by (cases "number p name (PInt d) (PInt l) (PInt h) True ds") (auto simp: fails_def dest!: number_shapes)

lemma fails_float_field [err_rules]: "fails plain_exn (float_field p name d l h ds)"
  using fails_number [of p name d l h False ds]
  unfolding float_field_def
  by (cases "number p name d l h False ds") (auto simp: fails_def dest!: number_shapes)

lemma fails_text_field [err_rules]: "fails plain_exn (text_field p name d n)"
  unfolding text_field_def by (cases "get_default p name (PStr d)") (auto intro!: err_rules)

lemma fails_size_or [err_rules]: "fails plain_exn (size_or g p d)"
  unfolding size_or_def by (intro err_rules plain_simps)

lemma fails_geometry [err_rules]:
  "fails plain_exn (geometry p x)" "fails plain_exn (image_geometry p)"
  "fails plain_exn (ideogram_geometry p)" "fails plain_exn (qwen_image_21_geometry p r)"
  unfolding geometry_def image_geometry_def ideogram_geometry_def qwen_image_21_geometry_def Let_def
  by (intro err_rules plain_simps)+

lemma fails_steps_21 [err_rules]: "fails plain_exn (qwen_image_21_steps p)"
  unfolding qwen_image_21_steps_def Let_def
  by (cases "get_none p ''quality''") (auto intro!: err_rules)

lemma fails_frame_count [err_rules]: "fails plain_exn (frame_count p d l h b i)"
  unfolding frame_count_def Let_def by (intro err_rules plain_simps)

lemma fails_h3_prompt [err_rules]: "fails plain_exn (h3_prompt p)"
  unfolding h3_prompt_def by (auto intro!: err_rules split: pyval.split)

lemma fails_add_transcript [err_rules]: "fails plain_exn (add_transcript p s)"
  unfolding add_transcript_def Let_def
  by (cases "get_none p ''transcript''") (auto intro!: err_rules)

lemma fails_rename [err_rules]: "fails plain_exn (rename_field a b m p)"
  unfolding rename_field_def by (intro err_rules plain_simps)

lemma fails_normalize [err_rules]: "fails plain_exn (normalize_video_payload mid p)"
  unfolding normalize_video_payload_def normalize_h3_def Let_def by (intro err_rules plain_simps)

section \<open>Lanes\<close>

lemmas block_defs = unet_def clip_loader_def vae_loader_def load_image_def encode_text_def zero_out_def
  vae_decode_def vae_decode_audio_def empty_latent_def sampler_custom_def sample_def edit_plus_def
  load_audio_def load_video_def create_video_def concat_av_def separate_av_def encode_21_def h3_condition_def

lemma errs_krea2: "errs plain_exn (krea2 p prompt seed)"
  unfolding krea2_def block_defs by (intro err_rules plain_simps)

lemma errs_qwen_image: "errs plain_exn (qwen_image p prompt seed lightning)"
  unfolding qwen_image_def block_defs by (intro err_rules plain_simps)

lemma errs_qwen_image_edit: "errs plain_exn (qwen_image_edit p prompt seed f)"
  unfolding qwen_image_edit_def block_defs by (intro err_rules plain_simps)

lemma errs_flux2: "errs plain_exn (flux2_klein p prompt seed f)"
  unfolding flux2_klein_def flux2_reference_def block_defs by (intro err_rules plain_simps)

lemma errs_music3: "errs plain_exn (music3 p caption lyrics duration seed)"
  unfolding music3_def block_defs by (intro err_rules plain_simps)

lemma errs_ace: "errs plain_exn (ace p caption lyrics duration seed turbo)"
  unfolding ace_def ace_condition_def block_defs by (intro err_rules plain_simps)

lemma errs_yue2: "errs plain_exn (yue2 p style lyrics duration seed)"
  unfolding yue2_def yue2_abc_def block_defs Let_def by (intro err_rules plain_simps)

lemma errs_opt_load [err_rules]: "(\<And>f. errs E (load f)) \<Longrightarrow> errs E (opt_load v load)"
  unfolding opt_load_def by (intro err_rules)

lemma errs_h3: "errs plain_exn (h3 p prompt seed a b turbo c d)"
  unfolding h3_def h3_ref2va_def h3_frames_def h3_references_def h3_sample_def block_defs Let_def
  by (intro err_rules plain_simps)

lemma fails_ltx_checks [err_rules]: "fails plain_exn (ltx_checks p a b)"
  unfolding ltx_checks_def Let_def by (intro err_rules plain_simps)

lemma fails_ltx_numbers [err_rules]: "fails plain_exn (ltx_numbers p full)"
  unfolding ltx_numbers_def Let_def by (intro err_rules plain_simps)

lemma errs_advanced [err_rules]: "errs E (advanced a b c d e f g h i)"
  unfolding advanced_def by (intro err_rules)

lemma errs_ltx_audio [err_rules]: "errs plain_exn (ltx_audio p f n m a b c)"
  unfolding ltx_audio_def ltx_voice_def block_defs by (intro err_rules plain_simps)

lemma errs_ltx_parts [err_rules]:
  "errs E (ltx_guide a b c d e)" "errs E (ltx_crop a b d e)" "errs E (ltx_image_to_video a i b w)"
  "errs E (ltx_load_first f)"
  unfolding ltx_guide_def ltx_crop_def ltx_image_to_video_def ltx_load_first_def block_defs
  by (intro err_rules)+

lemma errs_ltx: "errs plain_exn (ltx p prompt seed a b c full)"
  unfolding ltx_def ltx_finish_def ltx_upscale_def ltx_stage_one_def ltx_stage_two_def block_defs
  by (intro err_rules plain_simps)

text \<open>The 2.1 lane writes into its encode node, which it has just added.\<close>

lemma errs_condition_edit: "errs plain_exn (condition_edit_21 p prompt r f clip vae)"
proof -
  have "errs plain_exn (bindG (encode_21 clip vae prompt neg r) (\<lambda>encode.
      bindG (load_image f) (\<lambda>img.
      bindG (add ''JoinImageWithAlpha'' [(''image'', L (out_of img 0)), (''alpha'', L (out_of img 1))]) (\<lambda>rgba.
      bindG (set_input (fst encode) ''images.image_1'' (L rgba)) (\<lambda>_.
      retG (encode, out_of encode 1, out_of encode 2))))))" for neg
    by (simp add: errs_def bindG_def encode_21_def load_image_def add_def set_input_def retG_def)
  then show ?thesis 
    unfolding condition_edit_21_def
    by (intro errs_raise errs_bind [OF errs_lift] fails_text_field plain_simps)
qed

lemma errs_qwen_21:
  assumes "map_of qwen_image_21_checkpoints mid \<noteq> None"
  shows "errs plain_exn (qwen_image_21 p prompt seed f mid)"
proof -
  from assms obtain ck where "map_of qwen_image_21_checkpoints mid = Some ck" by auto
  then show ?thesis
    unfolding qwen_image_21_def condition_text_21_def block_defs Let_def
    by (auto intro!: err_rules errs_condition_edit)
qed

text \<open>Ideogram parses the prompt and looks the preset up in a table.\<close>

definition ideogram_exn :: "(string \<Rightarrow> pyval res) \<Rightarrow> exn \<Rightarrow> bool" where
  "ideogram_exn loads e = (plain_exn e \<or> e = TypeErr \<or> (\<exists>s. loads s = Inl e))"

lemma fails_ideogram [err_rules]: "fails plain_exn r \<Longrightarrow> fails (ideogram_exn loads) r"
  by (erule fails_mono) (simp add: ideogram_exn_def)

lemma fails_preset: "fails (ideogram_exn loads) (ideogram4_preset v)"
  unfolding ideogram4_preset_def
  by (cases v) (auto simp: fails_def ideogram_exn_def split: option.split)

lemma fails_caption: "fails (ideogram_exn loads) (ideogram_caption loads prompt w h)"
proof (cases "loads prompt")
  case (Inl e)
  then show ?thesis
    by (cases e) (auto simp: ideogram_caption_def fails_def ideogram_exn_def intro!: exI [of _ prompt])
next
  case (Inr v)
  then show ?thesis by (simp add: ideogram_caption_def fails_def)
qed

lemma errs_ideogram4: "errs (ideogram_exn loads) (ideogram4 loads p prompt seed)"
proof -
  have "ideogram_exn loads (err m)" for m by (simp add: ideogram_exn_def)
  then show ?thesis
    unfolding ideogram4_def block_defs
    by (intro err_rules fails_preset fails_caption plain_simps)
qed

section \<open>The whole builder\<close>

lemma model_21_checkpoints:
  "map_of models mid = Some e \<Longrightarrow> family_of e = ''qwen-image-21'' \<Longrightarrow> map_of qwen_image_21_checkpoints mid \<noteq> None"
  by (auto simp: models_def family_of_def qwen_image_21_checkpoints_def split: if_splits)

lemma model_ideogram:
  "map_of models mid = Some e \<Longrightarrow> family_of e = ''ideogram4'' \<Longrightarrow> mid = ''Comfy-Org/Ideogram-4''"
  by (auto simp: models_def family_of_def split: if_splits)

definition build_exn :: "(string \<Rightarrow> pyval res) \<Rightarrow> string \<Rightarrow> exn \<Rightarrow> bool" where
  "build_exn loads mid e =
     (plain_exn e \<or> mid = ''Comfy-Org/Ideogram-4'' \<and> (e = TypeErr \<or> (\<exists>s. loads s = Inl e)))"

lemma build_exn_plain [simp]: "plain_exn e \<Longrightarrow> build_exn loads mid e"
  by (simp add: build_exn_def)

lemma errs_mono: "errs E m \<Longrightarrow> (\<And>e. E e \<Longrightarrow> E' e) \<Longrightarrow> errs E' m"
  by (auto simp: errs_def)

lemma errs_image_lane:
  assumes "map_of models mid = Some e"
  shows "errs (build_exn loads mid) (image_lane loads mid (family_of e) p prompt seed f)"
proof -
  have plain: "errs plain_exn m \<Longrightarrow> errs (build_exn loads mid) m" for m :: "link builder"
    by (erule errs_mono) simp
  have "family_of e = ''ideogram4'' \<Longrightarrow> errs (build_exn loads mid) (ideogram4 loads p prompt seed)"
    using model_ideogram [OF assms] by (intro errs_mono [OF errs_ideogram4]) (auto simp: ideogram_exn_def build_exn_def)
  moreover have "family_of e = ''qwen-image-21'' \<Longrightarrow> errs (build_exn loads mid) (qwen_image_21 p prompt seed f mid)"
    using model_21_checkpoints [OF assms] by (intro plain errs_qwen_21)
  moreover have "errs (build_exn loads mid) (liftG (Inl (err m)) :: link builder)" for m
    by (rule plain) (intro err_rules plain_simps)
  ultimately show ?thesis
    unfolding image_lane_def
    by (auto intro!: errs_raise plain [OF errs_qwen_image] plain [OF errs_qwen_image_edit] plain [OF errs_flux2]
        plain [OF errs_krea2] split: option.split)
qed

lemma fails_plain_build: "fails plain_exn r \<Longrightarrow> fails (build_exn loads mid) r"
  by (erule fails_mono) simp

lemma fails_check_names: "fails plain_exn (check_names mid f)"
  unfolding check_names_def check_image_name_def check_audio_name_def check_video_name_def
  by (intro err_rules plain_simps)

lemma fails_graph_seed: "fails plain_exn (graph_seed rnd e p)"
  unfolding graph_seed_def by (intro err_rules plain_simps)

lemma fails_required_prompt [err_rules]: "fails plain_exn (required_prompt p)"
  unfolding required_prompt_def by (intro err_rules plain_simps)

lemma errs_video_lane: "errs plain_exn (video_lane mid p seed f)"
  unfolding video_lane_def by (intro err_rules plain_simps errs_h3 errs_ltx)

lemma errs_audio_lane: "errs plain_exn (audio_lane mid fam p seed f)"
  unfolding audio_lane_def by (intro err_rules plain_simps errs_yue2 errs_music3 errs_ace)

lemma fails_run: "errs E m \<Longrightarrow> fails E (m [])"
  by (auto simp: errs_def fails_def split: sum.splits)

lemma fails_build_graph: "fails (build_exn loads mid) (build_graph loads rnd mid payload f pre)"
proof (cases "map_of models mid")
  case None
  then show ?thesis by (simp add: build_graph_def fails_def)
next
  case (Some e)
  have E: "build_exn loads mid (err m)" for m by simp
  have img: "errs (build_exn loads mid) (bindG (liftG (required_prompt p)) (\<lambda>prompt.
      image_lane loads mid (family_of e) p prompt seed (image_name f)))" for p seed
    by (intro errs_bind errs_lift fails_plain_build fails_required_prompt errs_image_lane Some)
  have other: "errs (build_exn loads mid) (video_lane mid p seed f)"
    "errs (build_exn loads mid) (audio_lane mid (family_of e) p seed f)" for p seed
    by (rule errs_mono [OF errs_video_lane] errs_mono [OF errs_audio_lane]; simp)+
  show ?thesis
  proof (cases payload)
    case (PDict p)
    with Some show ?thesis
      unfolding build_graph_def
      by (simp del: bindE_eq_Inr raise_if_eq_Inr)
        (intro fails_raise fails_bind fails_prod fails_Inr E fails_run errs_bind errs_if img other errs_add
          fails_plain_build fails_check_names fails_graph_seed fails_int_field)
  qed (use Some in \<open>simp_all add: build_graph_def fails_def\<close>)
qed

text \<open>C19. A caller's mistake is reported as one: whatever the payload, the exceptions that leave
  \<open>build_graph\<close> are \<open>ValueError\<close>, which the server answers with 400, and \<open>OverflowError\<close>, except that
  on the Ideogram lane a preset that is a list or an object raises \<open>TypeError\<close> and the parser's own
  exceptions pass through. In particular no lane meets a missing key or an index out of range.\<close>

theorem build_graph_errors:
  "(case build_graph loads rnd mid payload f pre of
      Inr _ \<Rightarrow> True
    | Inl e \<Rightarrow> (\<exists>m. e = ValueErr m) \<or> e = OverflowErr
        \<or> mid = ''Comfy-Org/Ideogram-4'' \<and> (e = TypeErr \<or> (\<exists>s. loads s = Inl e)))"
  using fails_build_graph [of loads mid rnd payload f pre]
  by (auto simp: fails_def build_exn_def plain_exn_def split: sum.splits)

text \<open>The exception the server does not catch is reachable: on the Ideogram lane a request whose
  preset is a list leaves \<open>build_graph\<close> with \<open>TypeError\<close>, an internal error instead of a 400.\<close>

theorem preset_list_escapes:
  "build_graph (\<lambda>_. Inl (ValueErr [])) 0 ''Comfy-Org/Ideogram-4''
     (PDict [(''model'', PStr ''Comfy-Org/Ideogram-4''), (''prompt'', PStr ''a cat''), (''preset'', PList [])])
     no_names ''lloom'' = Inl TypeErr"
  by code_simp

end
