(* ===== verification/Requests_In.thy ===== *)
theory Requests_In
  imports Http_World Media
begin

text \<open>
  \<open>backends/comfyui-media/bridge/requests_in.py\<close>: bounded reading of bodies, the JSON and multipart
  fields of a request, inline data URIs and uploaded reference images. What the code takes from
  outside is a parameter: \<open>loads\<close> is \<open>json.loads\<close> of the decoded body (\<open>ValueErr\<close> for its
  \<open>ValueError\<close>s), \<open>pil\<close> is what Pillow finds in image bytes, \<open>parse\<close> is Starlette's multipart
  parser, and the UUID of a generated name is an argument. Closing the form is left out: it returns
  nothing and frees temporary files.
\<close>

section \<open>Ceilings\<close>

definition mib :: nat where
  "mib = 1024 * 1024"

definition max_body_bytes :: nat where
  "max_body_bytes = 48 * mib"

definition max_image_bytes :: nat where
  "max_image_bytes = 8 * mib"

definition max_audio_bytes :: nat where
  "max_audio_bytes = 16 * mib"

definition max_image_axis :: int where
  "max_image_axis = 4096"

definition max_image_area :: int where
  "max_image_area = 16 * 1024 * 1024"

definition max_multipart_images :: nat where
  "max_multipart_images = 1"

definition native_max_multipart_images :: nat where
  "native_max_multipart_images = 10"

definition max_multipart_field_bytes :: nat where
  "max_multipart_field_bytes = 8192"

section \<open>JSON bodies\<close>

definition quoted :: "string \<Rightarrow> string" where
  "quoted field = ''Field '' @ [CHR 0x27] @ field @ [CHR 0x27]"

definition body_too_large :: exn where
  "body_too_large = bad_request ''Request body exceeds the 48 MiB limit.'' ''body_too_large''"

definition read_json_body :: "(bytes \<Rightarrow> pyval res) \<Rightarrow> chunk list \<Rightarrow> pydict res" where
  "read_json_body loads stream =
     bindE (accumulate max_body_bytes body_too_large OtherExn stream []) (\<lambda>total.
       if total = [] then Inr []
       else
         (case loads total of
            Inl (ValueErr _) \<Rightarrow> Inl (bad_request ''Request body must be valid JSON.'' ''invalid_json'')
          | Inl e \<Rightarrow> Inl e
          | Inr (PDict d) \<Rightarrow> Inr d
          | Inr _ \<Rightarrow> Inl (bad_request ''Request body must be a JSON object.'' ''invalid_json'')))"

definition validate_model :: "pydict \<Rightarrow> string list \<Rightarrow> string res" where
  "validate_model payload ids =
     (case get_none payload ''model'' of
        PStr s \<Rightarrow>
          if s = [] then Inl (bad_request (quoted ''model'' @ '' is required.'') ''missing_model'')
          else if s \<notin> set ids then Inl (unsupported_model s (sort ids))
          else Inr s
      | _ \<Rightarrow> Inl (bad_request (quoted ''model'' @ '' is required.'') ''missing_model''))"

definition validate_response_format :: "pydict \<Rightarrow> string list \<Rightarrow> unit res" where
  "validate_response_format payload allowed =
     (let bad = Inl (rejected (''Unsupported response_format; supported values are ''
                       @ join_with '', '' (sort allowed) @ ''.'') ''unsupported_response_format'')
      in case get_none payload ''response_format'' of
           PNone \<Rightarrow> Inr ()
         | PStr s \<Rightarrow> if s \<notin> set allowed then bad else Inr ()
         | _ \<Rightarrow> bad)"

text \<open>\<open>f"lloom-{uuid.uuid4().hex}.png"\<close>.\<close>

definition image_filename :: "string \<Rightarrow> string" where
  "image_filename hex = ''lloom-'' @ hex @ ''.png''"

section \<open>Data URIs\<close>

definition b64_class :: "char \<Rightarrow> bool" where
  "b64_class c = (is_alnum c \<or> c \<in> set ''+/='' \<or> is_space c)"

text \<open>
  \<open>^data:(m1|m2|..);base64,([A-Za-z0-9+/=\s]+)$\<close>, ignoring case: the declared type in lower case
  and the encoded rest. The class contains the line feed, so the group takes the whole rest.
\<close>

definition match_data_uri :: "string list \<Rightarrow> string \<Rightarrow> (string \<times> string) option" where
  "match_data_uri mimes s =
     (case find (\<lambda>m. prefix (''data:'' @ m @ '';base64,'') (py_lower s)) mimes of
        None \<Rightarrow> None
      | Some m \<Rightarrow>
          let encoded = drop (length (''data:'' @ m @ '';base64,'')) s
          in if encoded \<noteq> [] \<and> list_all b64_class encoded then Some (m, encoded) else None)"

definition image_mimes :: "string list" where
  "image_mimes = [''image/png'', ''image/jpeg'']"

definition audio_mimes :: "string list" where
  "audio_mimes = [''audio/wav'', ''audio/x-wav'', ''audio/wave'', ''audio/flac'', ''audio/mpeg'', ''audio/mp3'']"

definition audio_suffix :: "(string \<times> string) list" where
  "audio_suffix =
    [(''audio/wav'', ''wav''), (''audio/x-wav'', ''wav''), (''audio/wave'', ''wav''),
     (''audio/flac'', ''flac''), (''audio/mpeg'', ''mp3''), (''audio/mp3'', ''mp3'')]"

text \<open>The decoded bytes, the content type and the file extension.\<close>

type_synonym media = "bytes \<times> string \<times> string"

section \<open>Images\<close>

text \<open>
  What Pillow reports of an image: \<open>format\<close>, \<open>size\<close>, \<open>n_frames\<close> (\<open>None\<close>: reading it raises) and
  whether \<open>verify\<close> and the second open with \<open>load\<close> succeed.
\<close>

record image_info =
  img_format :: "string option"
  img_width :: int
  img_height :: int
  img_frames :: "int option"
  img_verifies :: bool
  img_loads :: bool

text \<open>\<open>str.upper\<close> on the ASCII letters, which is all that comparing with PNG and JPEG needs.\<close>

definition upper_char :: "char \<Rightarrow> char" where
  "upper_char c = (if 97 \<le> cp c \<and> cp c \<le> 122 then char_of (cp c - 32) else c)"

definition undecodable_image :: exn where
  "undecodable_image = rejected ''Inline image could not be decoded as PNG or JPEG.'' ''invalid_image''"

definition check_image :: "(bytes \<Rightarrow> image_info option) \<Rightarrow> bytes \<Rightarrow> unit res" where
  "check_image pil data =
     (case pil data of
        None \<Rightarrow> Inl undecodable_image
      | Some i \<Rightarrow>
          let fmt = map upper_char (case img_format i of None \<Rightarrow> [] | Some f \<Rightarrow> f);
              w = img_width i; h = img_height i
          in raise_if (fmt \<notin> {''PNG'', ''JPEG''}) (rejected ''Inline image must be PNG or JPEG.'' ''invalid_image'')
            (raise_if (w \<le> 0 \<or> h \<le> 0) (rejected ''Inline image has invalid dimensions.'' ''invalid_image'')
            (raise_if (max_image_axis < w \<or> max_image_axis < h \<or> max_image_area < w * h)
               (bad_request ''Inline image dimensions exceed the allowed limits.'' ''image_too_large'')
            (case img_frames i of
               None \<Rightarrow> Inl undecodable_image
             | Some n \<Rightarrow>
                 raise_if (n \<noteq> 1) (rejected ''Animated reference images are unsupported.'' ''invalid_image'')
                 (raise_if (\<not> img_verifies i \<or> \<not> img_loads i) undecodable_image (Inr ()))))))"

definition canonical_mime :: "string \<Rightarrow> string" where
  "canonical_mime mime = (if mime = ''image/png'' then ''image/png'' else ''image/jpeg'')"

definition image_ext :: "string \<Rightarrow> string" where
  "image_ext canonical = (if canonical = ''image/png'' then ''png'' else ''jpg'')"

definition in_field :: "string \<Rightarrow> string" where
  "in_field field = ''Inline image in '' @ [CHR 0x27] @ field @ [CHR 0x27]"

definition decode_data_uri :: "(bytes \<Rightarrow> image_info option) \<Rightarrow> pydict \<Rightarrow> string \<Rightarrow> media option res" where
  "decode_data_uri pil payload field =
     (case get_none payload field of
        PNone \<Rightarrow> Inr None
      | PStr raw \<Rightarrow>
          raise_if (raw = []) (rejected (quoted field @ '' must be an inline PNG or JPEG data URI.'') ''invalid_image'')
          (raise_if (\<not> prefix ''data:'' (py_lower raw))
             (rejected (quoted field @ '' must be an inline data URI; URLs and file paths are not accepted.'') ''invalid_image'')
          (case match_data_uri image_mimes raw of
             None \<Rightarrow> Inl (rejected (quoted field @ '' must be a base64 PNG or JPEG data URI.'') ''invalid_image'')
           | Some (mime, encoded) \<Rightarrow>
               raise_if (max_image_bytes * 4 div 3 + 16 < length encoded)
                 (bad_request (in_field field @ '' exceeds the 8 MiB limit.'') ''image_too_large'')
               (case b64decode encoded of
                  None \<Rightarrow> Inl (rejected (in_field field @ '' is not valid base64.'') ''invalid_image'')
                | Some data \<Rightarrow>
                    raise_if (max_image_bytes < length data)
                      (bad_request (in_field field @ '' exceeds the 8 MiB limit.'') ''image_too_large'')
                    (bindE (check_image pil data) (\<lambda>_.
                     Inr (Some (data, canonical_mime mime, image_ext (canonical_mime mime))))))))
      | _ \<Rightarrow> Inl (rejected (quoted field @ '' must be an inline PNG or JPEG data URI.'') ''invalid_image''))"

definition decode_inline_image :: "(bytes \<Rightarrow> image_info option) \<Rightarrow> pydict \<Rightarrow> media option res" where
  "decode_inline_image pil payload = decode_data_uri pil payload ''image''"

definition decode_last_frame :: "(bytes \<Rightarrow> image_info option) \<Rightarrow> pydict \<Rightarrow> media option res" where
  "decode_last_frame pil payload = decode_data_uri pil payload ''last_frame''"

section \<open>Audio\<close>

definition check_audio :: "bytes \<Rightarrow> string \<Rightarrow> unit res" where
  "check_audio data suf =
     (let head = take 12 data;
          ok = (if suf = ''wav'' then take 4 head = ''RIFF'' \<and> drop 8 (take 12 head) = ''WAVE''
                else if suf = ''flac'' then take 4 head = ''fLaC''
                else if suf = ''mp3'' then take 3 head = ''ID3''
                  \<or> (1 < length head \<and> head ! 0 = CHR 0xFF \<and> 224 \<le> cp (head ! 1))
                else False)
      in raise_if (\<not> ok) (rejected ''Inline audio does not match its declared format.'' ''invalid_audio'') (Inr ()))"

definition audio_field :: "string \<Rightarrow> exn" where
  "audio_field msg = rejected (quoted ''audio'' @ msg) ''invalid_audio''"

definition audio_too_large :: exn where
  "audio_too_large = bad_request ''Inline audio exceeds the 16 MiB limit.'' ''audio_too_large''"

definition decode_audio :: "pydict \<Rightarrow> media option res" where
  "decode_audio payload =
     (case get_none payload ''audio'' of
        PNone \<Rightarrow> Inr None
      | PStr raw \<Rightarrow>
          raise_if (raw = []) (audio_field '' must be an inline audio data URI.'')
          (raise_if (\<not> prefix ''data:'' (py_lower raw))
             (audio_field '' must be an inline data URI; URLs and file paths are not accepted.'')
          (case match_data_uri audio_mimes raw of
             None \<Rightarrow> Inl (audio_field '' must be a base64 WAV, FLAC or MP3 data URI.'')
           | Some (mime, encoded) \<Rightarrow>
               let suf = (case map_of audio_suffix mime of None \<Rightarrow> ''wav'' | Some x \<Rightarrow> x)
               in raise_if (max_audio_bytes * 4 div 3 + 16 < length encoded) audio_too_large
                 (case b64decode encoded of
                    None \<Rightarrow> Inl (rejected ''Inline audio is not valid base64.'' ''invalid_audio'')
                  | Some data \<Rightarrow>
                      raise_if (max_audio_bytes < length data) audio_too_large
                      (bindE (check_audio data suf) (\<lambda>_. Inr (Some (data, mime, suf)))))))
      | _ \<Rightarrow> Inl (audio_field '' must be an inline audio data URI.''))"

section \<open>Scalars of a JSON payload\<close>

definition safe_prefix :: "pyval \<Rightarrow> pyval" where
  "safe_prefix v = (case v of PStr s \<Rightarrow> if matches_basename 64 s then PStr s else PStr ''lloom'' | _ \<Rightarrow> PStr ''lloom'')"

definition non_negative_int :: "pydict \<Rightarrow> string \<Rightarrow> int option \<Rightarrow> int \<Rightarrow> int option res" where
  "non_negative_int payload field dflt ceil =
     (case get_none payload field of
        PNone \<Rightarrow> Inr dflt
      | PInt i \<Rightarrow>
          if i < 0 \<or> ceil < i then Inl (bad_request (quoted field @ '' is out of range.'') ''invalid_field'')
          else Inr (Some i)
      | _ \<Rightarrow> Inl (bad_request (quoted field @ '' must be an integer.'') ''invalid_field''))"

definition validate_bounded_text :: "pydict \<Rightarrow> string \<Rightarrow> nat \<Rightarrow> bool \<Rightarrow> string option res" where
  "validate_bounded_text payload field ceil required =
     (case get_none payload field of
        PNone \<Rightarrow>
          if required then Inl (bad_request (quoted field @ '' is required.'') ''missing_field'') else Inr None
      | PStr s \<Rightarrow>
          if ceil < length s then Inl (bad_request (quoted field @ '' is too long.'') ''invalid_field'')
          else Inr (Some s)
      | _ \<Rightarrow> Inl (bad_request (quoted field @ '' must be a string.'') ''invalid_field''))"

end
