(* ===== verification/Multipart.thy ===== *)
theory Multipart
  imports Requests_In
begin

text \<open>
  The multipart half of \<open>requests_in.py\<close> and \<open>_multipart_edit_payload\<close> of \<open>server.py\<close>: reading a
  form within the ceilings, text scalars, numbers written as text and the one reference image. The
  parser's result is the list of parts in order; a part is a text field or an upload.
\<close>

section \<open>Forms\<close>

datatype part = FieldPart string | FilePart pyval "string option" bytes \<comment> \<open>file name, content type, content\<close>

type_synonym upload = "pyval \<times> string \<times> bytes"

record form =
  form_fields :: "(string \<times> string) list"
  form_uploads :: "(string \<times> upload) list"
  form_counts :: "(string \<times> nat) list"

definition empty_form :: form where
  "empty_form = \<lparr>form_fields = [], form_uploads = [], form_counts = []\<rparr>"

definition count_of :: "(string \<times> nat) list \<Rightarrow> string \<Rightarrow> nat" where
  "count_of counts name = (case map_of counts name of None \<Rightarrow> 0 | Some n \<Rightarrow> n)"

definition reference_too_large :: exn where
  "reference_too_large = bad_request ''The reference image exceeds the 8 MiB limit.'' ''image_too_large''"

definition add_part :: "string \<times> part \<Rightarrow> form \<Rightarrow> form res" where
  "add_part np f =
     (let name = fst np;
          f1 = f\<lparr>form_counts := AList.update name (count_of (form_counts f) name + 1) (form_counts f)\<rparr>
      in case snd np of
           FilePart filename ctype content \<Rightarrow>
             let data = take (max_image_bytes + 1) content
             in raise_if (max_image_bytes < length data) reference_too_large
                  (Inr (f1\<lparr>form_uploads :=
                     AList.update name (filename, case ctype of None \<Rightarrow> [] | Some c \<Rightarrow> c, data) (form_uploads f1)\<rparr>))
         | FieldPart s \<Rightarrow> Inr (f1\<lparr>form_fields := AList.update name s (form_fields f1)\<rparr>))"

text \<open>\<open>s.split(d, 1)[0].strip().lower()\<close>.\<close>

definition media_type_of :: "string \<Rightarrow> string" where
  "media_type_of s = py_lower (py_strip (hd (split_on (CHR '';'') s)))"

definition read_multipart_form ::
  "(bytes \<Rightarrow> (string \<times> part) list res) \<Rightarrow> string \<Rightarrow> chunk list \<Rightarrow> form res" where
  "read_multipart_form parse content_type stream =
     bindE (accumulate max_body_bytes body_too_large OtherExn stream []) (\<lambda>total.
     raise_if (media_type_of content_type \<noteq> ''multipart/form-data'')
       (bad_request ''Image editing requires multipart/form-data.'' ''invalid_content_type'')
     (case parse total of
        Inl (ValueErr _) \<Rightarrow> Inl (bad_request ''Malformed multipart request body.'' ''invalid_body'')
      | Inl e \<Rightarrow> Inl e
      | Inr parts \<Rightarrow> forE parts add_part empty_form))"

section \<open>Scalars\<close>

definition multipart_scalar :: "form \<Rightarrow> string \<Rightarrow> nat \<Rightarrow> string option res" where
  "multipart_scalar f name maximum =
     (let seen = count_of (form_counts f) name in
      if 1 < seen then Inl (bad_request (quoted name @ '' was supplied more than once.'') ''duplicate_field'')
      else if seen = 0 then Inr None
      else
        (case map_of (form_fields f) name of
           None \<Rightarrow> Inl (bad_request (quoted name @ '' is too large.'') ''invalid_field'')
         | Some v \<Rightarrow>
             if maximum < utf8_len v then Inl (bad_request (quoted name @ '' is too large.'') ''invalid_field'')
             else Inr (Some v)))"

definition no_number_words :: "string list" where
  "no_number_words = [''true'', ''false'', ''none'', ''null'', ''nan'', ''inf'', ''-inf'', ''+inf'']"

definition not_a_number :: "string \<Rightarrow> bool \<Rightarrow> exn" where
  "not_a_number name integer =
     bad_request (quoted name @ '' must be '' @ (if integer then ''an integer'' else ''a number'') @ ''.'') ''invalid_field''"

text \<open>The number of a stripped text: a float, and for an integer field also an equal integer.\<close>

definition text_number :: "string \<Rightarrow> bool \<Rightarrow> string \<Rightarrow> pyval res" where
  "text_number name integer t =
     (case parse_float t of
        None \<Rightarrow> Inl (not_a_number name integer)
      | Some (PFloat v) \<Rightarrow>
          if integer then
            (case parse_int t of
               None \<Rightarrow> Inl (not_a_number name True)
             | Some i \<Rightarrow> if to_float (of_int i) \<noteq> PFloat v then Inl (not_a_number name True) else Inr (PInt i))
          else Inr (PFloat v)
      | Some _ \<Rightarrow> Inl (bad_request (quoted name @ '' must be a finite number.'') ''invalid_field''))"

definition multipart_numeric :: "form \<Rightarrow> string \<Rightarrow> bool \<Rightarrow> pyval option res" where
  "multipart_numeric f name integer =
     bindE (multipart_scalar f name max_multipart_field_bytes) (\<lambda>raw.
       case raw of
         None \<Rightarrow> Inr None
       | Some r \<Rightarrow>
           let t = py_strip r in
           raise_if (t = [] \<or> py_lower t \<in> set no_number_words) (not_a_number name integer)
             (bindE (text_number name integer t) (\<lambda>v. Inr (Some v))))"

section \<open>Reference images\<close>

definition upload_mime_suffix :: "(string \<times> string option) list" where
  "upload_mime_suffix =
    [(''image/png'', Some ''png''), (''image/x-png'', Some ''png''), (''image/jpeg'', Some ''jpg''),
     (''image/jpg'', Some ''jpg''), (''image/pjpeg'', Some ''jpg''), (''application/octet-stream'', None),
     (''binary/octet-stream'', None), ([], None)]"

definition upload_suffix_mime :: "string \<Rightarrow> string" where
  "upload_suffix_mime suf = (if suf = ''png'' then ''image/png'' else ''image/jpeg'')"

definition check_uploaded_image :: "(bytes \<Rightarrow> image_info option) \<Rightarrow> bytes \<Rightarrow> string \<Rightarrow> pyval \<Rightarrow> string res" where
  "check_uploaded_image pil data mime filename =
     (let declared = media_type_of mime in
      case map_of upload_mime_suffix declared of
        None \<Rightarrow>
          Inl (rejected (''The reference image must be a PNG or JPEG file part; declared type ''
            @ py_repr (if declared = [] then ''none'' else declared) @ '' is not accepted.'') ''invalid_image'')
      | Some suf \<Rightarrow>
          bindE (check_image pil data) (\<lambda>_.
          let actual = (if take 8 data = png_magic then ''png'' else ''jpg'') in
          raise_if (suf \<noteq> None \<and> suf \<noteq> Some actual)
            (rejected ''The reference image does not match its declared MIME type.'' ''invalid_image'')
          (raise_if (truthy filename \<and> \<not> is_str filename)
            (rejected ''The reference image filename must be text.'' ''invalid_image'')
          (Inr (upload_suffix_mime actual)))))"

definition named :: "(string \<times> nat) list \<Rightarrow> string \<Rightarrow> bool" where
  "named counts name = (map_of counts name \<noteq> None)"

definition multipart_reference_images :: "(bytes \<Rightarrow> image_info option) \<Rightarrow> form \<Rightarrow> media res" where
  "multipart_reference_images pil f =
     (let counts = form_counts f in
      raise_if (1 < count_of counts ''image'')
        (bad_request (quoted ''image'' @ '' was supplied more than once.'') ''duplicate_field'')
      (raise_if (named counts ''image'' \<and> named counts ''image[]'')
        (bad_request (''Supply reference images as either '' @ [CHR 0x27] @ ''image'' @ [CHR 0x27] @ '' or ''
           @ [CHR 0x27] @ ''image[]'' @ [CHR 0x27] @ '', not both.'') ''duplicate_field'')
      (raise_if (\<not> named counts ''image'' \<and> \<not> named counts ''image[]'')
        (bad_request ''Image editing requires one reference image.'' ''missing_image'')
      (let name = (if named counts ''image[]'' then ''image[]'' else ''image'') in
       raise_if (max_multipart_images < count_of counts name)
         (bad_request (''This backend supports one reference image per edit; native Diffusers supports up to ''
            @ show_nat native_max_multipart_images @ ''. Send a single '' @ [CHR 0x27] @ ''image'' @ [CHR 0x27] @ '' part.'') ''too_many_images'')
       (case map_of (form_uploads f) name of
          None \<Rightarrow>
            Inl (rejected (quoted ''image'' @ '' must be an uploaded PNG or JPEG file part.'') ''invalid_image'')
        | Some (filename, mime, data) \<Rightarrow>
            raise_if (data = []) (rejected ''The reference image is empty.'' ''invalid_image'')
            (raise_if (max_image_bytes < length data) reference_too_large
            (bindE (check_uploaded_image pil data mime filename) (\<lambda>canonical.
               Inr (data, canonical, image_ext canonical)))))))))"

section \<open>The payload of an edit\<close>

definition qwen_edit_scalars :: "string list" where
  "qwen_edit_scalars =
    [''model'', ''prompt'', ''negative_prompt'', ''seed'', ''steps'', ''cfg'', ''quality'', ''resolution'', ''n'',
     ''response_format'']"

definition qwen_edit_ints :: "string list" where
  "qwen_edit_ints = [''seed'', ''steps'', ''resolution'', ''n'']"

definition qwen_edit_floats :: "string list" where
  "qwen_edit_floats = [''cfg'']"

definition max_edit_scalar_chars :: nat where
  "max_edit_scalar_chars = 64"

definition max_prompt_chars :: nat where
  "max_prompt_chars = 8000"

text \<open>The text scalars with their widths, in the order they are copied.\<close>

definition edit_widths :: "(string \<times> nat) list" where
  "edit_widths =
    [(''model'', max_edit_scalar_chars), (''prompt'', max_prompt_chars), (''negative_prompt'', max_prompt_chars),
     (''quality'', max_edit_scalar_chars), (''response_format'', max_edit_scalar_chars)]"

definition check_form_name :: "string \<Rightarrow> unit \<Rightarrow> unit res" where
  "check_form_name name _ =
     (if name \<in> {''image'', ''image[]''} then Inr ()
      else if name \<notin> set qwen_edit_scalars
        then Inl (bad_request (''Unsupported form field '' @ [CHR 0x27] @ name @ [CHR 0x27] @ ''.'') ''invalid_field'')
      else Inr ())"

definition copy_text :: "form \<Rightarrow> string \<times> nat \<Rightarrow> pydict \<Rightarrow> pydict res" where
  "copy_text f nw payload =
     bindE (multipart_scalar f (fst nw) (snd nw)) (\<lambda>raw.
       case raw of
         None \<Rightarrow> Inr payload
       | Some r \<Rightarrow> Inr (AList.update (fst nw) (PStr (if fst nw = ''quality'' then py_strip r else r)) payload))"

definition copy_number :: "form \<Rightarrow> string \<times> bool \<Rightarrow> pydict \<Rightarrow> pydict res" where
  "copy_number f ni payload =
     bindE (multipart_numeric f (fst ni) (snd ni)) (\<lambda>v.
       case v of None \<Rightarrow> Inr payload | Some x \<Rightarrow> Inr (AList.update (fst ni) x payload))"

definition multipart_edit_payload :: "form \<Rightarrow> pydict res" where
  "multipart_edit_payload f =
     bindE (forE (map fst (form_counts f)) check_form_name ()) (\<lambda>_.
     bindE (forE edit_widths (copy_text f) []) (\<lambda>p1.
     bindE (forE (map (\<lambda>n. (n, True)) qwen_edit_ints) (copy_number f) p1)
       (forE (map (\<lambda>n. (n, False)) qwen_edit_floats) (copy_number f))))"

end
