(* ===== verification/Codecs.thy ===== *)
theory Codecs
  imports Requests_In Graph_Base
begin

text \<open>
  \<open>bridge/video_codec.py\<close>, \<open>bridge/audio_codec.py\<close> and \<open>fit_ltx_audio\<close> of \<open>requests_in.py\<close>: the
  checks around the external decoders. What \<open>soundfile\<close>, \<open>ffprobe\<close> and \<open>ffmpeg\<close> answer is a
  parameter; a failure of theirs is \<open>OtherExn\<close>, or \<open>ValueErr\<close> with its text where the code reports
  that text. The temporary file of the video check is not modelled.
\<close>

section \<open>Generated audio\<close>

record sound =
  snd_format :: string
  snd_channels :: int
  snd_rate :: int
  snd_frames :: int

definition bad_audio :: exn where
  "bad_audio = backend_error ''Invalid or oversized generated audio.''"

text \<open>\<open>opens\<close> is \<open>sf.SoundFile\<close>, \<open>recode\<close> the 16-bit samples written as a WAV file.\<close>

definition flac_to_wav :: "(bytes \<Rightarrow> sound res) \<Rightarrow> (bytes \<Rightarrow> bytes res) \<Rightarrow> bytes \<Rightarrow> bytes res" where
  "flac_to_wav opens recode data =
     (case opens data of
        Inl _ \<Rightarrow> Inl bad_audio
      | Inr s \<Rightarrow>
          if snd_format s \<noteq> ''FLAC'' \<or> snd_channels s \<notin> {1, 2} \<or> \<not> (8000 \<le> snd_rate s \<and> snd_rate s \<le> 48000)
             \<or> \<not> (0 < snd_frames s \<and> snd_frames s \<le> snd_rate s * 360)
          then Inl bad_audio
          else (case recode data of Inl _ \<Rightarrow> Inl bad_audio | Inr out \<Rightarrow> Inr out))"

section \<open>Driving audio\<close>

text \<open>The samples of a file, one row per frame; \<open>None\<close> is a sample that is not finite.\<close>

record clip =
  clip_rate :: int
  clip_channels :: int
  clip_rows :: "rat option list list"

definition fit_rows :: "int \<Rightarrow> clip \<Rightarrow> rat option list list res" where
  "fit_rows frames c =
     raise_if (\<not> (8000 \<le> clip_rate c \<and> clip_rate c \<le> 192000 \<and> clip_channels c \<in> {1, 2}))
       (ValueErr ''audio must be mono/stereo at 8-192 kHz'')
     (let count = \<lceil>rnd53 (rnd53 (of_int frames / 24) * of_int (clip_rate c))\<rceil>;
          rows = take (nat count) (clip_rows c)
      in raise_if (rows = [] \<or> \<not> list_all (list_all (\<lambda>x. x \<noteq> None)) rows)
           (ValueErr ''audio must contain finite samples'')
         (let stereo = (if clip_channels c = 1 then map (\<lambda>r. concat (map (\<lambda>x. [x, x]) r)) rows else rows)
          in Inr (stereo @ replicate (nat count - length stereo) [Some 0, Some 0])))"

definition fit_ltx_audio ::
  "(bytes \<Rightarrow> clip res) \<Rightarrow> (rat option list list \<Rightarrow> int \<Rightarrow> bytes res) \<Rightarrow> media \<Rightarrow> pydict \<Rightarrow> media res" where
  "fit_ltx_audio opens writes audio payload =
     (case bindE (float_field payload ''duration'' (PInt 5) (PInt 1) (PInt 10) None) (\<lambda>duration.
           bindE (frame_count payload (ltx_default_frames duration) 25 241 8 1) (\<lambda>frames.
           bindE (opens (fst audio)) (\<lambda>c.
           bindE (fit_rows frames c) (\<lambda>rows.
           bindE (writes rows (clip_rate c)) (\<lambda>out. Inr (out, ''audio/wav'', ''wav'')))))) of
        Inl (ValueErr m) \<Rightarrow> Inl (bad_request (''Invalid LTX driving audio: '' @ m) ''invalid_audio'')
      | r \<Rightarrow> r)"

section \<open>Reference video\<close>

text \<open>\<open>re.fullmatch(r"data:video/mp4;base64,([A-Za-z0-9+/=\s]+)", value)\<close> without its white space.\<close>

definition video_base64 :: "string \<Rightarrow> string option" where
  "video_base64 s =
     (let h = ''data:video/mp4;base64,''; encoded = drop (length h) s in
      if prefix h s \<and> encoded \<noteq> [] \<and> list_all b64_class encoded
      then Some (filter (\<lambda>c. \<not> is_space c) encoded) else None)"

definition malformed_video :: exn where
  "malformed_video = bad_request ''video is malformed or exceeds the decoding time limit.'' ''invalid_field''"

text \<open>\<open>d[k]\<close>; a missing key is a \<open>KeyError\<close>, reported like a failed subprocess.\<close>

definition item :: "pydict \<Rightarrow> string \<Rightarrow> pyval res" where
  "item d k = (case map_of d k of None \<Rightarrow> Inl malformed_video | Some v \<Rightarrow> Inr v)"

fun first_stream :: "string \<Rightarrow> pydict list \<Rightarrow> pydict option res" where
  "first_stream ty [] = Inr None"
| "first_stream ty (s # ss) =
     bindE (item s ''codec_type'') (\<lambda>v. if v = PStr ty then Inr (Some s) else first_stream ty ss)"

definition py_int :: "pyval \<Rightarrow> int res" where
  "py_int v =
     (case v of
        PInt i \<Rightarrow> Inr i
      | PBool b \<Rightarrow> Inr (if b then 1 else 0)
      | PFloat r \<Rightarrow> Inr (if r < 0 then \<lceil>r\<rceil> else \<lfloor>r\<rfloor>)
      | PStr s \<Rightarrow>
          (case parse_int s of
             None \<Rightarrow> Inl (ValueErr (''invalid literal for int() with base 10: '' @ py_repr s))
           | Some i \<Rightarrow> Inr i)
      | PNonFinite NaN \<Rightarrow> Inl (ValueErr ''cannot convert float NaN to integer'')
      | PNonFinite _ \<Rightarrow> Inl OverflowErr
      | _ \<Rightarrow> Inl TypeErr)"

text \<open>\<open>float(Fraction(s))\<close> for the rational texts ffprobe writes, \<open>24/1\<close> or \<open>24\<close>.\<close>

definition frame_rate :: "pyval \<Rightarrow> rat res" where
  "frame_rate v =
     (case v of
        PStr s \<Rightarrow>
          (case split_on (CHR ''/'') s of
             [a] \<Rightarrow> if digit_group a then Inr (rnd53 (of_int (int_of_digits (digits_only a))))
                    else Inl (ValueErr (''Invalid literal for Fraction: '' @ py_repr s))
           | [a, b] \<Rightarrow>
               if digit_group a \<and> digit_group b then
                 let n = int_of_digits (digits_only a); d = int_of_digits (digits_only b)
                 in if d = 0 then Inl (ValueErr (''Fraction('' @ show_int n @ '', 0)''))
                    else Inr (rnd53 (of_int n / of_int d))
               else Inl (ValueErr (''Invalid literal for Fraction: '' @ py_repr s))
           | _ \<Rightarrow> Inl (ValueErr (''Invalid literal for Fraction: '' @ py_repr s)))
      | PInt i \<Rightarrow> Inr (rnd53 (of_int i))
      | _ \<Rightarrow> Inl TypeErr)"

definition video_shape_ok :: "int \<Rightarrow> int \<Rightarrow> int \<Rightarrow> rat \<Rightarrow> bool" where
  "video_shape_ok w h n fps =
     (1 \<le> w \<and> w \<le> 2048 \<and> 1 \<le> h \<and> h \<le> 2048 \<and> w * h \<le> 2097152 \<and> 5 \<le> n \<and> n \<le> 360
      \<and> \<bar>rnd53 (fps - 24)\<bar> < rnd53 (1 / 1000))"

definition check_streams :: "pydict \<Rightarrow> pydict list \<Rightarrow> unit res" where
  "check_streams payload streams =
     bindE (first_stream ''video'' streams) (\<lambda>found.
       case found of
         None \<Rightarrow> Inl malformed_video
       | Some video \<Rightarrow>
           bindE (bindE (item video ''width'') py_int) (\<lambda>w.
           bindE (bindE (item video ''height'') py_int) (\<lambda>h.
           bindE (bindE (item video ''nb_read_frames'') py_int) (\<lambda>n.
           bindE (bindE (item video ''avg_frame_rate'') frame_rate) (\<lambda>fps.
           raise_if (\<not> video_shape_ok w h n fps)
             (ValueErr ''Reference video must be 24 fps, 5-360 frames, at most 2048 per axis and 2 MP.'')
           (if truthy (get_none payload ''video_audio'') then
              bindE (first_stream ''audio'' streams) (\<lambda>a.
                raise_if (a = None) (ValueErr ''video_audio was requested but the source has no audio stream.'') (Inr ()))
            else Inr ()))))))"

text \<open>
  \<open>probe\<close> gives the \<open>streams\<close> that ffprobe prints; \<open>plays\<close> tells whether ffmpeg decodes the file.
\<close>

definition decode_reference_video ::
  "(bytes \<Rightarrow> pydict list res) \<Rightarrow> (bytes \<Rightarrow> bool) \<Rightarrow> pydict \<Rightarrow> media option res" where
  "decode_reference_video probe plays payload =
     (let value = get_none payload ''video'' in
      if value = PNone then Inr None
      else raise_if (get_none payload ''model'' \<noteq> PStr ''MiniMaxAI/MiniMax-H3'')
        (bad_request ''This model does not support a reference video.'' ''invalid_field'')
        (case (case value of PStr s \<Rightarrow> video_base64 s | _ \<Rightarrow> None) of
           None \<Rightarrow> Inl (bad_request ''video must be an inline MP4 data URI.'' ''invalid_field'')
         | Some encoded \<Rightarrow>
             (case b64decode encoded of
                None \<Rightarrow> Inl (bad_request ''video is not valid base64.'' ''invalid_field'')
              | Some raw \<Rightarrow>
                  raise_if (\<not> (12 \<le> length raw \<and> length raw \<le> 16 * mib) \<or> drop 4 (take 8 raw) \<noteq> ''ftyp'')
                    (bad_request ''video must be an MP4 of at most 16 MiB.'' ''invalid_field'')
                  (case bindE (probe raw) (check_streams payload) of
                     Inl (ValueErr m) \<Rightarrow> Inl (bad_request m ''invalid_field'')
                   | Inl OtherExn \<Rightarrow> Inl malformed_video
                   | Inl e \<Rightarrow> Inl e
                   | Inr _ \<Rightarrow> if plays raw then Inr (Some (raw, ''video/mp4'', ''mp4'')) else Inl malformed_video))))"

end
