(* ===== verification/Server.thy ===== *)
theory Server
  imports Multipart Codecs Graph_Lanes Comfy_Client
begin

text \<open>
  \<open>backends/comfyui-media/bridge/server.py\<close>: the application state and its start, discovery, the
  four media endpoints, the build closure that the runner calls, the wait that notices a caller who
  has gone, and the exception handlers. An endpoint is a function of what it reads (the request, the
  clock, random bits, the answers of the decoders) and of \<open>run\<close>, the outcome of the runner for a job;
  the runner itself is modelled in \<open>Jobs\<close>.
\<close>

section \<open>Start\<close>

definition media_model_env :: string where
  "media_model_env = ''LLOOM_MEDIA_MODEL''"

definition default_comfy_url :: "string option \<Rightarrow> string" where
  "default_comfy_url env = (case env of None \<Rightarrow> ''http://127.0.0.1:8188'' | Some u \<Rightarrow> u)"

text \<open>\<open>select\<close> is the argument, \<open>env\<close> the environment variable.\<close>

definition resolve_media_model :: "string option \<Rightarrow> string option \<Rightarrow> string option res" where
  "resolve_media_model env select =
     (case (case select of None \<Rightarrow> env | Some s \<Rightarrow> Some s) of
        None \<Rightarrow> Inr None
      | Some v \<Rightarrow>
          raise_if (py_strip v = [])
            (ValueErr (media_model_env @ '' is set but empty; set an exact model ID or unset it.''))
            (Inr (Some (py_strip v))))"

type_synonym registry = "(string \<times> pyval) list"

definition select_models :: "registry \<Rightarrow> string option \<Rightarrow> registry res" where
  "select_models ms select =
     (case select of
        None \<Rightarrow> Inr ms
      | Some s \<Rightarrow>
          (case map_of ms s of
             None \<Rightarrow> Inl (ValueErr (media_model_env @ ''='' @ py_repr s @
               '' is not in this bridge'' @ [CHR 0x27] @ ''s model registry. Supported models: '' @
               (if ms = [] then ''(none)'' else join_with '', '' (sort (map fst ms))) @ ''.''))
           | Some meta \<Rightarrow> Inr [(s, meta)]))"

record bridge =
  st_models :: registry
  st_builder :: bool      \<comment> \<open>\<open>build_graph\<close> is set\<close>
  st_runner :: bool
  st_comfy_url :: string
  st_media_model :: "string option"

definition create_app ::
  "(string \<Rightarrow> url_parts option) \<Rightarrow> registry \<Rightarrow> bool \<Rightarrow> bool \<Rightarrow> string option \<Rightarrow> string option
   \<Rightarrow> string option \<Rightarrow> string option \<Rightarrow> bridge res" where
  "create_app urlsplit ms has_builder has_comfy comfy_url url_env media_model model_env =
     bindE (resolve_media_model model_env media_model) (\<lambda>select.
     bindE (select_models ms select) (\<lambda>chosen.
     bindE (validate_comfy_base_url urlsplit
              (PStr (if opt_true comfy_url then the comfy_url else default_comfy_url url_env))) (\<lambda>url.
     Inr \<lparr>st_models = chosen, st_builder = has_builder, st_runner = has_comfy, st_comfy_url = url,
          st_media_model = (if length chosen = 1 then Some (fst (hd chosen)) else None)\<rparr>)))"

section \<open>Discovery\<close>

definition registry_ready :: "bridge \<Rightarrow> bool" where
  "registry_ready b = (st_runner b \<and> st_builder b \<and> st_models b \<noteq> [])"

text \<open>\<open>reachable\<close>: \<open>system_stats\<close> did not raise; the flags of the runner count only if there is one.\<close>

definition health :: "bridge \<Rightarrow> bool \<Rightarrow> bool \<Rightarrow> bool \<Rightarrow> int \<times> pyval" where
  "health b reachable busy unhealthy =
     (let healthy = reachable \<and> registry_ready b \<and> \<not> (st_runner b \<and> unhealthy) in
      (if healthy then 200 else 503,
       PDict [(''status'', PStr (if healthy then ''ok'' else ''degraded'')), (''backend_ready'', PBool healthy),
         (''busy'', PBool (st_runner b \<and> busy)), (''unhealthy'', PBool (st_runner b \<and> unhealthy))]))"

definition list_models :: "bridge \<Rightarrow> int \<Rightarrow> pyval" where
  "list_models b created =
     PDict [(''object'', PStr ''list''),
       (''data'', PList (map (\<lambda>i. PDict [(''id'', PStr i), (''object'', PStr ''model''), (''created'', PInt created),
          (''owned_by'', PStr ''lloom'')]) (sort (map fst (st_models b)))))]"

section \<open>Jobs\<close>

text \<open>A conditioning input: the decoded media, its generated name and the keyword it is passed as.\<close>

datatype keyword = ImageFilename | LastImageFilename | AudioFilename | VideoFilename

type_synonym frame = "media \<times> string \<times> keyword"

definition upload_name :: "string \<Rightarrow> media \<Rightarrow> string" where
  "upload_name hex m =
     (let name = image_filename hex
      in if snd (snd m) = ''jpg'' then take (length name - 4) name @ ''.jpg'' else name)"

definition media_name :: "string \<Rightarrow> media \<Rightarrow> string" where
  "media_name hex m =
     (let name = image_filename hex in take (length name - 4) name @ ''.'' @ snd (snd m))"

record inputs =
  in_image :: "media option"
  in_last :: "media option"
  in_audio :: "media option"
  in_video :: "media option"

definition no_inputs :: inputs where
  "no_inputs = \<lparr>in_image = None, in_last = None, in_audio = None, in_video = None\<rparr>"

text \<open>\<open>hex i\<close>: the \<open>i\<close>-th UUID that a request draws.\<close>

definition frames_of :: "(nat \<Rightarrow> string) \<Rightarrow> inputs \<Rightarrow> frame list" where
  "frames_of hex ins =
     (case in_image ins of None \<Rightarrow> [] | Some m \<Rightarrow> [(m, upload_name (hex 0) m, ImageFilename)])
     @ (case in_last ins of None \<Rightarrow> [] | Some m \<Rightarrow> [(m, upload_name (hex 1) m, LastImageFilename)])
     @ (case in_audio ins of None \<Rightarrow> [] | Some m \<Rightarrow> [(m, media_name (hex 2) m, AudioFilename)])
     @ (case in_video ins of None \<Rightarrow> [] | Some m \<Rightarrow> [(m, media_name (hex 3) m, VideoFilename)])"

definition name_for :: "keyword \<Rightarrow> frame list \<Rightarrow> string option" where
  "name_for k fs = map_option (fst \<circ> snd) (find (\<lambda>f. snd (snd f) = k) fs)"

definition kwargs_of :: "frame list \<Rightarrow> media_names" where
  "kwargs_of fs =
     \<lparr>image_name = name_for ImageFilename fs, last_image_name = name_for LastImageFilename fs,
      audio_name = name_for AudioFilename fs, video_name = name_for VideoFilename fs\<rparr>"

record job =
  job_kind :: string
  job_model :: string
  job_payload :: pydict
  job_frames :: "frame list"

definition expected_kind :: "string \<Rightarrow> string" where
  "expected_kind kind = (if kind \<in> {''audio'', ''speech''} then ''audio'' else kind)"

definition kind_mismatch :: exn where
  "kind_mismatch = bad_request ''Model does not support this media endpoint.'' ''model_kind_mismatch''"

definition not_configured :: exn where
  "not_configured = backend_unavailable ''Media backend is not configured.''"

definition declared_kind :: "registry \<Rightarrow> string \<Rightarrow> pyval" where
  "declared_kind ms model =
     (let d = (case get_none ms model of PDict m \<Rightarrow> get_none m ''kind'' | v \<Rightarrow> v)
      in if d \<in> {PStr ''speech'', PStr ''audio_speech''} then PStr ''audio'' else d)"

definition bounded_texts :: "(string \<times> nat) list" where
  "bounded_texts = [(''prompt'', 8000), (''instructions'', 8000), (''input'', 20000), (''lyrics'', 20000)]"

text \<open>\<open>_run_generation\<close> up to the runner: the job it hands over.\<close>

definition plan_generation ::
  "bridge \<Rightarrow> (nat \<Rightarrow> string) \<Rightarrow> string \<Rightarrow> string \<Rightarrow> pydict \<Rightarrow> inputs \<Rightarrow> job res" where
  "plan_generation b hex kind model payload ins =
     bindE (forE bounded_texts (\<lambda>fl _. bindE (validate_bounded_text payload (fst fl) (snd fl) False) (\<lambda>_. Inr ())) ()) (\<lambda>_.
     raise_if (\<not> st_runner b) not_configured
     (raise_if (\<not> st_builder b) not_configured
     (let declared = declared_kind (st_models b) model in
      raise_if (declared \<in> {PStr ''video'', PStr ''audio'', PStr ''image''} \<and> declared \<noteq> PStr (expected_kind kind))
        kind_mismatch
        (Inr \<lparr>job_kind = expected_kind kind, job_model = model, job_payload = payload,
              job_frames = frames_of hex ins\<rparr>))))"

section \<open>The build closure\<close>

type_synonym builder_fn = "string \<Rightarrow> pyval \<Rightarrow> media_names \<Rightarrow> string \<Rightarrow> (graph \<times> string \<times> string) res"

text \<open>The references of the uploads that ComfyUI accepted survive a failure of a later one.\<close>

fun upload_all :: "comfy \<Rightarrow> frame list \<Rightarrow> string list \<Rightarrow> world \<Rightarrow> unit res \<times> string list \<times> world" where
  "upload_all c [] refs w = (Inr (), refs, w)"
| "upload_all c (f # fs) refs w =
     (case upload_image c (fst (fst f)) (fst (snd f)) (fst (snd (fst f))) w of
        (Inl e, w') \<Rightarrow> (Inl e, refs, w')
      | (Inr r, w') \<Rightarrow>
          if r \<noteq> fst (snd f) then (Inl upload_failed, refs @ [r], w')
          else upload_all c fs (refs @ [r]) w')"

text \<open>The graph of a job, checked before anything is uploaded; \<open>hex\<close> is the UUID of its prefix.\<close>

definition job_graph :: "builder_fn \<Rightarrow> string \<Rightarrow> job \<Rightarrow> (graph \<times> string \<times> string) res" where
  "job_graph builds hex j =
     (case builds (job_model j) (PDict (job_payload j)) (kwargs_of (job_frames j)) (''lloom_'' @ hex) of
        Inl (ValueErr m) \<Rightarrow>
          Inl (bad_request (if m = [] then ''Invalid generation parameters for this model.'' else m) ''invalid_field'')
      | Inl e \<Rightarrow> Inl e
      | Inr (g, out, kind) \<Rightarrow>
          raise_if (kind \<notin> {''video'', ''audio'', ''image''})
            (backend_error ''The media backend produced an unsupported output.'')
          (raise_if (kind \<noteq> job_kind j) kind_mismatch (Inr (g, out, kind))))"

definition build_job ::
  "builder_fn \<Rightarrow> string \<Rightarrow> comfy \<Rightarrow> job \<Rightarrow> world \<Rightarrow> (graph \<times> string \<times> string) res \<times> string list \<times> world" where
  "build_job builds hex c j w =
     (case job_graph builds hex j of
        Inl e \<Rightarrow> (Inl e, [], w)
      | Inr r \<Rightarrow>
          (case upload_all c (job_frames j) [] w of
             (Inl e, refs, w') \<Rightarrow> (Inl e, refs, w')
           | (Inr _, refs, w') \<Rightarrow> (Inr r, refs, w')))"

section \<open>Fields of the endpoints\<close>

definition validate_prompt :: "pydict \<Rightarrow> unit res" where
  "validate_prompt payload =
     (case get_none payload ''prompt'' of
        PNone \<Rightarrow> Inr ()
      | PStr s \<Rightarrow>
          raise_if (8000 < length s) (bad_request (quoted ''prompt'' @ '' is too long.'') ''invalid_field'') (Inr ())
      | _ \<Rightarrow> Inl (bad_request (quoted ''prompt'' @ '' must be a string.'') ''invalid_field''))"

definition qwen_21_models :: "string list" where
  "qwen_21_models = [''Qwen/Qwen-Image-2.1'', ''BennyDaBall/Qwen-Image-2.1-NVFP4'']"

text \<open>The payload the graph is built from and the seed to report with its source.\<close>

definition prepare_image_seed :: "int \<Rightarrow> string \<Rightarrow> pydict \<Rightarrow> (pydict \<times> (int \<times> string) option) res" where
  "prepare_image_seed randbits model payload =
     (if model \<notin> set qwen_21_models then Inr (payload, None)
      else
        (case get_default payload ''seed'' (PInt randbits) of
           PInt seed \<Rightarrow>
             if 0 \<le> seed \<and> seed < 2 ^ 53
             then Inr (AList.update ''seed'' (PInt seed) payload,
                       Some (seed, if has_key payload ''seed'' then ''explicit'' else ''random''))
             else Inl (bad_request ''seed must be an integer between 0 and 2^53-1'' ''invalid_seed'')
         | _ \<Rightarrow> Inl (bad_request ''seed must be an integer between 0 and 2^53-1'' ''invalid_seed'')))"

definition seed_fields :: "(int \<times> string) option \<Rightarrow> pydict" where
  "seed_fields meta =
     (case meta of None \<Rightarrow> [] | Some (s, src) \<Rightarrow> [(''seed'', PInt s), (''seed_source'', PStr src)])"

section \<open>Endpoints\<close>

datatype response = Json pyval | Raw bytes string

record env =
  env_loads :: "bytes \<Rightarrow> pyval res"
  env_pil :: "bytes \<Rightarrow> image_info option"
  env_parse :: "bytes \<Rightarrow> (string \<times> part) list res"
  env_opens :: "bytes \<Rightarrow> clip res"
  env_writes :: "rat option list list \<Rightarrow> int \<Rightarrow> bytes res"
  env_probe :: "bytes \<Rightarrow> pydict list res"
  env_plays :: "bytes \<Rightarrow> bool"
  env_hex :: "nat \<Rightarrow> string"
  env_randbits :: int
  env_time :: int

definition unexpected_mime :: exn where
  "unexpected_mime = backend_error ''The media backend produced an unexpected output type.''"

text \<open>The envelope of one generated artifact.\<close>

definition media_body :: "int \<Rightarrow> string \<Rightarrow> bytes \<Rightarrow> pydict" where
  "media_body created mime data =
     [(''created'', PInt created),
      (''data'', PList [PDict [(''b64_json'', PStr (b64encode data)), (''mime_type'', PStr mime)]])]"

definition generate ::
  "bridge \<Rightarrow> env \<Rightarrow> (job \<Rightarrow> (bytes \<times> string) res) \<Rightarrow> string \<Rightarrow> string \<Rightarrow> pydict \<Rightarrow> inputs \<Rightarrow> string \<Rightarrow> bytes res" where
  "generate b e run kind model payload ins mime =
     bindE (plan_generation b (env_hex e) kind model payload ins) (\<lambda>j.
     bindE (run j) (\<lambda>(data, got). raise_if (got \<noteq> mime) unexpected_mime (Inr data)))"

definition as_client_error :: "pydict res \<Rightarrow> pydict res" where
  "as_client_error r = (case r of Inl (ValueErr m) \<Rightarrow> Inl (bad_request m ''invalid_field'') | _ \<Rightarrow> r)"

definition is_ltx :: "string \<Rightarrow> bool" where
  "is_ltx model = (model \<in> {''Lightricks/LTX-2.5'', ''Lightricks/LTX-2.5-Comfy-Full''})"

text \<open>\<open>locked\<close>: another request holds the lock of the video check.\<close>

definition video_inputs :: "env \<Rightarrow> bool \<Rightarrow> string \<Rightarrow> pydict \<Rightarrow> inputs res" where
  "video_inputs e locked model payload =
     bindE (decode_inline_image (env_pil e) payload) (\<lambda>img.
     bindE (decode_last_frame (env_pil e) payload) (\<lambda>last_frame.
     bindE (decode_audio payload) (\<lambda>audio0.
     bindE (case audio0 of
              Some a \<Rightarrow>
                if is_ltx model
                then bindE (fit_ltx_audio (env_opens e) (env_writes e) a payload) (\<lambda>a'. Inr (Some a'))
                else Inr (Some a)
            | None \<Rightarrow> Inr None) (\<lambda>audio.
     bindE (if get_none payload ''video'' \<noteq> PNone then
              raise_if locked (bad_request ''A video reference is already being validated.'' ''busy'')
                (decode_reference_video (env_probe e) (env_plays e) payload)
            else Inr None) (\<lambda>video.
     Inr \<lparr>in_image = img, in_last = last_frame, in_audio = audio, in_video = video\<rparr>)))))"

definition video_generations ::
  "bridge \<Rightarrow> env \<Rightarrow> bool \<Rightarrow> (job \<Rightarrow> (bytes \<times> string) res) \<Rightarrow> chunk list \<Rightarrow> response res" where
  "video_generations b e locked run stream =
     bindE (read_json_body (env_loads e) stream) (\<lambda>payload0.
     bindE (validate_model payload0 (map fst (st_models b))) (\<lambda>model.
     bindE (validate_response_format payload0 [''b64_json'', ''json'']) (\<lambda>_.
     bindE (if is_h3 model \<or> is_ltx model then as_client_error (normalize_video_payload model payload0)
            else Inr payload0) (\<lambda>payload.
     bindE (validate_prompt payload) (\<lambda>_.
     bindE (video_inputs e locked model payload) (\<lambda>ins.
     bindE (generate b e run ''video'' model payload ins ''video/mp4'') (\<lambda>data.
     Inr (Json (PDict (media_body (env_time e) ''video/mp4'' data))))))))))"

definition image_generations ::
  "bridge \<Rightarrow> env \<Rightarrow> (job \<Rightarrow> (bytes \<times> string) res) \<Rightarrow> chunk list \<Rightarrow> response res" where
  "image_generations b e run stream =
     bindE (read_json_body (env_loads e) stream) (\<lambda>payload0.
     bindE (validate_model payload0 (map fst (st_models b))) (\<lambda>model.
     bindE (validate_response_format payload0 [''b64_json'', ''json'']) (\<lambda>_.
     bindE (validate_prompt payload0) (\<lambda>_.
     bindE (prepare_image_seed (env_randbits e) model payload0) (\<lambda>(payload, meta).
     bindE (decode_inline_image (env_pil e) payload) (\<lambda>img.
     bindE (generate b e run ''image'' model payload (no_inputs\<lparr>in_image := img\<rparr>) ''image/png'') (\<lambda>data.
     Inr (Json (PDict (media_body (env_time e) ''image/png'' data @ seed_fields meta))))))))))"

definition image_edits ::
  "bridge \<Rightarrow> env \<Rightarrow> (job \<Rightarrow> (bytes \<times> string) res) \<Rightarrow> string \<Rightarrow> chunk list \<Rightarrow> response res" where
  "image_edits b e run content_type stream =
     bindE (read_multipart_form (env_parse e) content_type stream) (\<lambda>f.
     bindE (multipart_edit_payload f) (\<lambda>payload0.
     bindE (validate_model payload0 (map fst (st_models b))) (\<lambda>model.
     raise_if (\<not> supports_image_edit model)
       (bad_request ''This model does not support reference-image editing. Use /v1/images/generations.''
          ''model_kind_mismatch'')
     (bindE (validate_response_format payload0 [''b64_json'', ''json'']) (\<lambda>_.
     raise_if (model \<notin> set qwen_21_models \<and> (has_key payload0 ''quality'' \<or> has_key payload0 ''resolution''))
       (bad_request ''quality and resolution apply only to Qwen Image 2.1.'' ''invalid_field'')
     (bindE (validate_prompt payload0) (\<lambda>_.
     bindE (prepare_image_seed (env_randbits e) model payload0) (\<lambda>(payload, meta).
     bindE (multipart_reference_images (env_pil e) f) (\<lambda>img.
     bindE (generate b e run ''image'' model payload (no_inputs\<lparr>in_image := Some img\<rparr>) ''image/png'') (\<lambda>data.
     Inr (Json (PDict (media_body (env_time e) ''image/png'' data
       @ [(''image_validation'', PDict [(''images'', PInt 1), (''mime_type'', PStr (fst (snd img)))])]
       @ seed_fields meta)))))))))))))"

definition audio_speech :: "response res" where
  "audio_speech = Inl (bad_request ''Music models use /v1/audio/generations.'' ''wrong_model_kind'')"

definition audio_generations ::
  "bridge \<Rightarrow> env \<Rightarrow> (job \<Rightarrow> (bytes \<times> string) res) \<Rightarrow> chunk list \<Rightarrow> response res" where
  "audio_generations b e run stream =
     bindE (read_json_body (env_loads e) stream) (\<lambda>payload.
     bindE (validate_model payload (map fst (st_models b))) (\<lambda>model.
     bindE (validate_response_format payload [''wav'']) (\<lambda>_.
     bindE (generate b e run ''audio'' model payload no_inputs ''audio/wav'') (\<lambda>data.
     Inr (Raw data ''audio/wav'')))))"

section \<open>Exception handlers\<close>

definition internal_body :: pyval where
  "internal_body = PDict [(''error'', PDict [(''message'', PStr ''Internal bridge error.''), (''type'', PStr ''api_error''),
     (''code'', PStr ''internal_error'')])]"

definition answer :: "response res \<Rightarrow> int \<times> response" where
  "answer r =
     (case r of
        Inr x \<Rightarrow> (200, x)
      | Inl (Bridge b) \<Rightarrow> (status_code b, Json (error_body b))
      | Inl _ \<Rightarrow> (500, Json internal_body))"

section \<open>A caller that hangs up\<close>

text \<open>
  One round of \<open>_until_disconnect\<close>: the work finishes within the poll interval, or the poll finds
  the caller connected or gone, or the handler itself is cancelled. When the caller is gone the task
  is cancelled and awaited; \<open>ends\<close> is how it then ends.
\<close>

datatype round = Finishes "(bytes \<times> string) res" | Connected | Gone | HandlerCancelled

definition client_closed :: exn where
  "client_closed = Bridge (mk_error 499 ''client_closed'' ''The client closed the request.'' ''client_closed'')"

text \<open>The outcome, and whether the work was cancelled.\<close>

fun until_disconnect :: "(bytes \<times> string) res \<Rightarrow> round list \<Rightarrow> ((bytes \<times> string) res \<times> bool) option" where
  "until_disconnect ends [] = None"
| "until_disconnect ends (Finishes r # rs) = Some (r, False)"
| "until_disconnect ends (Connected # rs) = until_disconnect ends rs"
| "until_disconnect ends (Gone # rs) =
     Some ((case ends of Inl e \<Rightarrow> if e = AsyncCancelled then Inl client_closed else Inl e | Inr _ \<Rightarrow> Inl client_closed), True)"
| "until_disconnect ends (HandlerCancelled # rs) = Some (Inl AsyncCancelled, True)"

end
