(* ===== verification/Py_Digits.thy ===== *)
theory Py_Digits
  imports Py_Round
begin

text \<open>
  The decimal text of an integer reads back: \<open>int(str(i)) = i\<close> for every integer of at most 4300
  digits, and \<open>float(str(i))\<close> is exactly \<open>i\<close> below \<open>2^53\<close>. This is what lets a number travel as the
  text of a form field.
\<close>

lemma cp_digit_char: "0 \<le> n \<Longrightarrow> n < 10 \<Longrightarrow> cp (digit_char n) = nat (48 + n)"
proof -
  assume "0 \<le> n" "n < 10"
  then have "(of_char (digit_char n) :: int) = 48 + n" by (rule of_char_digit)
  moreover have "(of_char (digit_char n) :: int) = int (cp (digit_char n))"
    unfolding cp_def by (cases "digit_char n") simp
  ultimately show ?thesis by simp
qed

lemma is_digit_digit_char: "0 \<le> n \<Longrightarrow> n < 10 \<Longrightarrow> is_digit (digit_char n)"
  by (auto simp: is_digit_def cp_digit_char)

lemma show_pos_digits: "0 \<le> n \<Longrightarrow> list_all is_digit (show_pos n)"
proof (induction n rule: show_pos.induct)
  case (1 n)
  then show ?case by (subst show_pos.simps) (simp add: is_digit_digit_char)
qed

lemma show_pos_not_Nil [simp]: "show_pos n \<noteq> []"
  by (subst show_pos.simps) simp

lemma length_show_pos: "n < 10 ^ k \<Longrightarrow> 0 < k \<Longrightarrow> length (show_pos n) \<le> k"
proof (induction n arbitrary: k rule: show_pos.induct)
  case (1 n)
  show ?case
  proof (cases "n < 10")
    case True
    with 1(3) show ?thesis by (subst show_pos.simps) simp
  next
    case False
    with 1(2,3) obtain j where k: "k = Suc j" "0 < j" by (cases k; cases "k - 1") auto
    with 1(2) have "n div 10 < 10 ^ j" by simp
    from 1(1) [OF False this k(2)] False show ?thesis by (subst show_pos.simps) (simp add: k(1))
  qed
qed

lemma digit_props:
  assumes "is_digit c"
  shows "\<not> is_space c" "c \<noteq> CHR ''_''" "c \<noteq> CHR ''-''" "c \<noteq> CHR ''+''" "c \<noteq> CHR ''.''" "lower_char c = c" "c \<noteq> CHR ''e''"
  using assms by (auto simp: is_digit_def is_space_def lower_char_def cp_def Let_def)

lemma digit_group_digits: "list_all is_digit s \<Longrightarrow> s \<noteq> [] \<Longrightarrow> digit_group s"
  by (induction s rule: digit_group.induct) (auto simp: digit_props)

lemma digits_only_digits: "list_all is_digit s \<Longrightarrow> digits_only s = s"
  by (induction s) (auto simp: digits_only_def)

lemma py_lower_digits: "list_all is_digit s \<Longrightarrow> py_lower s = s"
  by (induction s) (auto simp: py_lower_def digit_props)

lemma dropWhile_none: "list_all (\<lambda>c. \<not> P c) s \<Longrightarrow> dropWhile P s = s"
  by (cases s) simp_all

lemma py_strip_id: "list_all (\<lambda>c. \<not> is_space c) s \<Longrightarrow> py_strip s = s"
  by (simp add: py_strip_def dropWhile_none)

lemma digits_no_space: "list_all is_digit s \<Longrightarrow> list_all (\<lambda>c. \<not> is_space c) s"
  by (induction s) (auto simp: digit_props)

lemma py_strip_show_int [simp]: "py_strip (show_int i) = show_int i"
proof (rule py_strip_id)
  have "\<not> is_space (CHR ''-'')" by (simp add: is_space_def cp_def)
  then show "list_all (\<lambda>c. \<not> is_space c) (show_int i)"
    by (simp add: show_int_def digits_no_space show_pos_digits)
qed

lemma split_sign_digits: "list_all is_digit s \<Longrightarrow> split_sign s = (1, s)"
  by (cases s) (auto simp: digit_props)

lemma split_sign_show_int: "split_sign (show_int i) = (if i < 0 then - 1 else 1, show_pos \<bar>i\<bar>)"
  by (simp add: show_int_def split_sign_digits show_pos_digits)

lemma sgn_abs_int: "(if i < 0 then - 1 else 1) * \<bar>i\<bar> = (i :: int)"
  by simp

lemma parse_int_show_int:
  assumes "length (show_pos \<bar>i\<bar>) \<le> 4300"
  shows "parse_int (show_int i) = Some i"
proof -
  have d: "list_all is_digit (show_pos \<bar>i\<bar>)" by (simp add: show_pos_digits)
  show ?thesis
    using assms d by (simp only: parse_int_def Let_def py_strip_show_int split_sign_show_int prod.case digits_only_digits
        digit_group_digits show_pos_not_Nil int_of_digits_show abs_ge_zero sgn_abs_int simp_thms if_True)
qed

lemma length_show_small: "\<bar>i\<bar> < 2 ^ 53 \<Longrightarrow> length (show_pos \<bar>i\<bar>) \<le> 16"
proof -
  assume "\<bar>i\<bar> < 2 ^ 53"
  moreover have "(2 ^ 53 :: int) < 10 ^ 16" by simp
  ultimately have "\<bar>i\<bar> < 10 ^ 16" by linarith
  then show ?thesis by (rule length_show_pos) simp
qed

lemma parse_int_show_small: "\<bar>i\<bar> < 2 ^ 53 \<Longrightarrow> parse_int (show_int i) = Some i"
  using length_show_small [of i] by (intro parse_int_show_int) simp

lemma to_float_of_int: "\<bar>i\<bar> < 2 ^ 53 \<Longrightarrow> to_float (of_int i) = PFloat (of_int i)"
proof -
  assume i: "\<bar>i\<bar> < 2 ^ 53"
  have m: "(2 ^ 53 :: rat) \<le> max_finite" by (simp add: max_finite_def)
  from i have "\<bar>of_int i :: rat\<bar> < 2 ^ 53"
    by (metis of_int_abs of_int_less_iff of_int_numeral of_int_power)
  with m have "of_int i \<le> max_finite" "- max_finite \<le> of_int i" by linarith+
  then show ?thesis by (simp add: to_float_def rnd53_of_int [OF i] Let_def)
qed

lemma parse_decimal_digits:
  assumes "list_all is_digit s" "s \<noteq> []"
  shows "parse_decimal sg s = Some (to_float (of_int (sg * int_of_digits s)))"
proof -
  have e: "takeWhile (\<lambda>c. py_lower [c] \<noteq> ''e'') s = s" "dropWhile (\<lambda>c. py_lower [c] \<noteq> ''e'') s = []"
    using assms(1) by (induction s) (auto simp: py_lower_def digit_props)
  have p: "takeWhile (\<lambda>c. c \<noteq> CHR ''.'') s = s" "dropWhile (\<lambda>c. c \<noteq> CHR ''.'') s = []"
    using assms(1) by (induction s) (auto simp: digit_props)
  have z: "digits_only ''0'' = ''0''" "digit_group ''0''" "int_of_digits ''0'' = 0" "digits_only [] = []"
    by (simp_all add: digits_only_def int_of_digits_def is_digit_def cp_def)
  show ?thesis
    using assms
    by (simp add: parse_decimal_def e p z digits_only_digits digit_group_digits is_digit_def cp_def Let_def)
qed

lemma special_names: "list_all is_digit s \<Longrightarrow> s \<noteq> [] \<Longrightarrow> s \<notin> {''inf'', ''infinity'', ''nan''}"
  by (auto simp: is_digit_def cp_def)

lemma parse_float_show_int:
  assumes "\<bar>i\<bar> < 2 ^ 53"
  shows "parse_float (show_int i) = Some (PFloat (of_int i))"
proof -
  have d: "list_all is_digit (show_pos \<bar>i\<bar>)" by (simp add: show_pos_digits)
  have "parse_float (show_int i) = parse_decimal (if i < 0 then - 1 else 1) (show_pos \<bar>i\<bar>)"
    using special_names [OF d]
    by (simp add: parse_float_def split_sign_show_int py_lower_digits [OF d] Let_def)
  also have "\<dots> = Some (to_float (of_int i))"
    by (simp only: parse_decimal_digits [OF d show_pos_not_Nil] int_of_digits_show abs_ge_zero sgn_abs_int)
  finally show ?thesis by (simp only: to_float_of_int [OF assms])
qed

end
