(* ===== verification/Requests_Safety.thy ===== *)
theory Requests_Safety
  imports Multipart Py_Digits
begin

text \<open>
  What the request readers guarantee: encoding and decoding of inline images are inverse, decoded
  media is bounded and typed, every refusal is a client error, and the multipart transport carries
  the same payload as JSON.
\<close>

section \<open>Encoded media\<close>

lemma py_lower_append: "py_lower (a @ b) = py_lower a @ py_lower b"
  by (simp add: py_lower_def)

lemma oct_cp: "oct c = int (cp c)"
  unfolding oct_def cp_def by (cases c) simp

lemma b64_char_class: "0 \<le> n \<Longrightarrow> n < 64 \<Longrightarrow> b64_class (b64_char n)"
proof -
  assume n: "0 \<le> n" "n < 64"
  have "is_alnum (char_of m) \<longleftrightarrow> 65 \<le> m \<and> m \<le> 90 \<or> 97 \<le> m \<and> m \<le> 122 \<or> 48 \<le> m \<and> m \<le> 57"
    if "0 \<le> m" "m < 256" for m :: int
  proof -
    from that have "int (cp (char_of m)) = m" by (simp add: oct_char_of flip: oct_cp)
    then show ?thesis by (auto simp: is_alnum_def is_alpha_def is_digit_def)
  qed
  with n show ?thesis by (auto simp: b64_class_def b64_char_def)
qed

lemma b64_pad_class: "b64_class (CHR ''='')"
  by (simp add: b64_class_def)

lemma b64encode_class: "list_all b64_class (b64encode bs)"
  by (induction bs rule: b64encode.induct) (simp_all add: b64_char_class b64_pad_class b64_bounds)

lemma length_b64encode: "3 * length (b64encode bs) \<le> 4 * length bs + 8"
  by (induction bs rule: b64encode.induct) simp_all

lemma b64encode_not_Nil: "bs \<noteq> [] \<Longrightarrow> b64encode bs \<noteq> []"
  by (cases bs rule: b64encode.cases) simp_all

lemma image_mime_lower:
  assumes "mime \<in> set image_mimes"
  shows "py_lower (''data:'' @ mime @ '';base64,'') = ''data:'' @ mime @ '';base64,''"
  using assms unfolding image_mimes_def by (auto; code_simp)

lemma match_data_uri_image:
  assumes "mime \<in> set image_mimes" "bs \<noteq> []"
  shows "match_data_uri image_mimes (''data:'' @ mime @ '';base64,'' @ b64encode bs) = Some (mime, b64encode bs)"
proof -
  let ?h = "''data:'' @ mime @ '';base64,''"
  have low: "py_lower (?h @ b64encode bs) = ?h @ py_lower (b64encode bs)"
    by (simp only: py_lower_append [of ?h] image_mime_lower [OF assms(1)])
  have "find (\<lambda>m. prefix (''data:'' @ m @ '';base64,'') (py_lower (?h @ b64encode bs))) image_mimes = Some mime"
    unfolding low using assms(1) by (auto simp: image_mimes_def)
  then show ?thesis
    using b64encode_class [of bs] b64encode_not_Nil [OF assms(2)]
    by (simp add: match_data_uri_def Let_def)
qed

text \<open>Round trip of inline images: a caller that sends the bytes of an acceptable image, encoded as
  a data URI with one of the two declared types, gets exactly those bytes and that type to the
  backend.\<close>

theorem data_uri_roundtrip:
  assumes "mime \<in> set image_mimes" "bs \<noteq> []" "length bs \<le> max_image_bytes" "check_image pil bs = Inr ()"
    and "get_none payload field = PStr (''data:'' @ mime @ '';base64,'' @ b64encode bs)"
  shows "decode_data_uri pil payload field = Inr (Some (bs, mime, image_ext mime))"
proof -
  let ?raw = "''data:'' @ mime @ '';base64,'' @ b64encode bs"
  have p: "prefix ''data:'' (py_lower ?raw)"
    using image_mime_lower [OF assms(1)] by (simp add: py_lower_def lower_char_def cp_def)
  have len: "\<not> max_image_bytes * 4 div 3 + 16 < length (b64encode bs)"
    using length_b64encode [of bs] assms(3) by (simp add: max_image_bytes_def mib_def)
  from assms(1) have mime: "mime = ''image/png'' \<or> mime = ''image/jpeg''" by (simp add: image_mimes_def)
  show ?thesis
    unfolding decode_data_uri_def assms(5) pyval.case
    using p len mime assms(3,4)
    by (auto simp: match_data_uri_image [OF assms(1,2), simplified] match_data_uri_image [OF assms(1,2)] b64.dec_enc image_ext_def canonical_mime_def)
qed

definition demo_info :: image_info where
  "demo_info = \<lparr>img_format = Some ''PNG'', img_width = 64, img_height = 64, img_frames = Some 1,
     img_verifies = True, img_loads = True\<rparr>"

definition demo_pil :: "bytes \<Rightarrow> image_info option" where
  "demo_pil bs = (if prefix png_magic bs then Some demo_info else None)"

definition demo_png :: bytes where
  "demo_png = png_magic @ ''pixels''"

lemma demo_png_ok: "check_image demo_pil demo_png = Inr ()"
  by code_simp

theorem data_uri_roundtrip_witness:
  "decode_data_uri demo_pil [(''image'', PStr (''data:'' @ ''image/png'' @ '';base64,'' @ b64encode demo_png))] ''image''
     = Inr (Some (demo_png, ''image/png'', ''png''))"
  using data_uri_roundtrip [of "''image/png''" demo_png demo_pil
      "[(''image'', PStr (''data:'' @ ''image/png'' @ '';base64,'' @ b64encode demo_png))]" "''image''"] demo_png_ok
  by (simp add: image_mimes_def image_ext_def get_none_def demo_png_def png_magic_def max_image_bytes_def mib_def)

lemma match_data_uri_Some:
  "match_data_uri ms s = Some (m, e) \<Longrightarrow> m \<in> set ms \<and> e = drop (length (''data:'' @ m @ '';base64,'')) s"
  by (auto simp: match_data_uri_def Let_def find_Some_iff split: option.splits if_splits)

lemma decode_data_uri_Inr:
  assumes "decode_data_uri pil payload field = Inr (Some (bs, mime, ext))"
  shows "length bs \<le> max_image_bytes \<and> check_image pil bs = Inr ()
    \<and> (mime = ''image/png'' \<and> ext = ''png'' \<or> mime = ''image/jpeg'' \<and> ext = ''jpg'')"
proof -
  from assms obtain raw where r: "get_none payload field = PStr raw"
    by (cases "get_none payload field") (simp_all add: decode_data_uri_def)
  from assms obtain m encoded where m: "match_data_uri image_mimes raw = Some (m, encoded)"
    by (cases "match_data_uri image_mimes raw") (auto simp add: decode_data_uri_def r)
  from assms obtain data where d: "b64decode encoded = Some data"
    by (cases "b64decode encoded") (simp_all add: decode_data_uri_def r m)
  from assms have "length bs \<le> max_image_bytes" "check_image pil bs = Inr ()"
    "mime = canonical_mime m" "ext = image_ext mime"
    by (auto simp: decode_data_uri_def r m d)
  then show ?thesis by (simp add: canonical_mime_def image_ext_def)
qed

lemma decode_audio_Inr:
  assumes "decode_audio payload = Inr (Some (bs, mime, ext))"
  shows "length bs \<le> max_audio_bytes \<and> check_audio bs ext = Inr () \<and> map_of audio_suffix mime = Some ext"
proof -
  from assms obtain raw where r: "get_none payload ''audio'' = PStr raw"
    by (cases "get_none payload ''audio''") (simp_all add: decode_audio_def)
  from assms obtain m encoded where m: "match_data_uri audio_mimes raw = Some (m, encoded)"
    by (cases "match_data_uri audio_mimes raw") (auto simp: decode_audio_def r)
  from assms obtain data where d: "b64decode encoded = Some data"
    by (cases "b64decode encoded") (simp_all add: decode_audio_def r m Let_def)
  from match_data_uri_Some [OF m] have "m \<in> set audio_mimes" by simp
  then obtain x where x: "map_of audio_suffix m = Some x"
    by (auto simp: audio_mimes_def audio_suffix_def)
  from assms x show ?thesis by (auto simp: decode_audio_def r m d)
qed

text \<open>Decoded media is what it claims to be: an accepted image is the strict base64 decoding of the
  field, at most 8 MiB, has passed the geometry, frame and decoding checks of Pillow, and its
  content type and extension are one of the two pairs; an accepted clip is at most 16 MiB and starts
  with the magic bytes of its extension, which is the one for its declared type.\<close>

theorem decoded_media_checked:
  "(case decode_data_uri pil payload field of
        Inr (Some (bs, mime, ext)) \<Rightarrow> length bs \<le> max_image_bytes \<and> check_image pil bs = Inr ()
          \<and> (mime = ''image/png'' \<and> ext = ''png'' \<or> mime = ''image/jpeg'' \<and> ext = ''jpg'')
      | _ \<Rightarrow> True)
    \<and> (case decode_audio payload of
        Inr (Some (bs, mime, ext)) \<Rightarrow> length bs \<le> max_audio_bytes \<and> check_audio bs ext = Inr ()
          \<and> map_of audio_suffix mime = Some ext
      | _ \<Rightarrow> True)"
  using decode_data_uri_Inr decode_audio_Inr by (auto split: sum.splits option.splits)

lemma client_simps [err_rules]:
  "is_client_error (bad_request m c)" "is_client_error (rejected m c)" "is_client_error (unsupported_model m ms)"
  "is_client_error undecodable_image" "is_client_error (audio_field m)" "is_client_error audio_too_large"
  "is_client_error body_too_large" "is_client_error reference_too_large" "is_client_error (not_a_number n b)"
  by (simp_all add: undecodable_image_def audio_field_def audio_too_large_def body_too_large_def
      reference_too_large_def not_a_number_def)

lemma fails_check_image [err_rules]: "fails is_client_error (check_image pil data)"
  unfolding check_image_def Let_def by (intro err_rules)

lemma fails_check_audio [err_rules]: "fails is_client_error (check_audio data s)"
  unfolding check_audio_def Let_def by (intro err_rules)

lemma fails_data_uri [err_rules]: "fails is_client_error (decode_data_uri pil payload field)"
  unfolding decode_data_uri_def by (intro err_rules)

lemma fails_audio [err_rules]: "fails is_client_error (decode_audio payload)"
  unfolding decode_audio_def Let_def by (intro err_rules)

lemma fails_reference [err_rules]: "fails is_client_error (multipart_reference_images pil f)"
  unfolding multipart_reference_images_def check_uploaded_image_def Let_def by (intro err_rules)

lemma fails_scalar [err_rules]: "fails is_client_error (multipart_scalar f name n)"
  unfolding multipart_scalar_def Let_def by (intro err_rules)

lemma fails_numeric [err_rules]: "fails is_client_error (multipart_numeric f name i)"
  unfolding multipart_numeric_def text_number_def Let_def by (intro err_rules)

lemma fails_edit_payload [err_rules]: "fails is_client_error (multipart_edit_payload f)"
  unfolding multipart_edit_payload_def check_form_name_def copy_text_def copy_number_def by (intro err_rules)

lemma fails_json_scalars [err_rules]:
  "fails is_client_error (validate_model p ids)" "fails is_client_error (validate_response_format p al)"
  "fails is_client_error (non_negative_int p k d h)" "fails is_client_error (validate_bounded_text p k n r)"
  unfolding validate_model_def validate_response_format_def non_negative_int_def validate_bounded_text_def Let_def
  by (intro err_rules)+

lemma fails_Inl_iff: "fails E r \<Longrightarrow> r = Inl e \<Longrightarrow> E e"
  by (simp add: fails_def)

section \<open>White space\<close>

lemma match_first:
  assumes "h = ''data:'' @ m @ '';base64,''" "py_lower h = h"
  shows "match_data_uri (m # ms) (h @ xs) = (if xs \<noteq> [] \<and> list_all b64_class xs then Some (m, xs) else None)"
proof -
  have "prefix h (py_lower (h @ xs))" by (simp add: py_lower_append assms(2))
  then show ?thesis by (simp add: match_data_uri_def assms(1) Let_def)
qed

lemma b64decode_space: "is_space c \<Longrightarrow> b64decode (xs @ [c] @ ys) = None"
  using b64decode_no_space [of "xs @ [c] @ ys" _ c] by (cases "b64decode (xs @ [c] @ ys)") auto

text \<open>The pattern of a data URI admits white space in the encoded part, as wrapped base64 has, but
  the strict decoder does not: a data URI with white space anywhere in its encoded part is refused as
  a client error, for images and audio alike.\<close>

theorem wrapped_base64_refused:
  assumes "get_none payload field = PStr (''data:image/png;base64,'' @ xs @ [c] @ ys)"
    and "get_none payload ''audio'' = PStr (''data:audio/wav;base64,'' @ xs @ [c] @ ys)"
    and "is_space c"
  shows "(\<exists>e. decode_data_uri pil payload field = Inl e \<and> is_client_error e)
    \<and> (\<exists>e. decode_audio payload = Inl e \<and> is_client_error e)"
proof
  let ?e = "xs @ [c] @ ys"
  have "match_data_uri image_mimes (''data:image/png;base64,'' @ ?e)
      = (if ?e \<noteq> [] \<and> list_all b64_class ?e then Some (''image/png'', ?e) else None)"
    unfolding image_mimes_def by (rule match_first) (simp, code_simp)
  with b64decode_space [OF assms(3)] have "decode_data_uri pil payload field \<noteq> Inr v" for v
    unfolding decode_data_uri_def assms(1) by (auto split: if_splits)
  then obtain e where "decode_data_uri pil payload field = Inl e" by (cases "decode_data_uri pil payload field") auto
  with fails_Inl_iff [OF fails_data_uri this] show "\<exists>e. decode_data_uri pil payload field = Inl e \<and> is_client_error e" by blast
  have "match_data_uri audio_mimes (''data:audio/wav;base64,'' @ ?e)
      = (if ?e \<noteq> [] \<and> list_all b64_class ?e then Some (''audio/wav'', ?e) else None)"
    unfolding audio_mimes_def by (rule match_first) (simp, code_simp)
  with b64decode_space [OF assms(3)] have "decode_audio payload \<noteq> Inr v" for v
    unfolding decode_audio_def assms(2) by (auto split: if_splits)
  then obtain e where "decode_audio payload = Inl e" by (cases "decode_audio payload") auto
  with fails_Inl_iff [OF fails_audio this] show "\<exists>e. decode_audio payload = Inl e \<and> is_client_error e" by blast
qed

section \<open>The multipart transport\<close>

lemma utf8_len_le: "utf8_len s \<le> 2 * length s"
  by (induction s) (auto simp: utf8_len_def)

lemma length_show_int: "\<bar>i\<bar> < 2 ^ 53 \<Longrightarrow> length (show_int i) \<le> 17"
  using length_show_small [of i] by (auto simp: show_int_def)

lemma show_int_plain: "py_lower (show_int i) = show_int i" "show_int i \<noteq> []" "show_int i \<notin> set no_number_words"
proof -
  have d: "list_all is_digit (show_pos \<bar>i\<bar>)" by (simp add: show_pos_digits)
  have "lower_char (CHR ''-'') = CHR ''-''" by (simp add: lower_char_def cp_def)
  with py_lower_digits [OF d] show "py_lower (show_int i) = show_int i"
    by (auto simp: show_int_def py_lower_def)
  show "show_int i \<noteq> []" by (simp add: show_int_def)
  obtain c cs where c: "show_pos \<bar>i\<bar> = c # cs" "is_digit c" using d by (cases "show_pos \<bar>i\<bar>") auto
  then have "show_int i = (if i < 0 then CHR ''-'' # c # cs else c # cs)" by (auto simp: show_int_def)
  with c(2) show "show_int i \<notin> set no_number_words"
    by (auto simp: no_number_words_def is_digit_def cp_def)
qed

text \<open>How a client writes a payload as a form, with its reference image.\<close>

definition field_text :: "pyval \<Rightarrow> string" where
  "field_text v = (case v of PStr s \<Rightarrow> s | PInt i \<Rightarrow> show_int i | PFloat r \<Rightarrow> show_int \<lfloor>r\<rfloor> | _ \<Rightarrow> [])"

definition encode_form :: "pydict \<Rightarrow> upload \<Rightarrow> form" where
  "encode_form p u =
     \<lparr>form_fields = map (\<lambda>(k, v). (k, field_text v)) p, form_uploads = [(''image'', u)],
      form_counts = (''image'', 1) # map (\<lambda>(k, v). (k, 1)) p\<rparr>"

text \<open>The values a scalar of an edit can have: bounded text, and numbers a float holds exactly.\<close>

definition scalar_ok :: "string \<Rightarrow> pyval \<Rightarrow> bool" where
  "scalar_ok k v =
     (if k \<in> set qwen_edit_ints then (\<exists>i. v = PInt i \<and> \<bar>i\<bar> < 2 ^ 53)
      else if k \<in> set qwen_edit_floats then (\<exists>i. v = PFloat (of_int i) \<and> \<bar>i\<bar> < 2 ^ 53)
      else (case (map_of edit_widths k, v) of
              (Some w, PStr s) \<Rightarrow> utf8_len s \<le> w \<and> (k = ''quality'' \<longrightarrow> py_strip s = s)
            | _ \<Rightarrow> False))"

lemma map_of_texts: "map_of (map (\<lambda>(k, v). (k, g v)) p) k = map_option g (map_of p k)"
  by (induction p) auto

lemma encoded_scalar:
  assumes "name \<noteq> ''image''" "\<And>v. map_of p name = Some v \<Longrightarrow> utf8_len (field_text v) \<le> n"
  shows "multipart_scalar (encode_form p u) name n = Inr (map_option field_text (map_of p name))"
  using assms
  by (cases "map_of p name") (auto simp: multipart_scalar_def encode_form_def count_of_def map_of_texts Let_def)

lemma encoded_int:
  assumes "name \<noteq> ''image''" "\<And>v. map_of p name = Some v \<Longrightarrow> \<exists>i. v = PInt i \<and> \<bar>i\<bar> < 2 ^ 53"
  shows "multipart_numeric (encode_form p u) name True = Inr (map_of p name)"
proof (cases "map_of p name")
  case None
  with encoded_scalar [OF assms(1), of p max_multipart_field_bytes u]
  have "multipart_scalar (encode_form p u) name max_multipart_field_bytes = Inr None" by simp
  with None show ?thesis by (simp add: multipart_numeric_def)
next
  case (Some v)
  with assms(2) obtain i where v: "v = PInt i" "\<bar>i\<bar> < 2 ^ 53" by auto
  note t = parse_int_show_small [OF v(2)] parse_float_show_int [OF v(2)] to_float_of_int [OF v(2)]
  have "utf8_len (show_int i) \<le> max_multipart_field_bytes"
    using utf8_len_le [of "show_int i"] length_show_int [OF v(2)] by (simp add: max_multipart_field_bytes_def)
  then have "multipart_scalar (encode_form p u) name max_multipart_field_bytes = Inr (Some (show_int i))"
    using encoded_scalar [OF assms(1), of p max_multipart_field_bytes u] Some v by (simp add: field_text_def)
  then show ?thesis
    by (simp add: multipart_numeric_def show_int_plain text_number_def t Some v Let_def)
qed

lemma encoded_float:
  assumes "name \<noteq> ''image''" "\<And>v. map_of p name = Some v \<Longrightarrow> \<exists>i. v = PFloat (of_int i) \<and> \<bar>i\<bar> < 2 ^ 53"
  shows "multipart_numeric (encode_form p u) name False = Inr (map_of p name)"
proof (cases "map_of p name")
  case None
  with encoded_scalar [OF assms(1), of p max_multipart_field_bytes u]
  have "multipart_scalar (encode_form p u) name max_multipart_field_bytes = Inr None" by simp
  with None show ?thesis by (simp add: multipart_numeric_def)
next
  case (Some v)
  with assms(2) obtain i where v: "v = PFloat (of_int i)" "\<bar>i\<bar> < 2 ^ 53" by auto
  have "utf8_len (show_int i) \<le> max_multipart_field_bytes"
    using utf8_len_le [of "show_int i"] length_show_int [OF v(2)] by (simp add: max_multipart_field_bytes_def)
  then have "multipart_scalar (encode_form p u) name max_multipart_field_bytes = Inr (Some (show_int i))"
    using encoded_scalar [OF assms(1), of p max_multipart_field_bytes u] Some v by (simp add: field_text_def)
  then show ?thesis
    by (simp add: multipart_numeric_def show_int_plain text_number_def parse_float_show_int [OF v(2)] Some v Let_def)
qed

lemma qwen_edit_keys:
  "set qwen_edit_scalars = fst ` set edit_widths \<union> set qwen_edit_ints \<union> set qwen_edit_floats"
  "''image'' \<notin> set qwen_edit_scalars"
  by (auto simp: qwen_edit_scalars_def edit_widths_def qwen_edit_ints_def qwen_edit_floats_def)

text \<open>A loop that copies the value of each key of a list, when there is one.\<close>

lemma forE_copy:
  assumes "\<And>x s. x \<in> set xs \<Longrightarrow> f x s = Inr (case map_of p (key x) of None \<Rightarrow> s | Some v \<Rightarrow> AList.update (key x) v s)"
  shows "\<exists>t. forE xs f s = Inr t \<and>
    (\<forall>k. map_of t k = (if k \<in> key ` set xs \<and> map_of p k \<noteq> None then map_of p k else map_of s k))"
  using assms
proof (induction xs arbitrary: s)
  case Nil
  then show ?case by simp
next
  case (Cons x xs)
  let ?s = "case map_of p (key x) of None \<Rightarrow> s | Some v \<Rightarrow> AList.update (key x) v s"
  have x: "f x s = Inr ?s" by (rule Cons.prems) simp
  from Cons.IH [of ?s] Cons.prems obtain t where t: "forE xs f ?s = Inr t"
    "\<And>k. map_of t k = (if k \<in> key ` set xs \<and> map_of p k \<noteq> None then map_of p k else map_of ?s k)"
    by auto
  show ?case
  proof (intro exI [of _ t] conjI allI)
    show "forE (x # xs) f s = Inr t" by (simp add: x t(1))
    fix k
    show "map_of t k = (if k \<in> key ` set (x # xs) \<and> map_of p k \<noteq> None then map_of p k else map_of s k)"
      by (auto simp: t(2) update_conv' split: option.splits)
  qed
qed


lemma copy_text_encoded:
  assumes "(k, w) \<in> set edit_widths" "\<And>v. map_of p k = Some v \<Longrightarrow> scalar_ok k v"
  shows "copy_text (encode_form p u) (k, w) s = Inr (case map_of p k of None \<Rightarrow> s | Some v \<Rightarrow> AList.update k v s)"
proof -
  have k: "k \<noteq> ''image''" "k \<notin> set qwen_edit_ints" "k \<notin> set qwen_edit_floats" "map_of edit_widths k = Some w"
    using assms(1) by (auto simp: edit_widths_def qwen_edit_ints_def qwen_edit_floats_def)
  have v: "\<exists>x. v = PStr x \<and> utf8_len x \<le> w \<and> (k = ''quality'' \<longrightarrow> py_strip x = x)" if "map_of p k = Some v" for v
    using assms(2) [OF that] k by (cases v) (simp_all add: scalar_ok_def)
  then have "multipart_scalar (encode_form p u) k w = Inr (map_option field_text (map_of p k))"
    by (intro encoded_scalar k) (auto simp: field_text_def)
  with v show ?thesis
    by (cases "map_of p k") (auto simp: copy_text_def field_text_def)
qed

lemma forE_unit: "(\<And>x. x \<in> set xs \<Longrightarrow> f x () = Inr ()) \<Longrightarrow> forE xs f () = Inr ()"
  by (induction xs) auto

lemma encoded_names:
  assumes "\<And>k v. map_of p k = Some v \<Longrightarrow> k \<in> set qwen_edit_scalars \<and> scalar_ok k v"
  shows "forE (map fst (form_counts (encode_form p u))) check_form_name () = Inr ()"
proof (rule forE_unit)
  have "x \<in> set qwen_edit_scalars" if "(x, y) \<in> set p" for x y
    using assms that by (metis weak_map_of_SomeI)
  then show "\<And>x. x \<in> set (map fst (form_counts (encode_form p u))) \<Longrightarrow> check_form_name x () = Inr ()"
    by (auto simp: encode_form_def check_form_name_def)
qed

lemma copy_number_encoded:
  assumes "\<And>k v. map_of p k = Some v \<Longrightarrow> k \<in> set qwen_edit_scalars \<and> scalar_ok k v"
    and "x \<in> set (map (\<lambda>n. (n, b)) (if b then qwen_edit_ints else qwen_edit_floats))"
  shows "copy_number (encode_form p u) x s = Inr (case map_of p (fst x) of None \<Rightarrow> s | Some v \<Rightarrow> AList.update (fst x) v s)"
proof -
  from assms(2) obtain k where x: "x = (k, b)" and k: "if b then k \<in> set qwen_edit_ints else k \<in> set qwen_edit_floats"
    by (auto split: if_splits)
  then have "k \<noteq> ''image''" and disj: "\<not> b \<Longrightarrow> k \<notin> set qwen_edit_ints"
    by (cases b; auto simp: qwen_edit_floats_def qwen_edit_ints_def)+
  moreover have "\<exists>i. v = PInt i \<and> \<bar>i\<bar> < 2 ^ 53" if "b" "map_of p k = Some v" for v
    using assms(1) [OF that(2)] k that(1) by (simp add: scalar_ok_def)
  moreover have "\<exists>i. v = PFloat (of_int i) \<and> \<bar>i\<bar> < 2 ^ 53" if "\<not> b" "map_of p k = Some v" for v
    using assms(1) [OF that(2)] k disj that(1) by (simp add: scalar_ok_def)
  ultimately have "multipart_numeric (encode_form p u) k b = Inr (map_of p k)"
    by (cases b) (auto intro!: encoded_int encoded_float)
  then show ?thesis by (simp add: x copy_number_def split: option.split)
qed



definition demo_edit :: pydict where
  "demo_edit = [(''model'', PStr ''Qwen/Qwen-Image-2.1''), (''prompt'', PStr ''make it blue''), (''seed'', PInt 7),
     (''cfg'', PFloat 1), (''quality'', PStr ''low'')]"

lemma demo_edit_scalars: "map_of demo_edit k = Some v \<Longrightarrow> k \<in> set qwen_edit_scalars \<and> scalar_ok k v"
  by (auto simp: demo_edit_def qwen_edit_scalars_def scalar_ok_def qwen_edit_ints_def qwen_edit_floats_def
      edit_widths_def max_edit_scalar_chars_def max_prompt_chars_def utf8_len_def cp_def py_strip_def is_space_def
      intro: exI [of _ 1] split: if_splits)


theorem wrapped_base64_refused_witness:
  "\<exists>e. decode_data_uri demo_pil [(''image'', PStr (''data:image/png;base64,'' @ ''AAAA'' @ [CHR 0x0A] @ ''AAAA'')),
      (''audio'', PStr (''data:audio/wav;base64,'' @ ''AAAA'' @ [CHR 0x0A] @ ''AAAA''))] ''image'' = Inl e \<and> is_client_error e"
  using wrapped_base64_refused [of "[(''image'', PStr (''data:image/png;base64,'' @ ''AAAA'' @ [CHR 0x0A] @ ''AAAA'')),
      (''audio'', PStr (''data:audio/wav;base64,'' @ ''AAAA'' @ [CHR 0x0A] @ ''AAAA''))]" "''image''" "''AAAA''"
      "CHR 0x0A" "''AAAA''" demo_pil]
  by (simp add: get_none_def is_space_def cp_def)

text \<open>Whatever a caller sends, a request reader refuses it as a client error (status 400): images,
  audio and references, text and number fields, the model and the response format, multipart scalars
  and the whole edit payload. Reading a JSON body can also pass on an exception of the parser that is
  not a \<open>ValueError\<close>, or the loss of the connection.\<close>

theorem readers_refuse_as_client_errors:
  "fails is_client_error (decode_inline_image pil payload) \<and> fails is_client_error (decode_last_frame pil payload)
   \<and> fails is_client_error (decode_audio payload) \<and> fails is_client_error (multipart_reference_images pil f)
   \<and> fails is_client_error (validate_model payload ids) \<and> fails is_client_error (validate_response_format payload al)
   \<and> fails is_client_error (non_negative_int payload k d h) \<and> fails is_client_error (validate_bounded_text payload k n r)
   \<and> fails is_client_error (multipart_scalar f name n) \<and> fails is_client_error (multipart_numeric f name b)
   \<and> fails is_client_error (multipart_edit_payload f)
   \<and> fails (\<lambda>e. is_client_error e \<or> e = OtherExn \<or> (\<exists>t. loads t = Inl e)) (read_json_body loads stream)"
proof -
  have "fails (\<lambda>e. is_client_error e \<or> e = OtherExn) (accumulate cap body_too_large OtherExn stream acc)" for cap acc
    by (induction cap body_too_large OtherExn stream acc rule: accumulate.induct) (auto simp: fails_def client_simps)
  then have body: "fails (\<lambda>e. is_client_error e \<or> e = OtherExn \<or> (\<exists>t. loads t = Inl e)) (accumulate cap body_too_large OtherExn stream acc)"
    for cap acc by (rule fails_mono) blast
  have "fails (\<lambda>e. is_client_error e \<or> e = OtherExn \<or> (\<exists>t. loads t = Inl e)) (read_json_body loads stream)"
    unfolding read_json_body_def
  proof (intro fails_bind body fails_if fails_Inr)
    fix total
    show "fails (\<lambda>e. is_client_error e \<or> e = OtherExn \<or> (\<exists>t. loads t = Inl e))
       (case loads total of
          Inl (ValueErr _) \<Rightarrow> Inl (bad_request ''Request body must be valid JSON.'' ''invalid_json'')
        | Inl e \<Rightarrow> Inl e
        | Inr (PDict d) \<Rightarrow> Inr d
        | Inr _ \<Rightarrow> Inl (bad_request ''Request body must be a JSON object.'' ''invalid_json''))"
      by (cases "loads total") (auto simp: fails_def split: exn.split pyval.split)
  qed
  then show ?thesis
    unfolding decode_inline_image_def decode_last_frame_def by (intro conjI err_rules)
qed

end
