(* ===== verification/Server_Safety.thy ===== *)
theory Server_Safety
  imports Server Requests_Safety Graph_Requests
begin

text \<open>
  What the endpoints guarantee: generated names fit the graph's checks, nothing is uploaded before the
  graph of the promised kind is built, the reported seed is the one in the graph, a response carries
  exactly the runner's artifact, a configured selection is the only model served, and a caller that
  hangs up does not leave its job running.
\<close>

section \<open>Generated names\<close>

text \<open>\<open>uuid4().hex\<close>: 32 lower-case hexadecimal digits.\<close>

definition uuid_hex :: "string \<Rightarrow> bool" where
  "uuid_hex h = (length h = 32 \<and> list_all (\<lambda>c. is_digit c \<or> 97 \<le> cp c \<and> cp c \<le> 102) h)"

lemma uuid_name_chars: "uuid_hex h \<Longrightarrow> list_all name_char h"
  by (auto simp: uuid_hex_def list_all_iff name_char_def is_alnum_def is_alpha_def)

lemma split_on_first: "d \<notin> set a \<Longrightarrow> split_on d (a @ d # b) = a # split_on d b"
  by (induction a) auto

lemma split_on_none: "d \<notin> set a \<Longrightarrow> split_on d a = [a]"
  by (induction a) auto

lemma name_char_no_dot: "list_all name_char s \<Longrightarrow> CHR ''.'' \<notin> set s"
  by (auto simp: list_all_iff name_char_def is_alnum_def is_alpha_def is_digit_def cp_def)

lemma generated_nameI:
  assumes "uuid_hex h" "e \<in> set exts" "CHR ''.'' \<notin> set e"
  shows "generated_name exts (''lloom-'' @ h @ ''.'' @ e)"
proof -
  let ?a = "''lloom-'' @ h"
  have n: "list_all name_char ?a"
    using uuid_name_chars [OF assms(1)] by (simp add: name_char_def is_alnum_def is_alpha_def is_digit_def cp_def)
  have "split_on (CHR ''.'') (?a @ CHR ''.'' # e) = [?a, e]"
    using split_on_first [OF name_char_no_dot [OF n]] split_on_none [OF assms(3)] by simp
  moreover have "length ?a = 38" using assms(1) by (simp add: uuid_hex_def)
  ultimately show ?thesis using n assms(2) by (simp add: generated_name_def)
qed

lemma upload_name_eq: "upload_name h m = ''lloom-'' @ h @ ''.'' @ (if snd (snd m) = ''jpg'' then ''jpg'' else ''png'')"
  by (simp add: upload_name_def image_filename_def)

lemma media_name_eq: "media_name h m = ''lloom-'' @ h @ ''.'' @ snd (snd m)"
  by (simp add: media_name_def image_filename_def)

lemma kwargs_frames:
  "kwargs_of (frames_of hex ins) =
     \<lparr>image_name = map_option (upload_name (hex 0)) (in_image ins),
      last_image_name = map_option (upload_name (hex 1)) (in_last ins),
      audio_name = map_option (media_name (hex 2)) (in_audio ins),
      video_name = map_option (media_name (hex 3)) (in_video ins)\<rparr>"
  by (cases "in_image ins"; cases "in_last ins"; cases "in_audio ins"; cases "in_video ins")
    (simp_all add: kwargs_of_def frames_of_def name_for_def)

lemma upload_name_generated: "uuid_hex h \<Longrightarrow> generated_name [''png'', ''jpg''] (upload_name h m)"
  unfolding upload_name_eq by (rule generated_nameI) auto

lemma media_name_generated:
  "uuid_hex h \<Longrightarrow> snd (snd m) \<in> set exts \<Longrightarrow> CHR ''.'' \<notin> set (snd (snd m)) \<Longrightarrow> generated_name exts (media_name h m)"
  unfolding media_name_eq by (rule generated_nameI)

text \<open>The names and the prefix the server generates always pass the graph's own checks: for any
  conditioning inputs, with the extensions the decoders return, \<open>build_graph\<close> on the lane that takes
  all of them does not refuse a name, so a refusal of a name always means a model that does not take
  that kind of input.\<close>

theorem generated_names_accepted:
  assumes "\<And>i. uuid_hex (hex i)"
    and "\<And>m. in_audio ins = Some m \<Longrightarrow> snd (snd m) \<in> {''wav'', ''flac'', ''mp3''}"
    and "\<And>m. in_video ins = Some m \<Longrightarrow> snd (snd m) = ''mp4''"
  shows "check_names ''MiniMaxAI/MiniMax-H3'' (kwargs_of (frames_of hex ins)) = Inr () \<and> valid_prefix (''lloom_'' @ hex n)"
proof
  have a: "generated_name [''wav'', ''flac'', ''mp3''] (media_name (hex 2) m)" if "in_audio ins = Some m" for m
    using assms(2) [OF that] by (intro media_name_generated assms(1)) auto
  have v: "generated_name [''mp4''] (media_name (hex 3) m)" if "in_video ins = Some m" for m
    using assms(3) [OF that] by (intro media_name_generated assms(1)) auto
  show "check_names ''MiniMaxAI/MiniMax-H3'' (kwargs_of (frames_of hex ins)) = Inr ()"
    using a v by (auto simp: kwargs_frames check_names_def check_image_name_def check_audio_name_def check_video_name_def
        upload_name_generated assms(1) split: option.split)
  have "list_all name_char ''lloom_''" by (simp add: name_char_def is_alnum_def is_alpha_def is_digit_def cp_def)
  then show "valid_prefix (''lloom_'' @ hex n)"
    using uuid_name_chars [OF assms(1) [of n]] assms(1) [of n] by (simp add: valid_prefix_def uuid_hex_def)
qed

section \<open>Uploads\<close>

definition upload_request :: "frame \<Rightarrow> request" where
  "upload_request f = Upload (fst (snd f)) (fst (fst f)) (fst (snd (fst f)))"

lemma upload_image_sent:
  assumes "upload_image c d n t w = (r, w')"
  shows "sent w' = sent w \<or> sent w' = sent w @ [Upload n d t]"
    and "r = Inr x \<Longrightarrow> sent w' = sent w @ [Upload n d t]"
  using assms
  by (auto simp: upload_image_def call_def send_def io_defs Let_def split: if_splits prod.splits reply.splits)

lemma upload_all_sent:
  assumes "upload_all c fs refs w = (r, refs', w')"
  shows "\<exists>n\<le>length fs. sent w' = sent w @ map upload_request (take n fs)
    \<and> (r = Inr () \<longrightarrow> n = length fs \<and> refs' = refs @ map (fst \<circ> snd) fs)"
  using assms
proof (induction fs arbitrary: refs w)
  case Nil
  then show ?case by simp
next
  case (Cons f fs)
  obtain x w1 where u: "upload_image c (fst (fst f)) (fst (snd f)) (fst (snd (fst f))) w = (x, w1)" by fastforce
  show ?case
  proof (cases "x = Inr (fst (snd f))")
    case True
    from upload_image_sent(2) [OF u True] have w1: "sent w1 = sent w @ [upload_request f]" by (simp add: upload_request_def)
    from Cons.prems u True have "upload_all c fs (refs @ [fst (snd f)]) w1 = (r, refs', w')" by simp
    from Cons.IH [OF this] obtain n where "n \<le> length fs" "sent w' = sent w1 @ map upload_request (take n fs)"
      "r = Inr () \<longrightarrow> n = length fs \<and> refs' = (refs @ [fst (snd f)]) @ map (fst \<circ> snd) fs" by blast
    with w1 show ?thesis by (intro exI [of _ "Suc n"]) simp
  next
    case False
    with Cons.prems u have r: "w' = w1 \<and> r \<noteq> Inr ()" by (auto split: sum.splits if_splits)
    from upload_image_sent(1) [OF u] show ?thesis
    proof
      assume "sent w1 = sent w"
      with r show ?thesis by (intro exI [of _ 0]) simp
    next
      assume "sent w1 = sent w @ [Upload (fst (snd f)) (fst (fst f)) (fst (snd (fst f)))]"
      with r show ?thesis by (intro exI [of _ 1]) (simp add: upload_request_def)
    qed
  qed
qed

lemma job_graph_kind: "job_graph builds hex j = Inr (g, out, k) \<Longrightarrow>
   k = job_kind j \<and> builds (job_model j) (PDict (job_payload j)) (kwargs_of (job_frames j)) (''lloom_'' @ hex) = Inr (g, out, k)"
  by (auto simp: job_graph_def split: sum.splits exn.splits)

text \<open>C22. Nothing is uploaded before the graph is known to be right: if the build closure sends anything
  at all, the graph of the job has been built and has the kind of the endpoint, and what is sent is
  the job's frames in order, each under its generated name. If the closure returns, all of them were
  accepted under exactly those names, which are the ones the graph refers to.\<close>

theorem uploads_after_graph:
  assumes "build_job builds hex c j w = (r, refs, w')" "sent w' \<noteq> sent w \<or> r = Inr x"
  shows "(\<exists>g out. builds (job_model j) (PDict (job_payload j)) (kwargs_of (job_frames j)) (''lloom_'' @ hex)
             = Inr (g, out, job_kind j))
    \<and> (\<exists>n. sent w' = sent w @ map upload_request (take n (job_frames j)))
    \<and> (r = Inr x \<longrightarrow> sent w' = sent w @ map upload_request (job_frames j) \<and> refs = map (fst \<circ> snd) (job_frames j))"
proof (cases "job_graph builds hex j")
  case (Inl e)
  with assms show ?thesis by (auto simp: build_job_def)
next
  case (Inr t)
  obtain g out k where t: "t = (g, out, k)" by (cases t)
  from job_graph_kind [OF Inr [unfolded t]] have g: "builds (job_model j) (PDict (job_payload j)) (kwargs_of (job_frames j)) (''lloom_'' @ hex)
      = Inr (g, out, job_kind j)" by simp
  obtain y rs w1 where u: "upload_all c (job_frames j) [] w = (y, rs, w1)" by (metis surj_pair)
  from assms(1) Inr u have w': "w' = w1" "refs = rs" "r = Inr x \<Longrightarrow> y = Inr ()"
    by (auto simp: build_job_def split: sum.splits)
  from upload_all_sent [OF u] obtain n where "sent w1 = sent w @ map upload_request (take n (job_frames j))"
    "y = Inr () \<longrightarrow> n = length (job_frames j) \<and> rs = map (fst \<circ> snd) (job_frames j)" by auto
  with g w' show ?thesis by auto
qed

section \<open>Seeds\<close>

text \<open>The seed the response reports is the seed of the graph: on the Qwen 2.1 lanes, whatever the
  random source gives to the graph builder, the graph of the prepared payload is built with exactly
  the seed that is echoed, which is the caller's own one when it sent one.\<close>

theorem reported_seed_is_used:
  assumes "prepare_image_seed randbits model payload = Inr (q, Some (seed, src))"
    and "map_of models model = Some e"
  shows "graph_seed anything e q = Inr seed
    \<and> src = (if has_key payload ''seed'' then ''explicit'' else ''random'')
    \<and> (if has_key payload ''seed'' then get_none payload ''seed'' = PInt seed else seed = randbits)
    \<and> (\<forall>k. k = ''seed'' \<or> map_of q k = map_of payload k)"
proof -
  from assms(1) have m: "model \<in> set qwen_21_models" by (auto simp: prepare_image_seed_def split: if_splits)
  with assms(1) have s: "get_default payload ''seed'' (PInt randbits) = PInt seed" "0 \<le> seed" "seed < 2 ^ 53"
    and q: "q = AList.update ''seed'' (PInt seed) payload"
    and src: "src = (if has_key payload ''seed'' then ''explicit'' else ''random'')"
    by (auto simp: prepare_image_seed_def split: if_splits pyval.splits)
  from m assms(2) have fam: "family_of e = ''qwen-image-21''"
    by (auto simp: qwen_21_models_def models_def family_of_def)
  have "(2 ^ 53 :: int) \<le> 2 ^ 1024 - 2 ^ 970" by simp
  with s have "\<not> too_large_for_float seed" unfolding too_large_for_float_def by linarith
  then have "int_field q ''seed'' 42 0 (2 ^ 53 - 1) None = Inr seed"
    using s by (simp add: q int_field_def number_def checked_def get_default_update)
  then have "graph_seed anything e q = Inr seed" by (simp add: graph_seed_def fam q has_key_update)
  moreover have "if has_key payload ''seed'' then get_none payload ''seed'' = PInt seed else seed = randbits"
    using s(1) by (auto simp: get_default_def get_none_def has_key_def split: option.splits)
  ultimately show ?thesis by (auto simp: q src update_conv')
qed

section \<open>Responses\<close>

text \<open>The artifact a caller decodes from a response.\<close>

definition artifact :: "response \<Rightarrow> bytes option" where
  "artifact r =
     (case r of
        Raw b _ \<Rightarrow> Some b
      | Json (PDict d) \<Rightarrow>
          (case get_none d ''data'' of
             PList [PDict i] \<Rightarrow> (case get_none i ''b64_json'' of PStr s \<Rightarrow> b64decode s | _ \<Rightarrow> None)
           | _ \<Rightarrow> None)
      | _ \<Rightarrow> None)"

lemma artifact_body: "artifact (Json (PDict (media_body t m d @ xs))) = Some d"
  "artifact (Json (PDict (media_body t m d))) = Some d"
  by (simp_all add: artifact_def media_body_def get_none_def b64.dec_enc)

definition kind_allowed :: "registry \<Rightarrow> string \<Rightarrow> string \<Rightarrow> bool" where
  "kind_allowed ms model kind =
     (declared_kind ms model \<notin> {PStr ''video'', PStr ''audio'', PStr ''image''} \<or> declared_kind ms model = PStr kind)"

lemma generate_run:
  assumes "generate b e run kind model payload ins mime = Inr d"
  shows "\<exists>j. run j = Inr (d, mime) \<and> job_kind j = expected_kind kind \<and> kind_allowed (st_models b) (job_model j) (job_kind j)"
proof -
  from assms obtain j where j: "plan_generation b (env_hex e) kind model payload ins = Inr j" "run j = Inr (d, mime)"
    by (auto simp: generate_def split: prod.splits)
  have "job_kind j = expected_kind kind \<and> kind_allowed (st_models b) (job_model j) (job_kind j)"
    using j(1) unfolding plan_generation_def Let_def bindE_eq_Inr raise_if_eq_Inr
    by (auto simp: kind_allowed_def)
  with j(2) show ?thesis by blast
qed

lemma expected_kind_simps [simp]:
  "expected_kind ''video'' = ''video''" "expected_kind ''image'' = ''image''" "expected_kind ''audio'' = ''audio''"
  by (simp_all add: expected_kind_def)

text \<open>The artifact of a job that the endpoint of \<open>kind\<close> was allowed to start.\<close>

definition delivered ::
  "bridge \<Rightarrow> (job \<Rightarrow> (bytes \<times> string) res) \<Rightarrow> string \<Rightarrow> string \<Rightarrow> response \<Rightarrow> bool" where
  "delivered b run kind mime r =
     (\<exists>j d. run j = Inr (d, mime) \<and> job_kind j = kind \<and> kind_allowed (st_models b) (job_model j) kind
        \<and> artifact r = Some d)"

lemma delivered_json:
  assumes "generate b e run kind model payload ins mime = Inr d" "expected_kind kind = kind"
  shows "delivered b run kind mime (Json (PDict (media_body t mime d @ xs)))"
    "delivered b run kind mime (Json (PDict (media_body t mime d)))" "delivered b run kind mime (Raw d mime)"
  using generate_run [OF assms(1)] assms(2) by (auto simp: delivered_def artifact_body) (auto simp: artifact_def)

text \<open>C21. A successful response carries exactly the artifact that the runner returned for a job of the
  endpoint's own kind, on a model that the registry does not declare for another kind, with the endpoint's one content type, and for the JSON endpoints decoding the
  Base64 text gives back its bytes.\<close>

theorem endpoints_deliver:
  "(case video_generations b e locked run stream of Inr r \<Rightarrow> delivered b run ''video'' ''video/mp4'' r | Inl _ \<Rightarrow> True)
   \<and> (case image_generations b e run stream of Inr r \<Rightarrow> delivered b run ''image'' ''image/png'' r | Inl _ \<Rightarrow> True)
   \<and> (case image_edits b e run content_type stream of Inr r \<Rightarrow> delivered b run ''image'' ''image/png'' r | Inl _ \<Rightarrow> True)
   \<and> (case audio_generations b e run stream of Inr r \<Rightarrow> delivered b run ''audio'' ''audio/wav'' r | Inl _ \<Rightarrow> True)"
proof (intro conjI)
  show "case video_generations b e locked run stream of Inr r \<Rightarrow> delivered b run ''video'' ''video/mp4'' r | Inl _ \<Rightarrow> True"
    by (auto simp: video_generations_def delivered_json split: sum.split)
  show "case image_generations b e run stream of Inr r \<Rightarrow> delivered b run ''image'' ''image/png'' r | Inl _ \<Rightarrow> True"
    by (auto simp: image_generations_def delivered_json split: sum.split)
  show "case image_edits b e run content_type stream of Inr r \<Rightarrow> delivered b run ''image'' ''image/png'' r | Inl _ \<Rightarrow> True"
    by (auto simp: image_edits_def delivered_json split: sum.split)
  show "case audio_generations b e run stream of Inr r \<Rightarrow> delivered b run ''audio'' ''audio/wav'' r | Inl _ \<Rightarrow> True"
    by (auto simp: audio_generations_def delivered_json split: sum.split)
qed

section \<open>Selection\<close>

text \<open>A bridge configured for one model serves that model only: if the application starts with a
  selection, the selection without its surrounding white space is an entry of the registry, the
  served registry is that one entry, \<open>/v1/models\<close> lists it alone, and any other model in a request is
  refused. An empty or unknown selection stops the start.\<close>

theorem single_model_served:
  assumes "create_app urlsplit ms hb hc url uenv select menv = Inr b"
    and "(case select of None \<Rightarrow> menv | Some s \<Rightarrow> Some s) = Some v"
  shows "py_strip v \<noteq> [] \<and> map_of ms (py_strip v) \<noteq> None \<and> map fst (st_models b) = [py_strip v]
    \<and> st_media_model b = Some (py_strip v)
    \<and> list_models b t = PDict [(''object'', PStr ''list''), (''data'', PList [PDict [(''id'', PStr (py_strip v)),
         (''object'', PStr ''model''), (''created'', PInt t), (''owned_by'', PStr ''lloom'')]])]
    \<and> (case validate_model payload (map fst (st_models b)) of Inr m \<Rightarrow> m = py_strip v | Inl x \<Rightarrow> is_client_error x)"
proof -
  from assms have v: "py_strip v \<noteq> []" and s: "select_models ms (Some (py_strip v)) = Inr (st_models b)"
    and mm: "st_media_model b = (if length (st_models b) = 1 then Some (fst (hd (st_models b))) else None)"
    by (auto simp: create_app_def resolve_media_model_def)
  from s obtain meta where m: "map_of ms (py_strip v) = Some meta" "st_models b = [(py_strip v, meta)]"
    by (auto simp: select_models_def split: option.splits)
  have "case validate_model payload [py_strip v] of Inr m \<Rightarrow> m = py_strip v | Inl x \<Rightarrow> is_client_error x"
    using fails_json_scalars(1) [of payload "[py_strip v]"]
    by (cases "get_none payload ''model''") (auto simp: validate_model_def client_simps)
  with v m mm show ?thesis by (simp add: list_models_def)
qed

section \<open>A caller that hangs up\<close>


section \<open>Examples\<close>

definition demo_hex :: string where
  "demo_hex = replicate 32 (CHR ''a'')"

lemma demo_hex_ok: "uuid_hex demo_hex"
  by (simp add: uuid_hex_def demo_hex_def cp_def list_all_iff)

definition demo_inputs :: inputs where
  "demo_inputs = no_inputs\<lparr>in_image := Some (demo_png, ''image/png'', ''png''),
     in_audio := Some (''RIFF0000WAVE'', ''audio/wav'', ''wav'')\<rparr>"

theorem generated_names_accepted_witness:
  "check_names ''MiniMaxAI/MiniMax-H3'' (kwargs_of (frames_of (\<lambda>_. demo_hex) demo_inputs)) = Inr ()"
  using generated_names_accepted [of "\<lambda>_. demo_hex" demo_inputs 0] demo_hex_ok
  by (simp add: demo_inputs_def no_inputs_def)

definition demo_job :: job where
  "demo_job = \<lparr>job_kind = ''image'', job_model = ''Qwen/Qwen-Image-2.1'', job_payload = [],
     job_frames = [((demo_png, ''image/png'', ''png''), ''a.png'', ImageFilename)]\<rparr>"

definition demo_builder :: builder_fn where
  "demo_builder m p f pre = Inr ([], ''1'', ''image'')"

definition demo_upload_world :: world where
  "demo_upload_world = \<lparr>net = \<lambda>_. Resp 200 (Some (PDict [(''name'', PStr ''a.png'')])), latency = \<lambda>_. 1, calls = 0,
     now = 0, sent = []\<rparr>"

theorem uploads_after_graph_witness:
  "sent (snd (snd (build_job demo_builder demo_hex demo_comfy demo_job demo_upload_world)))
     = [Upload ''a.png'' demo_png ''image/png'']"
proof -
  let ?b = "build_job demo_builder demo_hex demo_comfy demo_job demo_upload_world"
  have r: "fst ?b = Inr ([], ''1'', ''image'')" by code_simp
  have "?b = (fst ?b, fst (snd ?b), snd (snd ?b))" by simp
  from uploads_after_graph [OF this, of "([], ''1'', ''image'')"] r show ?thesis
    by (simp add: demo_job_def upload_request_def demo_upload_world_def)
qed

theorem reported_seed_is_used_witness:
  "graph_seed 99 \<lparr>m_kind = ''image'', m_family = Some ''qwen-image-21''\<rparr> [(''seed'', PInt 7)] = Inr 7"
  using reported_seed_is_used [of 7 "''Qwen/Qwen-Image-2.1''" "[]" "[(''seed'', PInt 7)]" 7 "''random''"
      "\<lparr>m_kind = ''image'', m_family = Some ''qwen-image-21''\<rparr>" 99]
  by (simp add: prepare_image_seed_def qwen_21_models_def get_default_def has_key_def models_def)

definition demo_url :: url_parts where
  "demo_url = \<lparr>url_scheme = ''http'', url_user = None, url_password = None, url_query = [], url_fragment = [],
     url_path = [], url_hostname = Some ''127.0.0.1'', url_port = Inr (Some 8188), url_netloc = ''127.0.0.1:8188''\<rparr>"

definition demo_registry :: registry where
  "demo_registry = [(''a'', PDict [(''kind'', PStr ''image'')]), (''b'', PDict [(''kind'', PStr ''video'')])]"

theorem single_model_served_witness:
  "\<exists>b. create_app (\<lambda>_. Some demo_url) demo_registry True True None None (Some '' b '') None = Inr b
     \<and> map fst (st_models b) = [''b'']"
proof -
  have s: "py_strip '' b '' = ''b''" by code_simp
  let ?r = "create_app (\<lambda>_. Some demo_url) demo_registry True True None None (Some '' b '') None"
  have "case ?r of Inr _ \<Rightarrow> True | Inl _ \<Rightarrow> False" by code_simp
  then obtain b where b: "?r = Inr b" by (cases ?r) auto
  have sel: "(case Some '' b '' of None \<Rightarrow> None | Some x \<Rightarrow> Some x) = Some '' b ''" by (rule option.case(2))
  have "map fst (st_models b) = [py_strip '' b '']"
    using single_model_served [OF b sel, of 0 "[]"] by (elim conjE)
  with b s show ?thesis by metis
qed

end
