(* ===== verification/Py_Path.thy ===== *)
theory Py_Path
  imports Py_Text
begin

text \<open>
  \<open>pathlib\<close> paths without a file system: the anchor and the parts of a POSIX path, joining with
  \<open>/\<close>, the text of a path and its last part. Empty parts and \<open>.\<close> are dropped, \<open>..\<close> is kept.
\<close>

type_synonym path = "string \<times> string list"

definition pure_path :: "string \<Rightarrow> path" where
  "pure_path s =
     ((if prefix ''///'' s then ''/'' else if prefix ''//'' s then ''//'' else if prefix ''/'' s then ''/'' else []),
      filter (\<lambda>w. w \<noteq> [] \<and> w \<noteq> ''.'') (split_on (CHR ''/'') s))"

definition path_div :: "path \<Rightarrow> string \<Rightarrow> path" where
  "path_div p s = (let q = pure_path s in if fst q \<noteq> [] then q else (fst p, snd p @ snd q))"

definition path_str :: "path \<Rightarrow> string" where
  "path_str p = (if fst p = [] \<and> snd p = [] then ''.'' else fst p @ join_with ''/'' (snd p))"

definition path_name :: "path \<Rightarrow> string" where
  "path_name p = (if snd p = [] then [] else last (snd p))"

text \<open>Joining a name without a slash adds one part.\<close>

lemma path_div_name:
  assumes "CHR ''/'' \<notin> set s" "s \<noteq> []" "s \<noteq> ''.''"
  shows "path_div p s = (fst p, snd p @ [s])"
proof -
  have "split_on (CHR ''/'') s = [s]" if "CHR ''/'' \<notin> set s" for s
    using that by (induction s) auto
  then have "split_on (CHR ''/'') s = [s]" using assms(1) by blast
  moreover from assms(1,2) have "\<not> prefix ''/'' s" by (cases s) auto
  moreover from this have "\<not> prefix ''//'' s" "\<not> prefix ''///'' s" by (auto simp: prefix_def)
  ultimately show ?thesis using assms by (simp add: path_div_def pure_path_def Let_def)
qed

end
