(* ===== verification/Ltx_Table.thy ===== *)
theory Ltx_Table
  imports Py_Path Codecs
begin

text \<open>
  \<open>backends/ltx-pipelines/pipelines.py\<close>, first part: the limits, the component files, the table
  of models and workflows, \<open>ApiError\<close>, the components a run needs and where they are found, and
  the description of the table. The file system is a pair of tests, \<open>is_dir\<close> and \<open>is_file\<close>.
\<close>

section \<open>Errors\<close>

text \<open>\<open>ApiError\<close> with its message, code and status; any other exception leaves the module as it is.\<close>

datatype api_exn = ApiError string string int | KeyErr | PyError exn

type_synonym 'a api = "api_exn + 'a"

definition invalid :: "string \<Rightarrow> api_exn" where
  "invalid msg = ApiError msg ''invalid_request'' 400"

definition too_large :: "string \<Rightarrow> api_exn" where
  "too_large msg = ApiError msg ''body_too_large'' 413"

section \<open>Limits\<close>

definition max_keyframes :: nat where "max_keyframes = 8"
definition ltx_prompt_chars :: nat where "ltx_prompt_chars = 32768"
definition max_negative_chars :: nat where "max_negative_chars = 8192"
definition ltx_image_bytes :: nat where "ltx_image_bytes = 16 * 1024 * 1024"
definition ltx_audio_bytes :: nat where "ltx_audio_bytes = 48 * 1024 * 1024"
definition max_image_pixels :: int where "max_image_pixels = 4096 * 4096"
definition max_audio_seconds :: rat where "max_audio_seconds = 600"
definition min_dimension :: int where "min_dimension = 64"
definition max_dimension :: int where "max_dimension = 2048"
definition dimension_step :: int where "dimension_step = 64"
definition max_pixels :: int where "max_pixels = 1920 * 1088"
definition min_frames :: int where "min_frames = 9"
definition max_frames :: int where "max_frames = 8 * 60 + 1"
definition max_duration :: rat where "max_duration = 20"
definition max_steps :: int where "max_steps = 100"
definition max_seed :: int where "max_seed = 2 ^ 63 - 1"

definition offload_modes :: "string list" where
  "offload_modes = [''none'', ''cpu'', ''disk'']"

definition quantization_policies :: "string list" where
  "quantization_policies = [''fp8-cast'', ''fp8-scaled-mm'', ''nvfp4-cast'', ''nvfp4-prequant'']"

lemmas limit_defs = max_keyframes_def ltx_prompt_chars_def max_negative_chars_def ltx_image_bytes_def
  ltx_audio_bytes_def max_image_pixels_def max_audio_seconds_def min_dimension_def max_dimension_def
  dimension_step_def max_pixels_def min_frames_def max_frames_def max_duration_def max_steps_def max_seed_def

section \<open>Components\<close>

definition model_files :: "(string \<times> string) list" where
  "model_files =
    [(''dev_transformer'', ''diffusion_models/ltx-2.5-22b-dev-transformer-bf16.safetensors''),
     (''distilled_transformer'', ''diffusion_models/ltx-2.5-22b-distilled-transformer-bf16.safetensors''),
     (''distilled_transformer_nvfp4'', ''diffusion_models/ltx-2.5-22b-distilled-transformer-nvfp4.safetensors''),
     (''text_encoder'', ''text_encoders/gemma4-12b-with-proj-ltx-2.5-bf16.safetensors''),
     (''video_vae'', ''vae/ltx-2.5-video-vae-bf16.safetensors''),
     (''audio_vae'', ''vae/ltx-2.5-audio-vae-bf16.safetensors''),
     (''spatial_upsampler'', ''latent_upscale_models/ltx-2.5-latent-spatial-upscaler-x2-bf16-1.0.safetensors''),
     (''temporal_upsampler'', ''latent_upscale_models/ltx-2.5-latent-temporal-upscaler-x2-bf16-1.0.safetensors''),
     (''distilled_lora'', ''loras/ltx-2.5-22b-distilled-lora-450-bf16.safetensors''),
     (''detailing_lora'', ''loras/ltx-2.5-22b-ic-lora-pixel-spatial-upscaler-x2-1.0.safetensors'')]"

definition base_assets :: "string list" where
  "base_assets = [''text_encoder'', ''video_vae'', ''audio_vae'', ''spatial_upsampler'']"

section \<open>Models and workflows\<close>

record ltx_spec =
  module :: string
  spec_title :: string
  transformer :: string
  assets :: "string list"
  supports_negative_prompt :: bool
  supports_guidance :: bool
  supports_steps :: bool
  supports_generated_keyframes :: bool
  accepts_audio :: bool
  accepts_video :: bool
  requires_audio :: bool
  supports_temporal_upscalings :: bool
  supports_chunked :: bool
  default_width :: int
  default_height :: int
  default_num_frames :: int
  default_frame_rate :: rat
  default_seed :: int
  default_steps :: "int option"

text \<open>\<open>_pipeline\<close> without its flags; \<open>spec.update(flags)\<close> is a record update.\<close>

definition pipeline :: "string \<Rightarrow> string \<Rightarrow> string \<Rightarrow> string list \<Rightarrow> ltx_spec" where
  "pipeline m t tr as =
     \<lparr>module = m, spec_title = t, transformer = tr, assets = as, supports_negative_prompt = False,
      supports_guidance = False, supports_steps = False, supports_generated_keyframes = False,
      accepts_audio = False, accepts_video = False, requires_audio = False,
      supports_temporal_upscalings = False, supports_chunked = False, default_width = 832,
      default_height = 512, default_num_frames = 121, default_frame_rate = 24, default_seed = 0,
      default_steps = None\<rparr>"

definition full_workflows :: "(string \<times> ltx_spec) list" where
  "full_workflows =
    [(''generate'',
       (pipeline ''ltx_pipelines.ti2vid_two_stages'' ''LTX-2.5 Full (guided two-stage generate)''
          ''dev_transformer'' [''distilled_lora''])
        \<lparr>supports_negative_prompt := True, supports_guidance := True, supports_steps := True,
         supports_generated_keyframes := True, supports_chunked := True, default_steps := Some 30\<rparr>),
     (''generate-hq'',
       (pipeline ''ltx_pipelines.ti2vid_two_stages_hq'' ''LTX-2.5 Full (res_2s guided two-stage generate-hq)''
          ''dev_transformer'' [''distilled_lora''])
        \<lparr>supports_negative_prompt := True, supports_guidance := True, supports_steps := True,
         supports_generated_keyframes := True, default_steps := Some 15\<rparr>),
     (''audio-to-video'',
       (pipeline ''a2v'' ''LTX-2.5 Full (native ancestral audio-to-video, frozen audio)''
          ''dev_transformer'' [''distilled_lora''])
        \<lparr>supports_negative_prompt := True, supports_guidance := True, supports_steps := True,
         accepts_audio := True, requires_audio := True, supports_chunked := True, default_steps := Some 30\<rparr>),
     (''keyframes'',
       (pipeline ''ltx_pipelines.keyframe_interpolation'' ''LTX-2.5 Full (native keyframe interpolation)''
          ''dev_transformer'' [''distilled_lora''])
        \<lparr>supports_negative_prompt := True, supports_guidance := True, supports_steps := True,
         default_steps := Some 30\<rparr>)]"

definition distilled_workflows :: "(string \<times> ltx_spec) list" where
  "distilled_workflows =
    [(''generate'',
       (pipeline ''ltx_pipelines.distilled'' ''LTX-2.5 Distilled (native BF16 fast generate)''
          ''distilled_transformer'' [])
        \<lparr>supports_generated_keyframes := True, supports_chunked := True\<rparr>),
     (''retake'',
       (pipeline ''ltx_pipelines.retake'' ''LTX-2.5 Distilled (retake an existing video interval)''
          ''distilled_transformer'' [])\<lparr>accepts_video := True\<rparr>),
     (''refine'',
       (pipeline ''ltx_pipelines.dfr_pipeline'' ''LTX-2.5 Distilled (production refine/detailing)''
          ''distilled_transformer'' [''detailing_lora''])\<lparr>supports_temporal_upscalings := True\<rparr>)]"

definition pipelines :: "(string \<times> (string \<times> ltx_spec) list) list" where
  "pipelines = [(''Lightricks/LTX-2.5-Full'', full_workflows), (''Lightricks/LTX-2.5-Distilled'', distilled_workflows)]"

definition default_workflow :: string where "default_workflow = ''generate''"

definition model_id_list :: "string list" where "model_id_list = map fst pipelines"

section \<open>The components of a run\<close>

text \<open>\<open>tuple(dict.fromkeys(xs))\<close>: the first occurrences, in order.\<close>

definition from_keys :: "'a list \<Rightarrow> 'a list" where
  "from_keys xs = rev (remdups (rev xs))"

definition required_assets :: "ltx_spec \<Rightarrow> int \<Rightarrow> string list" where
  "required_assets spec temporal =
     from_keys
      (transformer spec # filter (\<lambda>k. k \<noteq> ''spatial_upsampler'' \<or> \<not> accepts_video spec) base_assets @ assets spec
       @ (if supports_temporal_upscalings spec \<and> 0 < temporal then [''temporal_upsampler''] else []))"

definition detailing_directory :: string where
  "detailing_directory = ''Lightricks--LTX-2.5-22b-IC-LoRA-Pixel-Spatial-Upscaler''"

text \<open>Where one component is looked for: in the pack, the detailing adapter else in its own directory.\<close>

definition locate :: "(path \<Rightarrow> bool) \<Rightarrow> path \<Rightarrow> path \<Rightarrow> string \<Rightarrow> path api" where
  "locate is_file top_dir pack key =
     (case map_of model_files key of
        None \<Rightarrow> Inl KeyErr
      | Some file \<Rightarrow>
          let p = path_div pack file
          in Inr (if key = ''detailing_lora'' \<and> \<not> is_file p
                  then path_div (path_div top_dir detailing_directory) (path_name (pure_path file)) else p))"

definition resolve_assets ::
  "(path \<Rightarrow> bool) \<Rightarrow> (path \<Rightarrow> bool) \<Rightarrow> string \<Rightarrow> ltx_spec \<Rightarrow> int \<Rightarrow> (string \<times> path) list api" where
  "resolve_assets is_dir is_file model_root spec temporal =
     (let top_dir = pure_path model_root;
          pack = (let d = path_div top_dir ''Lightricks--LTX-2.5'' in if is_dir d then d else top_dir)
      in bindE (forE (required_assets spec temporal)
           (\<lambda>key (resolved, missing). bindE (locate is_file top_dir pack key) (\<lambda>p.
              Inr (resolved @ [(key, p)], if is_file p then missing else missing @ [path_str p]))) ([], []))
         (\<lambda>(resolved, missing).
           raise_if (missing \<noteq> [])
             (ApiError (''Missing model components under MODEL_ROOT: '' @ join_with '', '' missing)
               ''model_unavailable'' 503)
             (Inr resolved)))"

section \<open>The description of the table\<close>

definition component_files :: "ltx_spec \<Rightarrow> pyval" where
  "component_files spec =
     PList (map (\<lambda>k. case map_of model_files k of None \<Rightarrow> PNone | Some f \<Rightarrow> PStr f) (required_assets spec 0))"

definition describe_workflow :: "ltx_spec \<Rightarrow> pyval" where
  "describe_workflow spec =
     PDict
      [(''module'', PStr (module spec)), (''title'', PStr (spec_title spec)),
       (''required_assets'', component_files spec),
       (''capabilities'', PDict
         [(''negative_prompt'', PBool (supports_negative_prompt spec)), (''guidance'', PBool (supports_guidance spec)),
          (''steps'', PBool (supports_steps spec)),
          (''sampler'', if requires_audio spec then PList [PStr ''euler'', PStr ''euler_ancestral''] else PBool False),
          (''generated_keyframes'', PBool (supports_generated_keyframes spec)),
          (''audio'', PBool (accepts_audio spec)), (''video'', PBool (accepts_video spec)),
          (''image_strength'', PBool (\<not> accepts_video spec)), (''structured_prompt'', PBool True),
          (''temporal_upscalings'', PBool (supports_temporal_upscalings spec))]),
       (''defaults'', PDict
         ([(''width'', PInt (default_width spec)), (''height'', PInt (default_height spec)),
           (''num_frames'', PInt (default_num_frames spec)), (''frame_rate'', PFloat (default_frame_rate spec)),
           (''steps'', case default_steps spec of None \<Rightarrow> PNone | Some n \<Rightarrow> PInt n)]
          @ (if requires_audio spec then
               [(''sampler'', PStr ''euler_ancestral''), (''image_strength'', flt (7 / 10)),
                (''guidance_scale'', PFloat 3), (''stg_scale'', PFloat 0), (''rescale_scale'', PFloat 0),
                (''a2v_guidance_scale'', PFloat 1)]
             else [])))]"

definition describe :: pyval where
  "describe =
     PList (map (\<lambda>(model, workflows). PDict
       [(''id'', PStr model), (''default_workflow'', PStr default_workflow),
        (''workflows'', PDict (map (\<lambda>(w, spec). (w, describe_workflow spec)) workflows))]) pipelines)"

end
