(* ===== verification/Ltx_Media.thy ===== *)
theory Ltx_Media
  imports Ltx_Table
begin

text \<open>
  \<open>backends/ltx-pipelines/pipelines.py\<close>, second part: the media of a request. The PNG, JPEG, WAV
  and FLAC headers are read byte by byte as the code does; what Pillow, soundfile, ffprobe and
  ffmpeg answer is the record \<open>tools\<close>.
\<close>

section \<open>Bytes\<close>

text \<open>\<open>raw[a:b]\<close> and \<open>int.from_bytes\<close>.\<close>

definition slice :: "nat \<Rightarrow> nat \<Rightarrow> bytes \<Rightarrow> bytes" where
  "slice a b raw = take (b - a) (drop a raw)"

definition from_big :: "bytes \<Rightarrow> int" where
  "from_big s = foldl (\<lambda>n c. 256 * n + int (cp c)) 0 s"

definition from_little :: "bytes \<Rightarrow> int" where
  "from_little s = from_big (rev s)"

text \<open>
  The external decoders: whether Pillow verifies and loads an image; what \<open>SoundFile\<close> reports, with the
  number of frames its blocks hold (\<open>None\<close>: reading one raises); the \<open>streams\<close> that ffprobe prints;
  whether ffmpeg decodes a clip; and the clip with its sound mixed to stereo.
\<close>

record sound_file =
  sf_channels :: int
  sf_rate :: int
  sf_frames :: int
  sf_count :: "int option"

record tools =
  pil_loads :: "bytes \<Rightarrow> bool"
  sf_open :: "bytes \<Rightarrow> sound_file option"
  ff_probe :: "bytes \<Rightarrow> pydict list option"
  ff_plays :: "bytes \<Rightarrow> bool"
  ff_stereo :: "bytes \<Rightarrow> string \<Rightarrow> bytes option"

section \<open>Images\<close>

text \<open>The marker scan of a JPEG: the frame size, \<open>(0, 0)\<close> when none is found; \<open>None\<close> is a truncated frame.\<close>

function jpeg_size :: "bytes \<Rightarrow> nat \<Rightarrow> (int \<times> int) option" where
  "jpeg_size raw i =
     (if i + 4 \<le> length raw then
        (if raw ! i \<noteq> CHR 0xFF then jpeg_size raw (i + 1)
         else
          (let marker = cp (raw ! (i + 1)) in
           if marker \<in> {0xD8, 0x01} \<or> 0xD0 \<le> marker \<and> marker \<le> 0xD7 then jpeg_size raw (i + 2)
           else if marker = 0xD9 then Some (0, 0)
           else if 0xC0 \<le> marker \<and> marker \<le> 0xCF \<and> marker \<notin> {0xC4, 0xC8, 0xCC} then
             (if length raw < i + 9 then None
              else Some (from_big (slice (i + 7) (i + 9) raw), from_big (slice (i + 5) (i + 7) raw)))
           else jpeg_size raw (i + 2 + nat (from_big (slice (i + 2) (i + 4) raw)))))
      else Some (0, 0))"
  by pat_completeness auto
termination
  by (relation "measure (\<lambda>(raw, i). length raw - i)") auto

declare jpeg_size.simps [simp del]

definition png_signature :: bytes where
  "png_signature = [CHR 0x89, CHR ''P'', CHR ''N'', CHR ''G'', CHR 0x0D, CHR 0x0A, CHR 0x1A, CHR 0x0A]"

text \<open>The size that the header of a PNG or JPEG declares, with the format.\<close>

definition image_size :: "bytes \<Rightarrow> string \<Rightarrow> (string \<times> int \<times> int) api" where
  "image_size raw field =
     (if prefix png_signature raw then
        raise_if (length raw < 33 \<or> slice 12 16 raw \<noteq> ''IHDR'') (invalid (field @ '' is not a valid PNG image''))
          (Inr (''png'', from_big (slice 16 20 raw), from_big (slice 20 24 raw)))
      else if prefix [CHR 0xFF, CHR 0xD8] raw then
        (case jpeg_size raw 2 of
           None \<Rightarrow> Inl (invalid (field @ '' is not a valid JPEG image''))
         | Some (w, h) \<Rightarrow>
             raise_if (w = 0 \<or> h = 0) (invalid (field @ '' is not a valid JPEG image'')) (Inr (''jpeg'', w, h)))
      else Inl (invalid (field @ '' is not a PNG or JPEG image'')))"

definition decode_image :: "tools \<Rightarrow> bytes \<Rightarrow> string \<Rightarrow> (string \<times> int \<times> int) api" where
  "decode_image x raw field =
     bindE (image_size raw field) (\<lambda>(fmt, w, h).
       raise_if (w < 1 \<or> h < 1) (invalid (field @ '' has an invalid image size''))
       (raise_if (max_image_pixels < w * h)
          (too_large (field @ '' exceeds '' @ show_int max_image_pixels @ '' pixels''))
       (raise_if (\<not> pil_loads x raw) (invalid (field @ '' is not a valid '' @ map upper_char fmt @ '' image''))
          (Inr (fmt, w, h)))))"

section \<open>Audio\<close>

record audio_info =
  ai_format :: string
  ai_channels :: int
  ai_rate :: int
  ai_bits :: int
  ai_duration :: "rat option"

type_synonym wav_format = "int \<times> int \<times> int"

text \<open>The chunks of a WAV file: channels, sample rate and bits of the format, and the size of the data.\<close>

function wav_chunks ::
  "bytes \<Rightarrow> string \<Rightarrow> nat \<Rightarrow> wav_format option \<Rightarrow> int option \<Rightarrow> (wav_format option \<times> int option) api" where
  "wav_chunks raw field i fmt data =
     (if i + 8 \<le> length raw then
        (let chunk = slice i (i + 4) raw; size = nat (from_little (slice (i + 4) (i + 8) raw)); body = i + 8;
             after = body + size + size mod 2
         in if length raw < body + size then Inl (invalid (field @ '' has a truncated WAV chunk''))
            else if chunk = ''fmt '' then
              (if size < 16 \<or> length raw < body + 16
               then Inl (invalid (field @ '' has a truncated WAV format chunk''))
               else wav_chunks raw field after
                 (Some (from_little (slice (body + 2) (body + 4) raw), from_little (slice (body + 4) (body + 8) raw),
                        from_little (slice (body + 14) (body + 16) raw))) data)
            else if chunk = ''data'' then wav_chunks raw field after fmt (Some (int size))
            else wav_chunks raw field after fmt data)
      else Inr (fmt, data))"
  by pat_completeness auto
termination
  by (relation "measure (\<lambda>(raw, field, i, fmt, data). length raw - i)") auto

declare wav_chunks.simps [simp del]

definition decode_wav :: "bytes \<Rightarrow> string \<Rightarrow> audio_info api" where
  "decode_wav raw field =
     raise_if (slice 0 4 raw \<noteq> ''RIFF'' \<or> slice 8 12 raw \<noteq> ''WAVE'') (invalid (field @ '' is not a valid WAV file''))
     (bindE (wav_chunks raw field 12 None None) (\<lambda>r.
        case r of
          (Some (channels, rate, bits), Some data) \<Rightarrow>
            raise_if (channels < 1 \<or> rate < 1 \<or> bits < 8) (invalid (field @ '' has an unsupported WAV layout''))
            (Inr \<lparr>ai_format = ''wav'', ai_channels = channels, ai_rate = rate, ai_bits = bits,
                  ai_duration = Some (rnd53 (of_int data / of_int (rate * channels * (bits div 8))))\<rparr>)
        | _ \<Rightarrow> Inl (invalid (field @ '' is missing WAV format/data chunks''))))"

text \<open>The facts packed into octets 10 to 17 of STREAMINFO; \<open>>>\<close> and \<open>&\<close> of a non-negative integer.\<close>

definition stream_info :: "bytes \<Rightarrow> string \<Rightarrow> audio_info api" where
  "stream_info block field =
     (let packed = from_big (slice 10 18 block);
          rate = packed div 2 ^ 44 mod 2 ^ 20;
          channels = packed div 2 ^ 41 mod 2 ^ 3 + 1;
          bits = packed div 2 ^ 36 mod 2 ^ 5 + 1;
          total = packed mod 2 ^ 36
      in raise_if (rate < 1) (invalid (field @ '' has an invalid FLAC sample rate''))
           (Inr \<lparr>ai_format = ''flac'', ai_channels = channels, ai_rate = rate, ai_bits = bits,
                 ai_duration = (if total = 0 then None else Some (rnd53 (of_int total / of_int rate)))\<rparr>))"

function flac_blocks :: "bytes \<Rightarrow> string \<Rightarrow> nat \<Rightarrow> audio_info api" where
  "flac_blocks raw field i =
     (if i + 4 \<le> length raw then
        (let header = cp (raw ! i); size = nat (from_big (slice (i + 1) (i + 4) raw)) in
         if header mod 128 = 0 then
           (if size < 34 then Inl (invalid (field @ '' has a truncated FLAC STREAMINFO block''))
            else stream_info (slice (i + 4) (i + 4 + size) raw) field)
         else if 128 \<le> header then Inl (invalid (field @ '' is missing a FLAC STREAMINFO block''))
         else flac_blocks raw field (i + 4 + size))
      else Inl (invalid (field @ '' is missing a FLAC STREAMINFO block'')))"
  by pat_completeness auto
termination
  by (relation "measure (\<lambda>(raw, field, i). length raw - i)") auto

declare flac_blocks.simps [simp del]

definition decode_flac :: "bytes \<Rightarrow> string \<Rightarrow> audio_info api" where
  "decode_flac raw field =
     raise_if (slice 0 4 raw \<noteq> ''fLaC'') (invalid (field @ '' is not a valid FLAC file'')) (flac_blocks raw field 4)"

text \<open>The checks on what soundfile reports, and the duration it measures.\<close>

definition measured :: "sound_file \<Rightarrow> audio_info \<Rightarrow> string \<Rightarrow> string \<Rightarrow> rat api" where
  "measured s info audio_format field =
     raise_if (sf_channels s \<notin> {1, 2} \<or> \<not> (8000 \<le> sf_rate s \<and> sf_rate s \<le> 192000))
       (invalid (field @ '' must have 1-2 channels and an 8-192 kHz sample rate''))
     (raise_if (sf_frames s \<le> 0 \<or> max_audio_seconds < rnd53 (of_int (sf_frames s) / of_int (sf_rate s)))
       (invalid (field @ '' has an invalid audio duration''))
     (case sf_count s of
        None \<Rightarrow> Inl (invalid (field @ '' is not a valid '' @ map upper_char audio_format @ '' file''))
      | Some count \<Rightarrow>
          (let seconds = rnd53 (of_int count / of_int (sf_rate s)) in
           raise_if (count \<noteq> sf_frames s) (invalid (field @ '' contains truncated audio''))
           (raise_if (case ai_duration info of None \<Rightarrow> False
                      | Some d \<Rightarrow> rnd53 (1 / of_int (sf_rate s)) < \<bar>rnd53 (seconds - d)\<bar>)
              (invalid (field @ '' contains truncated audio''))
           (Inr seconds)))))"

definition ltx_decode_audio :: "tools \<Rightarrow> bytes \<Rightarrow> string \<Rightarrow> string \<Rightarrow> audio_info api" where
  "ltx_decode_audio x raw audio_format field =
     bindE (if audio_format = ''wav'' then decode_wav raw field
            else if audio_format = ''flac'' then decode_flac raw field
            else Inl (invalid (field @ '' must be WAV or FLAC''))) (\<lambda>info.
       raise_if (case ai_duration info of None \<Rightarrow> False | Some d \<Rightarrow> max_audio_seconds < d)
         (too_large (field @ '' exceeds '' @ float_repr max_audio_seconds @ '' seconds''))
       (case sf_open x raw of
          None \<Rightarrow> Inl (invalid (field @ '' is not a valid '' @ map upper_char audio_format @ '' file''))
        | Some s \<Rightarrow> bindE (measured s info audio_format field) (\<lambda>d. Inr (info\<lparr>ai_duration := Some d\<rparr>))))"

section \<open>Data URIs\<close>

text \<open>A pattern is the list of the headers it admits, each with the group it captures.\<close>

definition image_data_re :: "(string \<times> string) list" where
  "image_data_re = [(''data:image/png;base64,'', ''png''), (''data:image/jpeg;base64,'', ''jpeg'')]"

definition audio_data_re :: "(string \<times> string) list" where
  "audio_data_re =
    [(''data:audio/wav;base64,'', ''wav''), (''data:audio/x-wav;base64,'', ''wav''),
     (''data:audio/flac;base64,'', ''flac''), (''data:audio/x-flac;base64,'', ''flac'')]"

definition video_data_re :: "(string \<times> string) list" where
  "video_data_re = [(''data:video/mp4;base64,'', ''video/mp4'')]"

definition match_header :: "(string \<times> string) list \<Rightarrow> string \<Rightarrow> (string \<times> string) option" where
  "match_header pat s =
     (case find (\<lambda>(h, g). prefix h s) pat of
        None \<Rightarrow> None
      | Some (h, g) \<Rightarrow>
          let data = drop (length h) s in if data \<noteq> [] \<and> list_all b64_class data then Some (g, data) else None)"

definition ltx_data_uri :: "pyval \<Rightarrow> (string \<times> string) list \<Rightarrow> string \<Rightarrow> nat \<Rightarrow> string \<Rightarrow> (bytes \<times> string) api" where
  "ltx_data_uri v pat field limit label =
     (case v of
        PStr s \<Rightarrow>
          (case match_header pat (py_strip s) of
             None \<Rightarrow> Inl (invalid (field @ '' must be a base64 '' @ label @ '' data URI''))
           | Some (g, data) \<Rightarrow>
               (case b64decode (filter (\<lambda>c. \<not> is_space c) data) of
                  None \<Rightarrow> Inl (invalid (field @ '' is not valid base64''))
                | Some raw \<Rightarrow>
                    raise_if (raw = []) (invalid (field @ '' decoded to zero bytes''))
                    (raise_if (limit < length raw)
                       (too_large (field @ '' exceeds '' @ show_nat limit @ '' bytes''))
                    (Inr (raw, g)))))
      | _ \<Rightarrow> Inl (invalid (field @ '' must be an inline data URI string'')))"

section \<open>The source video of a retake\<close>

record source_video =
  vid_bytes :: bytes
  vid_width :: int
  vid_height :: int
  vid_frames :: int
  vid_rate :: rat
  vid_duration :: rat

definition bad_video :: api_exn where
  "bad_video = invalid ''video is malformed or cannot be decoded within its limits''"

text \<open>The exceptions of the probe: every one the code names is reported as a malformed video.\<close>

definition probed :: "'a res \<Rightarrow> 'a api" where
  "probed r = (case r of Inr a \<Rightarrow> Inr a | Inl TypeErr \<Rightarrow> Inl (PyError TypeErr)
     | Inl OverflowErr \<Rightarrow> Inl (PyError OverflowErr) | Inl _ \<Rightarrow> Inl bad_video)"

text \<open>\<open>Fraction(s)\<close> for the rational texts ffprobe writes, \<open>24/1\<close> or \<open>24\<close>.\<close>

definition fraction :: "pyval \<Rightarrow> rat res" where
  "fraction v =
     (case v of
        PStr s \<Rightarrow>
          (case split_on (CHR ''/'') s of
             [a] \<Rightarrow> if digit_group a then Inr (of_int (int_of_digits (digits_only a))) else Inl (ValueErr [])
           | [a, b] \<Rightarrow>
               if digit_group a \<and> digit_group b \<and> int_of_digits (digits_only b) \<noteq> 0
               then Inr (of_int (int_of_digits (digits_only a)) / of_int (int_of_digits (digits_only b)))
               else Inl (ValueErr [])
           | _ \<Rightarrow> Inl (ValueErr []))
      | PInt i \<Rightarrow> Inr (of_int i)
      | _ \<Rightarrow> Inl TypeErr)"

definition is_integer :: "rat \<Rightarrow> bool" where
  "is_integer x = (of_int \<lfloor>x\<rfloor> = x)"

definition retake_canvas_ok :: "int \<Rightarrow> int \<Rightarrow> bool" where
  "retake_canvas_ok w h =
     (64 \<le> w \<and> w \<le> max_dimension \<and> 64 \<le> h \<and> h \<le> max_dimension \<and> w * h \<le> max_pixels
      \<and> w mod 32 = 0 \<and> h mod 32 = 0)"

definition retake_timing_ok :: "int \<Rightarrow> rat \<Rightarrow> bool" where
  "retake_timing_ok n fps =
     (min_frames \<le> n \<and> n \<le> max_frames \<and> (n - 1) mod 8 = 0 \<and> 1 \<le> fps \<and> fps \<le> 60
      \<and> rnd53 (of_int (n - 1) / fps) \<le> max_duration)"

text \<open>The stream checks: width, height, frame count and frame rate of an admissible clip.\<close>

definition probe_shape :: "pydict \<Rightarrow> (int \<times> int \<times> int \<times> rat) api" where
  "probe_shape stream =
     bindE (probed (bindE (item stream ''width'') py_int)) (\<lambda>w.
     bindE (probed (bindE (item stream ''height'') py_int)) (\<lambda>h.
     bindE (probed (bindE (item stream ''nb_read_frames'') py_int)) (\<lambda>n.
     bindE (probed (bindE (item stream ''avg_frame_rate'') fraction)) (\<lambda>avg.
     let fps = rnd53 avg in
     raise_if (\<not> retake_canvas_ok w h) (invalid ''retake video dimensions must be bounded multiples of 32'')
     (bindE (if is_integer fps then bindE (probed (bindE (item stream ''r_frame_rate'') fraction)) (\<lambda>r. Inr (r \<noteq> avg))
             else Inr True) (\<lambda>uneven.
      raise_if uneven (invalid ''Retake requires a constant integer frame rate (for example 24 or 30 fps)'')
      (raise_if (\<not> retake_timing_ok n fps)
         (invalid ''retake video needs 8k+1 frames, at most 20 seconds and 1-60 fps'')
      (Inr (w, h, n, fps)))))))))"

text \<open>The sound of a clip is mixed to stereo unless it has none or two channels.\<close>

definition stereo_bytes :: "tools \<Rightarrow> bytes \<Rightarrow> pydict list \<Rightarrow> rat \<Rightarrow> bytes api" where
  "stereo_bytes x raw streams seconds =
     bindE (probed (first_stream ''audio'' streams)) (\<lambda>a.
       case a of
         None \<Rightarrow> Inr raw
       | Some s \<Rightarrow>
           if s = [] \<or> py_eq (get_none s ''channels'') (PInt 2) then Inr raw
           else
             (case ff_stereo x raw (float_repr seconds) of
                None \<Rightarrow> Inl bad_video
              | Some out \<Rightarrow>
                  raise_if (33 * 1024 * 1024 < length out)
                    (invalid ''normalized retake video exceeds the size limit'') (Inr out)))"

definition decode_video :: "tools \<Rightarrow> pyval \<Rightarrow> source_video api" where
  "decode_video x v =
     bindE (ltx_data_uri v video_data_re ''video'' (32 * 1024 * 1024) ''MP4'') (\<lambda>(raw, _).
       raise_if (length raw < 12 \<or> slice 4 8 raw \<noteq> ''ftyp'') (invalid ''video must be an MP4 file'')
       (case ff_probe x raw of
          None \<Rightarrow> Inl bad_video
        | Some streams \<Rightarrow>
            bindE (probed (first_stream ''video'' streams)) (\<lambda>found.
              case found of
                None \<Rightarrow> Inl bad_video
              | Some stream \<Rightarrow>
                  bindE (probe_shape stream) (\<lambda>(w, h, n, fps).
                    raise_if (\<not> ff_plays x raw) bad_video
                    (bindE (stereo_bytes x raw streams (rnd53 (of_int n / fps))) (\<lambda>out.
                       Inr \<lparr>vid_bytes = out, vid_width = w, vid_height = h, vid_frames = n, vid_rate = fps,
                            vid_duration = rnd53 (of_int n / fps)\<rparr>))))))"

end
