(* ===== verification/Ltx_Headers.thy ===== *)
theory Ltx_Headers
  imports Ltx_Media
begin

text \<open>
  Reference writers of WAV and FLAC headers, and the proof that the byte readers of \<open>Ltx_Media\<close> give back
  what was written: numbers of a fixed width in both byte orders, chunks, and the packed STREAMINFO.
\<close>

section \<open>Numbers of a fixed width\<close>

fun to_little :: "nat \<Rightarrow> int \<Rightarrow> bytes" where
  "to_little 0 i = []"
| "to_little (Suc k) i = char_of (i mod 256) # to_little k (i div 256)"

definition to_big :: "nat \<Rightarrow> int \<Rightarrow> bytes" where
  "to_big k i = rev (to_little k i)"

lemma length_to_little [simp]: "length (to_little k i) = k" "length (to_big k i) = k"
  by (induction k arbitrary: i) (simp_all add: to_big_def)

lemma from_big_snoc: "from_big (s @ [c]) = 256 * from_big s + int (cp c)"
  by (simp add: from_big_def)

lemma from_little_Cons: "from_little (c # s) = int (cp c) + 256 * from_little s"
  by (simp add: from_little_def from_big_snoc)

lemma cp_char_of: "int (cp (char_of (i :: int))) = i mod 256"
proof -
  have "int (cp c) = oct c" for c unfolding oct_def cp_def by (cases c) simp
  then show ?thesis using oct_char_of [of "i mod 256"] by simp
qed

lemma from_to_little: "0 \<le> i \<Longrightarrow> i < 256 ^ k \<Longrightarrow> from_little (to_little k i) = i"
proof (induction k arbitrary: i)
  case 0
  then show ?case by (simp add: from_little_def from_big_def)
next
  case (Suc k)
  then have "0 \<le> i div 256" "i div 256 < 256 ^ k" by (simp_all add: div_less_iff_less_mult)
  from Suc.IH [OF this] show ?case by (simp add: from_little_Cons cp_char_of)
qed

lemma from_to_big: "0 \<le> i \<Longrightarrow> i < 256 ^ k \<Longrightarrow> from_big (to_big k i) = i"
  using from_to_little [of i k] by (simp add: from_little_def to_big_def)

section \<open>Slices\<close>

lemma slice_append: "slice (length a + m) (length a + n) (a @ b) = slice m n b"
  by (simp add: slice_def)

lemma slice_middle: "length a = i \<Longrightarrow> length b = k \<Longrightarrow> slice i (i + k) (a @ b @ c) = b"
  by (simp add: slice_def)

lemmas slice_simps = slice_def drop_Cons' take_Cons'

section \<open>WAV\<close>

text \<open>A WAV file of one format chunk and one data chunk; the byte rate and the block size are not read.\<close>

definition wav_layout :: "int \<Rightarrow> int \<Rightarrow> int \<Rightarrow> bytes" where
  "wav_layout channels rate bits =
     to_little 2 1 @ to_little 2 channels @ to_little 4 rate @ to_little 4 (rate * channels * (bits div 8))
     @ to_little 2 (channels * (bits div 8)) @ to_little 2 bits"

definition wav_file :: "int \<Rightarrow> int \<Rightarrow> int \<Rightarrow> bytes \<Rightarrow> bytes" where
  "wav_file channels rate bits data =
     ''RIFF'' @ to_little 4 (int (36 + length data)) @ ''WAVE'' @ ''fmt '' @ to_little 4 16
     @ wav_layout channels rate bits @ ''data'' @ to_little 4 (int (length data)) @ data"

lemma wav_chunks_fmt:
  assumes "raw = a @ ''fmt '' @ to_little 4 16 @ wav_layout channels rate bits @ rest" "length a = i"
    and "0 \<le> channels" "channels < 256 ^ 2" "0 \<le> rate" "rate < 256 ^ 4" "0 \<le> bits" "bits < 256 ^ 2"
  shows "wav_chunks raw field i f d = wav_chunks raw field (i + 24) (Some (channels, rate, bits)) d"
proof -
  have len: "length raw = i + 24 + length rest" by (simp add: assms(1,2) wav_layout_def)
  have s: "slice i (i + 4) raw = ''fmt ''" "slice (i + 4) (i + 8) raw = to_little 4 16"
    "slice (i + 10) (i + 12) raw = to_little 2 channels" "slice (i + 12) (i + 16) raw = to_little 4 rate"
    "slice (i + 22) (i + 24) raw = to_little 2 bits"
    using assms(2) by (simp_all add: assms(1) wav_layout_def slice_def)
  have n: "nat (from_little (to_little 4 16)) = 16" by (simp add: from_to_little)
  have e: "from_little (to_little 2 channels) = channels" "from_little (to_little 4 rate) = rate"
    "from_little (to_little 2 bits) = bits"
    using assms(3-8) by (simp_all add: from_to_little)
  show ?thesis
    by (subst wav_chunks.simps) (simp add: len s s [unfolded add.commute [of i]] add.commute [of i 24] n e Let_def)
qed

lemma wav_chunks_data:
  assumes "raw = a @ ''data'' @ to_little 4 (int (length data)) @ data" "length a = i" "length data < 256 ^ 4"
  shows "wav_chunks raw field i f d = Inr (f, Some (int (length data)))"
proof -
  have len: "length raw = i + 8 + length data" by (simp add: assms(1,2))
  have s: "slice i (i + 4) raw = ''data''" "slice (i + 4) (i + 8) raw = to_little 4 (int (length data))"
    using assms(2) by (simp_all add: assms(1) slice_def)
  have "int (length data) < 256 ^ 4" using assms(3) by (simp flip: of_nat_power_less_of_nat_cancel_iff)
  then have n: "from_little (to_little 4 (int (length data))) = int (length data)" by (simp add: from_to_little)
  have e: "wav_chunks raw field (i + 8 + length data + length data mod 2) f (Some (int (length data)))
      = Inr (f, Some (int (length data)))"
    by (subst wav_chunks.simps) (simp add: len)
  show ?thesis by (subst wav_chunks.simps) (simp add: len s n e Let_def)
qed

lemma decode_wav_file:
  assumes "1 \<le> channels" "channels < 2 ^ 16" "1 \<le> rate" "rate < 2 ^ 32" "8 \<le> bits" "bits < 2 ^ 16"
    and "length data < 2 ^ 32"
  shows "decode_wav (wav_file channels rate bits data) field =
    Inr \<lparr>ai_format = ''wav'', ai_channels = channels, ai_rate = rate, ai_bits = bits,
         ai_duration = Some (rnd53 (of_int (int (length data)) / of_int (rate * channels * (bits div 8))))\<rparr>"
proof -
  let ?raw = "wav_file channels rate bits data"
  define a where "a = ''RIFF'' @ to_little 4 (int (36 + length data)) @ ''WAVE''"
  define b where "b = a @ ''fmt '' @ to_little 4 16 @ wav_layout channels rate bits"
  have la: "length a = 12" and lb: "length b = 36" by (simp_all add: a_def b_def wav_layout_def)
  have ra: "?raw = a @ ''fmt '' @ to_little 4 16 @ wav_layout channels rate bits
      @ (''data'' @ to_little 4 (int (length data)) @ data)"
    and rb: "?raw = b @ ''data'' @ to_little 4 (int (length data)) @ data"
    by (simp_all add: wav_file_def a_def b_def)
  have h: "slice 0 4 ?raw = ''RIFF''" "slice 8 12 ?raw = ''WAVE''" by (simp_all add: wav_file_def slice_def)
  have "wav_chunks ?raw field 12 None None = wav_chunks ?raw field 36 (Some (channels, rate, bits)) None"
    using wav_chunks_fmt [OF ra la] assms(1-6) by simp
  also have "\<dots> = Inr (Some (channels, rate, bits), Some (int (length data)))"
    using assms(7) by (intro wav_chunks_data [OF rb lb]) simp
  finally show ?thesis using assms by (simp add: decode_wav_def h)
qed

section \<open>FLAC\<close>

text \<open>A FLAC file whose first block is a STREAMINFO of 34 octets, with \<open>rest\<close> behind the packed numbers.\<close>

definition pack_info :: "int \<Rightarrow> int \<Rightarrow> int \<Rightarrow> int \<Rightarrow> int" where
  "pack_info rate channels bits samples = ((rate * 8 + (channels - 1)) * 32 + (bits - 1)) * 2 ^ 36 + samples"

definition flac_file :: "bytes \<Rightarrow> int \<Rightarrow> int \<Rightarrow> int \<Rightarrow> int \<Rightarrow> bytes \<Rightarrow> bytes" where
  "flac_file sizes rate channels bits samples rest =
     ''fLaC'' @ [CHR 0x80] @ to_big 3 34 @ sizes @ to_big 8 (pack_info rate channels bits samples) @ rest"

lemma pack_info_fields:
  assumes "0 \<le> rate" "1 \<le> channels" "channels \<le> 8" "1 \<le> bits" "bits \<le> 32" "0 \<le> samples" "samples < 2 ^ 36"
    and "p = pack_info rate channels bits samples"
  shows "p div 2 ^ 44 = rate" "p div 2 ^ 41 mod 2 ^ 3 = channels - 1" "p div 2 ^ 36 mod 2 ^ 5 = bits - 1"
    "p mod 2 ^ 36 = samples"
proof -
  define b c a where "b = bits - 1" and "c = rate * 8 + (channels - 1)" and "a = c * 32 + b"
  have e: "p = a * 2 ^ 36 + samples" by (simp only: assms(8) pack_info_def a_def b_def c_def)
  have b: "0 \<le> b" "b < 32" using assms(4,5) by (simp_all add: b_def)
  have p: "p div 2 ^ 36 = a" and t: "p mod 2 ^ 36 = samples" unfolding e using assms(6,7) by simp_all
  have "p div 2 ^ 41 = a div 32" using p by (simp flip: zdiv_zmult2_eq)
  also have "\<dots> = c" unfolding a_def using b by simp
  finally have q: "p div 2 ^ 41 = rate * 8 + (channels - 1)" by (simp only: c_def)
  have "p div 2 ^ 44 = (p div 2 ^ 41) div 8" by (simp flip: zdiv_zmult2_eq)
  also have "\<dots> = rate" using q assms(2,3) by simp
  finally show "p div 2 ^ 44 = rate" .
  show "p div 2 ^ 41 mod 2 ^ 3 = channels - 1" using q assms(2,3) by simp
  show "p div 2 ^ 36 mod 2 ^ 5 = bits - 1" unfolding p a_def b_def [symmetric] using b by simp
  show "p mod 2 ^ 36 = samples" by (rule t)
qed

lemma pack_info_range:
  assumes "0 \<le> rate" "rate < 2 ^ 20" "1 \<le> channels" "channels \<le> 8" "1 \<le> bits" "bits \<le> 32" "0 \<le> samples" "samples < 2 ^ 36"
  shows "0 \<le> pack_info rate channels bits samples" "pack_info rate channels bits samples < 256 ^ 8"
  using assms by (simp_all add: pack_info_def)

lemma decode_flac_file:
  assumes "1 \<le> rate" "rate < 2 ^ 20" "1 \<le> channels" "channels \<le> 8" "1 \<le> bits" "bits \<le> 32"
    and "0 \<le> samples" "samples < 2 ^ 36" "length sizes = 10"
  shows "decode_flac (flac_file sizes rate channels bits samples rest) field =
    Inr \<lparr>ai_format = ''flac'', ai_channels = channels, ai_rate = rate, ai_bits = bits,
         ai_duration = (if samples = 0 then None else Some (rnd53 (of_int samples / of_int rate)))\<rparr>"
proof -
  let ?raw = "flac_file sizes rate channels bits samples rest" and ?p = "pack_info rate channels bits samples"
  have h: "slice 0 4 ?raw = ''fLaC''" "?raw ! 4 = CHR 0x80" "slice 5 8 ?raw = to_big 3 34" "8 \<le> length ?raw"
    by (simp_all add: flac_file_def slice_def)
  have s: "slice 10 18 (slice 8 42 ?raw) = to_big 8 ?p"
    using assms(9) by (simp add: flac_file_def slice_def)
  have b: "from_big (to_big 3 34) = 34" by (simp add: from_to_big)
  have f: "from_big (to_big 8 ?p) = ?p" using pack_info_range [of rate channels bits samples] assms by (simp add: from_to_big)
  have m: "rate mod 2 ^ 20 = rate" using assms by simp
  have r: "0 \<le> rate" using assms(1) by simp
  note p = pack_info_fields [OF r assms(3-8) refl]
  have "stream_info (slice 8 42 ?raw) field = Inr \<lparr>ai_format = ''flac'', ai_channels = channels, ai_rate = rate, ai_bits = bits,
      ai_duration = (if samples = 0 then None else Some (rnd53 (of_int samples / of_int rate)))\<rparr>"
  proof -
    show ?thesis
      unfolding stream_info_def Let_def s f p m raise_if_def using assms(1) by simp
  qed
  moreover have "flac_blocks ?raw field 4 = stream_info (slice 8 42 ?raw) field"
    by (subst flac_blocks.simps) (simp add: h b cp_def Let_def)
  ultimately show ?thesis by (simp add: decode_flac_def h)
qed

text \<open>C29. The byte readers of the WAV and FLAC headers are exact: on a file written with any channel count,
  sample rate, sample width and length its fields can hold, they give these numbers back, with the
  duration as the correctly rounded quotient, whatever the samples and the rest of the file.\<close>

theorem audio_headers_read_back:
  assumes "1 \<le> channels" "channels \<le> 8" "1 \<le> rate" "rate < 2 ^ 20" "8 \<le> bits" "bits \<le> 32"
    and "length data < 2 ^ 32" "0 \<le> samples" "samples < 2 ^ 36" "length sizes = 10"
  shows "decode_wav (wav_file channels rate bits data) field =
      Inr \<lparr>ai_format = ''wav'', ai_channels = channels, ai_rate = rate, ai_bits = bits,
           ai_duration = Some (rnd53 (of_int (int (length data)) / of_int (rate * channels * (bits div 8))))\<rparr>
    \<and> decode_flac (flac_file sizes rate channels bits samples rest) field =
      Inr \<lparr>ai_format = ''flac'', ai_channels = channels, ai_rate = rate, ai_bits = bits,
           ai_duration = (if samples = 0 then None else Some (rnd53 (of_int samples / of_int rate)))\<rparr>"
  using assms by (simp add: decode_wav_file decode_flac_file)

theorem audio_headers_read_back_witness:
  "decode_wav (wav_file 2 48000 16 ''abcd'') ''audio'' =
      Inr \<lparr>ai_format = ''wav'', ai_channels = 2, ai_rate = 48000, ai_bits = 16,
           ai_duration = Some (rnd53 (4 / 192000))\<rparr>
   \<and> decode_flac (flac_file (replicate 10 CHR 0x00) 48000 2 16 96000 []) ''audio'' =
      Inr \<lparr>ai_format = ''flac'', ai_channels = 2, ai_rate = 48000, ai_bits = 16, ai_duration = Some 2\<rparr>"
  using audio_headers_read_back [of 2 48000 16 "''abcd''" 96000 "replicate 10 CHR 0x00" "''audio''" "[]"]
  by simp

end
