(* ===== verification/Ltx_Request.thy ===== *)
theory Ltx_Request
  imports Ltx_Media Py_Json
begin

text \<open>
  \<open>backends/ltx-pipelines/pipelines.py\<close>, third part: \<open>parse_generation\<close>, cut into the stretches
  its comments name and composed in their order, with the field readers it uses.
\<close>

section \<open>Field readers\<close>

text \<open>\<open>low <= value <= high\<close> on numbers; a comparison with NaN or beyond an infinity fails.\<close>

definition between :: "pyval \<Rightarrow> pyval \<Rightarrow> pyval \<Rightarrow> bool" where
  "between low high v =
     (case (num_of low, num_of v, num_of high) of (Some a, Some x, Some b) \<Rightarrow> a \<le> x \<and> x \<le> b | _ \<Rightarrow> False)"

text \<open>\<open>_number\<close> with the cast to \<open>float\<close>, or to \<open>int\<close> when \<open>whole\<close>.\<close>

definition ltx_number :: "pydict \<Rightarrow> string \<Rightarrow> pyval \<Rightarrow> pyval \<Rightarrow> bool \<Rightarrow> pyval \<Rightarrow> pyval api" where
  "ltx_number p field low high whole dflt =
     (let v = get_none p field; bad = invalid (field @ '' must be a number between '' @ py_str low @ '' and '' @ py_str high) in
      if v = PNone then Inr dflt
      else raise_if (is_bool v \<or> \<not> between low high v) bad
        (case num_of v of
           None \<Rightarrow> Inl bad
         | Some x \<Rightarrow> Inr (if whole then PInt (if x < 0 then \<lceil>x\<rceil> else \<lfloor>x\<rfloor>) else PFloat (rnd53 x))))"

definition opt_float :: "pydict \<Rightarrow> string \<Rightarrow> pyval \<Rightarrow> pyval \<Rightarrow> rat option api" where
  "opt_float p field low high =
     bindE (ltx_number p field low high False PNone) (\<lambda>v. Inr (case v of PFloat x \<Rightarrow> Some x | _ \<Rightarrow> None))"

definition float_or :: "pydict \<Rightarrow> string \<Rightarrow> pyval \<Rightarrow> pyval \<Rightarrow> rat \<Rightarrow> rat api" where
  "float_or p field low high dflt =
     bindE (opt_float p field low high) (\<lambda>v. Inr (case v of None \<Rightarrow> dflt | Some x \<Rightarrow> x))"

definition ltx_integer :: "pydict \<Rightarrow> string \<Rightarrow> int \<Rightarrow> int \<Rightarrow> int option \<Rightarrow> int option api" where
  "ltx_integer p field low high dflt =
     (let bad = invalid (field @ '' must be an integer between '' @ show_int low @ '' and '' @ show_int high) in
      case get_none p field of
        PNone \<Rightarrow> Inr dflt
      | PInt i \<Rightarrow> raise_if (i < low \<or> high < i) bad (Inr (Some i))
      | _ \<Rightarrow> Inl bad)"

definition int_or :: "pydict \<Rightarrow> string \<Rightarrow> int \<Rightarrow> int \<Rightarrow> int \<Rightarrow> int api" where
  "int_or p field low high dflt =
     bindE (ltx_integer p field low high (Some dflt)) (\<lambda>v. Inr (case v of None \<Rightarrow> dflt | Some i \<Rightarrow> i))"

text \<open>The sorted names of a dictionary outside a set of allowed ones.\<close>

definition unknown_keys :: "string list \<Rightarrow> pydict \<Rightarrow> string list" where
  "unknown_keys allowed p = sort (remdups (filter (\<lambda>k. k \<notin> set allowed) (map fst p)))"

definition frames_from_duration :: "rat \<Rightarrow> rat \<Rightarrow> int api" where
  "frames_from_duration duration rate =
     (let target = round_even (rnd53 (duration * rate));
          k = max 1 (round_even (rnd53 (of_int (target - 1) / 8)));
          frames = 8 * k + 1
      in raise_if (frames < min_frames \<or> max_frames < frames)
           (invalid (''duration '' @ float_repr duration @ '' at '' @ float_repr rate @ '' fps is outside the supported range''))
           (Inr frames))"

section \<open>Prompts\<close>

definition prompt_fields :: "string list" where
  "prompt_fields =
    [''description'', ''subject'', ''action'', ''camera'', ''lighting'', ''environment'', ''style'', ''dialogue'',
     ''motion'', ''audio'', ''timeline'']"

text \<open>\<open>key.replace("_", " ").capitalize()\<close> of an ASCII key.\<close>

definition heading :: "string \<Rightarrow> string" where
  "heading key =
     (case map (\<lambda>c. if c = CHR ''_'' then CHR '' '' else c) key of
        [] \<Rightarrow> [] | c # cs \<Rightarrow> upper_char c # py_lower cs)"

definition prompt_line :: "string \<times> pyval \<Rightarrow> string api" where
  "prompt_line kv =
     (let (key, v) = kv; bad = invalid (''prompt.'' @ key @ '' must be non-empty text, a list, or an object'') in
      raise_if (\<not> truthy v) bad
       (case v of
          PStr s \<Rightarrow> Inr (heading key @ '': '' @ s)
        | PList _ \<Rightarrow> Inr (heading key @ '': '' @ dumps False '', '' '': '' v)
        | PDict _ \<Rightarrow> Inr (heading key @ '': '' @ dumps False '', '' '': '' v)
        | _ \<Rightarrow> Inl bad))"

definition normalize_prompt :: "pyval \<Rightarrow> string api" where
  "normalize_prompt v =
     (case v of
        PStr s \<Rightarrow> Inr s
      | PDict d \<Rightarrow>
          raise_if (d = []) (invalid ''prompt must be a non-empty string or structured object'')
          (let unknown = unknown_keys prompt_fields d in
           raise_if (unknown \<noteq> []) (invalid (''Unsupported structured prompt fields: '' @ join_with '', '' unknown))
           (bindE (forE d (\<lambda>kv lines. bindE (prompt_line kv) (\<lambda>l. Inr (lines @ [l]))) []) (\<lambda>lines.
              Inr (join_with [CHR 0x0A] lines))))
      | _ \<Rightarrow> Inl (invalid ''prompt must be a non-empty string or structured object''))"

definition read_prompt :: "pydict \<Rightarrow> string api" where
  "read_prompt p =
     bindE (normalize_prompt (get_none p ''prompt'')) (\<lambda>prompt.
       raise_if (py_strip prompt = []) (invalid ''prompt is required'')
       (raise_if (ltx_prompt_chars < length prompt)
          (invalid (''prompt must be at most '' @ show_nat ltx_prompt_chars @ '' characters'')) (Inr prompt)))"

definition read_negative :: "pydict \<Rightarrow> string \<Rightarrow> ltx_spec \<Rightarrow> string option api" where
  "read_negative p model spec =
     (let v = get_none p ''negative_prompt'';
          bad = invalid (''negative_prompt must be at most '' @ show_nat max_negative_chars @ '' characters'')
      in if v = PNone then Inr None
         else raise_if (\<not> supports_negative_prompt spec) (invalid (model @ '' does not accept negative_prompt''))
           (case v of
              PStr s \<Rightarrow> raise_if (max_negative_chars < length s) bad (Inr (Some s))
            | _ \<Rightarrow> Inl bad))"

section \<open>Model and workflow\<close>

definition guidance_flags :: "(string \<times> string \<times> pyval \<times> pyval) list" where
  "guidance_flags =
    [(''guidance_scale'', ''video-cfg-guidance-scale'', PFloat 0, PFloat 100),
     (''stg_scale'', ''video-stg-guidance-scale'', PFloat 0, PFloat 100),
     (''rescale_scale'', ''video-rescale-scale'', PFloat 0, PFloat 10),
     (''a2v_guidance_scale'', ''a2v-guidance-scale'', PFloat 0, PFloat 100),
     (''video_skip_step'', ''video-skip-step'', PInt 0, PInt 100),
     (''audio_guidance_scale'', ''audio-cfg-guidance-scale'', PFloat 0, PFloat 100),
     (''audio_stg_scale'', ''audio-stg-guidance-scale'', PFloat 0, PFloat 100),
     (''audio_rescale_scale'', ''audio-rescale-scale'', PFloat 0, PFloat 10),
     (''v2a_guidance_scale'', ''v2a-guidance-scale'', PFloat 0, PFloat 100),
     (''audio_skip_step'', ''audio-skip-step'', PInt 0, PInt 100)]"

definition allowed_fields :: "string list" where
  "allowed_fields =
    [''model'', ''workflow'', ''prompt'', ''negative_prompt'', ''image'', ''image_strength'', ''last_frame'',
     ''keyframes'', ''audio'', ''audio_start_time'', ''width'', ''height'', ''size'', ''duration'', ''num_frames'',
     ''frame_rate'', ''fps'', ''seed'', ''steps'', ''generated_keyframes'', ''temporal_upscalings'',
     ''spatial_upscalings'', ''offload'', ''quantization'', ''max_batch_size'', ''response_format'', ''video'',
     ''start_time'', ''end_time'', ''sampler'', ''chunked''] @ map fst guidance_flags"

definition select_workflow :: "pydict \<Rightarrow> (string \<times> string \<times> ltx_spec) api" where
  "select_workflow p =
     (let no_model = ApiError (''model must be one of: '' @ join_with '', '' model_id_list) ''model_not_found'' 404 in
      case get_none p ''model'' of
        PStr model \<Rightarrow>
          (case map_of pipelines model of
             None \<Rightarrow> Inl no_model
           | Some workflows \<Rightarrow>
               (let names = join_with '', '' (map fst workflows);
                    not_text = invalid (''workflow must be a non-empty string; '' @ model @ '' supports: '' @ names) in
                case get_default p ''workflow'' (PStr default_workflow) of
                  PStr workflow \<Rightarrow>
                    raise_if (workflow = []) not_text
                    (case map_of workflows workflow of
                       None \<Rightarrow> Inl (invalid (model @ '' does not support workflow '' @ py_repr workflow @ ''; supports: '' @ names))
                     | Some spec \<Rightarrow>
                         raise_if (has_key p ''sampler'' \<and> \<not> requires_audio spec)
                           (invalid (model @ '' does not accept sampler'')) (Inr (model, workflow, spec)))
                | _ \<Rightarrow> Inl not_text))
      | _ \<Rightarrow> Inl no_model)"

definition check_fields :: "pydict \<Rightarrow> unit api" where
  "check_fields p =
     (let unknown = unknown_keys allowed_fields p in
      raise_if (unknown \<noteq> []) (invalid (''Unsupported fields: '' @ join_with '', '' unknown))
      (raise_if (get_none p ''response_format'' \<notin> {PNone, PStr ''b64_json''})
         (invalid ''response_format must be one of b64_json'') (Inr ())))"

section \<open>Source video\<close>

definition retake_forbidden :: "string list" where
  "retake_forbidden =
    [''image'', ''last_frame'', ''keyframes'', ''audio'', ''audio_start_time'', ''width'', ''height'', ''size'',
     ''duration'', ''num_frames'', ''fps'', ''frame_rate'']"

text \<open>The model the message on misplaced video fields points to.\<close>

definition video_owner :: "string option" where
  "video_owner = map_option fst (find (\<lambda>(m, ws). list_ex (\<lambda>(w, s). accepts_video s) ws) pipelines)"

definition read_video :: "tools \<Rightarrow> pydict \<Rightarrow> string \<Rightarrow> ltx_spec \<Rightarrow> (source_video \<times> rat \<times> rat) option api" where
  "read_video x p model spec =
     (if accepts_video spec then
        raise_if (has_key p ''image_strength'') (invalid (model @ '' does not accept image_strength''))
        (let forbidden = sort (filter (has_key p) retake_forbidden) in
         raise_if (forbidden \<noteq> [])
           (invalid (''Retake uses source video geometry/timing and rejects: '' @ join_with '', '' forbidden))
         (bindE (decode_video x (get_none p ''video'')) (\<lambda>v.
          bindE (opt_float p ''start_time'' (PInt 0) (PFloat (vid_duration v))) (\<lambda>a.
          bindE (opt_float p ''end_time'' (PInt 0) (PFloat (vid_duration v))) (\<lambda>b.
            case (a, b) of
              (Some s, Some e) \<Rightarrow>
                raise_if (e \<le> s) (invalid ''retake requires 0 <= start_time < end_time <= video duration'')
                  (Inr (Some (v, s, e)))
            | _ \<Rightarrow> Inl (invalid ''retake requires 0 <= start_time < end_time <= video duration''))))))
      else raise_if (list_ex (has_key p) [''video'', ''start_time'', ''end_time''])
        (invalid (model @ '' does not accept video editing inputs; use the retake workflow ''
           @ (case video_owner of Some m \<Rightarrow> ''on '' @ m @ '' with workflow '' @ py_repr ''retake'' | None \<Rightarrow> ''on a video model'')))
        (Inr None))"

section \<open>Canvas\<close>

text \<open>\<open>^\s*(\d{1,5})\s*[xX*]\s*(\d{1,5})\s*$\<close> with the multiplication sign U+00D7 as a third separator.\<close>

definition side_digits :: "string \<Rightarrow> bool" where
  "side_digits s = (s \<noteq> [] \<and> length s \<le> 5)"

definition match_size :: "string \<Rightarrow> (int \<times> int) option" where
  "match_size s =
     (let a = dropWhile is_space s; w = takeWhile is_digit a; b = dropWhile is_space (dropWhile is_digit a);
          c = dropWhile is_space (drop 1 b); h = takeWhile is_digit c; d = dropWhile is_space (dropWhile is_digit c)
      in if side_digits w \<and> b \<noteq> [] \<and> hd b \<in> {CHR ''x'', CHR ''X'', CHR 0xD7} \<and> side_digits h \<and> d = []
         then Some (int_of_digits w, int_of_digits h) else None)"

definition check_side :: "string \<Rightarrow> int \<Rightarrow> unit api" where
  "check_side name v =
     raise_if (v mod dimension_step \<noteq> 0) (invalid (name @ '' must be divisible by '' @ show_int dimension_step))
     (raise_if (v < min_dimension \<or> max_dimension < v)
        (invalid (name @ '' must be between '' @ show_int min_dimension @ '' and '' @ show_int max_dimension)) (Inr ()))"

definition canvas_fields :: "pydict \<Rightarrow> ltx_spec \<Rightarrow> (int \<times> int) api" where
  "canvas_fields p spec =
     (let size = get_none p ''size'' in
      if size \<noteq> PNone then
        raise_if (get_none p ''width'' \<noteq> PNone \<or> get_none p ''height'' \<noteq> PNone)
          (invalid ''Provide either size or width/height, not both'')
        (case (case size of PStr s \<Rightarrow> match_size s | _ \<Rightarrow> None) of
           None \<Rightarrow> Inl (invalid (''size must be a string like '' @ [CHR 0x22] @ ''832x512'' @ [CHR 0x22]))
         | Some wh \<Rightarrow> Inr wh)
      else bindE (int_or p ''width'' min_dimension max_dimension (default_width spec)) (\<lambda>w.
           bindE (int_or p ''height'' min_dimension max_dimension (default_height spec)) (\<lambda>h. Inr (w, h))))"

definition read_canvas :: "pydict \<Rightarrow> ltx_spec \<Rightarrow> (int \<times> int) api" where
  "read_canvas p spec =
     bindE (canvas_fields p spec) (\<lambda>(w, h).
     bindE (check_side ''width'' w) (\<lambda>_.
     bindE (check_side ''height'' h) (\<lambda>_.
       raise_if (max_pixels < w * h)
         (too_large (''width x height must be at most '' @ show_int max_pixels @ '' pixels'')) (Inr (w, h)))))"

section \<open>Timing\<close>

record timing =
  tm_rate :: rat
  tm_duration :: "rat option"
  tm_frames :: int
  tm_source :: string

definition read_rate :: "pydict \<Rightarrow> ltx_spec \<Rightarrow> rat api" where
  "read_rate p spec =
     raise_if (get_none p ''fps'' \<noteq> PNone \<and> get_none p ''frame_rate'' \<noteq> PNone)
       (invalid ''Provide either fps or frame_rate, not both'')
     (float_or p (if get_none p ''fps'' \<noteq> PNone then ''fps'' else ''frame_rate'') (PFloat 1) (PFloat 60)
        (default_frame_rate spec))"

definition read_frames :: "pydict \<Rightarrow> ltx_spec \<Rightarrow> rat \<Rightarrow> (rat option \<times> int \<times> string) api" where
  "read_frames p spec rate =
     raise_if (get_none p ''duration'' \<noteq> PNone \<and> get_none p ''num_frames'' \<noteq> PNone)
       (invalid ''Provide either duration or num_frames, not both'')
     (if get_none p ''duration'' \<noteq> PNone then
        bindE (float_or p ''duration'' (PFloat (1 / 4)) (PFloat max_duration) 0) (\<lambda>d.
        bindE (frames_from_duration d rate) (\<lambda>n. Inr (Some d, n, ''duration'')))
      else if get_none p ''num_frames'' \<noteq> PNone then
        bindE (int_or p ''num_frames'' min_frames max_frames 0) (\<lambda>n.
          raise_if ((n - 1) mod 8 \<noteq> 0) (invalid ''num_frames must satisfy num_frames = 8 * k + 1'')
            (Inr (None, n, ''explicit'')))
      else Inr (None, default_num_frames spec, ''default''))"

definition read_timing :: "pydict \<Rightarrow> ltx_spec \<Rightarrow> timing api" where
  "read_timing p spec =
     bindE (read_rate p spec) (\<lambda>rate.
     bindE (read_frames p spec rate) (\<lambda>(d, n, src).
       raise_if (max_duration < rnd53 (of_int (n - 1) / rate))
         (invalid ''frame count and fps exceed the 20-second output limit'')
         (Inr \<lparr>tm_rate = rate, tm_duration = d, tm_frames = n, tm_source = src\<rparr>)))"

section \<open>Seed, steps and guidance\<close>

definition read_steps :: "pydict \<Rightarrow> string \<Rightarrow> ltx_spec \<Rightarrow> int option api" where
  "read_steps p model spec =
     (if get_none p ''steps'' = PNone then Inr None
      else raise_if (\<not> supports_steps spec)
        (invalid (model @ '' uses a fixed distilled schedule and does not accept steps''))
        (ltx_integer p ''steps'' 1 max_steps None))"

definition parse_guidance :: "pydict \<Rightarrow> ltx_spec \<Rightarrow> pydict api" where
  "parse_guidance p spec =
     forE guidance_flags (\<lambda>(field, flag, low, high) g.
       if get_none p field = PNone then Inr g
       else raise_if (\<not> supports_guidance spec) (invalid (spec_title spec @ '' does not accept '' @ field))
         (raise_if (requires_audio spec \<and> (prefix ''audio_'' field \<or> prefix ''v2a_'' field))
            (invalid (spec_title spec @ '' uses frozen audio and does not accept '' @ field))
         (bindE (ltx_number p field low high (case low of PInt _ \<Rightarrow> True | _ \<Rightarrow> False) PNone) (\<lambda>v.
            Inr (AList.update flag v g))))) []"

definition audio_guidance :: pydict where
  "audio_guidance =
    [(''video-cfg-guidance-scale'', PFloat 3), (''video-stg-guidance-scale'', PFloat 0),
     (''video-rescale-scale'', PFloat 0), (''a2v-guidance-scale'', PFloat 1)]"

text \<open>\<open>guidance.setdefault(flag, value)\<close> for every default.\<close>

definition with_defaults :: "pydict \<Rightarrow> pydict \<Rightarrow> pydict" where
  "with_defaults dflts g = foldl (\<lambda>g (k, v). if has_key g k then g else AList.update k v g) g dflts"

definition read_guidance :: "pydict \<Rightarrow> ltx_spec \<Rightarrow> (pydict \<times> string option) api" where
  "read_guidance p spec =
     bindE (parse_guidance p spec) (\<lambda>g.
       if requires_audio spec then
         (case get_default p ''sampler'' (PStr ''euler_ancestral'') of
            PStr s \<Rightarrow> raise_if (s \<notin> {''euler'', ''euler_ancestral''}) (invalid ''sampler must be euler or euler_ancestral'')
              (Inr (with_defaults audio_guidance g, Some s))
          | _ \<Rightarrow> Inl (invalid ''sampler must be euler or euler_ancestral''))
       else Inr (g, None))"

end
