(* ===== verification/Ltx_Generation.thy ===== *)
theory Ltx_Generation
  imports Ltx_Request
begin

text \<open>
  \<open>backends/ltx-pipelines/pipelines.py\<close>, fourth part: the guides (first and last frame, keyframes),
  the driving audio, the upscaling, placement and batch options, and \<open>parse_generation\<close> with the
  normalised request it returns.
\<close>

section \<open>Image guides\<close>

record guide =
  gd_field :: string
  gd_frame :: int
  gd_strength :: rat
  gd_bytes :: bytes
  gd_format :: string
  gd_width :: int
  gd_height :: int

definition read_guide :: "tools \<Rightarrow> pyval \<Rightarrow> string \<Rightarrow> string \<Rightarrow> int \<Rightarrow> rat \<Rightarrow> guide api" where
  "read_guide x v name field frame strength =
     bindE (ltx_data_uri v image_data_re name ltx_image_bytes ''PNG/JPEG'') (\<lambda>(raw, fmt).
     bindE (decode_image x raw name) (\<lambda>(_, w, h).
       Inr \<lparr>gd_field = field, gd_frame = frame, gd_strength = strength, gd_bytes = raw, gd_format = fmt,
            gd_width = w, gd_height = h\<rparr>))"

definition read_endpoints :: "tools \<Rightarrow> pydict \<Rightarrow> ltx_spec \<Rightarrow> int \<Rightarrow> guide list api" where
  "read_endpoints x p spec n =
     forE [(''image'', 0), (''last_frame'', n - 1)] (\<lambda>(field, frame) gs.
       if get_none p field = PNone then Inr gs
       else bindE (read_guide x (get_none p field) field field frame
              (if field = ''image'' \<and> requires_audio spec then rnd53 (7 / 10) else 1)) (\<lambda>g. Inr (gs @ [g]))) []"

text \<open>The first guide at frame 0 gets the strength.\<close>

fun set_strength :: "rat \<Rightarrow> guide list \<Rightarrow> guide list" where
  "set_strength s [] = []"
| "set_strength s (g # gs) = (if gd_frame g = 0 then g\<lparr>gd_strength := s\<rparr> # gs else g # set_strength s gs)"

definition apply_strength :: "pydict \<Rightarrow> guide list \<Rightarrow> guide list api" where
  "apply_strength p gs =
     (if has_key p ''image_strength'' then
        raise_if (get_none p ''image'' = PNone) (invalid ''image_strength requires an image'')
        (bindE (opt_float p ''image_strength'' (PFloat 0) (PFloat 1)) (\<lambda>s.
           case s of
             None \<Rightarrow> Inl (invalid ''image_strength must be a number between 0.0 and 1.0'')
           | Some s \<Rightarrow> Inr (set_strength s gs)))
      else Inr gs)"

definition keyframe_name :: "nat \<Rightarrow> string" where
  "keyframe_name i = ''keyframes['' @ show_nat i @ '']''"

definition read_keyframe ::
  "tools \<Rightarrow> int \<Rightarrow> nat \<times> pyval \<Rightarrow> int set \<times> guide list \<Rightarrow> (int set \<times> guide list) api" where
  "read_keyframe x n entry st =
     (let (i, v) = entry; (occupied, gs) = st; name = keyframe_name i in
      case v of
        PDict e \<Rightarrow>
          (let unknown = unknown_keys [''image'', ''frame'', ''strength''] e in
           raise_if (unknown \<noteq> []) (invalid (''Unsupported keyframe fields: '' @ join_with '', '' unknown))
           (bindE (ltx_integer e ''frame'' 1 (max 1 (n - 2)) None) (\<lambda>f.
              case f of
                None \<Rightarrow> Inl (invalid (name @ ''.frame is required''))
              | Some frame \<Rightarrow>
                  raise_if (frame \<in> occupied) (invalid (''keyframe frame '' @ show_int frame @ '' is already conditioned''))
                  (bindE (read_guide x (get_none e ''image'') (name @ ''.image'') name frame 1) (\<lambda>g.
                   bindE (float_or e ''strength'' (PFloat 0) (PFloat 1) 1) (\<lambda>s.
                     Inr (insert frame occupied, gs @ [g\<lparr>gd_strength := s\<rparr>])))))))
      | _ \<Rightarrow> Inl (invalid ''each keyframe must be an object''))"

definition read_keyframes :: "tools \<Rightarrow> pydict \<Rightarrow> int \<Rightarrow> guide list \<Rightarrow> guide list api" where
  "read_keyframes x p n gs =
     (case get_none p ''keyframes'' of
        PNone \<Rightarrow> Inr gs
      | PList entries \<Rightarrow>
          raise_if (entries = []) (invalid ''keyframes must be a non-empty list'')
          (raise_if (max_keyframes < length entries)
             (invalid (''keyframes is limited to '' @ show_nat max_keyframes @ '' entries''))
          (bindE (forE (zip [0..<length entries] entries) (read_keyframe x n) (set (map gd_frame gs), gs)) (\<lambda>st.
             Inr (snd st))))
      | _ \<Rightarrow> Inl (invalid ''keyframes must be a non-empty list''))"

definition read_guides :: "tools \<Rightarrow> pydict \<Rightarrow> ltx_spec \<Rightarrow> int \<Rightarrow> guide list api" where
  "read_guides x p spec n =
     bindE (read_endpoints x p spec n) (\<lambda>gs.
     bindE (apply_strength p gs) (read_keyframes x p n))"

section \<open>Driving audio\<close>

record sound_track =
  tr_bytes :: bytes
  tr_ext :: string
  tr_info :: audio_info
  tr_start :: rat

definition track_duration :: "audio_info \<Rightarrow> rat" where
  "track_duration i = (case ai_duration i of None \<Rightarrow> 0 | Some d \<Rightarrow> d)"

definition read_track :: "tools \<Rightarrow> pydict \<Rightarrow> string \<Rightarrow> ltx_spec \<Rightarrow> sound_track option api" where
  "read_track x p model spec =
     raise_if (get_none p ''audio_start_time'' \<noteq> PNone \<and> \<not> accepts_audio spec)
       (invalid (model @ '' does not accept audio_start_time''))
     (if get_none p ''audio'' \<noteq> PNone then
        raise_if (\<not> accepts_audio spec) (invalid (model @ '' does not accept audio''))
        (bindE (ltx_data_uri (get_none p ''audio'') audio_data_re ''audio'' ltx_audio_bytes ''WAV/FLAC'') (\<lambda>(raw, fmt).
         bindE (ltx_decode_audio x raw fmt ''audio'') (\<lambda>info.
         bindE (float_or p ''audio_start_time'' (PFloat 0) (PFloat max_duration) 0) (\<lambda>start.
           raise_if (track_duration info \<le> start) (invalid ''audio_start_time must be before the end of the audio'')
             (Inr (Some \<lparr>tr_bytes = raw, tr_ext = fmt, tr_info = info, tr_start = start\<rparr>))))))
      else raise_if (requires_audio spec) (invalid (model @ '' requires an inline audio WAV/FLAC data URI''))
        (Inr None))"

section \<open>Upscaling, placement and batching\<close>

definition read_generated :: "pydict \<Rightarrow> string \<Rightarrow> ltx_spec \<Rightarrow> int \<Rightarrow> int option api" where
  "read_generated p model spec n =
     (if get_none p ''generated_keyframes'' = PNone then Inr None
      else raise_if (\<not> supports_generated_keyframes spec) (invalid (model @ '' does not accept generated_keyframes''))
        (ltx_integer p ''generated_keyframes'' 0 (min 8 (n - 2)) None))"

definition read_upscalings :: "pydict \<Rightarrow> string \<Rightarrow> ltx_spec \<Rightarrow> int \<Rightarrow> int \<Rightarrow> (int \<times> int) api" where
  "read_upscalings p model spec w h =
     bindE (int_or p ''temporal_upscalings'' 0 2 0) (\<lambda>t.
       raise_if ((get_none p ''temporal_upscalings'' \<noteq> PNone \<or> get_none p ''spatial_upscalings'' \<noteq> PNone)
                 \<and> \<not> supports_temporal_upscalings spec)
         (invalid (model @ '' does not accept temporal_upscalings/spatial_upscalings''))
       (bindE (int_or p ''spatial_upscalings'' 1 2 1) (\<lambda>s.
          raise_if (s = 2 \<and> (w mod 128 \<noteq> 0 \<or> h mod 128 \<noteq> 0))
            (invalid ''two spatial upscalings require width and height divisible by 128'') (Inr (t, s)))))"

definition read_offload :: "pydict \<Rightarrow> string api" where
  "read_offload p =
     (let bad = invalid (''offload must be one of '' @ join_with '', '' offload_modes) in
      case get_default p ''offload'' (PStr ''none'') of
        PStr s \<Rightarrow> raise_if (s \<notin> set offload_modes) bad (Inr s) | _ \<Rightarrow> Inl bad)"

text \<open>The quantization policy, and the specification with the transformer it selects.\<close>

definition read_quantization :: "pydict \<Rightarrow> string \<Rightarrow> string \<Rightarrow> ltx_spec \<Rightarrow> (string option \<times> ltx_spec) api" where
  "read_quantization p model workflow spec =
     (let bad = invalid (''quantization must be one of '' @ join_with '', '' quantization_policies) in
      case get_none p ''quantization'' of
        PNone \<Rightarrow> Inr (None, spec)
      | PStr q \<Rightarrow>
          raise_if (q \<notin> set quantization_policies) bad
          (if q = ''nvfp4-prequant'' then
             raise_if (model \<noteq> ''Lightricks/LTX-2.5-Distilled'' \<or> workflow \<noteq> ''generate'')
               (invalid ''nvfp4-prequant is supported only by Lightricks/LTX-2.5-Distilled generate'')
             (Inr (Some q, spec\<lparr>transformer := ''distilled_transformer_nvfp4'', spec_title := spec_title spec @ '' (NVFP4)''\<rparr>))
           else Inr (Some q, spec))
      | _ \<Rightarrow> Inl bad)"

definition read_chunked :: "pydict \<Rightarrow> string \<Rightarrow> string \<Rightarrow> ltx_spec \<Rightarrow> bool api" where
  "read_chunked p model workflow spec =
     (case get_default p ''chunked'' (PBool False) of
        PBool b \<Rightarrow>
          raise_if (b \<and> \<not> supports_chunked spec)
            (invalid (model @ '' '' @ workflow @ '' does not support chunked generation'')) (Inr b)
      | _ \<Rightarrow> Inl (invalid ''chunked must be true or false''))"

section \<open>The request\<close>

record generation =
  gen_model :: string
  gen_workflow :: string
  gen_spec :: ltx_spec
  gen_prompt :: string
  gen_negative :: "string option"
  gen_width :: int
  gen_height :: int
  gen_frames :: int
  gen_frames_source :: string
  gen_rate :: rat
  gen_duration :: "rat option"
  gen_seed :: int
  gen_steps :: "int option"
  gen_guidance :: pydict
  gen_sampler :: "string option"
  gen_images :: "guide list"
  gen_audio :: "sound_track option"
  gen_use_audio_duration :: bool
  gen_video :: "(source_video \<times> rat \<times> rat) option"
  gen_generated :: "int option"
  gen_temporal :: int
  gen_spatial :: int
  gen_offload :: string
  gen_quantization :: "string option"
  gen_batch :: int
  gen_chunked :: bool

text \<open>The last stretch: the options after the media, and the dictionary the code returns.\<close>

definition finish_generation ::
  "pydict \<Rightarrow> string \<Rightarrow> string \<Rightarrow> ltx_spec \<Rightarrow> string \<Rightarrow> string option \<Rightarrow> (source_video \<times> rat \<times> rat) option \<Rightarrow>
   int \<times> int \<Rightarrow> timing \<Rightarrow> int \<Rightarrow> int option \<Rightarrow> pydict \<times> string option \<Rightarrow> guide list \<Rightarrow> sound_track option \<Rightarrow> generation api" where
  "finish_generation p model workflow spec prompt negative video wh tm sd steps gs images track =
     bindE (read_generated p model spec (tm_frames tm)) (\<lambda>generated.
     bindE (read_upscalings p model spec (fst wh) (snd wh)) (\<lambda>(temporal, spatial).
     bindE (read_offload p) (\<lambda>offload.
     bindE (read_quantization p model workflow spec) (\<lambda>(quantization, spec').
     bindE (read_chunked p model workflow spec') (\<lambda>chunked.
     bindE (int_or p ''max_batch_size'' 1 8 1) (\<lambda>batch.
       let (w, h, n, rate) =
         (case video of None \<Rightarrow> (fst wh, snd wh, tm_frames tm, tm_rate tm)
          | Some (v, _) \<Rightarrow> (vid_width v, vid_height v, vid_frames v, vid_rate v))
       in Inr \<lparr>gen_model = model, gen_workflow = workflow, gen_spec = spec', gen_prompt = prompt,
            gen_negative = negative, gen_width = w, gen_height = h, gen_frames = n,
            gen_frames_source = tm_source tm, gen_rate = rate, gen_duration = tm_duration tm, gen_seed = sd,
            gen_steps = steps, gen_guidance = fst gs, gen_sampler = snd gs, gen_images = images,
            gen_audio = track, gen_use_audio_duration = False, gen_video = video, gen_generated = generated, gen_temporal = temporal,
            gen_spatial = spatial, gen_offload = offload, gen_quantization = quantization,
            gen_batch = batch, gen_chunked = chunked\<rparr>))))))"

definition parse_generation :: "tools \<Rightarrow> pyval \<Rightarrow> generation api" where
  "parse_generation x payload =
     (case payload of
        PDict p \<Rightarrow>
          bindE (select_workflow p) (\<lambda>(model, workflow, spec).
          bindE (check_fields p) (\<lambda>_.
          bindE (read_prompt p) (\<lambda>prompt.
          bindE (read_negative p model spec) (\<lambda>negative.
          bindE (read_video x p model spec) (\<lambda>video.
          bindE (read_canvas p spec) (\<lambda>wh.
          bindE (read_timing p spec) (\<lambda>tm.
          bindE (int_or p ''seed'' 0 max_seed (default_seed spec)) (\<lambda>sd.
          bindE (read_steps p model spec) (\<lambda>steps.
          bindE (read_guidance p spec) (\<lambda>gs.
          bindE (read_guides x p spec (tm_frames tm)) (\<lambda>images.
          bindE (read_track x p model spec) (\<lambda>track.
            finish_generation p model workflow spec prompt negative video wh tm sd steps gs images track))))))))))))
      | _ \<Rightarrow> Inl (invalid ''Request body must be a JSON object''))"

end
