(* ===== verification/Ltx_Argv.thy ===== *)
theory Ltx_Argv
  imports Ltx_Generation
begin

text \<open>
  \<open>backends/ltx-pipelines/pipelines.py\<close>, last part: \<open>media_path_for\<close> and \<open>build_argv\<close>, the argument
  list of one pipeline process. A path is the text it is passed as; a missing component or media
  file is the \<open>KeyError\<close> of the dictionary access.
\<close>

definition media_suffix :: "(string \<times> string) list" where
  "media_suffix = [(''png'', ''.png''), (''jpeg'', ''.jpg''), (''wav'', ''.wav''), (''flac'', ''.flac'')]"

definition file_name :: "string \<Rightarrow> string" where
  "file_name field = filter (\<lambda>c. c \<noteq> CHR '']'') (map (\<lambda>c. if c = CHR ''['' then CHR ''_'' else c) field)"

definition media_path_for :: "string \<Rightarrow> string \<Rightarrow> path \<Rightarrow> path api" where
  "media_path_for field fmt directory =
     (case map_of media_suffix fmt of
        None \<Rightarrow> Inl KeyErr
      | Some suf \<Rightarrow> Inr (path_div directory (file_name field @ suf)))"

text \<open>
  The media files of a run, as \<open>generate\<close> of \<open>server.py\<close> names them in its work directory: the driving
  audio is rewritten as \<open>audio.wav\<close> and the source video is \<open>input.mp4\<close>.
\<close>

definition media_paths :: "generation \<Rightarrow> path \<Rightarrow> (string \<times> string) list api" where
  "media_paths g workdir =
     bindE (forE (gen_images g) (\<lambda>i m. bindE (media_path_for (gd_field i) (gd_format i) workdir) (\<lambda>p.
              Inr (AList.update (gd_field i) (path_str p) m))) []) (\<lambda>m.
     bindE (case gen_audio g of
              None \<Rightarrow> Inr m
            | Some t \<Rightarrow> bindE (media_path_for ''audio'' (tr_ext t) workdir) (\<lambda>_.
                Inr (AList.update ''audio'' (path_str (path_div workdir ''audio.wav'')) m))) (\<lambda>m.
       Inr (case gen_video g of None \<Rightarrow> m | Some _ \<Rightarrow> AList.update ''video'' (path_str (path_div workdir ''input.mp4'')) m)))"

definition look :: "(string \<times> 'a) list \<Rightarrow> string \<Rightarrow> 'a api" where
  "look d k = (case map_of d k of None \<Rightarrow> Inl KeyErr | Some v \<Rightarrow> Inr v)"

definition dashes :: "string \<Rightarrow> string" where
  "dashes s = map (\<lambda>c. if c = CHR ''_'' then CHR ''-'' else c) s"

definition opt_arg :: "string \<Rightarrow> string option \<Rightarrow> string list" where
  "opt_arg flag v = (case v of None \<Rightarrow> [] | Some s \<Rightarrow> [flag, s])"

text \<open>The component arguments, in the order of their keys.\<close>

definition asset_args :: "(string \<times> path) list \<Rightarrow> (string \<times> string) list \<Rightarrow> string list api" where
  "asset_args as flags =
     forE flags (\<lambda>(flag, key) argv. bindE (look as key) (\<lambda>p. Inr (argv @ [flag, path_str p]))) []"

definition image_args :: "(string \<times> string) list \<Rightarrow> guide list \<Rightarrow> string list api" where
  "image_args media gs =
     forE gs (\<lambda>g argv. bindE (look media (gd_field g)) (\<lambda>p.
       Inr (argv @ [''--image'', p, show_int (gd_frame g), float_repr (gd_strength g)]))) []"

definition retake_argv ::
  "generation \<Rightarrow> source_video \<times> rat \<times> rat \<Rightarrow> (string \<times> path) list \<Rightarrow> (string \<times> string) list \<Rightarrow> string \<Rightarrow>
   string \<Rightarrow> string list api" where
  "retake_argv g clip_span as media out python =
     (let (v, start, stop) = clip_span in
      bindE (asset_args as [(''--transformer-path'', transformer (gen_spec g)), (''--text-encoder-path'', ''text_encoder''),
               (''--video-vae-path'', ''video_vae''), (''--audio-vae-path'', ''audio_vae'')]) (\<lambda>args.
      bindE (look media ''video'') (\<lambda>clip.
        Inr ([python, ''-m'', module (gen_spec g)] @ args
          @ [''--video-path'', clip, ''--start-time'', float_repr start, ''--end-time'', float_repr stop,
             ''--prompt'', gen_prompt g, ''--output-path'', out, ''--seed'', show_int (gen_seed g),
             ''--offload'', gen_offload g, ''--max-batch-size'', show_int (gen_batch g)]
          @ opt_arg ''--quantization'' (gen_quantization g)))))"

definition audio_args :: "(string \<times> string) list \<Rightarrow> sound_track option \<Rightarrow> string list api" where
  "audio_args media track =
     (case track of
        None \<Rightarrow> Inr []
      | Some t \<Rightarrow> bindE (look media ''audio'') (\<lambda>p. Inr [''--audio-path'', p, ''--audio-start-time'', float_repr (tr_start t)]))"

definition upscaling_args :: "generation \<Rightarrow> (string \<times> path) list \<Rightarrow> string list api" where
  "upscaling_args g as =
     (if supports_temporal_upscalings (gen_spec g) then
        bindE (asset_args as (if 0 < gen_temporal g then [(''--temporal-upsampler-path'', ''temporal_upsampler'')] else []))
          (\<lambda>path. Inr ([''--temporal-upscalings'', show_int (gen_temporal g),
                       ''--spatial-upscalings'', show_int (gen_spatial g)] @ path))
      else Inr [])"

definition duration_args :: "generation \<Rightarrow> string list" where
  "duration_args g =
     (if gen_use_audio_duration g
      then [''--audio-max-duration'', case gen_duration g of None \<Rightarrow> ''None'' | Some d \<Rightarrow> float_repr d]
      else [''--num-frames'', show_int (gen_frames g)])"

definition generate_argv ::
  "generation \<Rightarrow> (string \<times> path) list \<Rightarrow> (string \<times> string) list \<Rightarrow> string \<Rightarrow> string \<Rightarrow> string list api" where
  "generate_argv g as media out python =
     bindE (asset_args as [(''--transformer-path'', transformer (gen_spec g)), (''--text-encoder-path'', ''text_encoder''),
              (''--video-vae-path'', ''video_vae''), (''--audio-vae-path'', ''audio_vae''),
              (''--spatial-upsampler-path'', ''spatial_upsampler'')]) (\<lambda>base.
     bindE (asset_args as (map (\<lambda>k. (''--'' @ dashes k, k)) (assets (gen_spec g)))) (\<lambda>extra.
     bindE (image_args media (gen_images g)) (\<lambda>images.
     bindE (upscaling_args g as) (\<lambda>upscaling.
     bindE (audio_args media (gen_audio g)) (\<lambda>audio.
       Inr ([python, ''-m'', module (gen_spec g)] @ base
         @ [''--prompt'', gen_prompt g, ''--output-path'', out, ''--seed'', show_int (gen_seed g),
            ''--width'', show_int (gen_width g), ''--height'', show_int (gen_height g),
            ''--frame-rate'', float_repr (gen_rate g)]
         @ opt_arg ''--sampler'' (gen_sampler g) @ extra
         @ opt_arg ''--negative-prompt'' (gen_negative g)
         @ duration_args g
         @ concat (map (\<lambda>(flag, v). [''--'' @ flag, num_str v]) (gen_guidance g))
         @ opt_arg ''--num-inference-steps'' (map_option show_int (gen_steps g))
         @ images
         @ opt_arg ''--num-generated-keyframes'' (map_option show_int (gen_generated g))
         @ upscaling @ audio
         @ [''--offload'', gen_offload g]
         @ opt_arg ''--quantization'' (gen_quantization g)
         @ (if gen_batch g \<noteq> 1 then [''--max-batch-size'', show_int (gen_batch g)] else [])
         @ (if gen_chunked g then [''--chunked''] else [])))))))"

definition build_argv ::
  "generation \<Rightarrow> (string \<times> path) list \<Rightarrow> (string \<times> string) list \<Rightarrow> string \<Rightarrow> string \<Rightarrow> string list api" where
  "build_argv g as media out python =
     (if accepts_video (gen_spec g) then
        (case gen_video g of Some clip_span \<Rightarrow> retake_argv g clip_span as media out python | None \<Rightarrow> Inl KeyErr)
      else generate_argv g as media out python)"

end
