(* ===== verification/Ltx_Server.thy ===== *)
theory Ltx_Server
  imports Ltx_Argv Comfy_Client
begin

text \<open>
  \<open>backends/ltx-pipelines/server.py\<close>, the parts without concurrency: the settings, the readiness and
  model documents, the reading of a body, the plan of a run, the watch over a running process and
  what becomes of its end. The environment, the file system tests, \<open>json.loads\<close> and the external tools
  are parameters. The watch is a loop over observations: \<open>ob i\<close> is what its \<open>i\<close>-th round sees.
\<close>

section \<open>Settings\<close>

type_synonym environ = "string \<Rightarrow> string option"

text \<open>\<open>os.environ.get(name)\<close> where an empty value counts as none.\<close>

definition setting :: "environ \<Rightarrow> string \<Rightarrow> string option" where
  "setting env name = (case env name of Some s \<Rightarrow> if s = [] then None else Some s | None \<Rightarrow> None)"

definition model_root_env :: string where "model_root_env = ''LLOOM_LTX_MODEL_ROOT''"
definition runner_env :: string where "runner_env = ''LLOOM_LTX_RUNNER''"
definition timeout_env :: string where "timeout_env = ''LLOOM_LTX_TIMEOUT_SECONDS''"
definition warm_env :: string where "warm_env = ''LLOOM_LTX_WARM''"
definition warm_idle_env :: string where "warm_idle_env = ''LLOOM_LTX_WARM_IDLE_SECONDS''"

definition default_timeout_seconds :: rat where "default_timeout_seconds = 1800"
definition default_warm_idle_seconds :: rat where "default_warm_idle_seconds = 300"
definition log_limit :: nat where "log_limit = 16 * 1024 * 1024"
definition output_limit :: nat where "output_limit = 256 * 1024 * 1024"
definition ltx_max_body :: nat where "ltx_max_body = 64 * 1024 * 1024"

definition model_root :: "environ \<Rightarrow> string api" where
  "model_root env =
     (case setting env model_root_env of
        None \<Rightarrow> Inl (ApiError (model_root_env @ '' is not configured; the LTX-2.5 components are not located'')
                  ''model_unavailable'' 503)
      | Some r \<Rightarrow> Inr r)"

text \<open>
  \<open>json.loads\<close>: \<open>BadText\<close> is \<open>JSONDecodeError\<close> or \<open>UnicodeDecodeError\<close>, any other exception (a too long
  integer, too deep a nesting) is \<open>LoadsFails\<close>.
\<close>

datatype loads_error = BadText | LoadsFails exn

type_synonym json_loads = "bytes \<Rightarrow> loads_error + pyval"

fun uncaught :: "loads_error \<Rightarrow> api_exn" where
  "uncaught BadText = PyError (ValueErr [])"
| "uncaught (LoadsFails e) = PyError e"

fun text_items :: "pyval list \<Rightarrow> string list option" where
  "text_items [] = Some []"
| "text_items (PStr s # xs) = map_option ((#) s) (text_items xs)"
| "text_items (_ # xs) = None"

definition runner_prefix :: "json_loads \<Rightarrow> environ \<Rightarrow> string list api" where
  "runner_prefix loads env =
     (case setting env runner_env of
        None \<Rightarrow> Inr [''python3'', ''-m'']
      | Some raw \<Rightarrow>
          if prefix ''['' (dropWhile is_space raw) then
            (case loads raw of
               Inl e \<Rightarrow> Inl (uncaught e)
             | Inr parsed \<Rightarrow>
                 (case (case parsed of PList xs \<Rightarrow> text_items xs | _ \<Rightarrow> None) of
                    None \<Rightarrow> Inl (ApiError ''invalid runner override'' ''server_error'' 500)
                  | Some xs \<Rightarrow> Inr xs))
          else Inr [raw, ''-m''])"

definition positive_seconds :: "environ \<Rightarrow> string \<Rightarrow> rat \<Rightarrow> rat" where
  "positive_seconds env name d =
     (case setting env name of
        None \<Rightarrow> d
      | Some s \<Rightarrow> (case parse_float s of Some (PFloat r) \<Rightarrow> if 0 < r then r else d | _ \<Rightarrow> d))"

definition timeout_seconds :: "environ \<Rightarrow> rat" where
  "timeout_seconds env = positive_seconds env timeout_env default_timeout_seconds"

definition warm_enabled :: "environ \<Rightarrow> bool" where
  "warm_enabled env = (env warm_env = Some ''1'')"

definition warm_idle_seconds :: "environ \<Rightarrow> rat" where
  "warm_idle_seconds env = positive_seconds env warm_idle_env default_warm_idle_seconds"

section \<open>Replies\<close>

datatype ltx_reply = Reply int pyval

definition json_error :: "string \<Rightarrow> string \<Rightarrow> int \<Rightarrow> ltx_reply" where
  "json_error msg kind st =
     Reply st (PDict [(''error'', PDict [(''message'', PStr msg), (''type'', PStr kind), (''code'', PStr kind)])])"

text \<open>An \<open>ApiError\<close> is answered, any other exception is left to the framework.\<close>

datatype outcome = Answer ltx_reply | Crash api_exn | Hangup

fun failure :: "api_exn \<Rightarrow> outcome" where
  "failure (ApiError msg kind st) = Answer (json_error msg kind st)"
| "failure e = Crash e"

section \<open>The body of a request\<close>

fun read_stream :: "chunk list \<Rightarrow> bytes \<Rightarrow> bytes api" where
  "read_stream [] raw = Inr raw"
| "read_stream (ChunkError # cs) raw = Inl (PyError OtherExn)"
| "read_stream (Chunk b # cs) raw =
     (if ltx_max_body < length raw + length b then Inl (too_large ''request body too large'')
      else read_stream cs (raw @ b))"

definition read_payload :: "json_loads \<Rightarrow> chunk list \<Rightarrow> pyval api" where
  "read_payload loads stream =
     bindE (read_stream stream []) (\<lambda>raw.
       case loads raw of
         Inl BadText \<Rightarrow> Inl (invalid ''request body must be valid JSON'')
       | Inl (LoadsFails e) \<Rightarrow> Inl (PyError e)
       | Inr v \<Rightarrow> Inr v)"

section \<open>The plan of a run\<close>

definition warm_modules :: "string set" where "warm_modules = {''ltx_pipelines.distilled''}"

type_synonym weights = "string \<times> string \<times> string option"

text \<open>What a run needs once it holds the lock; \<open>job_warm\<close> is the key of the worker it may share.\<close>

record ltx_job =
  job_warm :: "weights option"
  job_module :: string
  job_args :: "string list"
  job_model :: string
  job_workflow :: string

definition weights_key :: "generation \<Rightarrow> weights" where
  "weights_key g = (module (gen_spec g), transformer (gen_spec g), gen_quantization g)"

definition warm_key :: "environ \<Rightarrow> generation \<Rightarrow> weights option" where
  "warm_key env g =
     (if warm_enabled env \<and> module (gen_spec g) \<in> warm_modules \<and> gen_offload g = ''none''
      then Some (weights_key g) else None)"

definition find_assets ::
  "environ \<Rightarrow> (path \<Rightarrow> bool) \<Rightarrow> (path \<Rightarrow> bool) \<Rightarrow> generation \<Rightarrow> (string \<times> path) list api" where
  "find_assets env is_dir is_file g =
     bindE (model_root env) (\<lambda>r. resolve_assets is_dir is_file r (gen_spec g) (gen_temporal g))"

definition prepare_job :: "environ \<Rightarrow> string \<Rightarrow> generation \<Rightarrow> (string \<times> path) list \<Rightarrow> string \<Rightarrow> ltx_job api" where
  "prepare_job env python g as workdir =
     bindE (media_paths g (pure_path workdir)) (\<lambda>media.
     bindE (build_argv g as media (path_str (path_div (pure_path workdir) ''out.mp4'')) python) (\<lambda>argv.
       Inr \<lparr>job_warm = warm_key env g, job_module = module (gen_spec g), job_args = drop 3 argv,
            job_model = gen_model g, job_workflow = gen_workflow g\<rparr>))"

text \<open>The command of the process: the warm worker of a module, or one run of the module.\<close>

definition run_command :: "string list \<Rightarrow> ltx_job \<Rightarrow> string list" where
  "run_command runner job =
     runner @ (case job_warm job of
                 Some key \<Rightarrow> [''warm_worker'', fst key]
               | None \<Rightarrow> job_module job # job_args job)"

section \<open>The watch over a run\<close>

record sight =
  ob_done :: bool
  ob_gone :: bool
  ob_now :: rat
  ob_log :: nat
  ob_out :: "nat option"

definition disconnected :: api_exn where
  "disconnected = ApiError ''client disconnected; generation cancelled'' ''cancelled'' 499"

definition out_of_time :: api_exn where
  "out_of_time = ApiError ''generation exceeded its time budget'' ''timeout'' 504"

definition generation_failed :: "string \<Rightarrow> api_exn" where
  "generation_failed msg = ApiError msg ''generation_failed'' 502"

definition supervise_round :: "(nat \<Rightarrow> sight) \<Rightarrow> rat \<Rightarrow> nat \<Rightarrow> nat \<Rightarrow> api_exn option + nat" where
  "supervise_round ob deadline log_start i =
     (if ob_done (ob i) then Inl None
      else if ob_gone (ob i) then Inl (Some disconnected)
      else if deadline - ob_now (ob i) \<le> 0 then Inl (Some out_of_time)
      else if log_limit + log_start < ob_log (ob i) then Inl (Some (generation_failed ''pipeline log exceeded its limit''))
      else if (case ob_out (ob i) of None \<Rightarrow> False | Some n \<Rightarrow> output_limit < n)
        then Inl (Some (generation_failed ''pipeline output exceeds 256 MiB''))
      else Inr (Suc i))"

definition supervise :: "nat \<Rightarrow> (nat \<Rightarrow> sight) \<Rightarrow> rat \<Rightarrow> api_exn option option" where
  "supervise fuel ob timeout =
     poll_loop fuel (supervise_round ob (ob_now (ob 0) + timeout) (ob_log (ob 0))) 0"

text \<open>
  A round sleeps for 0.2 seconds or until the deadline, unless the run ends: the observations of a
  watch are \<open>patient\<close>. On \<open>watch_clock\<close>, which jumps at the end, every round takes its full pause.
\<close>

definition patient :: "(nat \<Rightarrow> sight) \<Rightarrow> rat \<Rightarrow> bool" where
  "patient ob deadline =
     (\<forall>i. \<not> ob_done (ob (Suc i)) \<longrightarrow>
        ob_now (ob i) + min (1 / 5) (deadline - ob_now (ob i)) \<le> ob_now (ob (Suc i)))"

definition watch_clock :: "(nat \<Rightarrow> sight) \<Rightarrow> rat \<Rightarrow> nat \<Rightarrow> rat" where
  "watch_clock ob deadline i =
     (if ob_done (ob i) \<or> deadline \<le> ob_now (ob i) then deadline + 1 / 5 else ob_now (ob i))"

lemma supervise_round_Inr:
  "supervise_round ob deadline log_start i = Inr j \<Longrightarrow>
   j = Suc i \<and> \<not> ob_done (ob i) \<and> \<not> ob_gone (ob i) \<and> ob_now (ob i) < deadline"
  by (auto simp: supervise_round_def split: if_splits)

interpretation watch: bounded_poll "supervise_round ob deadline log_start" "watch_clock ob deadline"
  "\<lambda>_. patient ob deadline" "deadline + 1 / 5" "1 / 5" for ob deadline log_start
proof
  fix i j assume p: "patient ob deadline" and st: "supervise_round ob deadline log_start i = Inr j"
  from supervise_round_Inr [OF st] have j: "j = Suc i" "\<not> ob_done (ob i)" "ob_now (ob i) < deadline" by auto
  from p have "\<not> ob_done (ob j) \<Longrightarrow> ob_now (ob i) + min (1 / 5) (deadline - ob_now (ob i)) \<le> ob_now (ob j)"
    by (simp add: patient_def j(1))
  with j show "watch_clock ob deadline i + 1 / 5 \<le> watch_clock ob deadline j"
    by (auto simp: watch_clock_def min_def split: if_splits)
  show "watch_clock ob deadline j \<le> deadline + 1 / 5" by (auto simp: watch_clock_def)
qed

section \<open>The end of a run\<close>

definition plain_end :: "api_exn option \<Rightarrow> int \<Rightarrow> api_exn option" where
  "plain_end watched code =
     (case watched of
        Some e \<Rightarrow> Some e
      | None \<Rightarrow> if code \<noteq> 0
                 then Some (generation_failed (''LTX pipeline exited with code '' @ show_int code @ ''; see backend logs''))
                 else None)"

text \<open>The reply line of a warm worker; \<open>None\<close> is success.\<close>

definition read_reply :: "json_loads \<Rightarrow> bytes \<Rightarrow> api_exn option" where
  "read_reply loads line =
     (case (if list_all (\<lambda>c. cp c = 32 \<or> 9 \<le> cp c \<and> cp c \<le> 13) line then Inr (PDict [(''ok'', PBool False), (''error'', PStr ''worker exited'')])
            else loads line) of
        Inl e \<Rightarrow> Some (uncaught e)
      | Inr (PDict result) \<Rightarrow>
          if truthy (get_none result ''ok'') then None
          else Some (generation_failed (''LTX warm worker failed: '' @ take 300 (py_str (get_none result ''error''))))
      | Inr _ \<Rightarrow> Some (PyError AttributeErr))"

definition warm_end :: "json_loads \<Rightarrow> bool \<Rightarrow> api_exn option \<Rightarrow> bytes \<Rightarrow> api_exn option" where
  "warm_end loads written watched line =
     (if \<not> written then Some (generation_failed ''LTX warm worker exited; see backend logs'')
      else case watched of Some e \<Rightarrow> Some e | None \<Rightarrow> read_reply loads line)"

definition collect_output :: "bytes option \<Rightarrow> string api" where
  "collect_output file =
     (case file of
        None \<Rightarrow> Inl (generation_failed ''pipeline produced no output file'')
      | Some data \<Rightarrow>
          if output_limit < length data then Inl (generation_failed ''pipeline output exceeds 256 MiB'')
          else Inr (b64encode data))"

definition success_body :: "ltx_job \<Rightarrow> int \<Rightarrow> string \<Rightarrow> pyval" where
  "success_body job created encoded =
     PDict [(''created'', PInt created),
            (''data'', PList [PDict [(''b64_json'', PStr encoded), (''mime_type'', PStr ''video/mp4'')]]),
            (''model'', PStr (job_model job)), (''workflow'', PStr (job_workflow job))]"

definition collect :: "ltx_job \<Rightarrow> int \<Rightarrow> bytes option \<Rightarrow> outcome" where
  "collect job created file =
     (case collect_output file of
        Inl e \<Rightarrow> failure e
      | Inr encoded \<Rightarrow> Answer (Reply 200 (success_body job created encoded)))"

section \<open>The documents\<close>

definition upstream_version :: string where "upstream_version = ''1.4.2''"
definition upstream_commit :: string where "upstream_commit = ''9ec55f9f22798a3198d9c923856824821bc3317e''"

text \<open>The components of a workflow of the table are all known, so only \<open>ApiError\<close> can occur here.\<close>

definition ready_with :: "(path \<Rightarrow> bool) \<Rightarrow> (path \<Rightarrow> bool) \<Rightarrow> string \<Rightarrow> ltx_spec \<Rightarrow> bool" where
  "ready_with is_dir is_file dir spec = (case resolve_assets is_dir is_file dir spec 0 of Inl _ \<Rightarrow> False | Inr _ \<Rightarrow> True)"

definition workflow_ready ::
  "environ \<Rightarrow> (path \<Rightarrow> bool) \<Rightarrow> (path \<Rightarrow> bool) \<Rightarrow> (string \<times> (string \<times> bool) list) list" where
  "workflow_ready env is_dir is_file =
     (case setting env model_root_env of
        None \<Rightarrow> []
      | Some dir \<Rightarrow> map (\<lambda>(model, ws). (model, map (\<lambda>(w, spec). (w, ready_with is_dir is_file dir spec)) ws)) pipelines)"

definition available_models :: "environ \<Rightarrow> (path \<Rightarrow> bool) \<Rightarrow> (path \<Rightarrow> bool) \<Rightarrow> string list" where
  "available_models env is_dir is_file =
     map fst (filter (\<lambda>(_, ready). map_of ready default_workflow = Some True) (workflow_ready env is_dir is_file))"

definition ltx_health :: "environ \<Rightarrow> (path \<Rightarrow> bool) \<Rightarrow> (path \<Rightarrow> bool) \<Rightarrow> bool \<Rightarrow> bool \<Rightarrow> pyval \<Rightarrow> ltx_reply" where
  "ltx_health env is_dir is_file quarantined busy worker =
     (let available = available_models env is_dir is_file; ready = (available \<noteq> [] \<and> \<not> quarantined) in
      Reply (if ready then 200 else 503) (PDict
        [(''status'', PStr (if ready then ''ok'' else ''degraded'')),
         (''backend'', PStr ''ltx-pipelines''),
         (''upstream'', PStr upstream_version), (''upstream_commit'', PStr upstream_commit),
         (''managed'', PBool True), (''lazy_load'', PBool True),
         (''keep_warm'', PBool (warm_enabled env)),
         (''mode'', PStr (if warm_enabled env then ''warm-worker'' else ''per-request'')),
         (''warm_worker'', if warm_enabled env then worker else PNone),
         (''single_flight'', PBool True), (''busy'', PBool busy), (''quarantined'', PBool quarantined),
         (''model_root_configured'', PBool (setting env model_root_env \<noteq> None)),
         (''available_models'', PList (map PStr available)),
         (''unavailable_models'', PList (map PStr (filter (\<lambda>m. m \<notin> set available) model_id_list))),
         (''workflow_ready'',
           PDict (map (\<lambda>(m, ws). (m, PDict (map (\<lambda>(w, ok). (w, PBool ok)) ws))) (workflow_ready env is_dir is_file)))]))"

definition ltx_models :: "int \<Rightarrow> pyval" where
  "ltx_models created =
     PDict [(''object'', PStr ''list''),
            (''data'', PList (case describe of
               PList entries \<Rightarrow> map (\<lambda>e. case e of
                 PDict entry \<Rightarrow> PDict
                   [(''id'', get_none entry ''id''), (''object'', PStr ''model''), (''created'', PInt created),
                    (''owned_by'', PStr ''lightricks''), (''default_workflow'', get_none entry ''default_workflow''),
                    (''workflows'', get_none entry ''workflows'')]
                 | v \<Rightarrow> v) entries
             | _ \<Rightarrow> []))]"

end
