(* ===== verification/Ltx_Warm.thy ===== *)
theory Ltx_Warm
  imports Ltx_Server
begin

text \<open>
  \<open>backends/ltx-pipelines/server.py\<close>, the concurrent part: the request coroutine \<open>generate\<close>, the warm
  worker, its idle reaper and the termination of process groups. A coroutine is cut at its \<open>await\<close>s;
  a step of the system is one stretch, one end of a termination, one move of a process or one
  cancellation. A termination task is named by the process it ends. Waiting for a task that is
  already over does not suspend the code; the model lets other steps come between, which only adds
  behaviours. The exit of a process and its return code becoming known are one step, and a process
  whose start is cancelled is reaped by \<open>asyncio\<close> itself. The watcher of the connection and the wait
  for it are part of the stretch they end.
\<close>

section \<open>State\<close>

type_synonym pid = nat
type_synonym rid = nat

text \<open>The task that terminates a process group: running, done, given up, or itself cancelled.\<close>

datatype term_task = Ending | Ended | Stuck | Dropped

text \<open>What a request does once the termination it waits for is over.\<close>

datatype then_do = Launch ltx_job | Deliver ltx_job | Conclude outcome

text \<open>
  A wait for the termination of \<open>wait_pid\<close>, directly or through \<open>WarmWorker.release\<close>; \<open>shields\<close>
  cancellations of the request are absorbed before the next one reaches the termination itself,
  and \<open>cut\<close> records that one was.
\<close>

record wait =
  wait_pid :: pid
  released :: bool
  shields :: nat
  cut :: bool

datatype phase =
    Validating pyval bool \<comment> \<open>the payload, and whether the request was cancelled meanwhile\<close>
  | Awaiting wait then_do
  | Spawning ltx_job "string list"
  | Rendering ltx_job pid
  | Finished outcome

text \<open>
  \<open>lock\<close> and \<open>vlock\<close> are the two locks with the request that holds them; the fields with \<open>w_\<close> are those
  of the \<open>WarmWorker\<close>, where \<open>w_reaper\<close> means a reaper that still sleeps; \<open>late\<close> are the terminations
  an idle reaper waits for. The last four fields are ghosts: requests that were cancelled, the
  commands that were started, which run was given to which process and the requests whose run
  succeeded.
\<close>

record lsys =
  lock :: "rid option"
  vlock :: "rid option"
  quarantined :: bool
  w_proc :: "pid option"
  w_key :: "weights option"
  w_served :: nat
  w_used :: "rat option"
  w_reaper :: bool
  w_releasing :: "pid option"
  terms :: "pid \<Rightarrow> term_task option"
  living :: "pid set"
  next_pid :: pid
  late :: "pid set"
  reqs :: "rid \<Rightarrow> phase option"
  interrupted :: "rid set"
  started :: "(pid \<times> ltx_job \<times> string list) list"
  rendered :: "(rid \<times> pid \<times> ltx_job) list"
  succeeded :: "rid set"

definition initial_lsys :: lsys where
  "initial_lsys =
     \<lparr>lock = None, vlock = None, quarantined = False, w_proc = None, w_key = None, w_served = 0,
      w_used = None, w_reaper = False, w_releasing = None, terms = Map.empty, living = {}, next_pid = 0,
      late = {}, reqs = Map.empty, interrupted = {}, started = [], rendered = [], succeeded = {}\<rparr>"

text \<open>The surroundings: the environment, the file system, the tools and the Python of the server.\<close>

record surroundings =
  su_env :: environ
  su_dir :: "path \<Rightarrow> bool"
  su_file :: "path \<Rightarrow> bool"
  su_loads :: json_loads
  su_tools :: tools
  su_python :: string

section \<open>The warm worker\<close>

definition begin_term :: "pid \<Rightarrow> lsys \<Rightarrow> lsys" where
  "begin_term p s = s\<lparr>terms := (terms s)(p \<mapsto> Ending)\<rparr>"

definition term_over :: "lsys \<Rightarrow> pid \<Rightarrow> bool" where
  "term_over s p = (terms s p \<noteq> None \<and> terms s p \<noteq> Some Ending)"

text \<open>\<open>release\<close> up to its \<open>await\<close>, with the termination it waits for, and after it.\<close>

definition release_begin :: "lsys \<Rightarrow> pid option \<times> lsys" where
  "release_begin s =
     (let s = s\<lparr>w_reaper := False\<rparr> in
      case w_releasing s of
        Some p \<Rightarrow> (Some p, s)
      | None \<Rightarrow>
          (case w_proc s of
             None \<Rightarrow> (None, s)
           | Some p \<Rightarrow> (Some p, begin_term p (s\<lparr>w_proc := None, w_releasing := Some p\<rparr>))))"

definition release_end :: "pid \<Rightarrow> lsys \<Rightarrow> lsys" where
  "release_end p s =
     (if w_releasing s = Some p \<and> term_over s p then s\<lparr>w_releasing := None, w_key := None\<rparr> else s)"

definition round1 :: "rat \<Rightarrow> rat" where
  "round1 q = rnd53 (of_int (round_even (q * 10)) / 10)"

definition worker_state :: "lsys \<Rightarrow> string" where
  "worker_state s =
     (if w_releasing s \<noteq> None then ''releasing''
      else if w_proc s = None then ''stopped''
      else if lock s \<noteq> None then ''busy'' else ''idle'')"

definition describe_worker :: "environ \<Rightarrow> rat \<Rightarrow> lsys \<Rightarrow> pyval" where
  "describe_worker env t s =
     PDict
       [(''state'', PStr (worker_state s)),
        (''pid'', case w_proc s of None \<Rightarrow> PNone | Some p \<Rightarrow> PInt (int p)),
        (''module'', case w_key s of None \<Rightarrow> PNone | Some (m, _, _) \<Rightarrow> PStr m),
        (''transformer'', case w_key s of None \<Rightarrow> PNone | Some (_, tr, _) \<Rightarrow> PStr tr),
        (''quantization'', case w_key s of Some (_, _, Some q) \<Rightarrow> PStr q | _ \<Rightarrow> PNone),
        (''requests_served'', PInt (int (w_served s))),
        (''idle_for_seconds'',
          case w_used s of
            Some u \<Rightarrow> if worker_state s = ''idle'' then PFloat (round1 (rnd53 (t - u))) else PNone
          | None \<Rightarrow> PNone),
        (''idle_release_seconds'', PFloat (warm_idle_seconds env))]"

definition health_reply :: "surroundings \<Rightarrow> rat \<Rightarrow> lsys \<Rightarrow> ltx_reply" where
  "health_reply E t s =
     ltx_health (su_env E) (su_dir E) (su_file E) (quarantined s) (lock s \<noteq> None) (describe_worker (su_env E) t s)"

section \<open>The stretches of a request\<close>

definition set_phase :: "rid \<Rightarrow> phase \<Rightarrow> lsys \<Rightarrow> lsys" where
  "set_phase r ph s = s\<lparr>reqs := (reqs s)(r \<mapsto> ph)\<rparr>"

text \<open>The answer of a request that holds no lock, and of one that leaves \<open>async with lock\<close>.\<close>

definition reply_now :: "rid \<Rightarrow> outcome \<Rightarrow> lsys \<Rightarrow> lsys" where
  "reply_now r out s = set_phase r (Finished out) s"

definition leave :: "rid \<Rightarrow> outcome \<Rightarrow> lsys \<Rightarrow> lsys" where
  "leave r out s = set_phase r (Finished out) (s\<lparr>lock := None\<rparr>)"

definition quarantine_error :: outcome where
  "quarantine_error = Answer (json_error ''runtime quarantined; restart required'' ''cleanup_failed'' 503)"

definition cleanup_failed :: outcome where
  "cleanup_failed =
     Answer (json_error ''pipeline did not exit; runtime quarantined and requires restart'' ''cleanup_failed'' 503)"

definition busy_reply :: "string \<Rightarrow> outcome" where
  "busy_reply msg = Answer (json_error msg ''busy'' 409)"

text \<open>The start of a request: its body is complete.\<close>

definition arrive :: "surroundings \<Rightarrow> rid \<Rightarrow> chunk list \<Rightarrow> lsys \<Rightarrow> lsys" where
  "arrive E r stream s =
     (case read_payload (su_loads E) stream of
        Inl e \<Rightarrow> reply_now r (failure e) s
      | Inr payload \<Rightarrow>
          if lock s \<noteq> None \<or> vlock s \<noteq> None then reply_now r (busy_reply ''a generation is already in flight'') s
          else set_phase r (Validating payload False) (s\<lparr>vlock := Some r\<rparr>))"

text \<open>From the state of the worker to the process of the run: a start, or a line to the live worker.\<close>

definition enter :: "surroundings \<Rightarrow> rid \<Rightarrow> ltx_job \<Rightarrow> lsys \<Rightarrow> lsys" where
  "enter E r job s =
     (let s = (if job_warm job \<noteq> None then s\<lparr>w_reaper := False\<rparr> else s) in
      case (if job_warm job \<noteq> None then w_proc s else None) of
        Some p \<Rightarrow> set_phase r (Rendering job p) (s\<lparr>rendered := rendered s @ [(r, p, job)]\<rparr>)
      | None \<Rightarrow>
          (case runner_prefix (su_loads E) (su_env E) of
             Inl e \<Rightarrow> leave r (failure e) s
           | Inr runner \<Rightarrow> set_phase r (Spawning job (run_command runner job)) s))"

text \<open>\<open>await self.release()\<close>, then \<open>next\<close>: without a process to end there is nothing to wait for.\<close>

definition await_release :: "rid \<Rightarrow> nat \<Rightarrow> then_do \<Rightarrow> (lsys \<Rightarrow> lsys) \<Rightarrow> lsys \<Rightarrow> lsys" where
  "await_release r n cont direct s =
     (case release_begin s of
        (None, s') \<Rightarrow> direct s'
      | (Some p, s') \<Rightarrow> set_phase r (Awaiting \<lparr>wait_pid = p, released = True, shields = n, cut = False\<rparr> cont) s')"

definition must_release :: "ltx_job \<Rightarrow> lsys \<Rightarrow> bool" where
  "must_release job s =
     (case job_warm job of
        None \<Rightarrow> True
      | Some key \<Rightarrow>
          w_releasing s \<noteq> None
          \<or> (case w_proc s of None \<Rightarrow> False | Some p \<Rightarrow> w_key s \<noteq> Some key \<or> p \<notin> living s))"

definition begin_job :: "surroundings \<Rightarrow> rid \<Rightarrow> ltx_job \<Rightarrow> lsys \<Rightarrow> lsys" where
  "begin_job E r job s =
     (if must_release job s then await_release r 1 (Launch job) (enter E r job) s else enter E r job s)"

text \<open>
  After validation: the components, the quarantine and the lock, the media files (\<open>io\<close> is an error of
  writing them) and the argument list.
\<close>

definition admit :: "surroundings \<Rightarrow> rid \<Rightarrow> pyval \<Rightarrow> string \<Rightarrow> exn option \<Rightarrow> lsys \<Rightarrow> lsys" where
  "admit E r payload workdir io s =
     (case bindE (parse_generation (su_tools E) payload) (\<lambda>g.
             bindE (find_assets (su_env E) (su_dir E) (su_file E) g) (\<lambda>as. Inr (g, as))) of
        Inl e \<Rightarrow> reply_now r (failure e) s
      | Inr (g, as) \<Rightarrow>
          if quarantined s then reply_now r quarantine_error s
          else if lock s \<noteq> None then
            reply_now r (busy_reply ''a generation is already in flight; this runtime is single-flight'') s
          else
            (let s = s\<lparr>lock := Some r\<rparr> in
             case (case io of Some e \<Rightarrow> Inl (PyError e) | None \<Rightarrow> prepare_job (su_env E) (su_python E) g as workdir) of
               Inl e \<Rightarrow> leave r (failure e) s
             | Inr job \<Rightarrow> begin_job E r job s))"

definition validated :: "surroundings \<Rightarrow> rid \<Rightarrow> string \<Rightarrow> exn option \<Rightarrow> lsys \<Rightarrow> lsys option" where
  "validated E r workdir io s =
     (case reqs s r of
        Some (Validating payload hung) \<Rightarrow>
          let s = s\<lparr>vlock := None\<rparr> in
          Some (if hung then reply_now r Hangup s else admit E r payload workdir io s)
      | _ \<Rightarrow> None)"

text \<open>The process is there: a plain run is watched, a warm worker gets its first line.\<close>

definition spawned :: "rid \<Rightarrow> lsys \<Rightarrow> lsys option" where
  "spawned r s =
     (case reqs s r of
        Some (Spawning job command) \<Rightarrow>
          let p = next_pid s;
              s = s\<lparr>living := insert p (living s), next_pid := Suc p, started := started s @ [(p, job, command)],
                  rendered := rendered s @ [(r, p, job)]\<rparr>
          in Some (set_phase r (Rendering job p)
               (case job_warm job of
                  None \<Rightarrow> s
                | Some key \<Rightarrow> s\<lparr>w_proc := Some p, w_key := Some key, w_served := 0\<rparr>))
      | _ \<Rightarrow> None)"

definition spawn_fails :: "rid \<Rightarrow> exn \<Rightarrow> lsys \<Rightarrow> lsys option" where
  "spawn_fails r e s =
     (case reqs s r of Some (Spawning _ _) \<Rightarrow> Some (leave r (Crash (PyError e)) s) | _ \<Rightarrow> None)"

text \<open>
  The end of the watch over a run, which saw \<open>end_sights\<close>; before it the step is not possible. A plain
  run is always terminated; a warm worker is kept after a success, but for a log that has grown too
  long, and terminated after a failure.
\<close>

record run_end =
  end_written :: bool
  end_rounds :: nat
  end_sights :: "nat \<Rightarrow> sight"
  end_code :: int
  end_line :: bytes
  end_now :: rat
  end_log :: nat
  end_file :: "bytes option"
  end_date :: int

definition run_result :: "surroundings \<Rightarrow> ltx_job \<Rightarrow> run_end \<Rightarrow> api_exn option option" where
  "run_result E job d =
     map_option
       (\<lambda>watched. if job_warm job = None then plain_end watched (end_code d)
                  else warm_end (su_loads E) (end_written d) watched (end_line d))
       (supervise (end_rounds d) (end_sights d) (timeout_seconds (su_env E)))"

definition plain_over :: "rid \<Rightarrow> pid \<Rightarrow> then_do \<Rightarrow> lsys \<Rightarrow> lsys" where
  "plain_over r p cont s =
     set_phase r (Awaiting \<lparr>wait_pid = p, released = False, shields = 1, cut = False\<rparr> cont) (begin_term p s)"

definition run_fails :: "rid \<Rightarrow> ltx_job \<Rightarrow> pid \<Rightarrow> outcome \<Rightarrow> lsys \<Rightarrow> lsys" where
  "run_fails r job p out s =
     (if job_warm job = None then plain_over r p (Conclude out) s
      else await_release r 2 (Conclude out) (leave r out) s)"

definition run_succeeds :: "rid \<Rightarrow> ltx_job \<Rightarrow> pid \<Rightarrow> run_end \<Rightarrow> lsys \<Rightarrow> lsys" where
  "run_succeeds r job p d s =
     (let s = s\<lparr>succeeded := insert r (succeeded s)\<rparr>; done = leave r (collect job (end_date d) (end_file d)) in
      if job_warm job = None then plain_over r p (Deliver job) s
      else
        (let s = s\<lparr>w_served := Suc (w_served s), w_used := Some (end_now d)\<rparr> in
         if 4 * log_limit < end_log d then await_release r 1 (Deliver job) done s
         else done (s\<lparr>w_reaper := True\<rparr>)))"

definition run_over :: "surroundings \<Rightarrow> rid \<Rightarrow> run_end \<Rightarrow> lsys \<Rightarrow> lsys option" where
  "run_over E r d s =
     (case reqs s r of
        Some (Rendering job p) \<Rightarrow>
          (case run_result E job d of
             None \<Rightarrow> None
           | Some (Some e) \<Rightarrow> Some (run_fails r job p (failure e) s)
           | Some None \<Rightarrow> Some (run_succeeds r job p d s))
      | _ \<Rightarrow> None)"

text \<open>The termination a request waits for is over.\<close>

definition resume :: "surroundings \<Rightarrow> rid \<Rightarrow> int \<Rightarrow> bytes option \<Rightarrow> lsys \<Rightarrow> lsys option" where
  "resume E r created file s =
     (case reqs s r of
        Some (Awaiting w cont) \<Rightarrow>
          if \<not> term_over s (wait_pid w) then None
          else
            (let s = (if released w then release_end (wait_pid w) s else s) in
             Some (case terms s (wait_pid w) of
               Some Ended \<Rightarrow>
                 if cut w then leave r Hangup s
                 else (case cont of
                         Launch job \<Rightarrow> enter E r job s
                       | Deliver job \<Rightarrow> leave r (collect job created file) s
                       | Conclude out \<Rightarrow> leave r out s)
             | Some Stuck \<Rightarrow> leave r cleanup_failed s
             | _ \<Rightarrow> leave r Hangup s))
      | _ \<Rightarrow> None)"

text \<open>The task of a request is cancelled.\<close>

definition cancel_wait :: "rid \<Rightarrow> wait \<Rightarrow> then_do \<Rightarrow> lsys \<Rightarrow> lsys" where
  "cancel_wait r w cont s =
     (if 0 < shields w then set_phase r (Awaiting (w\<lparr>shields := shields w - 1, cut := True\<rparr>) cont) s
      else if term_over s (wait_pid w) then
        leave r Hangup (if released w then release_end (wait_pid w) s else s)
      else s\<lparr>terms := (terms s)(wait_pid w \<mapsto> Dropped)\<rparr>)"

definition interrupt :: "rid \<Rightarrow> lsys \<Rightarrow> lsys option" where
  "interrupt r s =
     (let s = s\<lparr>interrupted := insert r (interrupted s)\<rparr> in
      case reqs s r of
        Some (Validating payload hung) \<Rightarrow>
          Some (if hung then reply_now r Hangup (s\<lparr>vlock := None\<rparr>) else set_phase r (Validating payload True) s)
      | Some (Spawning _ _) \<Rightarrow> Some (leave r Hangup s)
      | Some (Rendering job p) \<Rightarrow>
          Some (run_fails r job p Hangup s)
      | Some (Awaiting w cont) \<Rightarrow> Some (cancel_wait r w cont s)
      | _ \<Rightarrow> None)"

section \<open>The idle reaper and the processes\<close>

definition idle_over :: "lsys \<Rightarrow> lsys option" where
  "idle_over s =
     (if \<not> w_reaper s then None
      else
        let s = s\<lparr>w_reaper := False\<rparr> in
        Some (if lock s \<noteq> None then s
              else (case release_begin s of (None, s') \<Rightarrow> s' | (Some p, s') \<Rightarrow> s'\<lparr>late := insert p (late s')\<rparr>)))"

definition reaper_resumes :: "pid \<Rightarrow> lsys \<Rightarrow> lsys option" where
  "reaper_resumes p s =
     (if p \<in> late s \<and> term_over s p then Some (release_end p (s\<lparr>late := late s - {p}\<rparr>)) else None)"

text \<open>
  \<open>_terminate_process_group\<close>: the process is gone after \<open>SIGTERM\<close> or \<open>SIGKILL\<close>, or has survived both for
  ten seconds each.
\<close>

definition killed :: "pid \<Rightarrow> lsys \<Rightarrow> lsys option" where
  "killed p s =
     (if terms s p = Some Ending
      then Some (s\<lparr>terms := (terms s)(p \<mapsto> Ended), living := living s - {p}\<rparr>) else None)"

definition survives :: "pid \<Rightarrow> lsys \<Rightarrow> lsys option" where
  "survives p s =
     (if terms s p = Some Ending \<and> p \<in> living s
      then Some (s\<lparr>terms := (terms s)(p \<mapsto> Stuck), quarantined := True\<rparr>) else None)"

definition exits :: "pid \<Rightarrow> lsys \<Rightarrow> lsys option" where
  "exits p s = (if p \<in> living s then Some (s\<lparr>living := living s - {p}\<rparr>) else None)"

section \<open>The system\<close>

datatype levent =
    Arrives rid "chunk list"
  | Validated rid string "exn option"
  | Spawned rid
  | SpawnFails rid exn
  | RunOver rid run_end
  | Resumes rid int "bytes option"
  | Interrupted rid
  | IdleOver
  | ReaperResumes pid
  | Killed pid
  | Survives pid
  | Exits pid

fun lstep :: "surroundings \<Rightarrow> lsys \<Rightarrow> levent \<Rightarrow> lsys option" where
  "lstep E s (Arrives r stream) = (if reqs s r = None then Some (arrive E r stream s) else None)"
| "lstep E s (Validated r workdir io) = validated E r workdir io s"
| "lstep E s (Spawned r) = spawned r s"
| "lstep E s (SpawnFails r e) = spawn_fails r e s"
| "lstep E s (RunOver r d) = run_over E r d s"
| "lstep E s (Resumes r created file) = resume E r created file s"
| "lstep E s (Interrupted r) = interrupt r s"
| "lstep E s IdleOver = idle_over s"
| "lstep E s (ReaperResumes p) = reaper_resumes p s"
| "lstep E s (Killed p) = killed p s"
| "lstep E s (Survives p) = survives p s"
| "lstep E s (Exits p) = exits p s"

text \<open>\<open>ok\<close> restricts the events; \<open>once\<close> allows every request one cancellation.\<close>

inductive lreaches :: "(lsys \<Rightarrow> levent \<Rightarrow> bool) \<Rightarrow> surroundings \<Rightarrow> lsys \<Rightarrow> bool" for ok E where
  lreaches_init: "lreaches ok E initial_lsys"
| lreaches_step: "lreaches ok E s \<Longrightarrow> ok s ev \<Longrightarrow> lstep E s ev = Some s' \<Longrightarrow> lreaches ok E s'"

fun once :: "lsys \<Rightarrow> levent \<Rightarrow> bool" where
  "once s (Interrupted r) = (r \<notin> interrupted s)"
| "once s _ = True"

fun lrun :: "surroundings \<Rightarrow> lsys \<Rightarrow> levent list \<Rightarrow> lsys option" where
  "lrun E s [] = Some s"
| "lrun E s (ev # evs) = (case lstep E s ev of None \<Rightarrow> None | Some s' \<Rightarrow> lrun E s' evs)"

end
