(* ===== verification/Ltx_Warm_Safety.thy ===== *)
theory Ltx_Warm_Safety
  imports Ltx_Warm
begin

text \<open>
  The safety of the LTX server: an invariant of the states that are reached while every request is
  cancelled at most once, kept by each stretch.
\<close>

section \<open>The invariant\<close>

text \<open>All requests but those of \<open>A\<close> are over.\<close>

definition only :: "rid set \<Rightarrow> lsys \<Rightarrow> bool" where
  "only A s = (\<forall>r ph. reqs s r = Some ph \<longrightarrow> r \<notin> A \<longrightarrow> (\<exists>out. ph = Finished out))"

definition terms_ok :: "lsys \<Rightarrow> bool" where
  "terms_ok s =
     ((\<forall>p. terms s p = Some Ended \<longrightarrow> p \<notin> living s) \<and> (\<forall>p. terms s p = Some Stuck \<longrightarrow> quarantined s)
      \<and> (\<forall>p. terms s p \<noteq> Some Dropped) \<and> (\<forall>p. terms s p \<noteq> None \<longrightarrow> p < next_pid s))"

text \<open>The worker as it is while no request holds the lock, or before a run begins.\<close>

definition rest_ok :: "lsys \<Rightarrow> bool" where
  "rest_ok s =
     ((\<forall>p. w_releasing s \<noteq> Some p \<longrightarrow> terms s p \<noteq> Some Ending)
      \<and> (if quarantined s then w_proc s = None \<and> (\<exists>p. living s \<subseteq> {p})
         else case w_releasing s of
           Some p \<Rightarrow> w_proc s = None \<and> living s \<subseteq> {p} \<and> terms s p \<noteq> None
         | None \<Rightarrow> (case w_proc s of
                     Some p \<Rightarrow> living s \<subseteq> {p} \<and> terms s p = None \<and> p < next_pid s
                   | None \<Rightarrow> living s = {})))"

fun lrun_ok :: "lsys \<Rightarrow> phase \<Rightarrow> bool" where
  "lrun_ok s (Spawning job command) =
     (\<not> quarantined s \<and> w_releasing s = None \<and> w_proc s = None \<and> living s = {} \<and> (\<forall>p. terms s p \<noteq> Some Ending))"
| "lrun_ok s (Rendering job p) =
     (\<not> quarantined s \<and> w_releasing s = None \<and> w_proc s = (if job_warm job = None then None else Some p)
      \<and> living s \<subseteq> {p} \<and> terms s p = None \<and> p < next_pid s \<and> (\<forall>p. terms s p \<noteq> Some Ending))"
| "lrun_ok s (Awaiting w cont) =
     (w_proc s = None \<and> living s \<subseteq> {wait_pid w} \<and> terms s (wait_pid w) \<noteq> None
      \<and> (quarantined s \<longleftrightarrow> terms s (wait_pid w) = Some Stuck)
      \<and> (\<forall>p. p \<noteq> wait_pid w \<longrightarrow> terms s p \<noteq> Some Ending)
      \<and> (w_releasing s = None \<or> released w \<and> w_releasing s = Some (wait_pid w))
      \<and> (terms s (wait_pid w) = Some Ending \<longrightarrow> released w \<longrightarrow> w_releasing s = Some (wait_pid w)))"
| "lrun_ok s _ = False"

fun shielded :: "phase \<Rightarrow> bool" where
  "shielded (Awaiting w _) = (0 < shields w)"
| "shielded _ = True"

definition held :: "rid \<Rightarrow> lsys \<Rightarrow> bool" where
  "held r s = (lock s = Some r \<and> vlock s = None \<and> only {r} s \<and> terms_ok s)"

definition linv :: "lsys \<Rightarrow> bool" where
  "linv s =
     (terms_ok s \<and>
      ((lock s = None \<and> vlock s = None \<and> only {} s \<and> rest_ok s)
       \<or> (\<exists>r payload hung. lock s = None \<and> vlock s = Some r \<and> reqs s r = Some (Validating payload hung)
            \<and> only {r} s \<and> rest_ok s)
       \<or> (\<exists>r ph. held r s \<and> reqs s r = Some ph \<and> lrun_ok s ph \<and> (r \<in> interrupted s \<or> shielded ph))))"

lemma linv_cases:
  assumes "linv s"
  obtains (free) "lock s = None" "vlock s = None" "only {} s" "rest_ok s" "terms_ok s"
  | (validating) r payload hung where "lock s = None" "vlock s = Some r" "reqs s r = Some (Validating payload hung)"
      "only {r} s" "rest_ok s" "terms_ok s"
  | (running) r ph where "held r s" "reqs s r = Some ph" "lrun_ok s ph" "r \<in> interrupted s \<or> shielded ph"
  using assms unfolding linv_def
  apply (elim conjE disjE exE)
  subgoal by (rule free)
  subgoal by (rule validating)
  subgoal by (rule running) blast+
  subgoal by (rule running) blast+
  done

lemma linv_free: "lock s = None \<Longrightarrow> vlock s = None \<Longrightarrow> only {} s \<Longrightarrow> rest_ok s \<Longrightarrow> terms_ok s \<Longrightarrow> linv s"
  by (simp add: linv_def)

lemma linv_checking:
  "lock s = None \<Longrightarrow> vlock s = Some r \<Longrightarrow> reqs s r = Some (Validating payload hung) \<Longrightarrow> only {r} s \<Longrightarrow> rest_ok s
   \<Longrightarrow> terms_ok s \<Longrightarrow> linv s"
  by (auto simp: linv_def)

lemma linv_running:
  "held r s \<Longrightarrow> reqs s r = Some ph \<Longrightarrow> lrun_ok s ph \<Longrightarrow> r \<in> interrupted s \<or> shielded ph \<Longrightarrow> linv s"
  by (auto simp: linv_def held_def)

lemma linv_initial: "linv initial_lsys"
  by (rule linv_free) (simp_all add: initial_lsys_def only_def rest_ok_def terms_ok_def)

section \<open>What the small operations change\<close>

lemmas op_defs = set_phase_def reply_now_def leave_def begin_term_def

text \<open>The invariant looks at a part of the state only.\<close>

definition same_core :: "lsys \<Rightarrow> lsys \<Rightarrow> bool" where
  "same_core s t =
     (lock s = lock t \<and> vlock s = vlock t \<and> quarantined s = quarantined t \<and> w_proc s = w_proc t
      \<and> w_releasing s = w_releasing t \<and> terms s = terms t \<and> living s = living t \<and> next_pid s = next_pid t
      \<and> reqs s = reqs t \<and> interrupted s = interrupted t)"

lemma lrun_ok_cong:
  "quarantined s = quarantined t \<Longrightarrow> w_proc s = w_proc t \<Longrightarrow> w_releasing s = w_releasing t \<Longrightarrow> terms s = terms t
   \<Longrightarrow> living s = living t \<Longrightarrow> next_pid s = next_pid t \<Longrightarrow> lrun_ok s ph = lrun_ok t ph"
  by (cases ph) (simp_all only: lrun_ok.simps)

lemma lrun_ok_core: "same_core s t \<Longrightarrow> lrun_ok s ph = lrun_ok t ph"
  by (rule lrun_ok_cong) (simp_all add: same_core_def)

lemma held_core: "same_core s t \<Longrightarrow> held r s = held r t"
  by (auto simp: same_core_def held_def only_def terms_ok_def)

lemma only_set_phase: "only {r} s \<Longrightarrow> only {r} (set_phase r ph s)"
  by (auto simp: only_def set_phase_def)

lemma only_finish: "only {r} s \<Longrightarrow> only {} (set_phase r (Finished out) s)"
  by (auto simp: only_def set_phase_def)

lemma held_set_phase: "held r s \<Longrightarrow> held r (set_phase r ph s)"
  by (auto simp: held_def only_def set_phase_def terms_ok_def)

lemma rest_ok_cong:
  "quarantined s = quarantined t \<Longrightarrow> w_proc s = w_proc t \<Longrightarrow> w_releasing s = w_releasing t \<Longrightarrow> terms s = terms t
   \<Longrightarrow> living s = living t \<Longrightarrow> next_pid s = next_pid t \<Longrightarrow> rest_ok s = rest_ok t"
  unfolding rest_ok_def by (simp only:)

lemma terms_ok_cong:
  "quarantined s = quarantined t \<Longrightarrow> terms s = terms t \<Longrightarrow> living s = living t \<Longrightarrow> next_pid s = next_pid t
   \<Longrightarrow> terms_ok s = terms_ok t"
  unfolding terms_ok_def by (simp only:)

lemma only_cong: "reqs s = reqs t \<Longrightarrow> only A s = only A t"
  unfolding only_def by (simp only:)

lemma leave_linv: "held r s \<Longrightarrow> rest_ok s \<Longrightarrow> linv (leave r out s)"
proof (rule linv_free)
  assume h: "held r s" and ok: "rest_ok s"
  show "lock (leave r out s) = None" "vlock (leave r out s) = None" using h by (simp_all add: leave_def set_phase_def held_def)
  show "only {} (leave r out s)" using h by (auto simp: held_def leave_def set_phase_def only_def)
  show "rest_ok (leave r out s)" using ok by (subst rest_ok_cong [of _ s]) (simp_all add: leave_def set_phase_def)
  show "terms_ok (leave r out s)" using h by (subst terms_ok_cong [of _ s]) (simp_all add: leave_def set_phase_def held_def)
qed

lemma set_phase_linv:
  assumes "held r s" "lrun_ok s ph" "r \<in> interrupted s \<or> shielded ph"
  shows "linv (set_phase r ph s)"
proof (rule linv_running)
  show "held r (set_phase r ph s)" using assms(1) by (rule held_set_phase)
  show "reqs (set_phase r ph s) r = Some ph" by (simp add: set_phase_def)
  show "lrun_ok (set_phase r ph s) ph" using assms(2) by (subst lrun_ok_cong [of _ s]) (simp_all add: set_phase_def)
  show "r \<in> interrupted (set_phase r ph s) \<or> shielded ph" using assms(3) by (simp add: set_phase_def)
qed

text \<open>A worker that is not being released and is at rest may be used or replaced.\<close>

lemma enter_linv:
  assumes h: "held r s" and ok: "rest_ok s" and nq: "\<not> quarantined s" and rel: "w_releasing s = None"
    and plain: "job_warm job = None \<Longrightarrow> w_proc s = None"
  shows "linv (enter E r job s)"
proof -
  let ?s = "if job_warm job \<noteq> None then s\<lparr>w_reaper := False\<rparr> else s"
  have h': "held r ?s" using h by (subst held_core [of _ s]) (simp_all add: same_core_def)
  have ok': "rest_ok ?s" using ok by (subst rest_ok_cong [of _ s]) simp_all
  have nq': "\<not> quarantined ?s" "w_releasing ?s = None" "w_proc ?s = w_proc s" using nq rel by auto
  have none: "\<forall>p. terms ?s p \<noteq> Some Ending" using ok' nq' by (auto simp: rest_ok_def)
  show ?thesis
  proof (cases "if job_warm job \<noteq> None then w_proc ?s else None")
    case None
    then have "w_proc ?s = None" using plain by (cases "job_warm job") auto
    then have "lrun_ok ?s (Spawning job c)" for c using ok' nq' none by (auto simp: rest_ok_def)
    with None leave_linv [OF h' ok'] set_phase_linv [OF h'] show ?thesis
      unfolding enter_def Let_def by (auto split: sum.split)
  next
    case (Some p)
    then have p: "w_proc ?s = Some p" "job_warm job \<noteq> None" by (auto split: if_splits)
    let ?t = "?s\<lparr>rendered := rendered ?s @ [(r, p, job)]\<rparr>"
    have "held r ?t" using h by (subst held_core [of _ s]) (simp_all add: same_core_def)
    moreover have "lrun_ok ?t (Rendering job p)" using ok' nq' none p by (auto simp: rest_ok_def)
    ultimately have "linv (set_phase r (Rendering job p) ?t)" by (rule set_phase_linv) simp
    with Some p show ?thesis unfolding enter_def Let_def by simp
  qed
qed

text \<open>\<open>release\<close> begins: the worker's process is being terminated, or there is none.\<close>

lemma release_begin_none:
  "release_begin s = (None, t) \<Longrightarrow> t = s\<lparr>w_reaper := False\<rparr> \<and> w_releasing s = None \<and> w_proc s = None"
  by (auto simp: release_begin_def Let_def split: option.splits)

lemma release_begin_some:
  assumes "release_begin s = (Some p, t)" "rest_ok s" "\<not> quarantined s" "terms_ok s"
  shows "w_proc t = None \<and> w_releasing t = Some p \<and> living t \<subseteq> {p} \<and> terms t p \<noteq> None
    \<and> (\<forall>q. q \<noteq> p \<longrightarrow> terms t q \<noteq> Some Ending) \<and> terms t p \<noteq> Some Stuck \<and> \<not> quarantined t \<and> terms_ok t
    \<and> lock t = lock s \<and> vlock t = vlock s \<and> reqs t = reqs s \<and> interrupted t = interrupted s"
  using assms
  by (auto simp: release_begin_def begin_term_def rest_ok_def terms_ok_def split: option.splits if_splits)

lemma await_release_linv:
  assumes h: "held r s" and ok: "rest_ok s" "\<not> quarantined s" and n: "0 < n"
    and direct: "\<And>t. held r t \<Longrightarrow> rest_ok t \<Longrightarrow> \<not> quarantined t \<Longrightarrow> w_releasing t = None \<Longrightarrow> w_proc t = None \<Longrightarrow> linv (direct t)"
  shows "linv (await_release r n cont direct s)"
proof (cases "release_begin s")
  case (Pair q t)
  show ?thesis
  proof (cases q)
    case None
    with Pair release_begin_none [of s t] have t: "t = s\<lparr>w_reaper := False\<rparr>" "w_releasing s = None" "w_proc s = None" by auto
    have "linv (direct t)"
    proof (rule direct)
      show "held r t" using h t(1) by (subst held_core [of _ s]) (simp_all add: same_core_def)
      show "rest_ok t" using ok(1) t(1) by (subst rest_ok_cong [of _ s]) simp_all
    qed (use ok(2) t in simp_all)
    with Pair None show ?thesis by (simp add: await_release_def)
  next
    case (Some p)
    from h have tk: "terms_ok s" by (simp add: held_def)
    from release_begin_some [OF _ ok tk, of p t] Pair Some
    have t: "w_proc t = None \<and> w_releasing t = Some p \<and> living t \<subseteq> {p} \<and> terms t p \<noteq> None
      \<and> (\<forall>q. q \<noteq> p \<longrightarrow> terms t q \<noteq> Some Ending) \<and> terms t p \<noteq> Some Stuck \<and> \<not> quarantined t \<and> terms_ok t
      \<and> lock t = lock s \<and> vlock t = vlock s \<and> reqs t = reqs s \<and> interrupted t = interrupted s" by simp
    then have "held r t" using h by (auto simp: held_def only_def)
    then have "linv (set_phase r (Awaiting \<lparr>wait_pid = p, released = True, shields = n, cut = False\<rparr> cont) t)"
      by (rule set_phase_linv) (use t n in auto)
    with Pair Some show ?thesis by (simp add: await_release_def)
  qed
qed

lemma begin_job_linv:
  assumes "held r s" "rest_ok s" "\<not> quarantined s"
  shows "linv (begin_job E r job s)"
proof (cases "must_release job s")
  case True
  then show ?thesis unfolding begin_job_def
    using await_release_linv [OF assms, of 1 "enter E r job"] enter_linv by simp
next
  case False
  then have "job_warm job \<noteq> None" "w_releasing s = None" by (auto simp: must_release_def split: option.splits)
  moreover from this have "linv (enter E r job s)" by (intro enter_linv [OF assms]) simp_all
  ultimately show ?thesis using False unfolding begin_job_def by simp
qed

section \<open>Every step keeps it\<close>

lemma linv_core:
  assumes "same_core s t" "linv s"
  shows "linv t"
proof -
  from assms(1) have r: "rest_ok t = rest_ok s" "terms_ok t = terms_ok s" "only A t = only A s" for A
    by (intro rest_ok_cong terms_ok_cong only_cong; simp add: same_core_def)+
  from assms(1) have eqs: "lock t = lock s" "vlock t = vlock s" "reqs t = reqs s" "interrupted t = interrupted s"
    by (simp_all add: same_core_def)
  show ?thesis using assms(2) unfolding linv_def held_def r eqs lrun_ok_core [OF assms(1), symmetric] .
qed

text \<open>A request that has no say yet is answered at once.\<close>

lemma reply_now_free:
  "lock s = None \<Longrightarrow> vlock s = None \<Longrightarrow> only {r} s \<Longrightarrow> rest_ok s \<Longrightarrow> terms_ok s \<Longrightarrow> linv (reply_now r out s)"
  unfolding reply_now_def
  by (rule linv_free)
    (simp_all add: only_finish, simp_all add: set_phase_def rest_ok_cong [of "s\<lparr>reqs := x\<rparr>" s for x]
       terms_ok_cong [of "s\<lparr>reqs := x\<rparr>" s for x])

lemma reply_new:
  assumes "linv s" "reqs s r = None"
  shows "linv (reply_now r out s)"
  using assms(1)
proof (cases rule: linv_cases)
  case free
  then show ?thesis by (intro reply_now_free) (auto simp: only_def)
next
  case (validating q payload hung)
  then show ?thesis using assms(2) unfolding reply_now_def
    by (intro linv_checking [of _ q payload hung])
      (auto simp: set_phase_def only_def rest_ok_cong [of "s\<lparr>reqs := x\<rparr>" s for x] terms_ok_cong [of "s\<lparr>reqs := x\<rparr>" s for x])
next
  case (running q ph)
  have "lrun_ok (reply_now r out s) ph"
    using running(3) by (subst lrun_ok_cong [of _ s]) (simp_all add: reply_now_def set_phase_def)
  with running assms(2) show ?thesis
    by (intro linv_running [of q _ ph])
      (auto simp: reply_now_def set_phase_def held_def only_def terms_ok_cong [of "s\<lparr>reqs := x\<rparr>" s for x])
qed

lemma arrive_linv: "linv s \<Longrightarrow> reqs s r = None \<Longrightarrow> linv (arrive E r stream s)"
proof (cases "read_payload (su_loads E) stream")
  case (Inl e)
  then show "linv s \<Longrightarrow> reqs s r = None \<Longrightarrow> ?thesis" by (simp add: arrive_def reply_new)
next
  case (Inr payload)
  assume inv: "linv s" and new: "reqs s r = None"
  show ?thesis
  proof (cases "lock s \<noteq> None \<or> vlock s \<noteq> None")
    case True
    with Inr reply_new [OF inv new] show ?thesis by (simp add: arrive_def)
  next
    case False
    from inv have "linv (set_phase r (Validating payload False) (s\<lparr>vlock := Some r\<rparr>))"
    proof (cases rule: linv_cases)
      case free
      then show ?thesis
        by (intro linv_checking [of _ r payload False])
          (auto simp: set_phase_def only_def rest_ok_cong [of "s\<lparr>vlock := v, reqs := x\<rparr>" s for v x]
             terms_ok_cong [of "s\<lparr>vlock := v, reqs := x\<rparr>" s for v x])
    qed (use False in \<open>auto simp: held_def\<close>)
    with Inr False show ?thesis by (simp add: arrive_def)
  qed
qed

lemma validating_state:
  assumes "linv s" "reqs s r = Some (Validating payload hung)"
  shows "lock s = None \<and> vlock s = Some r \<and> only {r} s \<and> rest_ok s \<and> terms_ok s"
  using assms(1)
proof (cases rule: linv_cases)
  case free
  with assms(2) show ?thesis by (auto simp: only_def)
next
  case (validating q p h)
  with assms(2) have "r = q" by (auto simp: only_def)
  with validating show ?thesis by simp
next
  case (running q ph)
  with assms(2) have "r = q" by (auto simp: held_def only_def)
  with running assms(2) show ?thesis by simp
qed

lemma running_state:
  assumes "linv s" "reqs s r = Some ph" "\<forall>out. ph \<noteq> Finished out" "\<forall>payload hung. ph \<noteq> Validating payload hung"
  shows "held r s \<and> lrun_ok s ph \<and> (r \<in> interrupted s \<or> shielded ph)"
  using assms(1)
proof (cases rule: linv_cases)
  case free
  with assms(2,3) have False unfolding only_def by blast
  then show ?thesis ..
next
  case (validating q p h)
  with assms(2,3) have "r = q" unfolding only_def by blast
  with validating(3) assms(2,4) have False by auto
  then show ?thesis ..
next
  case (running q ph')
  with assms(2,3) have "r = q" unfolding held_def only_def by blast
  with running assms show ?thesis by simp
qed

lemma validated_linv:
  assumes "linv s" "validated E r workdir io s = Some s'"
  shows "linv s'"
proof -
  obtain payload hung where ph: "reqs s r = Some (Validating payload hung)"
    using assms(2) by (auto simp: validated_def split: option.splits phase.splits)
  note st = validating_state [OF assms(1) ph]
  let ?s = "s\<lparr>vlock := None\<rparr>"
  have base: "lock ?s = None" "vlock ?s = None" "only {r} ?s" "rest_ok ?s" "terms_ok ?s"
    using st by (simp_all add: only_cong [of ?s s] rest_ok_cong [of ?s s] terms_ok_cong [of ?s s])
  have now: "linv (reply_now r out ?s)" for out by (rule reply_now_free [OF base])
  let ?l = "?s\<lparr>lock := Some r\<rparr>"
  have held: "held r ?l" using st unfolding held_def
    by (simp add: only_cong [of ?l s] terms_ok_cong [of ?l s])
  have rest: "rest_ok ?l" using st by (simp add: rest_ok_cong [of ?l s])
  have "linv (admit E r payload workdir io ?s)"
    unfolding admit_def using now leave_linv [OF held rest] begin_job_linv [OF held rest]
    by (auto simp: Let_def base(1) split: sum.split option.split prod.split)
  with now assms(2) ph show ?thesis by (auto simp: validated_def Let_def split: if_splits)
qed

lemma spawned_linv:
  assumes "linv s" "spawned r s = Some s'"
  shows "linv s'"
proof -
  obtain job command where ph: "reqs s r = Some (Spawning job command)"
    using assms(2) by (auto simp: spawned_def split: option.splits phase.splits)
  from running_state [OF assms(1) ph] have h: "held r s" and ok: "lrun_ok s (Spawning job command)" by auto
  let ?p = "next_pid s"
  let ?b = "s\<lparr>living := insert ?p (living s), next_pid := Suc ?p, started := started s @ [(?p, job, command)],
      rendered := rendered s @ [(r, ?p, job)]\<rparr>"
  let ?t = "case job_warm job of None \<Rightarrow> ?b | Some key \<Rightarrow> ?b\<lparr>w_proc := Some ?p, w_key := Some key, w_served := 0\<rparr>"
  have fresh: "terms s ?p = None" using h by (auto simp: held_def terms_ok_def)
  have "held r ?t" using h fresh
    by (auto simp: held_def only_def terms_ok_def less_Suc_eq split: option.split)
  moreover have "lrun_ok ?t (Rendering job ?p)" using ok fresh by (auto split: option.split)
  ultimately have "linv (set_phase r (Rendering job ?p) ?t)" by (rule set_phase_linv) simp
  then show ?thesis using assms(2) ph by (simp add: spawned_def Let_def)
qed

text \<open>A request that starts a process finds the worker at rest, and so does one whose warm run ends.\<close>

lemma spawning_rest: "lrun_ok s (Spawning job command) \<Longrightarrow> rest_ok s \<and> \<not> quarantined s"
  by (auto simp: rest_ok_def)

lemma rendering_rest: "lrun_ok s (Rendering job p) \<Longrightarrow> job_warm job \<noteq> None \<Longrightarrow> rest_ok s \<and> \<not> quarantined s"
  by (auto simp: rest_ok_def)

lemma spawn_fails_linv:
  assumes "linv s" "spawn_fails r e s = Some s'"
  shows "linv s'"
proof -
  obtain job command where ph: "reqs s r = Some (Spawning job command)" and s': "s' = leave r (Crash (PyError e)) s"
    using assms(2) by (auto simp: spawn_fails_def split: option.splits phase.splits)
  from running_state [OF assms(1) ph] spawning_rest leave_linv [of r s] s' show ?thesis by auto
qed

lemma plain_over_linv:
  assumes "held r s" "lrun_ok s (Rendering job p)" "job_warm job = None"
  shows "linv (plain_over r p cont s)"
  unfolding plain_over_def
proof (rule set_phase_linv)
  show "held r (begin_term p s)" using assms by (auto simp: held_def only_def terms_ok_def begin_term_def)
qed (use assms in \<open>auto simp: begin_term_def\<close>)

lemma run_fails_linv:
  assumes "held r s" "lrun_ok s (Rendering job p)"
  shows "linv (run_fails r job p out s)"
proof (cases "job_warm job")
  case None
  with plain_over_linv [OF assms] show ?thesis by (simp add: run_fails_def)
next
  case (Some key)
  with rendering_rest [OF assms(2)] have rest: "rest_ok s" "\<not> quarantined s" by auto
  have "linv (await_release r 2 (Conclude out) (leave r out) s)"
    by (rule await_release_linv [OF assms(1) rest]) (use leave_linv in auto)
  with Some show ?thesis by (simp add: run_fails_def)
qed

lemma run_succeeds_linv:
  assumes "held r s" "lrun_ok s (Rendering job p)"
  shows "linv (run_succeeds r job p d s)"
proof -
  have inv: "held r t" "lrun_ok t (Rendering job p)" if "same_core t s" for t
    using assms held_core [OF that] lrun_ok_core [OF that] by (simp_all del: lrun_ok.simps)
  have plain: "linv (plain_over r p cont t)" if "same_core t s" "job_warm job = None" for t cont
    using plain_over_linv [OF inv [OF that(1)] that(2)] .
  have warm: "linv (await_release r (Suc 0) cont (leave r out) t)" "linv (leave r out t)"
    if "same_core t s" "job_warm job \<noteq> None" for t cont out
    using await_release_linv [OF inv(1) [OF that(1)], of "Suc 0" "leave r out"] leave_linv [of r] inv(1) [OF that(1)]
      rendering_rest [OF inv(2) [OF that(1)] that(2)] by auto
  show ?thesis unfolding run_succeeds_def Let_def
    by (auto simp: same_core_def intro!: plain warm)
qed

lemma run_over_linv:
  assumes "linv s" "run_over E r d s = Some s'"
  shows "linv s'"
proof -
  obtain job p where ph: "reqs s r = Some (Rendering job p)"
    using assms(2) by (auto simp: run_over_def split: option.splits phase.splits)
  from running_state [OF assms(1) ph] have h: "held r s" "lrun_ok s (Rendering job p)" by (auto simp del: lrun_ok.simps)
  from assms(2) ph run_fails_linv [OF h] run_succeeds_linv [OF h] show ?thesis
    by (auto simp: run_over_def split: option.splits)
qed

lemma resume_linv:
  assumes "linv s" "resume E r created file s = Some s'"
  shows "linv s'"
proof -
  obtain w cont where ph: "reqs s r = Some (Awaiting w cont)"
    using assms(2) by (auto simp: resume_def split: option.splits phase.splits)
  from running_state [OF assms(1) ph] have h: "held r s" and ok: "lrun_ok s (Awaiting w cont)" by auto
  have over: "term_over s (wait_pid w)" using assms(2) ph by (auto simp: resume_def split: if_splits)
  define t where "t = (if released w then release_end (wait_pid w) s else s)"
  have same: "terms t = terms s" "quarantined t = quarantined s" "w_proc t = None" "living t = living s"
      "next_pid t = next_pid s"
    using ok by (auto simp: t_def release_end_def)
  have none: "w_releasing t = None" using ok over by (auto simp: t_def release_end_def)
  have ht: "held r t" using h by (auto simp: t_def release_end_def held_def only_def terms_ok_def)
  have end_: "terms s p \<noteq> Some Ending" for p using ok over by (cases "p = wait_pid w") (auto simp: term_over_def)
  have stuck: "rest_ok t" if "quarantined s"
    using that ok end_ by (auto simp: rest_ok_def same none)
  have dead: "rest_ok t \<and> \<not> quarantined t" if "terms s (wait_pid w) = Some Ended"
    using that ok end_ h by (auto simp: rest_ok_def same none held_def terms_ok_def)
  from ok h over consider "terms s (wait_pid w) = Some Ended" | "terms s (wait_pid w) = Some Stuck" "quarantined s"
    by (cases "the (terms s (wait_pid w))") (auto simp: term_over_def held_def terms_ok_def)
  then show ?thesis
  proof cases
    case 1
    note rest = dead [OF 1]
    have ent: "linv (enter E r job t)" for job
      using enter_linv [OF ht] rest none same(3) by blast
    have lv: "linv (leave r out t)" for out using leave_linv [OF ht] rest by blast
    have "s' = (if cut w then leave r Hangup t
                else (case cont of Launch job \<Rightarrow> enter E r job t | Deliver job \<Rightarrow> leave r (collect job created file) t
                      | Conclude out \<Rightarrow> leave r out t))"
      using assms(2) ph over 1 by (simp add: resume_def Let_def same(1) flip: t_def)
    then show ?thesis using ent lv by (simp split: then_do.split)
  next
    case 2
    then have "s' = leave r cleanup_failed t"
      using assms(2) ph over by (simp add: resume_def Let_def same(1) flip: t_def)
    then show ?thesis using leave_linv [OF ht stuck [OF 2(2)]] by simp
  qed
qed

lemma interrupt_linv:
  assumes inv: "linv s" and st: "interrupt r s = Some s'" and first: "r \<notin> interrupted s"
  shows "linv s'"
proof -
  let ?s = "s\<lparr>interrupted := insert r (interrupted s)\<rparr>"
  obtain ph where ph: "reqs s r = Some ph" using st by (auto simp: interrupt_def Let_def split: option.splits)
  have run: "held r ?s \<and> lrun_ok ?s ph \<and> shielded ph"
    if "\<forall>out. ph \<noteq> Finished out" "\<forall>payload hung. ph \<noteq> Validating payload hung"
  proof -
    have "lrun_ok ?s ph = lrun_ok s ph" by (rule lrun_ok_cong) simp_all
    then show ?thesis using running_state [OF inv ph that] first by (auto simp: held_def only_def terms_ok_def)
  qed
  show ?thesis
  proof (cases ph)
    case (Validating payload hung)
    with validating_state [OF inv] ph
    have b: "lock s = None" "vlock s = Some r" "only {r} s" "rest_ok s" "terms_ok s" by auto
    have "linv (reply_now r Hangup (?s\<lparr>vlock := None\<rparr>))"
      by (rule reply_now_free)
        (use b in \<open>simp_all add: only_cong [of "?s\<lparr>vlock := None\<rparr>" s] rest_ok_cong [of "?s\<lparr>vlock := None\<rparr>" s]
           terms_ok_cong [of "?s\<lparr>vlock := None\<rparr>" s]\<close>)
    moreover have "linv (set_phase r (Validating payload True) ?s)"
      by (rule linv_checking [of _ r payload True])
        (use b in \<open>auto simp: set_phase_def only_def rest_ok_cong [of "?s\<lparr>reqs := x\<rparr>" s for x]
           terms_ok_cong [of "?s\<lparr>reqs := x\<rparr>" s for x]\<close>)
    ultimately show ?thesis using st ph Validating by (auto simp: interrupt_def Let_def split: if_splits)
  next
    case (Awaiting w cont)
    with run have h: "held r ?s" and ok: "lrun_ok ?s (Awaiting w cont)" and sh: "0 < shields w" by auto
    from ok have "lrun_ok ?s (Awaiting (w\<lparr>shields := shields w - 1, cut := True\<rparr>) cont)" by simp
    with h have "linv (set_phase r (Awaiting (w\<lparr>shields := shields w - 1, cut := True\<rparr>) cont) ?s)"
      by (rule set_phase_linv) simp
    then show ?thesis using st ph Awaiting sh by (auto simp: interrupt_def cancel_wait_def Let_def)
  next
    case (Spawning job command)
    with run have h: "held r ?s" and ok: "lrun_ok ?s (Spawning job command)" by auto
    with spawning_rest [OF ok] leave_linv [OF h] have "linv (leave r Hangup ?s)" by blast
    then show ?thesis using st ph Spawning by (simp add: interrupt_def Let_def)
  next
    case (Rendering job p)
    with run have h: "held r ?s" and ok: "lrun_ok ?s (Rendering job p)" by auto
    with run_fails_linv [OF h ok] st ph Rendering show ?thesis by (auto simp: interrupt_def Let_def)
  next
    case (Finished out)
    with st ph show ?thesis by (simp add: interrupt_def Let_def)
  qed
qed

text \<open>Steps of no request: they keep the invariant if they keep its parts.\<close>

lemma linv_lift:
  assumes inv: "linv s"
    and same: "lock t = lock s" "vlock t = vlock s" "reqs t = reqs s" "interrupted t = interrupted s"
    and terms: "terms_ok s \<Longrightarrow> terms_ok t"
    and rest: "rest_ok s \<Longrightarrow> terms_ok s \<Longrightarrow> rest_ok t"
    and run: "\<And>ph. lock s \<noteq> None \<Longrightarrow> lrun_ok s ph \<Longrightarrow> terms_ok s \<Longrightarrow> lrun_ok t ph"
  shows "linv t"
  using inv
proof (cases rule: linv_cases)
  case free
  then show ?thesis by (intro linv_free) (simp_all add: same terms rest only_cong [OF same(3)])
next
  case (validating r payload hung)
  then show ?thesis
    by (intro linv_checking [of _ r payload hung]) (simp_all add: same terms rest only_cong [OF same(3)])
next
  case (running r ph)
  then have "held r t" "lrun_ok t ph" using terms run by (simp_all add: held_def same only_cong [OF same(3)] del: lrun_ok.simps)
  with running show ?thesis by (intro linv_running [of r t ph]) (simp_all add: same)
qed

text \<open>While no request holds the lock, at most the worker's termination is under way.\<close>

lemma rest_ending:
  "rest_ok s \<Longrightarrow> terms s p = Some Ending \<Longrightarrow> w_releasing s = Some p \<and> (\<forall>q. q \<noteq> p \<longrightarrow> terms s q \<noteq> Some Ending)"
  unfolding rest_ok_def by (metis option.inject)

lemma release_end_linv:
  assumes "linv s"
  shows "linv (release_end p s)"
proof (rule linv_lift [OF assms])
  show "terms_ok s \<Longrightarrow> terms_ok (release_end p s)" by (auto simp: release_end_def terms_ok_def)
  show "rest_ok (release_end p s)" if "rest_ok s" "terms_ok s"
  proof (cases "terms s p")
    case (Some a)
    with that have "w_releasing s = Some p \<Longrightarrow> a \<noteq> Ending \<Longrightarrow> (\<forall>q. terms s q \<noteq> Some Ending)"
      unfolding rest_ok_def by (metis Some option.inject)
    with that Some show ?thesis
      by (cases a) (auto simp: release_end_def rest_ok_def terms_ok_def term_over_def subset_singleton_iff, blast)
  qed (use that in \<open>auto simp: release_end_def term_over_def\<close>)
  show "lrun_ok (release_end p s) ph" if "lrun_ok s ph" "terms_ok s" for ph
    using that by (cases ph) (auto simp: release_end_def term_over_def)
qed (simp_all add: release_end_def)

lemma reaper_resumes_linv: "linv s \<Longrightarrow> reaper_resumes p s = Some s' \<Longrightarrow> linv s'"
  using release_end_linv [OF linv_core [of s "s\<lparr>late := late s - {p}\<rparr>"]]
  by (auto simp: reaper_resumes_def same_core_def split: if_splits)

lemma idle_over_linv:
  assumes "linv s" "idle_over s = Some s'"
  shows "linv s'"
proof -
  let ?s = "s\<lparr>w_reaper := False\<rparr>"
  have inv: "linv ?s" using linv_core [OF _ assms(1), of ?s] by (simp add: same_core_def)
  show ?thesis
  proof (cases "lock s")
    case (Some r)
    with assms(2) inv show ?thesis by (auto simp: idle_over_def Let_def split: if_splits)
  next
    case None
    then have lock: "lock ?s = None" by simp
    obtain q t where qt: "release_begin ?s = (q, t)" by (cases "release_begin ?s")
    have s': "s' = (case q of None \<Rightarrow> t | Some p \<Rightarrow> t\<lparr>late := insert p (late t)\<rparr>)"
      using assms(2) None qt by (auto simp: idle_over_def Let_def split: if_splits)
    have "linv t"
    proof (cases q)
      case None
      with qt release_begin_none [of ?s t] inv show ?thesis by simp
    next
      case (Some p)
      show ?thesis
      proof (cases "w_releasing s = None \<and> \<not> quarantined s")
        case False
        have "t = ?s \<or> (w_releasing s = None \<and> w_proc s \<noteq> None)" using qt Some
          by (auto simp: release_begin_def Let_def split: option.splits)
        moreover have "w_proc s = None" if "quarantined s"
          using inv that lock by (cases rule: linv_cases) (auto simp: rest_ok_def held_def)
        ultimately show ?thesis using inv False by auto
      next
        case True
        have rest: "rest_ok ?s" "terms_ok ?s" using inv lock by (cases rule: linv_cases; simp add: held_def)+
        from release_begin_some [OF _ rest(1) _ rest(2), of p t] qt Some True
        have t: "w_proc t = None \<and> w_releasing t = Some p \<and> living t \<subseteq> {p} \<and> terms t p \<noteq> None
          \<and> (\<forall>q. q \<noteq> p \<longrightarrow> terms t q \<noteq> Some Ending) \<and> terms t p \<noteq> Some Stuck \<and> \<not> quarantined t \<and> terms_ok t
          \<and> lock t = lock ?s \<and> vlock t = vlock ?s \<and> reqs t = reqs ?s \<and> interrupted t = interrupted ?s" by simp
        show ?thesis
        proof (rule linv_lift [OF inv])
          show "rest_ok t" using t by (auto simp: rest_ok_def)
          show "lock ?s \<noteq> None \<Longrightarrow> lrun_ok t ph" for ph using lock by simp
        qed (use t in simp_all)
      qed
    qed
    then show ?thesis using s' linv_core [of t "t\<lparr>late := x\<rparr>" for x]
      by (auto simp: same_core_def split: option.split)
  qed
qed

lemma killed_linv:
  assumes "linv s" "killed p s = Some s'"
  shows "linv s'"
proof -
  from assms(2) have e: "terms s p = Some Ending"
    and s': "s' = s\<lparr>terms := (terms s)(p \<mapsto> Ended), living := living s - {p}\<rparr>"
    by (auto simp: killed_def split: if_splits)
  show ?thesis
  proof (rule linv_lift [OF assms(1)])
    show "terms_ok s \<Longrightarrow> terms_ok s'" using e s' by (auto simp: terms_ok_def)
    show "rest_ok s'" if "rest_ok s"
      using that rest_ending [OF that e] e s' by (auto simp: rest_ok_def split: if_splits)
    show "lrun_ok s ph \<Longrightarrow> lrun_ok s' ph" for ph using e s' by (cases ph) auto
  qed (simp_all add: s')
qed

lemma survives_linv:
  assumes "linv s" "survives p s = Some s'"
  shows "linv s'"
proof -
  from assms(2) have e: "terms s p = Some Ending" "p \<in> living s"
    and s': "s' = s\<lparr>terms := (terms s)(p \<mapsto> Stuck), quarantined := True\<rparr>"
    by (auto simp: survives_def split: if_splits)
  show ?thesis
  proof (rule linv_lift [OF assms(1)])
    show "terms_ok s \<Longrightarrow> terms_ok s'" using e s' by (auto simp: terms_ok_def)
    show "rest_ok s'" if "rest_ok s"
      using that rest_ending [OF that e(1)] e s' by (auto simp: rest_ok_def split: if_splits)
    show "lrun_ok s ph \<Longrightarrow> lrun_ok s' ph" for ph using e s' by (cases ph) auto
  qed (simp_all add: s')
qed

lemma exits_linv:
  assumes "linv s" "exits p s = Some s'"
  shows "linv s'"
proof -
  from assms(2) have s': "s' = s\<lparr>living := living s - {p}\<rparr>" by (auto simp: exits_def split: if_splits)
  show ?thesis
  proof (rule linv_lift [OF assms(1)])
    show "terms_ok s \<Longrightarrow> terms_ok s'" using s' by (auto simp: terms_ok_def)
    show "rest_ok s \<Longrightarrow> rest_ok s'" using s' by (auto simp: rest_ok_def split: option.splits if_splits)
    show "lrun_ok s ph \<Longrightarrow> lrun_ok s' ph" for ph using s' by (cases ph) auto
  qed (simp_all add: s')
qed

lemma lstep_linv:
  assumes inv: "linv s" and st: "lstep E s ev = Some s'" and ok: "once s ev"
  shows "linv s'"
proof (cases ev)
  case (Arrives r stream)
  with inv st arrive_linv [OF inv] show ?thesis by (auto split: if_splits)
next
  case (Interrupted r)
  with st ok interrupt_linv [OF inv] show ?thesis by auto
qed (use st validated_linv [OF inv] spawned_linv [OF inv] spawn_fails_linv [OF inv] run_over_linv [OF inv]
  resume_linv [OF inv] idle_over_linv [OF inv] reaper_resumes_linv [OF inv] killed_linv [OF inv]
  survives_linv [OF inv] exits_linv [OF inv] in auto)

lemma lreaches_linv: "lreaches once E s \<Longrightarrow> linv s"
  by (induction rule: lreaches.induct) (auto intro: linv_initial lstep_linv)

section \<open>One model in memory\<close>

lemma linv_one_living:
  assumes "linv s" "p \<in> living s" "q \<in> living s"
  shows "p = q"
  using assms(1)
proof (cases rule: linv_cases)
  case free
  with assms(2,3) show ?thesis by (auto simp: rest_ok_def split: if_splits option.splits)
next
  case (validating r payload hung)
  with assms(2,3) show ?thesis by (auto simp: rest_ok_def split: if_splits option.splits)
next
  case (running r ph)
  with assms(2,3) show ?thesis by (cases ph) auto
qed

text \<open>The process a run starts or is sent to is the only one that lives, and it is no quarantined one.\<close>

lemma spawning_alone:
  assumes "linv s" "reqs s r = Some (Spawning job command)"
  shows "living s = {} \<and> \<not> quarantined s \<and> lock s = Some r"
  using running_state [OF assms] by (simp add: held_def)

end
