(* ===== verification/Ltx_Errors.thy ===== *)
theory Ltx_Errors
  imports Ltx_Argv
begin

text \<open>
  Which exceptions leave \<open>parse_generation\<close>: one rule per reader, joined by the rules on \<open>fails\<close>.
\<close>

definition client_side :: "api_exn \<Rightarrow> bool" where
  "client_side e = (case e of ApiError m c s \<Rightarrow> s \<in> {400, 404, 413} | _ \<Rightarrow> False)"

lemma client_side_simps [simp, err_rules]:
  "client_side (invalid m)" "client_side (too_large m)"
  by (simp_all add: client_side_def invalid_def too_large_def)

lemma not_client_side [simp]: "\<not> client_side (PyError e)"
  by (simp add: client_side_def)

text \<open>The exceptions of the probe of a source video that the code does not name.\<close>

definition probe_error :: "api_exn \<Rightarrow> bool" where
  "probe_error e = (client_side e \<or> e \<in> {PyError TypeErr, PyError OverflowErr})"

lemma probe_error_simps [simp]:
  "probe_error (invalid m)" "probe_error (too_large m)" "probe_error bad_video"
  by (simp_all add: probe_error_def bad_video_def)

lemma fails_probed [err_rules]: "fails probe_error (probed r)"
  by (cases r) (auto simp: fails_def probed_def probe_error_def bad_video_def split: exn.splits)

lemma fails_case_prod [err_rules]: "(\<And>a b. r = (a, b) \<Longrightarrow> fails E (f a b)) \<Longrightarrow> fails E (case_prod f r)"
  by (cases r) simp

lemma fails_case_prod2 [err_rules]: "(\<And>a b. fails E (f a b s)) \<Longrightarrow> fails E (case_prod f r s)"
  by (cases r) simp

section \<open>Media\<close>

lemma fails_image_size [err_rules]: "fails client_side (image_size raw field)"
  unfolding image_size_def by (intro err_rules)+

lemma fails_decode_image [err_rules]: "fails client_side (decode_image x raw field)"
  unfolding decode_image_def by (intro err_rules)+

lemma fails_wav_chunks [err_rules]: "fails client_side (wav_chunks raw field i fmt data)"
proof (induction "length raw - i" arbitrary: i fmt data rule: less_induct)
  case less
  show ?case by (subst wav_chunks.simps) (auto simp: Let_def intro!: err_rules less)
qed

lemma fails_decode_wav [err_rules]: "fails client_side (decode_wav raw field)"
  unfolding decode_wav_def by (intro err_rules)+

lemma fails_flac_blocks [err_rules]: "fails client_side (flac_blocks raw field i)"
proof (induction "length raw - i" arbitrary: i rule: less_induct)
  case less
  show ?case by (subst flac_blocks.simps) (auto simp: Let_def stream_info_def intro!: err_rules less)
qed

lemma fails_decode_flac [err_rules]: "fails client_side (decode_flac raw field)"
  unfolding decode_flac_def by (intro err_rules)+

lemma fails_measured [err_rules]: "fails client_side (measured s info fmt field)"
  unfolding measured_def Let_def by (intro err_rules)+

lemma fails_ltx_decode_audio [err_rules]: "fails client_side (ltx_decode_audio x raw fmt field)"
  unfolding ltx_decode_audio_def by (intro err_rules)+

lemma fails_ltx_data_uri [err_rules]: "fails client_side (ltx_data_uri v pat field n label)"
  unfolding ltx_data_uri_def by (intro err_rules)+

lemma fails_client_probe: "fails client_side r \<Longrightarrow> fails probe_error r"
  by (erule fails_mono) (simp add: probe_error_def)

lemma fails_decode_video: "fails probe_error (decode_video x v)"
  unfolding decode_video_def probe_shape_def stereo_bytes_def Let_def
  by (intro err_rules fails_client_probe [OF fails_ltx_data_uri] probe_error_simps)+

section \<open>Fields\<close>

lemma fails_ltx_number [err_rules]: "fails client_side (ltx_number p field low high w d)"
  unfolding ltx_number_def Let_def by (intro err_rules)+

lemma fails_opt_float [err_rules]: "fails client_side (opt_float p field low high)"
  unfolding opt_float_def by (intro err_rules)+

lemma fails_float_or [err_rules]: "fails client_side (float_or p field low high d)"
  unfolding float_or_def by (intro err_rules)+

lemma fails_ltx_integer [err_rules]: "fails client_side (ltx_integer p field low high d)"
  unfolding ltx_integer_def Let_def by (intro err_rules)+

lemma fails_int_or [err_rules]: "fails client_side (int_or p field low high d)"
  unfolding int_or_def by (intro err_rules)+

lemma fails_frames [err_rules]: "fails client_side (frames_from_duration d r)"
  unfolding frames_from_duration_def Let_def by (intro err_rules)+

lemma fails_prompt [err_rules]: "fails client_side (read_prompt p)"
  unfolding read_prompt_def normalize_prompt_def prompt_line_def Let_def by (intro err_rules)+

lemma fails_negative [err_rules]: "fails client_side (read_negative p model spec)"
  unfolding read_negative_def Let_def by (intro err_rules)+

lemma fails_select [err_rules]: "fails client_side (select_workflow p)"
proof -
  have "client_side (ApiError m c 404)" for m c by (simp add: client_side_def)
  then show ?thesis unfolding select_workflow_def Let_def by (intro err_rules)+
qed

lemma fails_check_fields [err_rules]: "fails client_side (check_fields p)"
  unfolding check_fields_def Let_def by (intro err_rules)+

lemma fails_canvas [err_rules]: "fails client_side (read_canvas p spec)"
  unfolding read_canvas_def canvas_fields_def check_side_def Let_def by (intro err_rules)+

lemma fails_timing [err_rules]: "fails client_side (read_timing p spec)"
  unfolding read_timing_def read_rate_def read_frames_def by (intro err_rules)+

lemma fails_steps [err_rules]: "fails client_side (read_steps p model spec)"
  unfolding read_steps_def by (intro err_rules)+

lemma fails_guidance [err_rules]: "fails client_side (read_guidance p spec)"
  unfolding read_guidance_def parse_guidance_def by (intro err_rules)+

lemma fails_read_guide [err_rules]: "fails client_side (read_guide x v name field frame s)"
  unfolding read_guide_def by (intro err_rules)+

lemma fails_keyframe [err_rules]: "fails client_side (read_keyframe x n entry st)"
  unfolding read_keyframe_def Let_def by (intro err_rules)+

lemma fails_guides [err_rules]: "fails client_side (read_guides x p spec n)"
  unfolding read_guides_def read_endpoints_def apply_strength_def read_keyframes_def by (intro err_rules)+

lemma fails_track [err_rules]: "fails client_side (read_track x p model spec)"
  unfolding read_track_def by (intro err_rules)+

lemma fails_finish [err_rules]:
  "fails client_side (finish_generation p model w spec prompt neg video wh tm sd steps gs images track)"
  unfolding finish_generation_def read_generated_def read_upscalings_def read_offload_def
    read_quantization_def read_chunked_def Let_def by (intro err_rules)+

section \<open>The request\<close>

text \<open>An exception that is not the caller's fault can only come from the probe of a source video.\<close>

definition blames_probe :: "tools \<Rightarrow> pyval \<Rightarrow> api_exn \<Rightarrow> bool" where
  "blames_probe x payload e =
     (client_side e \<or> e \<in> {PyError TypeErr, PyError OverflowErr}
        \<and> (\<exists>p. payload = PDict p \<and> decode_video x (get_none p ''video'') = Inl e))"

lemma fails_client_blames: "fails client_side r \<Longrightarrow> fails (blames_probe x payload) r"
  by (erule fails_mono) (simp add: blames_probe_def)

lemma fails_read_video: "fails (blames_probe x (PDict p)) (read_video x p model spec)"
proof -
  have "fails (blames_probe x (PDict p)) (decode_video x (get_none p ''video''))"
    using fails_decode_video [of x "get_none p ''video''"]
    by (auto simp: fails_def blames_probe_def probe_error_def split: sum.splits)
  then show ?thesis
    unfolding read_video_def Let_def
    by (intro err_rules fails_client_blames [OF fails_opt_float]) (simp_all add: blames_probe_def)
qed

lemma fails_parse_generation: "fails (blames_probe x payload) (parse_generation x payload)"
proof (cases payload)
  case (PDict p)
  note c = fails_client_blames [of _ x "PDict p"]
  show ?thesis
    unfolding parse_generation_def PDict pyval.case
    by (intro fails_bind fails_prod fails_read_video c err_rules)
qed (simp_all add: parse_generation_def fails_def blames_probe_def)

end
