(* ===== verification/Ltx_Bounds.thy ===== *)
theory Ltx_Bounds
  imports Ltx_Errors Py_Round
begin

text \<open>
  What an accepted request satisfies: the well-formedness \<open>generation_ok\<close> of its result, reader by
  reader, and the nearest point of the frame grid that a duration is turned into.
\<close>

section \<open>Field readers\<close>

lemma int_or_range: "int_or p f lo hi d = Inr i \<Longrightarrow> lo \<le> d \<Longrightarrow> d \<le> hi \<Longrightarrow> lo \<le> i \<and> i \<le> hi"
  by (auto simp: int_or_def ltx_integer_def Let_def split: pyval.splits if_splits)

lemma int_or_given: "int_or p f lo hi d = Inr i \<Longrightarrow> get_none p f \<noteq> PNone \<Longrightarrow> lo \<le> i \<and> i \<le> hi"
  by (auto simp: int_or_def ltx_integer_def Let_def split: pyval.splits if_splits)

lemma ltx_integer_range: "ltx_integer p f lo hi None = Inr (Some i) \<Longrightarrow> lo \<le> i \<and> i \<le> hi"
  by (auto simp: ltx_integer_def Let_def split: pyval.splits)

lemma rnd53_between:
  assumes "of_int a \<le> x" "x \<le> of_int b" "0 \<le> a" "b < 1000000"
  shows "of_int a \<le> rnd53 x \<and> rnd53 x \<le> of_int b"
proof (cases "x = 0")
  case True
  then show ?thesis using assms by simp
next
  case False
  have "(of_int b :: rat) < of_int 1000000" unfolding of_int_less_iff by (rule assms(4))
  moreover have "(0 :: rat) \<le> of_int a" using assms(3) by simp
  ultimately have "0 < x" "x < 1000000" using False assms(1,2) by auto
  with rnd53_bounds_int [OF this, of a] rnd53_bounds_int [OF this, of b] assms show ?thesis by simp
qed

lemma ltx_number_Inr:
  assumes "ltx_number p f low high w d = Inr v"
  shows "get_none p f = PNone \<and> v = d
    \<or> (\<exists>y. num_of (get_none p f) = Some y \<and> between low high (get_none p f)
         \<and> v = (if w then PInt (if y < 0 then \<lceil>y\<rceil> else \<lfloor>y\<rfloor>) else PFloat (rnd53 y)))"
  using assms by (auto simp: ltx_number_def Let_def split: option.splits if_splits)

lemma opt_float_Some:
  assumes "opt_float p f low high = Inr (Some x)"
  shows "\<exists>y. num_of (get_none p f) = Some y \<and> between low high (get_none p f) \<and> x = rnd53 y"
proof -
  from assms obtain v where v: "ltx_number p f low high False PNone = Inr v"
    "(case v of PFloat x \<Rightarrow> Some x | _ \<Rightarrow> None) = Some x"
    by (auto simp: opt_float_def)
  from ltx_number_Inr [OF v(1)] v(2) show ?thesis by auto
qed

lemma between_num [simp]: "num_of v = Some y \<Longrightarrow> between (PFloat a) (PFloat b) v \<longleftrightarrow> a \<le> y \<and> y \<le> b"
  by (simp add: between_def)

lemma opt_float_range:
  assumes "opt_float p f (PFloat (of_int a)) (PFloat (of_int b)) = Inr (Some x)" "0 \<le> a" "b < 1000000"
  shows "of_int a \<le> x \<and> x \<le> of_int b"
proof -
  from opt_float_Some [OF assms(1)] obtain y where "x = rnd53 y" "of_int a \<le> y" "y \<le> of_int b" by auto
  with rnd53_between [of a y b] assms(2,3) show ?thesis by simp
qed

lemma float_or_range:
  assumes "float_or p f (PFloat (of_int a)) (PFloat (of_int b)) d = Inr x" "0 \<le> a" "b < 1000000"
    and "of_int a \<le> d" "d \<le> of_int b"
  shows "of_int a \<le> x \<and> x \<le> of_int b"
  using assms opt_float_range [OF _ assms(2,3)] by (auto simp: float_or_def split: option.splits)

section \<open>The table\<close>

definition spec_ok :: "ltx_spec \<Rightarrow> bool" where
  "spec_ok s =
     (default_width s = 832 \<and> default_height s = 512 \<and> default_num_frames s = 121 \<and> default_frame_rate s = 24
      \<and> default_seed s = 0 \<and> transformer s \<in> {''dev_transformer'', ''distilled_transformer''}
      \<and> assets s \<in> {[], [''distilled_lora''], [''detailing_lora'']} \<and> accepts_audio s = requires_audio s \<and> \<not> (accepts_video s \<and> requires_audio s))"

lemma table_ok: "list_all (\<lambda>(m, ws). list_all (\<lambda>(w, s). spec_ok s) ws) pipelines"
  by (simp add: pipelines_def full_workflows_def distilled_workflows_def pipeline_def spec_ok_def)

lemma selected_spec:
  assumes "select_workflow p = Inr (m, w, s)"
  shows "spec_ok s" and "\<exists>ws. map_of pipelines m = Some ws \<and> map_of ws w = Some s"
proof -
  from assms show "\<exists>ws. map_of pipelines m = Some ws \<and> map_of ws w = Some s"
    by (auto simp: select_workflow_def Let_def split: pyval.splits option.splits)
  then obtain ws where "(m, ws) \<in> set pipelines" "(w, s) \<in> set ws" by (auto dest: map_of_SomeD)
  with table_ok show "spec_ok s" by (fastforce simp: list_all_iff)
qed

section \<open>Frame grid\<close>

lemma round_even_near: "\<bar>of_int (round_even q) - q\<bar> \<le> 1 / 2"
proof -
  have "of_int \<lfloor>q\<rfloor> \<le> q" "q < of_int \<lfloor>q\<rfloor> + 1" by linarith+
  then show ?thesis by (auto simp: round_even_def Let_def)
qed

text \<open>An eighth of a small integer is a float.\<close>

lemma rnd53_eighth:
  assumes "0 \<le> i" "i < 1000000"
  shows "rnd53 (of_int i / 8) = of_int i / 8"
proof (cases "i = 0")
  case True
  then show ?thesis by simp
next
  case False
  let ?x = "of_int i / 8 :: rat"
  have "(of_int i :: rat) < of_int 1000000" unfolding of_int_less_iff by (rule assms(2))
  with False assms have r: "0 < ?x" "?x < 2 ^ (53 - 3)" by simp_all
  from rnd53_dyadic [OF r, of i] show ?thesis by (intro antisym) simp_all
qed

lemma grid_nearest:
  assumes "0 \<le> t - 1" "t < 1000000" and f: "f = 8 * max 1 (round_even (rnd53 (of_int (t - 1) / 8))) + 1"
    and "(m - 1) mod 8 = 0" "9 \<le> m"
  shows "\<bar>f - t\<bar> \<le> \<bar>m - t\<bar>"
proof -
  define k where "k = round_even (of_int (t - 1) / 8)"
  from assms(4) obtain j where j: "m = 8 * j + 1" by (metis mod_0_imp_dvd dvdE diff_add_cancel)
  have "\<bar>of_int k - (of_int (t - 1) / 8 :: rat)\<bar> \<le> 1 / 2" unfolding k_def by (rule round_even_near)
  then have "(of_int (8 * k - (t - 1)) :: rat) \<le> of_int 4" "(of_int (t - 1 - 8 * k) :: rat) \<le> of_int 4"
    by (simp_all add: abs_le_iff field_simps)
  then have n: "\<bar>8 * k - (t - 1)\<bar> \<le> 4" unfolding of_int_le_iff by linarith
  have "rnd53 (of_int (t - 1) / 8) = of_int (t - 1) / 8" using assms(1,2) by (intro rnd53_eighth) simp_all
  with f have "f = 8 * max 1 k + 1" by (simp only: k_def)
  moreover have "1 \<le> j" using j assms(5) by simp
  moreover have "m = f \<or> m \<le> f - 8 \<or> f + 8 \<le> m" using \<open>f = 8 * max 1 k + 1\<close> j by presburger
  ultimately show ?thesis using n j by (cases "1 \<le> k") (auto simp: abs_if split: if_splits)
qed

text \<open>The frame count of a duration, in range and on the grid, is a nearest one to the product.\<close>

lemma frames_of_duration:
  assumes "frames_from_duration d r = Inr n" "of_int 0 \<le> d" "d \<le> of_int 20" "1 \<le> r" "r \<le> 60"
  shows "(n - 1) mod 8 = 0" "9 \<le> n" "n \<le> 481"
    and "(m - 1) mod 8 = 0 \<Longrightarrow> 9 \<le> m \<Longrightarrow> 1 \<le> round_even (rnd53 (d * r)) \<Longrightarrow>
      \<bar>n - round_even (rnd53 (d * r))\<bar> \<le> \<bar>m - round_even (rnd53 (d * r))\<bar>"
proof -
  let ?t = "round_even (rnd53 (d * r))"
  from assms(1) have n: "n = 8 * max 1 (round_even (rnd53 (of_int (?t - 1) / 8))) + 1"
    and b: "\<not> (n < min_frames \<or> max_frames < n)"
    by (auto simp: frames_from_duration_def Let_def)
  show "(n - 1) mod 8 = 0" "9 \<le> n" "n \<le> 481"
    using n b by (simp_all add: min_frames_def max_frames_def)
  have "d * r \<le> 20 * 60" using assms by (intro mult_mono) auto
  moreover have "0 \<le> d * r" using assms by simp
  ultimately have "rnd53 (d * r) \<le> of_int 1200" using rnd53_between [of 0 "d * r" 1200] by simp
  then have t: "?t \<le> 1200" by (rule round_even_bounds(2))
  show "\<bar>n - ?t\<bar> \<le> \<bar>m - ?t\<bar>" if "(m - 1) mod 8 = 0" "9 \<le> m" "1 \<le> ?t"
    using grid_nearest [OF _ _ n that(1,2)] that(3) t by simp
qed

section \<open>Canvas and timing\<close>

definition canvas_ok :: "int \<Rightarrow> int \<Rightarrow> bool" where
  "canvas_ok w h =
     (64 \<le> w \<and> w \<le> 2048 \<and> 64 \<le> h \<and> h \<le> 2048 \<and> w mod 32 = 0 \<and> h mod 32 = 0 \<and> w * h \<le> 1920 * 1088)"

definition frames_ok :: "int \<Rightarrow> rat \<Rightarrow> bool" where
  "frames_ok n r =
     (9 \<le> n \<and> n \<le> 481 \<and> (n - 1) mod 8 = 0 \<and> 1 \<le> r \<and> r \<le> 60 \<and> rnd53 (of_int (n - 1) / r) \<le> 20)"

lemma mod_64_32: "(w :: int) mod 64 = 0 \<Longrightarrow> w mod 32 = 0"
  by presburger

lemma read_canvas_ok: "read_canvas p spec = Inr (w, h) \<Longrightarrow> canvas_ok w h"
  by (auto simp: read_canvas_def check_side_def canvas_ok_def limit_defs mod_64_32)

lemma retake_shape_ok: "retake_canvas_ok w h \<Longrightarrow> canvas_ok w h" "retake_timing_ok n r \<Longrightarrow> frames_ok n r"
  by (auto simp: retake_canvas_ok_def retake_timing_ok_def canvas_ok_def frames_ok_def limit_defs)

lemma read_rate_range:
  assumes "read_rate p spec = Inr r" "spec_ok spec"
  shows "1 \<le> r \<and> r \<le> 60"
proof -
  from assms(1) obtain f where "float_or p f (PFloat (of_int 1)) (PFloat (of_int 60)) (default_frame_rate spec) = Inr r"
    by (auto simp: read_rate_def)
  from float_or_range [OF this] assms(2) show ?thesis by (simp add: spec_ok_def)
qed

lemma read_timing_ok:
  assumes "read_timing p spec = Inr tm" "spec_ok spec"
  shows "frames_ok (tm_frames tm) (tm_rate tm)"
proof -
  from assms(1) obtain d src where r: "read_rate p spec = Inr (tm_rate tm)"
    and f: "read_frames p spec (tm_rate tm) = Inr (d, tm_frames tm, src)"
    and l: "rnd53 (of_int (tm_frames tm - 1) / tm_rate tm) \<le> 20"
    by (auto simp: read_timing_def max_duration_def)
  note rr = read_rate_range [OF r assms(2)]
  have "9 \<le> tm_frames tm \<and> tm_frames tm \<le> 481 \<and> (tm_frames tm - 1) mod 8 = 0"
  proof (cases "get_none p ''duration'' = PNone")
    case True
    with f assms(2) show ?thesis
      by (auto simp: read_frames_def spec_ok_def limit_defs split: if_splits dest: int_or_given)
  next
    case False
    with f obtain e where e: "float_or p ''duration'' (PFloat (1 / 4)) (PFloat max_duration) 0 = Inr e"
      and n: "frames_from_duration e (tm_rate tm) = Inr (tm_frames tm)"
      by (auto simp: read_frames_def)
    from e have "e = 0 \<or> (\<exists>y. e = rnd53 y \<and> 1 / 4 \<le> y \<and> y \<le> 20)"
      by (auto simp: float_or_def max_duration_def split: option.splits dest!: opt_float_Some)
    then have "of_int 0 \<le> e \<and> e \<le> of_int 20" using rnd53_between [of 0 _ 20] by force
    with frames_of_duration(1-3) [OF n] rr show ?thesis by auto
  qed
  with rr l show ?thesis by (simp add: frames_ok_def)
qed

section \<open>Guides\<close>

text \<open>
  The guides of a clip of \<open>n\<close> frames: on different frames, each in the clip, with a strength between 0
  and 1 and an image of a bounded number of pixels.
\<close>

definition guide_fields :: "string set" where
  "guide_fields = {''image'', ''last_frame''} \<union> range keyframe_name"

definition guide_ok :: "int \<Rightarrow> guide \<Rightarrow> bool" where
  "guide_ok n g =
     (0 \<le> gd_frame g \<and> gd_frame g < n \<and> 0 \<le> gd_strength g \<and> gd_strength g \<le> 1
      \<and> 1 \<le> gd_width g \<and> 1 \<le> gd_height g \<and> gd_width g * gd_height g \<le> 4096 * 4096
      \<and> gd_bytes g \<noteq> [] \<and> gd_field g \<in> guide_fields \<and> gd_format g \<in> {''png'', ''jpeg''})"

definition guides_ok :: "int \<Rightarrow> guide list \<Rightarrow> bool" where
  "guides_ok n gs = (list_all (guide_ok n) gs \<and> distinct (map gd_frame gs) \<and> distinct (map gd_field gs))"

lemma decode_image_ok:
  "decode_image x raw name = Inr (f, w, h) \<Longrightarrow> 1 \<le> w \<and> 1 \<le> h \<and> w * h \<le> 4096 * 4096"
  by (auto simp: decode_image_def max_image_pixels_def)

lemma match_header_Some:
  assumes "match_header pat s = Some (g, data)"
  shows "g \<in> snd ` set pat" and "\<exists>h. (h, g) \<in> set pat \<and> s = h @ data"
proof -
  from assms obtain h where f: "find (\<lambda>(h, g). prefix h s) pat = Some (h, g)" and d: "data = drop (length h) s"
    by (auto simp: match_header_def Let_def split: option.splits if_splits)
  from f have "(h, g) \<in> set pat" "prefix h s" by (auto simp: find_Some_iff in_set_conv_nth)
  with d show "g \<in> snd ` set pat" "\<exists>h. (h, g) \<in> set pat \<and> s = h @ data" by (force simp: prefix_def)+
qed

lemma ltx_data_uri_ok:
  assumes "ltx_data_uri v pat name n label = Inr (raw, g)"
  shows "raw \<noteq> [] \<and> length raw \<le> n \<and> g \<in> snd ` set pat"
proof -
  from assms obtain s data where "match_header pat s = Some (g, data)" "raw \<noteq> []" "\<not> n < length raw"
    by (auto simp: ltx_data_uri_def split: pyval.splits option.splits)
  with match_header_Some(1) show ?thesis by force
qed

lemma read_guide_ok:
  assumes "read_guide x v name field frame s = Inr g" "0 \<le> frame" "frame < n" "0 \<le> s" "s \<le> 1"
    and "field \<in> guide_fields"
  shows "guide_ok n g \<and> gd_frame g = frame \<and> gd_field g = field"
proof -
  from assms(1) obtain f w h where u: "ltx_data_uri v image_data_re name ltx_image_bytes ''PNG/JPEG'' = Inr (gd_bytes g, gd_format g)"
    and i: "decode_image x (gd_bytes g) name = Inr (f, gd_width g, gd_height g)"
    and g: "gd_frame g = frame" "gd_field g = field" "gd_strength g = s"
    by (auto simp: read_guide_def)
  from ltx_data_uri_ok [OF u] have "gd_format g \<in> {''png'', ''jpeg''}" by (auto simp: image_data_re_def)
  with ltx_data_uri_ok [OF u] decode_image_ok [OF i] g assms show ?thesis by (simp add: guide_ok_def)
qed

lemma read_endpoints_ok:
  assumes "read_endpoints x p spec n = Inr gs" "9 \<le> n"
  shows "guides_ok n gs \<and> set (map gd_field gs) \<subseteq> {''image'', ''last_frame''} \<and> length gs \<le> 2"
proof -
  have s: "(0 :: rat) \<le> rnd53 (7 / 10)" "rnd53 (7 / 10) \<le> 1" using rnd53_between [of 0 "7 / 10" 1] by simp_all
  have first: "guide_ok n g \<and> gd_frame g = 0 \<and> gd_field g = ''image''"
    if "read_guide x v ''image'' ''image'' 0 (if requires_audio spec then rnd53 (7 / 10) else 1) = Inr g" for v g
    using read_guide_ok [OF that, of n] s assms(2) by (cases "requires_audio spec") (simp_all add: guide_fields_def)
  have final: "guide_ok n g \<and> gd_frame g = n - 1 \<and> gd_field g = ''last_frame''"
    if "read_guide x v ''last_frame'' ''last_frame'' (n - 1) 1 = Inr g" for v g
    using read_guide_ok [OF that, of n] assms(2) by (simp add: guide_fields_def)
  show ?thesis
    using assms unfolding read_endpoints_def
    by (cases "get_none p ''image'' = PNone"; cases "get_none p ''last_frame'' = PNone")
      (auto simp: guides_ok_def dest!: first final)
qed

lemma set_strength_props:
  "map gd_frame (set_strength s gs) = map gd_frame gs" "map gd_field (set_strength s gs) = map gd_field gs"
  "0 \<le> s \<Longrightarrow> s \<le> 1 \<Longrightarrow> list_all (guide_ok n) gs \<Longrightarrow> list_all (guide_ok n) (set_strength s gs)"
  by (induction gs) (auto simp: guide_ok_def)

lemma apply_strength_ok:
  assumes "apply_strength p gs = Inr gs'" "guides_ok n gs"
  shows "guides_ok n gs' \<and> map gd_field gs' = map gd_field gs"
proof (cases "has_key p ''image_strength''")
  case False
  with assms show ?thesis by (simp add: apply_strength_def)
next
  case True
  with assms(1) obtain s where s: "opt_float p ''image_strength'' (PFloat (of_int 0)) (PFloat (of_int 1)) = Inr (Some s)"
    and g: "gs' = set_strength s gs"
    by (auto simp: apply_strength_def split: option.splits)
  from opt_float_range [OF s] have "0 \<le> s" "s \<le> 1" by simp_all
  with assms(2) g set_strength_props show ?thesis by (auto simp: guides_ok_def)
qed

end
