(* ===== verification/Ltx_Accept.thy ===== *)
theory Ltx_Accept
  imports Ltx_Bounds
begin

text \<open>
  The well-formedness of an accepted request: keyframes and the driving audio, then \<open>generation_ok\<close>
  joined over the readers, which \<open>accepted_ok\<close> shows of every result of \<open>parse_generation\<close>.
\<close>

section \<open>Keyframes\<close>

lemma keyframe_name_simps [simp]:
  "keyframe_name i = keyframe_name j \<longleftrightarrow> i = j" "keyframe_name i \<noteq> ''image''" "keyframe_name i \<noteq> ''last_frame''"
  by (simp_all add: keyframe_name_def)

text \<open>The state of the loop before entry \<open>i\<close>.\<close>

definition keyframes_inv :: "int \<Rightarrow> nat \<Rightarrow> int set \<times> guide list \<Rightarrow> bool" where
  "keyframes_inv n i st =
     (guides_ok n (snd st) \<and> set (map gd_frame (snd st)) \<subseteq> fst st
      \<and> set (map gd_field (snd st)) \<subseteq> {''image'', ''last_frame''} \<union> keyframe_name ` {..<i} \<and> length (snd st) \<le> 2 + i)"

lemma read_keyframe_inv:
  assumes "read_keyframe x n (i, v) st = Inr st'" "keyframes_inv n i st" "9 \<le> n"
  shows "keyframes_inv n (Suc i) st'"
proof -
  obtain occ gs where st: "st = (occ, gs)" by (cases st)
  from assms(1) obtain e frame g s where v: "v = PDict e"
    and f: "ltx_integer e ''frame'' 1 (max 1 (n - 2)) None = Inr (Some frame)" and new: "frame \<notin> occ"
    and g: "read_guide x (get_none e ''image'') (keyframe_name i @ ''.image'') (keyframe_name i) frame 1 = Inr g"
    and s: "float_or e ''strength'' (PFloat (of_int 0)) (PFloat (of_int 1)) 1 = Inr s"
    and st': "st' = (insert frame occ, gs @ [g\<lparr>gd_strength := s\<rparr>])"
    by (auto simp: read_keyframe_def st Let_def split: pyval.splits option.splits)
  from ltx_integer_range [OF f] assms(3) have r: "0 \<le> frame" "frame < n" by auto
  from float_or_range [OF s] have sr: "0 \<le> s" "s \<le> 1" by simp_all
  have "keyframe_name i \<in> guide_fields" by (simp add: guide_fields_def)
  from read_guide_ok [OF g r _ _ this] have g': "guide_ok n g" "gd_frame g = frame" "gd_field g = keyframe_name i" by simp_all
  with sr have "guide_ok n (g\<lparr>gd_strength := s\<rparr>)" by (simp add: guide_ok_def)
  moreover have "keyframe_name i \<notin> set (map gd_field gs)" using assms(2) st by (auto simp: keyframes_inv_def)
  moreover have "frame \<notin> set (map gd_frame gs)" using assms(2) st new by (auto simp: keyframes_inv_def)
  ultimately show ?thesis
    using assms(2) g' st st' by (auto simp: keyframes_inv_def guides_ok_def)
qed

lemma keyframes_loop:
  assumes "forE (zip [i..<i + length es] es) (read_keyframe x n) st = Inr st'" "keyframes_inv n i st" "9 \<le> n"
  shows "keyframes_inv n (i + length es) st'"
  using assms
proof (induction es arbitrary: i st)
  case Nil
  then show ?case by simp
next
  case (Cons e es)
  have z: "zip [i..<i + length (e # es)] (e # es) = (i, e) # zip [Suc i..<Suc i + length es] es"
    by (simp add: upt_rec)
  from Cons.prems(1) obtain st1 where "read_keyframe x n (i, e) st = Inr st1"
    and l: "forE (zip [Suc i..<Suc i + length es] es) (read_keyframe x n) st1 = Inr st'"
    unfolding z by auto
  from Cons.IH [OF l read_keyframe_inv [OF this(1) Cons.prems(2,3)] Cons.prems(3)] show ?case by simp
qed

lemma read_guides_ok:
  assumes "read_guides x p spec n = Inr gs" "9 \<le> n"
  shows "guides_ok n gs \<and> length gs \<le> 10"
proof -
  from assms(1) obtain g0 g1 where e: "read_endpoints x p spec n = Inr g0" and a: "apply_strength p g0 = Inr g1"
    and k: "read_keyframes x p n g1 = Inr gs" by (auto simp: read_guides_def)
  note e' = read_endpoints_ok [OF e assms(2)]
  from apply_strength_ok [OF a, of n] e' have g1: "guides_ok n g1" "map gd_field g1 = map gd_field g0" by simp_all
  then have l: "length g1 \<le> 2" using e' by (metis length_map)
  from k consider "gs = g1" | es occ where "length es \<le> 8"
    "forE (zip [0..<length es] es) (read_keyframe x n) (set (map gd_frame g1), g1) = Inr (occ, gs)"
    by (auto simp: read_keyframes_def max_keyframes_def not_less split: pyval.split_asm)
  then show ?thesis
  proof cases
    case 1
    with g1 l show ?thesis by simp
  next
    case 2
    have "keyframes_inv n 0 (set (map gd_frame g1), g1)"
      using g1 e' l by (simp add: keyframes_inv_def)
    from keyframes_loop [of 0 es, simplified, OF 2(2) this assms(2)] 2(1) show ?thesis
      by (simp add: keyframes_inv_def)
  qed
qed

section \<open>Driving audio\<close>

definition track_ok :: "sound_track \<Rightarrow> bool" where
  "track_ok t =
     (tr_bytes t \<noteq> [] \<and> length (tr_bytes t) \<le> 48 * 1024 * 1024 \<and> tr_ext t \<in> {''wav'', ''flac''} \<and> 0 \<le> tr_start t
      \<and> (\<exists>d. ai_duration (tr_info t) = Some d \<and> tr_start t < d \<and> d \<le> 600))"

lemma measured_ok: "measured s info fmt field = Inr d \<Longrightarrow> d \<le> 600"
  by (auto simp: measured_def Let_def max_audio_seconds_def split: option.splits)

lemma ltx_decode_audio_ok: "ltx_decode_audio x raw fmt field = Inr info \<Longrightarrow> \<exists>d. ai_duration info = Some d \<and> d \<le> 600"
  using measured_ok by (fastforce simp: ltx_decode_audio_def split: option.split_asm)

lemma read_track_ok:
  assumes "read_track x p model spec = Inr (Some t)"
  shows "track_ok t \<and> accepts_audio spec"
proof -
  from assms obtain start info where u: "ltx_data_uri (get_none p ''audio'') audio_data_re ''audio'' ltx_audio_bytes ''WAV/FLAC'' = Inr (tr_bytes t, tr_ext t)"
    and i: "ltx_decode_audio x (tr_bytes t) (tr_ext t) ''audio'' = Inr (tr_info t)"
    and s: "float_or p ''audio_start_time'' (PFloat (of_int 0)) (PFloat (of_int 20)) 0 = Inr (tr_start t)"
    and l: "tr_start t < track_duration (tr_info t)" and a: "accepts_audio spec"
    by (auto simp: read_track_def max_duration_def split: if_splits)
  from ltx_data_uri_ok [OF u] have "tr_ext t \<in> {''wav'', ''flac''}" by (auto simp: audio_data_re_def)
  with ltx_data_uri_ok [OF u] ltx_decode_audio_ok [OF i] float_or_range [OF s] l a show ?thesis
    by (auto simp: track_ok_def track_duration_def ltx_audio_bytes_def)
qed

lemma read_track_required: "read_track x p model spec = Inr None \<Longrightarrow> \<not> requires_audio spec"
  by (auto simp: read_track_def split: if_splits)

section \<open>Source video\<close>

lemma decode_video_ok:
  assumes "decode_video x v = Inr vid"
  shows "canvas_ok (vid_width vid) (vid_height vid) \<and> frames_ok (vid_frames vid) (vid_rate vid)"
proof -
  from assms obtain stream where "probe_shape stream = Inr (vid_width vid, vid_height vid, vid_frames vid, vid_rate vid)"
    by (auto simp: decode_video_def split: option.splits)
  then have "retake_canvas_ok (vid_width vid) (vid_height vid)" "retake_timing_ok (vid_frames vid) (vid_rate vid)"
    by (auto simp: probe_shape_def Let_def split: if_splits)
  with retake_shape_ok show ?thesis by blast
qed

text \<open>A retake has a source video and an interval of it, and no guide of its own; no other run has one.\<close>

lemma read_video_cases:
  assumes "read_video x p model spec = Inr r"
  obtains "\<not> accepts_video spec" "r = None"
  | v s e where "accepts_video spec" "r = Some (v, s, e)" "filter (has_key p) retake_forbidden = []"
    "decode_video x (get_none p ''video'') = Inr v" "s < e"
proof (cases "accepts_video spec")
  case False
  with assms that(1) show ?thesis by (simp add: read_video_def)
next
  case True
  let ?bad = "invalid ''retake requires 0 <= start_time < end_time <= video duration''"
  from True assms obtain v a b where "sort (filter (has_key p) retake_forbidden) = []"
    and v: "decode_video x (get_none p ''video'') = Inr v"
    and ab: "(case (a, b) of (Some s, Some e) \<Rightarrow> raise_if (e \<le> s) ?bad (Inr (Some (v, s, e))) | _ \<Rightarrow> Inl ?bad) = Inr r"
    unfolding read_video_def Let_def by simp blast
  then have "filter (has_key p) retake_forbidden = []" by (metis set_empty set_sort)
  moreover from ab obtain s e where "r = Some (v, s, e)" "s < e" by (auto split: option.split_asm)
  ultimately show ?thesis using that(2) True v by blast
qed

lemma read_video_ok:
  assumes "read_video x p model spec = Inr r"
  shows "accepts_video spec \<longleftrightarrow> r \<noteq> None"
    and "r = Some (v, s, e) \<Longrightarrow> canvas_ok (vid_width v) (vid_height v) \<and> frames_ok (vid_frames v) (vid_rate v) \<and> s < e"
    and "r \<noteq> None \<Longrightarrow> k \<in> set retake_forbidden \<Longrightarrow> get_none p k = PNone"
  by (rule read_video_cases [OF assms];
      force simp: filter_empty_conv has_key_def get_none_def dest: decode_video_ok)+

lemma no_guides:
  assumes "get_none p ''image'' = PNone" "get_none p ''last_frame'' = PNone" "get_none p ''keyframes'' = PNone"
    and "read_guides x p spec n = Inr gs"
  shows "gs = []"
  using assms by (auto simp: read_guides_def read_endpoints_def apply_strength_def read_keyframes_def split: if_splits)

section \<open>The request\<close>

lemma parse_generation_cases:
  assumes "parse_generation x payload = Inr g"
  obtains p model workflow spec wh tm where "payload = PDict p"
    and "select_workflow p = Inr (model, workflow, spec)"
    and "read_prompt p = Inr (gen_prompt g)" and "read_negative p model spec = Inr (gen_negative g)"
    and "read_video x p model spec = Inr (gen_video g)"
    and "read_canvas p spec = Inr wh" and "read_timing p spec = Inr tm"
    and "int_or p ''seed'' 0 max_seed (default_seed spec) = Inr (gen_seed g)"
    and "read_steps p model spec = Inr (gen_steps g)"
    and "read_guidance p spec = Inr (gen_guidance g, gen_sampler g)"
    and "read_guides x p spec (tm_frames tm) = Inr (gen_images g)"
    and "read_track x p model spec = Inr (gen_audio g)"
    and "read_generated p model spec (tm_frames tm) = Inr (gen_generated g)"
    and "read_upscalings p model spec (fst wh) (snd wh) = Inr (gen_temporal g, gen_spatial g)"
    and "read_offload p = Inr (gen_offload g)"
    and "read_quantization p model workflow spec = Inr (gen_quantization g, gen_spec g)"
    and "int_or p ''max_batch_size'' 1 8 1 = Inr (gen_batch g)"
    and "(gen_width g, gen_height g, gen_frames g, gen_rate g) =
      (case gen_video g of None \<Rightarrow> (fst wh, snd wh, tm_frames tm, tm_rate tm)
       | Some (v, _) \<Rightarrow> (vid_width v, vid_height v, vid_frames v, vid_rate v))"
  using assms unfolding parse_generation_def finish_generation_def
  by (cases payload) (auto simp: case_prod_unfold Let_def)

text \<open>What the rest of the backend relies on.\<close>

definition generation_ok :: "generation \<Rightarrow> bool" where
  "generation_ok g =
     (canvas_ok (gen_width g) (gen_height g) \<and> frames_ok (gen_frames g) (gen_rate g)
      \<and> py_strip (gen_prompt g) \<noteq> [] \<and> length (gen_prompt g) \<le> 32768
      \<and> 0 \<le> gen_seed g \<and> gen_seed g < 2 ^ 63
      \<and> (case gen_steps g of None \<Rightarrow> True | Some n \<Rightarrow> supports_steps (gen_spec g) \<and> 1 \<le> n \<and> n \<le> 100)
      \<and> guides_ok (gen_frames g) (gen_images g) \<and> length (gen_images g) \<le> 10
      \<and> (case gen_audio g of None \<Rightarrow> \<not> requires_audio (gen_spec g) | Some t \<Rightarrow> requires_audio (gen_spec g) \<and> track_ok t)
      \<and> (case gen_video g of None \<Rightarrow> \<not> accepts_video (gen_spec g)
         | Some (v, s, e) \<Rightarrow> accepts_video (gen_spec g) \<and> s < e \<and> gen_images g = [])
      \<and> 0 \<le> gen_temporal g \<and> gen_temporal g \<le> 2 \<and> 1 \<le> gen_batch g \<and> gen_batch g \<le> 8
      \<and> (0 < gen_temporal g \<longrightarrow> supports_temporal_upscalings (gen_spec g))
      \<and> gen_offload g \<in> {''none'', ''cpu'', ''disk''})"

lemma quantized_spec:
  assumes "read_quantization p m w spec = Inr (q, spec')"
  shows "spec' = spec
    \<or> spec' = spec\<lparr>transformer := ''distilled_transformer_nvfp4'', spec_title := spec_title spec @ '' (NVFP4)''\<rparr>"
  using assms by (auto simp: read_quantization_def Let_def split: pyval.split_asm if_split_asm)

lemma read_steps_ok: "read_steps p m spec = Inr (Some n) \<Longrightarrow> supports_steps spec \<and> 1 \<le> n \<and> n \<le> 100"
  by (auto simp: read_steps_def max_steps_def split: if_splits dest: ltx_integer_range)

lemma read_upscalings_ok:
  assumes "read_upscalings p m spec w h = Inr (t, s)"
  shows "0 \<le> t \<and> t \<le> 2 \<and> (0 < t \<longrightarrow> supports_temporal_upscalings spec)"
proof -
  from assms have t: "int_or p ''temporal_upscalings'' 0 2 0 = Inr t"
    and s: "get_none p ''temporal_upscalings'' \<noteq> PNone \<Longrightarrow> supports_temporal_upscalings spec"
    by (auto simp: read_upscalings_def)
  have "t = 0" if "get_none p ''temporal_upscalings'' = PNone"
    using t that by (simp add: int_or_def ltx_integer_def)
  with int_or_range [OF t] s show ?thesis by auto
qed

lemma accepted_ok:
  assumes "parse_generation x payload = Inr g"
  shows "generation_ok g"
proof -
  from assms obtain p model workflow spec wh tm where sel: "select_workflow p = Inr (model, workflow, spec)"
    and pr: "read_prompt p = Inr (gen_prompt g)" and vid: "read_video x p model spec = Inr (gen_video g)"
    and can: "read_canvas p spec = Inr wh" and tim: "read_timing p spec = Inr tm"
    and seed: "int_or p ''seed'' 0 max_seed (default_seed spec) = Inr (gen_seed g)"
    and steps: "read_steps p model spec = Inr (gen_steps g)"
    and gs: "read_guides x p spec (tm_frames tm) = Inr (gen_images g)"
    and tr: "read_track x p model spec = Inr (gen_audio g)"
    and up: "read_upscalings p model spec (fst wh) (snd wh) = Inr (gen_temporal g, gen_spatial g)"
    and off: "read_offload p = Inr (gen_offload g)"
    and q: "read_quantization p model workflow spec = Inr (gen_quantization g, gen_spec g)"
    and bat: "int_or p ''max_batch_size'' 1 8 1 = Inr (gen_batch g)"
    and shape: "(gen_width g, gen_height g, gen_frames g, gen_rate g) =
      (case gen_video g of None \<Rightarrow> (fst wh, snd wh, tm_frames tm, tm_rate tm)
       | Some (v, _) \<Rightarrow> (vid_width v, vid_height v, vid_frames v, vid_rate v))"
    by (rule parse_generation_cases)
  note spec = selected_spec(1) [OF sel]
  from quantized_spec [OF q] have same: "supports_steps (gen_spec g) = supports_steps spec"
    "requires_audio (gen_spec g) = requires_audio spec" "accepts_video (gen_spec g) = accepts_video spec"
    "supports_temporal_upscalings (gen_spec g) = supports_temporal_upscalings spec" by auto
  note tim' = read_timing_ok [OF tim spec]
  then have n: "9 \<le> tm_frames tm" by (simp add: frames_ok_def)
  note v = read_video_ok [OF vid]
  have media: "canvas_ok (gen_width g) (gen_height g) \<and> frames_ok (gen_frames g) (gen_rate g)
      \<and> guides_ok (gen_frames g) (gen_images g)
      \<and> (case gen_video g of None \<Rightarrow> \<not> accepts_video spec | Some (v, s, e) \<Rightarrow> accepts_video spec \<and> s < e \<and> gen_images g = [])"
  proof (cases "gen_video g")
    case None
    with shape v(1) read_canvas_ok [of p spec "fst wh" "snd wh"] can tim' read_guides_ok [OF gs n] show ?thesis by simp
  next
    case (Some y)
    obtain a s e where y: "y = (a, s, e)" by (cases y)
    have "gen_images g = []"
      using v(3) Some by (intro no_guides [OF _ _ _ gs]) (simp_all add: retake_forbidden_def)
    with shape v(1) v(2) [of a s e] Some y show ?thesis by (simp add: guides_ok_def)
  qed
  have track: "case gen_audio g of None \<Rightarrow> \<not> requires_audio spec | Some t \<Rightarrow> requires_audio spec \<and> track_ok t"
    using tr read_track_required [of x p model spec] read_track_ok [of x p model spec] spec
    by (auto simp: spec_ok_def split: option.split)
  have "case gen_steps g of None \<Rightarrow> True | Some n \<Rightarrow> supports_steps spec \<and> 1 \<le> n \<and> n \<le> 100"
    using read_steps_ok [of p model spec] steps by (auto split: option.split)
  moreover have "gen_offload g \<in> {''none'', ''cpu'', ''disk''}"
    using off by (auto simp: read_offload_def offload_modes_def Let_def split: pyval.split_asm)
  moreover have "py_strip (gen_prompt g) \<noteq> []" "length (gen_prompt g) \<le> 32768"
    using pr by (auto simp: read_prompt_def ltx_prompt_chars_def)
  moreover have "0 \<le> gen_seed g" "gen_seed g < 2 ^ 63"
    using int_or_range [OF seed] spec by (simp_all add: spec_ok_def max_seed_def)
  moreover note read_upscalings_ok [OF up] int_or_range [OF bat, simplified] read_guides_ok [OF gs n]
  ultimately show ?thesis using media track unfolding generation_ok_def same
    by (elim conjE, intro conjI) assumption+
qed

end
