(* ===== verification/Ltx_Args.thy ===== *)
theory Ltx_Args
  imports Ltx_Accept "HOL-Library.Sublist"
begin

text \<open>
  How an argument list is read by a parser with flags of known arity, and the lemmas that read the
  lists \<open>build_argv\<close> makes back into the request.
\<close>

section \<open>Reading arguments\<close>

text \<open>The upstream parsers: \<open>--image\<close> takes a path, a frame and a strength, \<open>--chunked\<close> nothing.\<close>

definition arity :: "string \<Rightarrow> nat" where
  "arity f = (if f = ''--image'' then 3 else if f = ''--chunked'' then 0 else 1)"

fun read_args :: "string list \<Rightarrow> (string \<times> string list) list" where
  "read_args [] = []"
| "read_args (f # xs) = (f, take (arity f) xs) # read_args (drop (arity f) xs)"

definition args_of :: "(string \<times> string list) list \<Rightarrow> string list" where
  "args_of opts = concat (map (\<lambda>(f, vs). f # vs) opts)"

definition opts_ok :: "(string \<times> string list) list \<Rightarrow> bool" where
  "opts_ok opts = list_all (\<lambda>(f, vs). length vs = arity f) opts"

lemma args_of_simps [simp]:
  "args_of [] = []" "args_of ((f, vs) # opts) = f # vs @ args_of opts" "args_of (a @ b) = args_of a @ args_of b"
  by (simp_all add: args_of_def)

lemma opts_ok_simps [simp]:
  "opts_ok []" "opts_ok ((f, vs) # opts) \<longleftrightarrow> length vs = arity f \<and> opts_ok opts"
  "opts_ok (a @ b) \<longleftrightarrow> opts_ok a \<and> opts_ok b"
  by (simp_all add: opts_ok_def)

lemma read_args_of: "opts_ok opts \<Longrightarrow> read_args (args_of opts) = opts"
  by (induction opts) auto

section \<open>The pieces of an argument list\<close>

definition flag_opt :: "string \<Rightarrow> string option \<Rightarrow> (string \<times> string list) list" where
  "flag_opt f v = (case v of None \<Rightarrow> [] | Some s \<Rightarrow> [(f, [s])])"

lemma opt_arg_opts: "opt_arg f v = args_of (flag_opt f v)"
  by (simp add: opt_arg_def flag_opt_def split: option.split)

lemma opts_ok_flag_opt [simp]: "arity f = 1 \<Longrightarrow> opts_ok (flag_opt f v)"
  by (simp add: flag_opt_def split: option.split)

lemma fst_flag_opt: "map fst (flag_opt f v) = (case v of None \<Rightarrow> [] | Some _ \<Rightarrow> [f])"
  by (simp add: flag_opt_def split: option.split)

definition text_of :: "(string \<times> path) list \<Rightarrow> string \<Rightarrow> string" where
  "text_of as k = (case map_of as k of None \<Rightarrow> [] | Some p \<Rightarrow> path_str p)"

definition asset_opts :: "(string \<times> path) list \<Rightarrow> (string \<times> string) list \<Rightarrow> (string \<times> string list) list" where
  "asset_opts as flags = map (\<lambda>(f, k). (f, [text_of as k])) flags"

lemma asset_args_loop:
  assumes "forE flags (\<lambda>(flag, key) argv. bindE (look as key) (\<lambda>p. Inr (argv @ [flag, path_str p]))) acc = Inr args"
  shows "args = acc @ args_of (asset_opts as flags)"
  using assms
proof (induction flags arbitrary: acc)
  case Nil
  then show ?case by (simp add: asset_opts_def)
next
  case (Cons fk flags)
  obtain f k where fk: "fk = (f, k)" by (cases fk)
  with Cons.prems obtain p where p: "map_of as k = Some p"
    and l: "forE flags (\<lambda>(flag, key) argv. bindE (look as key) (\<lambda>p. Inr (argv @ [flag, path_str p]))) (acc @ [f, path_str p]) = Inr args"
    by (auto simp: look_def split: option.split_asm)
  from Cons.IH [OF l] p fk show ?case by (simp add: asset_opts_def text_of_def)
qed

lemma asset_args_opts: "asset_args as flags = Inr args \<Longrightarrow> args = args_of (asset_opts as flags)"
  unfolding asset_args_def by (drule asset_args_loop) simp

lemma opts_ok_asset_opts [simp]: "opts_ok (asset_opts as flags) \<longleftrightarrow> list_all (\<lambda>(f, k). arity f = 1) flags"
  by (induction flags) (auto simp: asset_opts_def)

lemma fst_asset_opts: "map fst (asset_opts as flags) = map fst flags"
  by (simp add: asset_opts_def case_prod_unfold)

definition image_opts :: "(string \<times> string) list \<Rightarrow> guide list \<Rightarrow> (string \<times> string list) list" where
  "image_opts media gs =
     map (\<lambda>g. (''--image'', [case map_of media (gd_field g) of None \<Rightarrow> [] | Some p \<Rightarrow> p,
                             show_int (gd_frame g), float_repr (gd_strength g)])) gs"

lemma image_args_loop:
  assumes "forE gs (\<lambda>g argv. bindE (look media (gd_field g)) (\<lambda>p.
      Inr (argv @ [''--image'', p, show_int (gd_frame g), float_repr (gd_strength g)]))) acc = Inr args"
  shows "args = acc @ args_of (image_opts media gs)"
  using assms
proof (induction gs arbitrary: acc)
  case Nil
  then show ?case by (simp add: image_opts_def)
next
  case (Cons g gs)
  from Cons.prems obtain p where p: "map_of media (gd_field g) = Some p"
    and l: "forE gs (\<lambda>g argv. bindE (look media (gd_field g)) (\<lambda>p.
      Inr (argv @ [''--image'', p, show_int (gd_frame g), float_repr (gd_strength g)])))
      (acc @ [''--image'', p, show_int (gd_frame g), float_repr (gd_strength g)]) = Inr args"
    by (auto simp: look_def split: option.split_asm)
  from Cons.IH [OF l] p show ?case by (simp add: image_opts_def)
qed

lemma image_args_opts: "image_args media gs = Inr args \<Longrightarrow> args = args_of (image_opts media gs)"
  unfolding image_args_def by (drule image_args_loop) simp

lemma opts_ok_image_opts [simp]: "opts_ok (image_opts media gs)"
  by (induction gs) (auto simp: image_opts_def arity_def)

definition audio_opts :: "(string \<times> string) list \<Rightarrow> sound_track option \<Rightarrow> (string \<times> string list) list" where
  "audio_opts media track =
     (case track of None \<Rightarrow> []
      | Some t \<Rightarrow> [(''--audio-path'', [case map_of media ''audio'' of None \<Rightarrow> [] | Some p \<Rightarrow> p]),
                   (''--audio-start-time'', [float_repr (tr_start t)])])"

lemma audio_args_opts: "audio_args media track = Inr args \<Longrightarrow> args = args_of (audio_opts media track)"
  by (auto simp: audio_args_def audio_opts_def look_def split: option.split_asm)

lemma opts_ok_audio_opts [simp]: "opts_ok (audio_opts media track)"
  by (simp add: audio_opts_def arity_def split: option.split)

definition upscaling_opts :: "generation \<Rightarrow> (string \<times> path) list \<Rightarrow> (string \<times> string list) list" where
  "upscaling_opts g as =
     (if supports_temporal_upscalings (gen_spec g) then
        [(''--temporal-upscalings'', [show_int (gen_temporal g)]), (''--spatial-upscalings'', [show_int (gen_spatial g)])]
        @ asset_opts as (if 0 < gen_temporal g then [(''--temporal-upsampler-path'', ''temporal_upsampler'')] else [])
      else [])"

lemma upscaling_args_opts: "upscaling_args g as = Inr args \<Longrightarrow> args = args_of (upscaling_opts g as)"
  by (auto simp: upscaling_args_def upscaling_opts_def dest!: asset_args_opts split: if_split_asm)

lemma opts_ok_upscaling_opts [simp]: "opts_ok (upscaling_opts g as)"
  by (simp add: upscaling_opts_def arity_def)

definition guidance_opts :: "pydict \<Rightarrow> (string \<times> string list) list" where
  "guidance_opts g = map (\<lambda>(flag, v). (''--'' @ flag, [num_str v])) g"

lemma guidance_args: "concat (map (\<lambda>(flag, v). [''--'' @ flag, num_str v]) g) = args_of (guidance_opts g)"
  by (induction g) (auto simp: guidance_opts_def)

section \<open>The options of a run\<close>

definition duration_opts :: "generation \<Rightarrow> (string \<times> string list) list" where
  "duration_opts g =
     (if gen_use_audio_duration g
      then [(''--audio-max-duration'', [case gen_duration g of None \<Rightarrow> ''None'' | Some d \<Rightarrow> float_repr d])]
      else [(''--num-frames'', [show_int (gen_frames g)])])"

lemma duration_args_opts: "duration_args g = args_of (duration_opts g)"
  by (simp add: duration_args_def duration_opts_def)

lemma opts_ok_duration_opts [simp]: "opts_ok (duration_opts g)"
  by (simp add: duration_opts_def arity_def)

definition base_flags :: "generation \<Rightarrow> (string \<times> string) list" where
  "base_flags g =
    [(''--transformer-path'', transformer (gen_spec g)), (''--text-encoder-path'', ''text_encoder''),
     (''--video-vae-path'', ''video_vae''), (''--audio-vae-path'', ''audio_vae'')]"

definition run_opts ::
  "generation \<Rightarrow> (string \<times> path) list \<Rightarrow> (string \<times> string) list \<Rightarrow> string \<Rightarrow> (string \<times> string list) list" where
  "run_opts g as media out =
     asset_opts as (base_flags g @ [(''--spatial-upsampler-path'', ''spatial_upsampler'')])
     @ [(''--prompt'', [gen_prompt g]), (''--output-path'', [out]), (''--seed'', [show_int (gen_seed g)]),
        (''--width'', [show_int (gen_width g)]), (''--height'', [show_int (gen_height g)]),
        (''--frame-rate'', [float_repr (gen_rate g)])]
     @ flag_opt ''--sampler'' (gen_sampler g)
     @ asset_opts as (map (\<lambda>k. (''--'' @ dashes k, k)) (assets (gen_spec g)))
     @ flag_opt ''--negative-prompt'' (gen_negative g)
     @ duration_opts g
     @ guidance_opts (gen_guidance g)
     @ flag_opt ''--num-inference-steps'' (map_option show_int (gen_steps g))
     @ image_opts media (gen_images g)
     @ flag_opt ''--num-generated-keyframes'' (map_option show_int (gen_generated g))
     @ upscaling_opts g as @ audio_opts media (gen_audio g)
     @ [(''--offload'', [gen_offload g])]
     @ flag_opt ''--quantization'' (gen_quantization g)
     @ (if gen_batch g \<noteq> 1 then [(''--max-batch-size'', [show_int (gen_batch g)])] else [])
     @ (if gen_chunked g then [(''--chunked'', [])] else [])"

lemma generate_argv_opts:
  assumes "generate_argv g as media out python = Inr argv"
  shows "argv = [python, ''-m'', module (gen_spec g)] @ args_of (run_opts g as media out)"
proof -
  from assms obtain base extra images upscaling audio
    where "asset_args as (base_flags g @ [(''--spatial-upsampler-path'', ''spatial_upsampler'')]) = Inr base"
      and "asset_args as (map (\<lambda>k. (''--'' @ dashes k, k)) (assets (gen_spec g))) = Inr extra"
      and "image_args media (gen_images g) = Inr images" and "upscaling_args g as = Inr upscaling"
      and "audio_args media (gen_audio g) = Inr audio"
      and argv: "argv = [python, ''-m'', module (gen_spec g)] @ base
         @ [''--prompt'', gen_prompt g, ''--output-path'', out, ''--seed'', show_int (gen_seed g),
            ''--width'', show_int (gen_width g), ''--height'', show_int (gen_height g),
            ''--frame-rate'', float_repr (gen_rate g)]
         @ opt_arg ''--sampler'' (gen_sampler g) @ extra
         @ opt_arg ''--negative-prompt'' (gen_negative g)
         @ duration_args g
         @ concat (map (\<lambda>(flag, v). [''--'' @ flag, num_str v]) (gen_guidance g))
         @ opt_arg ''--num-inference-steps'' (map_option show_int (gen_steps g))
         @ images
         @ opt_arg ''--num-generated-keyframes'' (map_option show_int (gen_generated g))
         @ upscaling @ audio
         @ [''--offload'', gen_offload g]
         @ opt_arg ''--quantization'' (gen_quantization g)
         @ (if gen_batch g \<noteq> 1 then [''--max-batch-size'', show_int (gen_batch g)] else [])
         @ (if gen_chunked g then [''--chunked''] else [])"
    by (auto simp: generate_argv_def base_flags_def)
  then show ?thesis
    unfolding run_opts_def argv opt_arg_opts guidance_args duration_args_opts
    by (auto dest!: asset_args_opts image_args_opts upscaling_args_opts audio_args_opts)
qed

definition retake_opts ::
  "generation \<Rightarrow> source_video \<times> rat \<times> rat \<Rightarrow> (string \<times> path) list \<Rightarrow> (string \<times> string) list \<Rightarrow> string \<Rightarrow>
   (string \<times> string list) list" where
  "retake_opts g clip_span as media out =
     asset_opts as (base_flags g)
     @ [(''--video-path'', [case map_of media ''video'' of None \<Rightarrow> [] | Some p \<Rightarrow> p]),
        (''--start-time'', [float_repr (fst (snd clip_span))]), (''--end-time'', [float_repr (snd (snd clip_span))]),
        (''--prompt'', [gen_prompt g]), (''--output-path'', [out]), (''--seed'', [show_int (gen_seed g)]),
        (''--offload'', [gen_offload g]), (''--max-batch-size'', [show_int (gen_batch g)])]
     @ flag_opt ''--quantization'' (gen_quantization g)"

lemma retake_argv_opts:
  assumes "retake_argv g clip_span as media out python = Inr argv"
  shows "argv = [python, ''-m'', module (gen_spec g)] @ args_of (retake_opts g clip_span as media out)"
  using assms
  by (auto simp: retake_argv_def retake_opts_def base_flags_def look_def opt_arg_opts
      split: option.split_asm prod.split_asm dest!: asset_args_opts)

end
