(* ===== verification/Ltx_Safety.thy ===== *)
theory Ltx_Safety
  imports Ltx_Args
begin

text \<open>
  The theorems on the LTX request path: what an accepted request guarantees, which errors a refused
  one raises, that its run finds every file it names, and that its argument list reads back as it.
\<close>

section \<open>Guidance\<close>

definition guidance_names :: "string list" where
  "guidance_names = map (\<lambda>(field, flag, low, high). flag) guidance_flags"

definition guidance_keys_ok :: "pydict \<Rightarrow> bool" where
  "guidance_keys_ok g = (distinct (map fst g) \<and> set (map fst g) \<subseteq> set guidance_names)"

lemma keys_ok_update: "k \<in> set guidance_names \<Longrightarrow> guidance_keys_ok g \<Longrightarrow> guidance_keys_ok (AList.update k v g)"
  by (auto simp: guidance_keys_ok_def distinct_update dom_update)

lemma parse_guidance_keys:
  assumes "parse_guidance p spec = Inr g"
  shows "guidance_keys_ok g"
  using assms unfolding parse_guidance_def
proof (rule forE_invariant)
  show "guidance_keys_ok []" by (simp add: guidance_keys_ok_def)
next
  fix e :: "string \<times> string \<times> pyval \<times> pyval" and s t :: pydict
  obtain field flag low high where e: "e = (field, flag, low, high)" by (cases e)
  assume "e \<in> set guidance_flags" and s: "guidance_keys_ok s"
    and r: "(case e of (field, flag, low, high) \<Rightarrow> \<lambda>g.
       if get_none p field = PNone then Inr g
       else raise_if (\<not> supports_guidance spec) (invalid (spec_title spec @ '' does not accept '' @ field))
         (raise_if (requires_audio spec \<and> (prefix ''audio_'' field \<or> prefix ''v2a_'' field))
            (invalid (spec_title spec @ '' uses frozen audio and does not accept '' @ field))
         (bindE (ltx_number p field low high (case low of PInt _ \<Rightarrow> True | _ \<Rightarrow> False) PNone) (\<lambda>v.
            Inr (AList.update flag v g))))) s = Inr t"
  with e have "flag \<in> set guidance_names" by (force simp: guidance_names_def)
  with r s e show "guidance_keys_ok t" by (auto intro: keys_ok_update split: if_split_asm)
qed

lemma with_defaults_keys:
  "set (map fst d) \<subseteq> set guidance_names \<Longrightarrow> guidance_keys_ok g \<Longrightarrow> guidance_keys_ok (with_defaults d g)"
proof (induction d arbitrary: g)
  case Nil
  then show ?case by (simp add: with_defaults_def)
next
  case (Cons kv d)
  obtain k v where kv: "kv = (k, v)" by (cases kv)
  with Cons.prems have "guidance_keys_ok (if has_key g k then g else AList.update k v g)"
    by (auto intro: keys_ok_update)
  with Cons.IH [OF _ this] Cons.prems(1) kv show ?case by (simp add: with_defaults_def)
qed

lemma read_guidance_keys:
  assumes "read_guidance p spec = Inr (g, s)"
  shows "guidance_keys_ok g"
proof -
  from assms obtain h where "parse_guidance p spec = Inr h" "g = h \<or> g = with_defaults audio_guidance h"
    by (auto simp: read_guidance_def split: if_split_asm pyval.split_asm)
  moreover have "set (map fst audio_guidance) \<subseteq> set guidance_names"
    by (simp add: audio_guidance_def guidance_names_def guidance_flags_def)
  ultimately show ?thesis using parse_guidance_keys with_defaults_keys by blast
qed

section \<open>The flags of a run\<close>

definition flags_before :: "string list" where
  "flags_before =
    [''--transformer-path'', ''--text-encoder-path'', ''--video-vae-path'', ''--audio-vae-path'', ''--spatial-upsampler-path'']
    @ [''--prompt'', ''--output-path'', ''--seed'', ''--width'', ''--height'', ''--frame-rate'']
    @ [''--sampler''] @ [''--distilled-lora'', ''--detailing-lora''] @ [''--negative-prompt''] @ [''--audio-max-duration'', ''--num-frames'']"

definition flags_after :: "string list" where
  "flags_after =
    [''--num-inference-steps''] @ [''--num-generated-keyframes'']
    @ [''--temporal-upscalings'', ''--spatial-upscalings'', ''--temporal-upsampler-path'']
    @ [''--audio-path'', ''--audio-start-time''] @ [''--offload''] @ [''--quantization'']
    @ [''--max-batch-size''] @ [''--chunked'']"

definition retake_flags :: "string list" where
  "retake_flags =
    [''--transformer-path'', ''--text-encoder-path'', ''--video-vae-path'', ''--audio-vae-path'', ''--video-path'',
     ''--start-time'', ''--end-time'', ''--prompt'', ''--output-path'', ''--seed'', ''--offload'', ''--max-batch-size'']
    @ [''--quantization'']"

definition ltx_flags :: "string list" where
  "ltx_flags = flags_before @ map (\<lambda>f. ''--'' @ f) guidance_names @ flags_after"

definition no_image :: "string list \<Rightarrow> string list" where
  "no_image fs = filter (\<lambda>f. f \<noteq> ''--image'') fs"

lemma no_image_append [simp]: "no_image (a @ b) = no_image a @ no_image b"
  by (simp add: no_image_def)

lemma flag_opt_subseq: "f \<noteq> ''--image'' \<Longrightarrow> subseq (no_image (map fst (flag_opt f v))) [f]"
  by (simp add: flag_opt_def no_image_def split: option.split)

lemma no_image_images: "no_image (map fst (image_opts media gs)) = []"
  by (induction gs) (auto simp: image_opts_def no_image_def)

lemma no_image_guidance: "no_image (map fst (guidance_opts g)) = map fst (guidance_opts g)" if "guidance_keys_ok g"
proof -
  have "''--image'' \<notin> (\<lambda>f. ''--'' @ f) ` set guidance_names" by (auto simp: guidance_names_def guidance_flags_def)
  with that have "f \<noteq> ''--image''" if "f \<in> set (map fst (guidance_opts g))" for f
    using that by (force simp: guidance_opts_def guidance_keys_ok_def)
  then show ?thesis by (auto simp: no_image_def filter_id_conv)
qed

lemma run_flags:
  assumes "guidance_keys_ok (gen_guidance g)" "assets (gen_spec g) \<in> {[], [''distilled_lora''], [''detailing_lora'']}"
  shows "subseq (no_image (map fst (run_opts g as media out)))
    (flags_before @ map fst (guidance_opts (gen_guidance g)) @ flags_after)"
proof -
  have base: "subseq (no_image (map fst (asset_opts as (base_flags g @ [(''--spatial-upsampler-path'', ''spatial_upsampler'')]))))
      [''--transformer-path'', ''--text-encoder-path'', ''--video-vae-path'', ''--audio-vae-path'', ''--spatial-upsampler-path'']"
    by (simp add: fst_asset_opts base_flags_def no_image_def)
  have du: "subseq (no_image (map fst (duration_opts g))) [''--audio-max-duration'', ''--num-frames'']"
    by (simp add: duration_opts_def no_image_def)
  have extra: "subseq (no_image (map fst (asset_opts as (map (\<lambda>k. (''--'' @ dashes k, k)) (assets (gen_spec g))))))
      [''--distilled-lora'', ''--detailing-lora'']"
    using assms(2) by (auto simp: fst_asset_opts no_image_def dashes_def)
  have up: "subseq (no_image (map fst (upscaling_opts g as)))
      [''--temporal-upscalings'', ''--spatial-upscalings'', ''--temporal-upsampler-path'']"
    by (simp add: upscaling_opts_def fst_asset_opts no_image_def)
  have au: "subseq (no_image (map fst (audio_opts media (gen_audio g)))) [''--audio-path'', ''--audio-start-time'']"
    by (simp add: audio_opts_def no_image_def split: option.split)
  show ?thesis
    unfolding run_opts_def flags_before_def flags_after_def map_append no_image_append append_assoc
      no_image_images append_Nil no_image_guidance [OF assms(1)]
    by (intro list_emb_append_mono base extra du up au flag_opt_subseq subseq_order.order_refl)
      (auto simp: no_image_def)
qed

lemma subseq_distinct_set: "subseq xs ys \<Longrightarrow> distinct ys \<Longrightarrow> distinct xs \<and> set xs \<subseteq> set ys"
proof (induction rule: list_emb.induct)
  case (list_emb_Nil ys)
  then show ?case by simp
next
  case (list_emb_Cons xs ys y)
  then show ?case by auto
next
  case (list_emb_Cons2 x y xs ys)
  then show ?case by auto
qed

lemma flags_disjoint:
  "distinct flags_before" "distinct flags_after" "set flags_before \<inter> set flags_after = {}"
  "(set flags_before \<union> set flags_after) \<inter> (\<lambda>f. ''--'' @ f) ` set guidance_names = {}" "distinct retake_flags"
  "set retake_flags \<subseteq> set ltx_flags \<union> {''--video-path'', ''--start-time'', ''--end-time''}"
  by (auto simp: flags_before_def flags_after_def guidance_names_def guidance_flags_def retake_flags_def ltx_flags_def)

lemma run_flags_distinct:
  assumes "guidance_keys_ok (gen_guidance g)" "assets (gen_spec g) \<in> {[], [''distilled_lora''], [''detailing_lora'']}"
  shows "distinct (no_image (map fst (run_opts g as media out)))
    \<and> set (no_image (map fst (run_opts g as media out))) \<subseteq> set ltx_flags"
proof -
  let ?gs = "map fst (guidance_opts (gen_guidance g))"
  have e: "?gs = map (\<lambda>f. ''--'' @ f) (map fst (gen_guidance g))" by (simp add: guidance_opts_def case_prod_unfold)
  with assms(1) have "distinct ?gs" and s: "set ?gs \<subseteq> (\<lambda>f. ''--'' @ f) ` set guidance_names"
    by (auto simp: guidance_keys_ok_def distinct_map inj_on_def)
  from s flags_disjoint(3,4) have "set flags_before \<inter> (set ?gs \<union> set flags_after) = {}" "set ?gs \<inter> set flags_after = {}"
    by blast+
  with \<open>distinct ?gs\<close> flags_disjoint(1,2) have d: "distinct (flags_before @ ?gs @ flags_after)" by simp
  have "set (flags_before @ ?gs @ flags_after) \<subseteq> set ltx_flags"
    unfolding ltx_flags_def set_append set_map [of _ guidance_names] using s by blast
  with subseq_distinct_set [OF run_flags [OF assms] d] show ?thesis by blast
qed

end
