(* ===== verification/Ltx_Run.thy ===== *)
theory Ltx_Run
  imports Ltx_Safety Py_Digits
begin

text \<open>
  From an accepted request to its process: the components found, the media files of the work directory,
  the argument list that names them, and the theorems on the whole path.
\<close>

section \<open>Components\<close>

lemma set_from_keys [simp]: "set (from_keys xs) = set xs" "distinct (from_keys xs)"
  by (simp_all add: from_keys_def)

text \<open>Where the component of a key is looked for.\<close>

definition located :: "(path \<Rightarrow> bool) \<Rightarrow> path \<Rightarrow> path \<Rightarrow> string \<Rightarrow> path" where
  "located is_file top_dir pack key = (case locate is_file top_dir pack key of Inr p \<Rightarrow> p | Inl _ \<Rightarrow> top_dir)"

definition pack_of :: "(path \<Rightarrow> bool) \<Rightarrow> path \<Rightarrow> path" where
  "pack_of is_dir top_dir = (let d = path_div top_dir ''Lightricks--LTX-2.5'' in if is_dir d then d else top_dir)"

lemma locate_known:
  "key \<in> fst ` set model_files \<Longrightarrow> locate is_file top_dir pack key = Inr (located is_file top_dir pack key)"
  by (cases "map_of model_files key") (auto simp: locate_def located_def Let_def map_of_eq_None_iff)

lemma resolve_loop:
  assumes "set keys \<subseteq> fst ` set model_files"
  shows "forE keys (\<lambda>key (resolved, missing). bindE (locate is_file top_dir pack key) (\<lambda>p.
      Inr (resolved @ [(key, p)], if is_file p then missing else missing @ [path_str p]))) (r, m)
    = Inr (r @ map (\<lambda>k. (k, located is_file top_dir pack k)) keys,
           m @ map path_str (filter (\<lambda>p. \<not> is_file p) (map (located is_file top_dir pack) keys)))"
  using assms by (induction keys arbitrary: r m) (auto simp: locate_known)

lemma spec_keys:
  assumes "spec_ok spec \<or> (\<exists>s. spec_ok s \<and> spec = s\<lparr>transformer := ''distilled_transformer_nvfp4'', spec_title := u\<rparr>)"
  shows "set (required_assets spec t) \<subseteq> fst ` set model_files"
  using assms by (auto simp: required_assets_def base_assets_def spec_ok_def model_files_def)

lemma resolve_assets_eq:
  assumes "set (required_assets spec t) \<subseteq> fst ` set model_files"
  shows "resolve_assets is_dir is_file dir spec t =
    (let top_dir = pure_path dir; found = located is_file top_dir (pack_of is_dir top_dir);
         keys = required_assets spec t; missing = filter (\<lambda>p. \<not> is_file p) (map found keys)
     in if missing = [] then Inr (map (\<lambda>k. (k, found k)) keys)
        else Inl (ApiError (''Missing model components under MODEL_ROOT: '' @ join_with '', '' (map path_str missing))
               ''model_unavailable'' 503))"
  unfolding resolve_assets_def Let_def pack_of_def [unfolded Let_def, symmetric] resolve_loop [OF assms]
  by (simp add: raise_if_def)

lemma accepted_spec:
  assumes "parse_generation x payload = Inr g"
  shows "\<exists>s u. spec_ok s \<and> (gen_spec g = s \<or> gen_spec g = s\<lparr>transformer := ''distilled_transformer_nvfp4'', spec_title := u\<rparr>)"
    and "guidance_keys_ok (gen_guidance g)"
proof -
  from assms obtain p model workflow spec where sel: "select_workflow p = Inr (model, workflow, spec)"
    and q: "read_quantization p model workflow spec = Inr (gen_quantization g, gen_spec g)"
    and gu: "read_guidance p spec = Inr (gen_guidance g, gen_sampler g)"
    by (rule parse_generation_cases)
  from selected_spec(1) [OF sel] quantized_spec [OF q]
  show "\<exists>s u. spec_ok s \<and> (gen_spec g = s \<or> gen_spec g = s\<lparr>transformer := ''distilled_transformer_nvfp4'', spec_title := u\<rparr>)"
    by blast
  from read_guidance_keys [OF gu] show "guidance_keys_ok (gen_guidance g)" .
qed

lemma accepted_keys:
  assumes "parse_generation x payload = Inr g"
  shows "set (required_assets (gen_spec g) t) \<subseteq> fst ` set model_files"
    and "assets (gen_spec g) \<in> {[], [''distilled_lora''], [''detailing_lora'']}"
    and "accepts_video (gen_spec g) \<Longrightarrow> \<not> requires_audio (gen_spec g)"
proof -
  from accepted_spec(1) [OF assms] obtain s u where s: "spec_ok s"
    and g: "gen_spec g = s \<or> gen_spec g = s\<lparr>transformer := ''distilled_transformer_nvfp4'', spec_title := u\<rparr>" by blast
  from g s show "set (required_assets (gen_spec g) t) \<subseteq> fst ` set model_files" by (intro spec_keys) blast
  from g have "assets (gen_spec g) = assets s" "accepts_video (gen_spec g) = accepts_video s"
    "requires_audio (gen_spec g) = requires_audio s" by (elim disjE; simp)+
  with s show "assets (gen_spec g) \<in> {[], [''distilled_lora''], [''detailing_lora'']}"
    "accepts_video (gen_spec g) \<Longrightarrow> \<not> requires_audio (gen_spec g)" by (simp_all add: spec_ok_def)
qed

lemma resolved_lookup:
  assumes "resolve_assets is_dir is_file dir spec t = Inr as" "set (required_assets spec t) \<subseteq> fst ` set model_files"
    and "k \<in> set (required_assets spec t)"
  shows "\<exists>p. look as k = Inr p \<and> is_file p"
proof -
  let ?f = "located is_file (pure_path dir) (pack_of is_dir (pure_path dir))"
  from assms(1) resolve_assets_eq [OF assms(2), of is_dir is_file dir]
  have as: "as = map (\<lambda>k. (k, ?f k)) (required_assets spec t)"
    and files: "filter (\<lambda>p. \<not> is_file p) (map ?f (required_assets spec t)) = []"
    by (auto simp: Let_def split: if_split_asm)
  from as assms(3) have "map_of as k = Some (?f k)" by (simp add: map_of_map_restrict)
  with files assms(3) show ?thesis by (auto simp: look_def filter_empty_conv)
qed

section \<open>Media files\<close>

definition stem :: "string \<Rightarrow> string" where
  "stem name = takeWhile (\<lambda>c. c \<noteq> CHR ''.'') name"

lemma show_nat_digits: "c \<in> set (show_nat n) \<Longrightarrow> is_digit c"
  using show_pos_digits [of "int n"] by (auto simp: show_nat_def list_all_iff)

lemma digit_not_special:
  "is_digit c \<Longrightarrow> c \<noteq> CHR ''.'' \<and> c \<noteq> CHR '']'' \<and> c \<noteq> CHR ''['' \<and> c \<noteq> CHR ''/''"
  by (auto simp: is_digit_def cp_def)

lemma file_name_simps:
  "file_name (keyframe_name i) = ''keyframes_'' @ show_nat i"
  "file_name ''image'' = ''image''" "file_name ''last_frame'' = ''last_frame''"
proof -
  have "map (\<lambda>c. if c = CHR ''['' then CHR ''_'' else c) (show_nat i) = show_nat i"
    by (rule map_idI) (auto dest!: show_nat_digits digit_not_special)
  moreover have "filter (\<lambda>c. c \<noteq> CHR '']'') (show_nat i) = show_nat i"
    by (rule filter_True) (auto dest!: show_nat_digits digit_not_special)
  ultimately show "file_name (keyframe_name i) = ''keyframes_'' @ show_nat i"
    by (simp add: file_name_def keyframe_name_def)
qed (simp_all add: file_name_def)

lemma file_name_field:
  assumes "f \<in> guide_fields"
  shows "CHR ''.'' \<notin> set (file_name f)" and "CHR ''/'' \<notin> set (file_name f)" and "file_name f \<noteq> []"
    and "file_name f \<notin> {''audio'', ''input'', ''out''}"
proof -
  have n: "CHR ''.'' \<notin> set (show_nat i)" "CHR ''/'' \<notin> set (show_nat i)" for i
    using show_nat_digits digit_not_special by blast+
  from assms show "CHR ''.'' \<notin> set (file_name f)" "CHR ''/'' \<notin> set (file_name f)" "file_name f \<noteq> []"
    "file_name f \<notin> {''audio'', ''input'', ''out''}"
    by (auto simp: guide_fields_def file_name_simps n)
qed

lemma file_name_inj: "inj_on file_name guide_fields"
  by (auto simp: inj_on_def guide_fields_def file_name_simps)

definition media_file :: "guide \<Rightarrow> string" where
  "media_file i = file_name (gd_field i) @ (if gd_format i = ''png'' then ''.png'' else ''.jpg'')"

lemma stem_media_file:
  assumes "guide_ok n i"
  shows "stem (media_file i) = file_name (gd_field i)" "CHR ''/'' \<notin> set (media_file i)"
proof -
  from assms have f: "gd_field i \<in> guide_fields" by (simp add: guide_ok_def)
  have "takeWhile (\<lambda>c. c \<noteq> CHR ''.'') (file_name (gd_field i) @ CHR ''.'' # e) = file_name (gd_field i)" for e
    using file_name_field(1) [OF f] by (subst takeWhile_append2) auto
  then show "stem (media_file i) = file_name (gd_field i)" by (simp add: stem_def media_file_def)
  show "CHR ''/'' \<notin> set (media_file i)" using file_name_field(2) [OF f] by (auto simp: media_file_def)
qed

lemma media_path_guide:
  assumes "guide_ok n i"
  shows "media_path_for (gd_field i) (gd_format i) dir = Inr (fst dir, snd dir @ [media_file i])"
proof -
  from assms have f: "gd_format i = ''png'' \<or> gd_format i = ''jpeg''" by (auto simp: guide_ok_def)
  have "media_file i \<noteq> ''.''" "media_file i \<noteq> []" by (auto simp: media_file_def append_eq_Cons_conv)
  then have "path_div dir (media_file i) = (fst dir, snd dir @ [media_file i])"
    using stem_media_file(2) [OF assms] by (intro path_div_name) auto
  with f show ?thesis by (auto simp: media_path_for_def media_suffix_def media_file_def)
qed

lemma update_absent: "k \<notin> fst ` set m \<Longrightarrow> AList.update k v m = m @ [(k, v)]"
  by (induction m) auto

definition in_dir :: "path \<Rightarrow> string \<Rightarrow> string" where
  "in_dir dir name = path_str (fst dir, snd dir @ [name])"

lemma media_images:
  assumes "list_all (guide_ok n) gs" "distinct (map gd_field gs)" "fst ` set m \<inter> set (map gd_field gs) = {}"
  shows "forE gs (\<lambda>i m. bindE (media_path_for (gd_field i) (gd_format i) dir) (\<lambda>p.
      Inr (AList.update (gd_field i) (path_str p) m))) m
    = Inr (m @ map (\<lambda>i. (gd_field i, in_dir dir (media_file i))) gs)"
  using assms
proof (induction gs arbitrary: m)
  case Nil
  then show ?case by simp
next
  case (Cons i gs)
  then have "guide_ok n i" by simp
  note p = media_path_guide [OF this, of dir]
  from Cons.prems have "gd_field i \<notin> fst ` set m" by auto
  note u = update_absent [OF this]
  have "fst ` set (m @ [(gd_field i, in_dir dir (media_file i))]) \<inter> set (map gd_field gs) = {}"
    using Cons.prems by auto
  from Cons.IH [OF _ _ this] Cons.prems show ?case by (simp add: p u in_dir_def)
qed

text \<open>The names of the media files, and the dictionary of their paths.\<close>

definition media_file_names :: "generation \<Rightarrow> string list" where
  "media_file_names g =
     map media_file (gen_images g) @ (case gen_audio g of None \<Rightarrow> [] | Some _ \<Rightarrow> [''audio.wav''])
     @ (case gen_video g of None \<Rightarrow> [] | Some _ \<Rightarrow> [''input.mp4''])"

definition media_keys :: "generation \<Rightarrow> string list" where
  "media_keys g =
     map gd_field (gen_images g) @ (case gen_audio g of None \<Rightarrow> [] | Some _ \<Rightarrow> [''audio''])
     @ (case gen_video g of None \<Rightarrow> [] | Some _ \<Rightarrow> [''video''])"

lemma media_paths_eq:
  assumes "generation_ok g"
  shows "media_paths g dir = Inr (zip (media_keys g) (map (in_dir dir) (media_file_names g)))"
proof -
  let ?gs = "gen_images g"
  define im where "im = map (\<lambda>i. (gd_field i, in_dir dir (media_file i))) ?gs"
  from assms have gs: "list_all (guide_ok (gen_frames g)) ?gs" "distinct (map gd_field ?gs)"
    by (simp_all add: generation_ok_def guides_ok_def)
  have k: "''audio'' \<notin> guide_fields" "''video'' \<notin> guide_fields" by (auto simp: guide_fields_def keyframe_name_def)
  have "gd_field ` set ?gs \<subseteq> guide_fields" using gs(1) by (auto simp: list_all_iff guide_ok_def)
  with k have new: "''audio'' \<notin> fst ` set im" "''video'' \<notin> fst ` set im" by (auto simp: im_def image_image)
  have "media_path_for ''audio'' (tr_ext t) dir \<noteq> Inl e" if "gen_audio g = Some t" for t e
    using assms that by (auto simp: generation_ok_def track_ok_def media_path_for_def media_suffix_def)
  then have a: "\<exists>p. media_path_for ''audio'' (tr_ext t) dir = Inr p" if "gen_audio g = Some t" for t
    using that by (cases "media_path_for ''audio'' (tr_ext t) dir") auto
  have d: "path_str (path_div dir ''audio.wav'') = in_dir dir ''audio.wav''"
    "path_str (path_div dir ''input.mp4'') = in_dir dir ''input.mp4''" by (simp_all add: path_div_name in_dir_def)
  note loop = media_images [OF gs, of "[]" dir, folded im_def, simplified]
  have z: "zip (map gd_field ?gs @ ks) (map (in_dir dir) (map media_file ?gs @ ns)) = im @ zip ks (map (in_dir dir) ns)" for ks ns
    by (simp add: im_def zip_map_map map_zip_map2 zip_same_conv_map comp_def)
  show ?thesis
    unfolding media_paths_def media_keys_def media_file_names_def z
    using a new by (auto simp: loop update_absent d split: option.split)
qed

lemma media_file_names_props:
  assumes "generation_ok g"
  shows "distinct (''out.mp4'' # media_file_names g)" "list_all (\<lambda>n. CHR ''/'' \<notin> set n) (media_file_names g)"
    "length (media_keys g) = length (media_file_names g)" "set (map gd_field (gen_images g)) \<subseteq> set (media_keys g)"
    "gen_audio g \<noteq> None \<Longrightarrow> ''audio'' \<in> set (media_keys g)" "gen_video g \<noteq> None \<Longrightarrow> ''video'' \<in> set (media_keys g)"
proof -
  let ?gs = "gen_images g"
  from assms have gs: "list_all (guide_ok (gen_frames g)) ?gs" "distinct (map gd_field ?gs)"
    by (simp_all add: generation_ok_def guides_ok_def)
  have f: "gd_field ` set ?gs \<subseteq> guide_fields" using gs(1) by (auto simp: list_all_iff guide_ok_def)
  have "map stem (map media_file ?gs) = map file_name (map gd_field ?gs)"
    using gs(1) stem_media_file(1) by (auto simp: list_all_iff)
  moreover have "distinct (map file_name (map gd_field ?gs))"
    using gs(2) f inj_on_subset [OF file_name_inj] by (subst distinct_map) auto
  ultimately have "distinct (map media_file ?gs)" by (metis distinct_map)
  moreover have "stem n \<notin> {''audio'', ''input'', ''out''}" if "n \<in> media_file ` set ?gs" for n
    using that gs(1) f file_name_field(4) stem_media_file(1) by (force simp: list_all_iff)
  then have "media_file ` set ?gs \<inter> {''audio.wav'', ''input.mp4'', ''out.mp4''} = {}"
    by (fastforce simp: stem_def)
  ultimately show "distinct (''out.mp4'' # media_file_names g)"
    by (auto simp: media_file_names_def split: option.split)
  show "list_all (\<lambda>n. CHR ''/'' \<notin> set n) (media_file_names g)"
    using gs(1) stem_media_file(2) by (auto simp: media_file_names_def list_all_iff split: option.split)
qed (auto simp: media_file_names_def media_keys_def split: option.split)

lemma look_zip:
  assumes "k \<in> set ks" "length ks = length vs"
  shows "\<exists>v. look (zip ks vs) k = Inr v"
proof -
  from assms have "k \<in> fst ` set (zip ks vs)" by (metis list.set_map map_fst_zip)
  then show ?thesis by (cases "map_of (zip ks vs) k") (auto simp: look_def map_of_eq_None_iff)
qed

section \<open>Argument lists are always built\<close>

lemma asset_args_total:
  assumes "list_all (\<lambda>(f, k). \<exists>p. look as k = Inr p) flags"
  shows "\<exists>args. asset_args as flags = Inr args"
proof -
  have "\<exists>args. forE flags (\<lambda>(flag, key) argv. bindE (look as key) (\<lambda>p. Inr (argv @ [flag, path_str p]))) acc = Inr args" for acc
    using assms by (induction flags arbitrary: acc) auto
  then show ?thesis by (simp add: asset_args_def)
qed

lemma image_args_total:
  assumes "list_all (\<lambda>g. \<exists>p. look media (gd_field g) = Inr p) gs"
  shows "\<exists>args. image_args media gs = Inr args"
proof -
  have "\<exists>args. forE gs (\<lambda>g argv. bindE (look media (gd_field g)) (\<lambda>p.
      Inr (argv @ [''--image'', p, show_int (gd_frame g), float_repr (gd_strength g)]))) acc = Inr args" for acc
    using assms by (induction gs arbitrary: acc) auto
  then show ?thesis by (simp add: image_args_def)
qed

lemma generate_argv_total:
  assumes "\<And>k. k \<in> set (required_assets (gen_spec g) (gen_temporal g)) \<Longrightarrow> \<exists>p. look as k = Inr p"
    and "\<not> accepts_video (gen_spec g)"
    and "list_all (\<lambda>i. \<exists>p. look media (gd_field i) = Inr p) (gen_images g)"
    and "gen_audio g \<noteq> None \<Longrightarrow> \<exists>p. look media ''audio'' = Inr p"
  shows "\<exists>argv. generate_argv g as media out python = Inr argv"
proof -
  have k: "\<exists>p. look as k = Inr p" if "k = transformer (gen_spec g) \<or> k \<in> set base_assets \<or> k \<in> set (assets (gen_spec g))
      \<or> k = ''temporal_upsampler'' \<and> supports_temporal_upscalings (gen_spec g) \<and> 0 < gen_temporal g" for k
    using that assms(2) by (intro assms(1)) (auto simp: required_assets_def)
  have "\<exists>r. asset_args as [(''--transformer-path'', transformer (gen_spec g)), (''--text-encoder-path'', ''text_encoder''),
      (''--video-vae-path'', ''video_vae''), (''--audio-vae-path'', ''audio_vae''),
      (''--spatial-upsampler-path'', ''spatial_upsampler'')] = Inr r"
    by (rule asset_args_total) (simp add: k base_assets_def del: split_paired_Ex)
  moreover have "\<exists>r. asset_args as (map (\<lambda>k. (''--'' @ dashes k, k)) (assets (gen_spec g))) = Inr r"
    by (rule asset_args_total) (simp add: list_all_iff k del: split_paired_Ex)
  moreover have "\<exists>r. image_args media (gen_images g) = Inr r" by (rule image_args_total) (rule assms(3))
  moreover have "\<exists>r. upscaling_args g as = Inr r"
  proof -
    have "\<exists>r. asset_args as (if 0 < gen_temporal g then [(''--temporal-upsampler-path'', ''temporal_upsampler'')] else []) = Inr r"
      if "supports_temporal_upscalings (gen_spec g)"
      using that by (intro asset_args_total) (simp add: k del: split_paired_Ex)
    then show ?thesis by (auto simp: upscaling_args_def)
  qed
  moreover have "\<exists>r. audio_args media (gen_audio g) = Inr r"
    using assms(4) by (auto simp: audio_args_def split: option.split)
  ultimately show ?thesis by (auto simp: generate_argv_def)
qed

lemma retake_argv_total:
  assumes "\<And>k. k \<in> set (required_assets (gen_spec g) (gen_temporal g)) \<Longrightarrow> \<exists>p. look as k = Inr p"
    and "\<exists>p. look media ''video'' = Inr p"
  shows "\<exists>argv. retake_argv g clip_span as media out python = Inr argv"
proof -
  have k: "\<exists>p. look as k = Inr p" if "k \<in> {transformer (gen_spec g), ''text_encoder'', ''video_vae'', ''audio_vae''}" for k
    using that by (intro assms(1)) (auto simp: required_assets_def base_assets_def)
  have "\<exists>r. asset_args as [(''--transformer-path'', transformer (gen_spec g)), (''--text-encoder-path'', ''text_encoder''),
      (''--video-vae-path'', ''video_vae''), (''--audio-vae-path'', ''audio_vae'')] = Inr r"
    by (rule asset_args_total) (simp add: k del: split_paired_Ex)
  with assms(2) show ?thesis by (cases clip_span) (auto simp: retake_argv_def)
qed

end
