(* ===== verification/Ltx_Trace.thy ===== *)
theory Ltx_Trace
  imports Ltx_Warm_Safety Ltx_Run
begin

text \<open>
  What the runs of the LTX server carry along: a second invariant, on where the job of a phase comes
  from, which runs share a process, and what a request may be answered.
\<close>

section \<open>Refusals\<close>

text \<open>No error is answered with the status of a success.\<close>

definition refuses :: "api_exn \<Rightarrow> bool" where
  "refuses e = (\<forall>msg kind. e \<noteq> ApiError msg kind 200)"

definition refusal :: "outcome \<Rightarrow> bool" where
  "refusal out = (\<forall>body. out \<noteq> Answer (Reply 200 body))"

lemma refuses_simps [simp, err_rules]:
  "refuses (ApiError msg kind st) \<longleftrightarrow> st \<noteq> 200" "refuses KeyErr" "refuses (PyError e)"
  by (auto simp: refuses_def)

lemma refusal_simps [simp]: "refusal Hangup" "refusal (Crash e)" "refusal (busy_reply msg)" "refusal quarantine_error"
  "refusal cleanup_failed"
  by (auto simp: refusal_def busy_reply_def quarantine_error_def cleanup_failed_def json_error_def)

lemma refusal_failure [simp]: "refuses e \<Longrightarrow> refusal (failure e)"
  by (cases e) (auto simp: refusal_def json_error_def)

lemma refuses_uncaught [simp]: "refuses (uncaught e)"
  by (cases e) simp_all

lemma refuses_client: "client_side e \<Longrightarrow> refuses e"
  by (cases e) (auto simp: client_side_def)

lemma refuses_parse: "fails refuses (parse_generation x payload)"
proof -
  have "refuses e" if "blames_probe x payload e" for e
    using that refuses_client [of e] by (auto simp: blames_probe_def)
  then show ?thesis using fails_parse_generation fails_mono by blast
qed

lemma fails_look [err_rules]: "fails refuses (look d k)"
  by (auto simp: look_def fails_def split: option.split)

lemma refuses_args:
  "fails refuses (asset_args as flags)" "fails refuses (image_args media gs)" "fails refuses (audio_args media track)"
  by (unfold asset_args_def image_args_def audio_args_def) (intro err_rules fails_bind)+

lemma refuses_argv: "fails refuses (build_argv g as media out python)"
  unfolding build_argv_def retake_argv_def generate_argv_def upscaling_args_def Let_def
  by (intro err_rules fails_bind refuses_args fails_case_prod)

lemma refuses_media: "fails refuses (media_paths g workdir)"
  unfolding media_paths_def media_path_for_def
  by (intro err_rules fails_bind)

lemma refuses_prepare: "fails refuses (prepare_job env python g as workdir)"
  unfolding prepare_job_def by (intro fails_bind refuses_media refuses_argv err_rules)

lemma refuses_assets: "fails refuses (find_assets env is_dir is_file g)"
proof -
  have "fails refuses (model_root env)"
    by (auto simp: model_root_def fails_def split: option.split)
  moreover have "fails refuses (resolve_assets is_dir is_file r spec t)" for r spec t
    unfolding resolve_assets_def locate_def Let_def by (intro err_rules fails_bind) simp_all
  ultimately show ?thesis unfolding find_assets_def by (intro fails_bind)
qed

lemma refuses_payload: "fails refuses (read_payload loads stream)"
proof -
  have "fails refuses (read_stream cs raw)" for cs raw
    by (induction cs raw rule: read_stream.induct) (simp_all add: fails_def too_large_def)
  then show ?thesis unfolding read_payload_def
    by (intro fails_bind) (auto simp: fails_def invalid_def split: sum.split loads_error.split)
qed

lemma refuses_runner: "fails refuses (runner_prefix loads env)"
  unfolding runner_prefix_def by (auto simp: fails_def split: option.split sum.split)

lemma refuses_result: "run_result E job d = Some (Some e) \<Longrightarrow> refuses e"
proof -
  assume r: "run_result E job d = Some (Some e)"
  then obtain watched where w: "supervise (end_rounds d) (end_sights d) (timeout_seconds (su_env E)) = Some watched"
    by (auto simp: run_result_def)
  then have "watched \<noteq> None \<Longrightarrow> refuses (the watched)"
    unfolding supervise_def
    using poll_loop_result [of _ _ _ watched "\<lambda>_. True"]
    by (fastforce simp: supervise_round_def disconnected_def out_of_time_def generation_failed_def split: if_splits)
  with r w show ?thesis
    by (auto simp: run_result_def plain_end_def warm_end_def read_reply_def generation_failed_def
        split: option.splits if_splits sum.splits pyval.splits)
qed

lemma failsD: "fails E r \<Longrightarrow> r = Inl e \<Longrightarrow> E e"
  by (simp add: fails_def)

section \<open>The invariant\<close>

text \<open>A job the validation has made out of a payload, and the command of a process.\<close>

definition job_made :: "surroundings \<Rightarrow> ltx_job \<Rightarrow> bool" where
  "job_made E job =
     (\<exists>payload g as workdir. parse_generation (su_tools E) payload = Inr g
        \<and> find_assets (su_env E) (su_dir E) (su_file E) g = Inr as
        \<and> prepare_job (su_env E) (su_python E) g as workdir = Inr job)"

definition command_of :: "surroundings \<Rightarrow> ltx_job \<Rightarrow> string list \<Rightarrow> bool" where
  "command_of E job command =
     (job_made E job \<and> (\<exists>runner. runner_prefix (su_loads E) (su_env E) = Inr runner \<and> command = run_command runner job))"

text \<open>The answer of a success is the output of a run of this request, whose job ended well.\<close>

definition output_delivered :: "lsys \<Rightarrow> rid \<Rightarrow> outcome \<Rightarrow> bool" where
  "output_delivered s r out =
     (r \<in> succeeded s \<and> (\<exists>p job created data. (r, p, job) \<in> set (rendered s) \<and> length data \<le> output_limit
        \<and> out = Answer (Reply 200 (success_body job created (b64encode data)))))"

definition out_ok :: "lsys \<Rightarrow> rid \<Rightarrow> outcome \<Rightarrow> bool" where
  "out_ok s r out = (refusal out \<or> output_delivered s r out)"

fun phase_ok :: "surroundings \<Rightarrow> lsys \<Rightarrow> rid \<Rightarrow> phase \<Rightarrow> bool" where
  "phase_ok E s r (Validating payload hung) = True"
| "phase_ok E s r (Awaiting w cont) =
     (case cont of
        Launch job \<Rightarrow> job_made E job
      | Deliver job \<Rightarrow> r \<in> succeeded s \<and> (\<exists>p. (r, p, job) \<in> set (rendered s))
      | Conclude out \<Rightarrow> refusal out)"
| "phase_ok E s r (Spawning job command) = command_of E job command"
| "phase_ok E s r (Rendering job p) = ((r, p, job) \<in> set (rendered s))"
| "phase_ok E s r (Finished out) = out_ok s r out"

text \<open>The runs of one process, and those of the worker, were made for the same weights.\<close>

definition shares_ok :: "lsys \<Rightarrow> bool" where
  "shares_ok s = (\<exists>f. \<forall>r p j. (r, p, j) \<in> set (rendered s) \<longrightarrow> p < next_pid s \<and> job_warm j = f p)"

definition worker_ok :: "lsys \<Rightarrow> bool" where
  "worker_ok s =
     (\<forall>p. w_proc s = Some p \<longrightarrow> p < next_pid s \<and> w_key s \<noteq> None \<and> (\<forall>r j. (r, p, j) \<in> set (rendered s) \<longrightarrow> job_warm j = w_key s))"

definition trace_ok :: "surroundings \<Rightarrow> lsys \<Rightarrow> bool" where
  "trace_ok E s =
     ((\<forall>r ph. reqs s r = Some ph \<longrightarrow> phase_ok E s r ph)
      \<and> (\<forall>r p j. (r, p, j) \<in> set (rendered s) \<longrightarrow> job_made E j)
      \<and> (\<forall>p j c. (p, j, c) \<in> set (started s) \<longrightarrow> command_of E j c)
      \<and> shares_ok s \<and> worker_ok s)"

lemma trace_phaseD: "trace_ok E s \<Longrightarrow> reqs s r = Some ph \<Longrightarrow> phase_ok E s r ph"
  by (simp add: trace_ok_def)

lemma phase_ok_mono:
  "phase_ok E s r ph \<Longrightarrow> succeeded s \<subseteq> succeeded t \<Longrightarrow> set (rendered s) \<subseteq> set (rendered t) \<Longrightarrow> phase_ok E t r ph"
  by (cases ph) (auto simp: out_ok_def output_delivered_def split: then_do.splits)

text \<open>A step that gives no run to a process and changes one phase.\<close>

lemma trace_ok_step:
  assumes "trace_ok E s" "rendered t = rendered s" "started t = started s" "succeeded s \<subseteq> succeeded t"
    and "next_pid t = next_pid s" "w_proc t = w_proc s \<and> w_key t = w_key s \<or> w_proc t = None"
    and "\<And>q ph. reqs t q = Some ph \<Longrightarrow> reqs s q = Some ph \<or> phase_ok E t q ph"
  shows "trace_ok E t"
proof -
  have "phase_ok E t q ph" if "reqs t q = Some ph" for q ph
    using assms(7) [OF that] phase_ok_mono [of E s q ph t] assms(1,2,4) by (auto simp: trace_ok_def)
  moreover have "shares_ok t" using assms(1) unfolding trace_ok_def shares_ok_def assms(2,5) by blast
  moreover have "worker_ok t"
    using assms(6)
  proof
    assume "w_proc t = w_proc s \<and> w_key t = w_key s"
    then have e: "w_proc t = w_proc s" "w_key t = w_key s" by blast+
    from assms(1) show ?thesis unfolding trace_ok_def worker_ok_def assms(2,5) e by blast
  qed (simp add: worker_ok_def)
  ultimately show ?thesis using assms(1) unfolding trace_ok_def assms(2,3) by blast
qed

lemma trace_initial: "trace_ok E initial_lsys"
  by (simp add: trace_ok_def shares_ok_def worker_ok_def initial_lsys_def)

text \<open>The small steps.\<close>

lemma trace_set_phase:
  assumes "trace_ok E s" "phase_ok E s r ph"
  shows "trace_ok E (set_phase r ph s)"
proof (rule trace_ok_step [OF assms(1)])
  fix q ph' assume "reqs (set_phase r ph s) q = Some ph'"
  then show "reqs s q = Some ph' \<or> phase_ok E (set_phase r ph s) q ph'"
    using phase_ok_mono [OF assms(2), of "set_phase r ph s"] by (auto simp: set_phase_def split: if_splits)
qed (simp_all add: set_phase_def)

lemma trace_keep:
  assumes "trace_ok E s" "rendered t = rendered s" "started t = started s" "succeeded t = succeeded s"
    and "next_pid t = next_pid s" "w_proc t = w_proc s \<and> w_key t = w_key s \<or> w_proc t = None" "reqs t = reqs s"
  shows "trace_ok E t"
  by (rule trace_ok_step [OF assms(1)]) (use assms in simp_all)

lemma trace_leave:
  assumes "trace_ok E s" "out_ok s r out"
  shows "trace_ok E (leave r out s)"
  unfolding leave_def
  by (rule trace_set_phase [OF trace_keep [OF assms(1)]])
    (use assms(2) in \<open>simp_all add: out_ok_def output_delivered_def\<close>)

lemma trace_reply_now: "trace_ok E s \<Longrightarrow> refusal out \<Longrightarrow> trace_ok E (reply_now r out s)"
  unfolding reply_now_def by (rule trace_set_phase) (simp_all add: out_ok_def)

lemma release_begin_keeps:
  "release_begin s = (q, t) \<Longrightarrow>
   rendered t = rendered s \<and> started t = started s \<and> succeeded t = succeeded s \<and> next_pid t = next_pid s
   \<and> (w_proc t = w_proc s \<and> w_key t = w_key s \<or> w_proc t = None) \<and> reqs t = reqs s"
  by (auto simp: release_begin_def begin_term_def Let_def split: option.splits)

lemma trace_await_release:
  assumes "trace_ok E s" "\<And>t. trace_ok E t \<Longrightarrow> t = s\<lparr>w_reaper := False\<rparr> \<Longrightarrow> w_proc t = None \<Longrightarrow> trace_ok E (direct t)"
    and "phase_ok E s r (Awaiting \<lparr>wait_pid = undefined, released = True, shields = n, cut = False\<rparr> cont)"
  shows "trace_ok E (await_release r n cont direct s)"
proof (cases "release_begin s")
  case (Pair q t)
  note keeps = release_begin_keeps [OF Pair]
  then have t: "trace_ok E t" by (intro trace_keep [OF assms(1)]) auto
  show ?thesis
  proof (cases q)
    case None
    with release_begin_none [of s t] Pair t assms(2) [of t] show ?thesis by (auto simp: await_release_def)
  next
    case (Some p)
    have "phase_ok E t r (Awaiting \<lparr>wait_pid = p, released = True, shields = n, cut = False\<rparr> cont)"
      using assms(3) keeps by (cases cont) auto
    with Pair Some trace_set_phase [OF t] show ?thesis by (simp add: await_release_def)
  qed
qed

section \<open>Every step keeps it\<close>

lemma trace_enter:
  assumes inv: "trace_ok E s" and made: "job_made E job"
    and key: "job_warm job \<noteq> None \<Longrightarrow> w_proc s \<noteq> None \<Longrightarrow> w_key s = job_warm job"
  shows "trace_ok E (enter E r job s)"
proof -
  let ?s = "if job_warm job \<noteq> None then s\<lparr>w_reaper := False\<rparr> else s"
  have inv': "trace_ok E ?s" by (rule trace_keep [OF inv]) simp_all
  show ?thesis
  proof (cases "if job_warm job \<noteq> None then w_proc ?s else None")
    case None
    have "trace_ok E (leave r (failure e) ?s)" if "runner_prefix (su_loads E) (su_env E) = Inl e" for e
      by (rule trace_leave [OF inv']) (use failsD [OF refuses_runner that] in \<open>simp add: out_ok_def\<close>)
    moreover have "trace_ok E (set_phase r (Spawning job (run_command runner job)) ?s)"
      if "runner_prefix (su_loads E) (su_env E) = Inr runner" for runner
      by (rule trace_set_phase [OF inv']) (use that made in \<open>auto simp: command_of_def\<close>)
    ultimately show ?thesis using None unfolding enter_def Let_def by (auto split: sum.split)
  next
    case (Some p)
    then have p: "w_proc s = Some p" and w: "job_warm job \<noteq> None" by (auto split: if_splits)
    with key have k: "w_key s = job_warm job" by simp
    let ?t = "?s\<lparr>rendered := rendered ?s @ [(r, p, job)]\<rparr>"
    from inv have wk: "p < next_pid s" "\<And>r j. (r, p, j) \<in> set (rendered s) \<Longrightarrow> job_warm j = job_warm job"
      using p k by (auto simp: trace_ok_def worker_ok_def)
    have "trace_ok E ?t"
      unfolding trace_ok_def
    proof (intro conjI allI impI)
      fix q ph assume "reqs ?t q = Some ph"
      then have "phase_ok E s q ph" using inv by (auto simp: trace_ok_def split: if_splits)
      then show "phase_ok E ?t q ph" by (rule phase_ok_mono) auto
    next
      fix q pp j assume "(q, pp, j) \<in> set (rendered ?t)"
      then show "job_made E j" using inv made by (auto simp: trace_ok_def split: if_splits)
    next
      fix pp j c assume "(pp, j, c) \<in> set (started ?t)"
      then show "command_of E j c" using inv by (auto simp: trace_ok_def split: if_splits)
    next
      from inv obtain f where "\<And>r p j. (r, p, j) \<in> set (rendered s) \<Longrightarrow> p < next_pid s \<and> job_warm j = f p"
        by (auto simp: trace_ok_def shares_ok_def)
      then show "shares_ok ?t" unfolding shares_ok_def using wk
        by (intro exI [of _ "f(p := job_warm job)"]) (auto split: if_splits)
    next
      have "worker_ok s" using inv by (simp add: trace_ok_def)
      then show "worker_ok ?t" using p k wk by (auto simp: worker_ok_def)
    qed
    then have "trace_ok E (set_phase r (Rendering job p) ?t)" by (rule trace_set_phase) simp
    with Some show ?thesis unfolding enter_def Let_def by simp
  qed
qed

lemma trace_begin_job:
  assumes inv: "trace_ok E s" and made: "job_made E job"
  shows "trace_ok E (begin_job E r job s)"
proof (cases "must_release job s")
  case True
  have "trace_ok E (await_release r 1 (Launch job) (enter E r job) s)"
    by (rule trace_await_release [OF inv]) (use made in \<open>auto intro: trace_enter\<close>)
  with True show ?thesis by (simp add: begin_job_def)
next
  case False
  then have "job_warm job \<noteq> None \<Longrightarrow> w_proc s \<noteq> None \<Longrightarrow> w_key s = job_warm job"
    by (auto simp: must_release_def split: option.splits)
  with False trace_enter [OF inv made] show ?thesis by (simp add: begin_job_def)
qed

lemma trace_arrive: "trace_ok E s \<Longrightarrow> trace_ok E (arrive E r stream s)"
proof -
  assume inv: "trace_ok E s"
  have "trace_ok E (reply_now r (failure e) s)" if "read_payload (su_loads E) stream = Inl e" for e
    using trace_reply_now [OF inv] refuses_payload [of "su_loads E" stream] that by (simp add: fails_def)
  moreover have "trace_ok E (set_phase r (Validating payload False) (s\<lparr>vlock := Some r\<rparr>))" for payload
    by (rule trace_set_phase [OF trace_keep [OF inv]]) simp_all
  ultimately show ?thesis unfolding arrive_def using trace_reply_now [OF inv] by (auto split: sum.split)
qed

lemma trace_admit:
  assumes inv: "trace_ok E s"
  shows "trace_ok E (admit E r payload workdir io s)"
proof -
  let ?check = "bindE (parse_generation (su_tools E) payload) (\<lambda>g.
             bindE (find_assets (su_env E) (su_dir E) (su_file E) g) (\<lambda>as. Inr (g, as)))"
  show ?thesis
  proof (cases ?check)
    case (Inl e)
    have "fails refuses ?check" by (intro fails_bind refuses_parse refuses_assets err_rules)
    with Inl have "refuses e" by (simp add: fails_def)
    with Inl trace_reply_now [OF inv] show ?thesis by (simp add: admit_def)
  next
    case (Inr ga)
    obtain g as where ga: "ga = (g, as)" by (cases ga)
    with Inr have ok: "parse_generation (su_tools E) payload = Inr g"
        "find_assets (su_env E) (su_dir E) (su_file E) g = Inr as"
      by (auto simp: bindE_def split: sum.splits)
    let ?l = "s\<lparr>lock := Some r\<rparr>"
    have l: "trace_ok E ?l" by (rule trace_keep [OF inv]) simp_all
    have "trace_ok E (leave r (failure e) ?l)" if "refuses e" for e
      using trace_leave [OF l] that by (simp add: out_ok_def)
    moreover have "trace_ok E (leave r (Crash e) ?l)" for e
      using trace_leave [OF l] by (simp add: out_ok_def)
    moreover have "trace_ok E (begin_job E r job ?l)"
      if "prepare_job (su_env E) (su_python E) g as workdir = Inr job" for job
      by (rule trace_begin_job [OF l]) (use ok that in \<open>auto simp: job_made_def\<close>)
    moreover have "refuses e" if "prepare_job (su_env E) (su_python E) g as workdir = Inl e" for e
      by (rule failsD [OF refuses_prepare that])
    ultimately show ?thesis using Inr ga trace_reply_now [OF inv]
      by (auto simp: admit_def Let_def split: option.split sum.split)
  qed
qed

lemma trace_validated: "trace_ok E s \<Longrightarrow> validated E r workdir io s = Some s' \<Longrightarrow> trace_ok E s'"
proof -
  assume inv: "trace_ok E s" and st: "validated E r workdir io s = Some s'"
  have "trace_ok E (s\<lparr>vlock := None\<rparr>)" by (rule trace_keep [OF inv]) simp_all
  from trace_admit [OF this] trace_reply_now [OF this] st show ?thesis
    by (auto simp: validated_def Let_def split: option.splits phase.splits if_splits)
qed

lemma trace_spawned:
  assumes inv: "trace_ok E s" and st: "spawned r s = Some s'"
  shows "trace_ok E s'"
proof -
  obtain job command where ph: "reqs s r = Some (Spawning job command)"
    using st by (auto simp: spawned_def split: option.splits phase.splits)
  with trace_phaseD [OF inv] have cmd: "command_of E job command" by fastforce
  then have made: "job_made E job" by (simp add: command_of_def)
  let ?p = "next_pid s"
  let ?b = "s\<lparr>living := insert ?p (living s), next_pid := Suc ?p, started := started s @ [(?p, job, command)],
      rendered := rendered s @ [(r, ?p, job)]\<rparr>"
  let ?t = "case job_warm job of None \<Rightarrow> ?b | Some key \<Rightarrow> ?b\<lparr>w_proc := Some ?p, w_key := Some key, w_served := 0\<rparr>"
  have same: "rendered ?t = rendered s @ [(r, ?p, job)]" "started ?t = started s @ [(?p, job, command)]"
    "succeeded ?t = succeeded s" "next_pid ?t = Suc ?p" "reqs ?t = reqs s"
    "w_proc ?t = w_proc s \<and> w_key ?t = w_key s \<or> w_proc ?t = Some ?p \<and> w_key ?t = job_warm job \<and> job_warm job \<noteq> None"
    by (auto split: option.split)
  from inv obtain f where sh: "\<And>r p j. (r, p, j) \<in> set (rendered s) \<Longrightarrow> p < next_pid s \<and> job_warm j = f p"
    and wk: "worker_ok s" by (auto simp: trace_ok_def shares_ok_def)
  then have fresh: "\<And>q j. (q, ?p, j) \<notin> set (rendered s)" by blast
  have "trace_ok E ?t"
    unfolding trace_ok_def
  proof (intro conjI allI impI)
    fix q ph assume "reqs ?t q = Some ph"
    then have "phase_ok E s q ph" using inv same(5) by (auto simp: trace_ok_def)
    then show "phase_ok E ?t q ph" by (rule phase_ok_mono) (use same in auto)
  next
    fix q pp j assume "(q, pp, j) \<in> set (rendered ?t)"
    then show "job_made E j" using inv made same(1) by (auto simp: trace_ok_def)
  next
    fix pp j c assume "(pp, j, c) \<in> set (started ?t)"
    then show "command_of E j c" using inv cmd same(2) by (auto simp: trace_ok_def)
  next
    show "shares_ok ?t" unfolding shares_ok_def same(1,4)
      using sh fresh by (intro exI [of _ "f(?p := job_warm job)"]) (auto simp: less_Suc_eq)
  next
    show "worker_ok ?t" unfolding worker_ok_def same(1,4)
      using wk fresh same(6) by (auto simp: worker_ok_def less_Suc_eq)
  qed
  then have "trace_ok E (set_phase r (Rendering job ?p) ?t)" by (rule trace_set_phase) (simp add: same(1))
  then show ?thesis using st ph by (simp add: spawned_def Let_def)
qed

lemma trace_plain_over:
  assumes inv: "trace_ok E s"
    and ok: "phase_ok E s r (Awaiting \<lparr>wait_pid = p, released = False, shields = 1, cut = False\<rparr> cont)"
  shows "trace_ok E (plain_over r p cont s)"
  unfolding plain_over_def
proof (rule trace_set_phase)
  show "trace_ok E (begin_term p s)" by (rule trace_keep [OF inv]) (simp_all add: begin_term_def)
  show "phase_ok E (begin_term p s) r (Awaiting \<lparr>wait_pid = p, released = False, shields = 1, cut = False\<rparr> cont)"
    using ok by (rule phase_ok_mono) (simp_all add: begin_term_def)
qed

lemma trace_run_fails:
  assumes inv: "trace_ok E s" and out: "refusal out"
  shows "trace_ok E (run_fails r job p out s)"
proof -
  have "trace_ok E (plain_over r p (Conclude out) s)" by (rule trace_plain_over [OF inv]) (use out in simp)
  moreover have "trace_ok E (await_release r 2 (Conclude out) (leave r out) s)"
    by (rule trace_await_release [OF inv]) (use out trace_leave in \<open>auto simp: out_ok_def\<close>)
  ultimately show ?thesis by (simp add: run_fails_def)
qed

lemma collect_ok:
  assumes "r \<in> succeeded s" "(r, p, job) \<in> set (rendered s)"
  shows "out_ok s r (collect job created file)"
proof (cases "collect_output file")
  case (Inl e)
  then show ?thesis
    by (auto simp: collect_def collect_output_def generation_failed_def out_ok_def refusal_def json_error_def
        split: option.splits if_splits)
next
  case (Inr b)
  then obtain data where "b = b64encode data" "length data \<le> output_limit"
    by (auto simp: collect_output_def split: option.splits if_splits)
  with Inr assms show ?thesis by (auto simp: collect_def out_ok_def output_delivered_def)
qed

lemma trace_run_succeeds:
  assumes inv: "trace_ok E s" and run: "(r, p, job) \<in> set (rendered s)"
  shows "trace_ok E (run_succeeds r job p d s)"
proof -
  have t: "trace_ok E t"
    if "t = s\<lparr>succeeded := insert r (succeeded s), w_served := n, w_used := u, w_reaper := b\<rparr>" for t n u b
    by (rule trace_ok_step [OF inv]) (use that in \<open>auto\<close>)
  have fin: "trace_ok E (leave r (collect job (end_date d) (end_file d)) t)"
    if "trace_ok E t" "succeeded t = insert r (succeeded s)" "rendered t = rendered s" for t
    by (rule trace_leave [OF that(1) collect_ok]) (use that run in auto)
  have plain: "trace_ok E (plain_over r p (Deliver job) t)"
    if "trace_ok E t" "succeeded t = insert r (succeeded s)" "rendered t = rendered s" for t
    by (rule trace_plain_over [OF that(1)]) (use that run in auto)
  have warm: "trace_ok E (await_release r n (Deliver job) (leave r (collect job (end_date d) (end_file d))) t)"
    if "trace_ok E t" "succeeded t = insert r (succeeded s)" "rendered t = rendered s" for t n
    by (rule trace_await_release [OF that(1)]) (use that run fin in auto)
  have tt: "trace_ok E (s\<lparr>succeeded := insert r (succeeded s)\<rparr>)"
      "trace_ok E (s\<lparr>succeeded := insert r (succeeded s), w_served := n, w_used := u\<rparr>)"
      "trace_ok E (s\<lparr>succeeded := insert r (succeeded s), w_served := n, w_used := u, w_reaper := b\<rparr>)" for n u b
    by (rule trace_ok_step [OF inv]; auto)+
  show ?thesis unfolding run_succeeds_def Let_def
    by (simp add: plain warm fin tt)
qed

lemma trace_run_over:
  assumes inv: "trace_ok E s" and st: "run_over E r d s = Some s'"
  shows "trace_ok E s'"
proof -
  obtain job p where ph: "reqs s r = Some (Rendering job p)"
    using st by (auto simp: run_over_def split: option.splits phase.splits)
  with trace_phaseD [OF inv] have run: "(r, p, job) \<in> set (rendered s)" by fastforce
  obtain res where res: "run_result E job d = Some res" using st ph by (auto simp: run_over_def split: option.splits)
  show ?thesis
  proof (cases res)
    case None
    with st ph res trace_run_succeeds [OF inv run] show ?thesis by (auto simp: run_over_def)
  next
    case (Some e)
    with refuses_result [of E job d e] res have "refusal (failure e)" by simp
    with Some st ph res trace_run_fails [OF inv] show ?thesis by (auto simp: run_over_def)
  qed
qed

lemma release_end_keeps:
  "rendered (release_end p s) = rendered s \<and> started (release_end p s) = started s
   \<and> succeeded (release_end p s) = succeeded s \<and> next_pid (release_end p s) = next_pid s
   \<and> w_proc (release_end p s) = w_proc s \<and> reqs (release_end p s) = reqs s"
  by (simp add: release_end_def)

lemma trace_release_end:
  assumes "trace_ok E s" "w_releasing s \<noteq> None \<Longrightarrow> w_proc s = None"
  shows "trace_ok E (release_end p s)"
  by (rule trace_keep [OF assms(1)]) (use assms(2) in \<open>auto simp: release_end_def\<close>)

lemma releasing_stopped: "linv s \<Longrightarrow> w_releasing s \<noteq> None \<Longrightarrow> w_proc s = None"
proof (erule linv_cases)
  fix r ph assume "held r s" "reqs s r = Some ph" "lrun_ok s ph" "w_releasing s \<noteq> None"
  then show ?thesis by (cases ph) auto
qed (auto simp: rest_ok_def split: if_splits)

lemma trace_resume:
  assumes inv: "trace_ok E s" and li: "linv s" and st: "resume E r created file s = Some s'"
  shows "trace_ok E s'"
proof -
  obtain w cont where ph: "reqs s r = Some (Awaiting w cont)" and over: "term_over s (wait_pid w)"
    using st by (auto simp: resume_def split: option.splits phase.splits if_splits)
  from running_state [OF li ph] have stopped: "w_proc s = None" by simp
  define t where "t = (if released w then release_end (wait_pid w) s else s)"
  have rel: "trace_ok E (release_end (wait_pid w) s)"
    by (rule trace_release_end [OF inv]) (use stopped in simp)
  have t: "trace_ok E t" "w_proc t = None" "rendered t = rendered s" "succeeded t = succeeded s"
    using rel stopped inv release_end_keeps [of "wait_pid w" s] by (simp_all add: t_def)
  have "phase_ok E s r (Awaiting w cont)" by (rule trace_phaseD [OF inv ph])
  then have ok: "phase_ok E t r (Awaiting w cont)" by (rule phase_ok_mono) (use t in simp_all)
  have lv: "trace_ok E (leave r out t)" if "out_ok t r out" for out by (rule trace_leave [OF t(1) that])
  have refuse: "trace_ok E (leave r out t)" if "refusal out" for out using lv that by (simp add: out_ok_def)
  have go: "trace_ok E (case cont of Launch job \<Rightarrow> enter E r job t | Deliver job \<Rightarrow> leave r (collect job created file) t
      | Conclude out \<Rightarrow> leave r out t)"
  proof (cases cont)
    case (Launch job)
    with ok t(2) trace_enter [OF t(1)] show ?thesis by simp
  next
    case (Deliver job)
    with ok lv collect_ok [of r t _ job] show ?thesis by auto
  next
    case (Conclude out)
    with ok refuse show ?thesis by simp
  qed
  from st ph over have "s' = (case terms t (wait_pid w) of
       Some Ended \<Rightarrow> if cut w then leave r Hangup t
         else (case cont of Launch job \<Rightarrow> enter E r job t | Deliver job \<Rightarrow> leave r (collect job created file) t
               | Conclude out \<Rightarrow> leave r out t)
     | Some Stuck \<Rightarrow> leave r cleanup_failed t
     | _ \<Rightarrow> leave r Hangup t)"
    by (simp add: resume_def Let_def flip: t_def)
  then show ?thesis using go refuse by (simp split: option.split term_task.split)
qed

lemma trace_interrupt:
  assumes inv: "trace_ok E s" and li: "linv s" and st: "interrupt r s = Some s'"
  shows "trace_ok E s'"
proof -
  let ?s = "s\<lparr>interrupted := insert r (interrupted s)\<rparr>"
  obtain ph where ph: "reqs s r = Some ph" using st by (auto simp: interrupt_def Let_def split: option.splits)
  have i: "trace_ok E ?s" by (rule trace_keep [OF inv]) simp_all
  have v: "trace_ok E (?s\<lparr>vlock := None\<rparr>)" by (rule trace_keep [OF inv]) simp_all
  have hang: "trace_ok E (leave r Hangup t)" if "trace_ok E t" for t
    using trace_leave [OF that] by (simp add: out_ok_def)
  show ?thesis
  proof (cases ph)
    case (Validating payload hung)
    have "trace_ok E (set_phase r (Validating payload True) ?s)" by (rule trace_set_phase [OF i]) simp
    with Validating st ph trace_reply_now [OF v, of Hangup r] show ?thesis
      by (auto simp: interrupt_def Let_def split: if_splits)
  next
    case (Awaiting w cont)
    have "phase_ok E s r (Awaiting w cont)" using trace_phaseD [OF inv ph] Awaiting by simp
    then have ok: "phase_ok E ?s r (Awaiting w cont)" by (rule phase_ok_mono) simp_all
    have end_: "trace_ok E (release_end p ?s)" for p
      by (rule trace_release_end [OF i]) (use releasing_stopped [OF li] in auto)
    have "trace_ok E (set_phase r (Awaiting (w\<lparr>shields := shields w - 1, cut := True\<rparr>) cont) ?s)"
      by (rule trace_set_phase [OF i]) (use ok in simp)
    moreover have "trace_ok E (?s\<lparr>terms := x\<rparr>)" for x by (rule trace_keep [OF inv]) simp_all
    ultimately have "trace_ok E (cancel_wait r w cont ?s)"
      unfolding cancel_wait_def by (auto intro!: hang end_ i)
    with Awaiting st ph show ?thesis by (simp add: interrupt_def Let_def)
  next
    case (Spawning job command)
    with st ph hang [OF i] show ?thesis by (simp add: interrupt_def Let_def)
  next
    case (Rendering job p)
    with st ph trace_run_fails [OF i] show ?thesis by (auto simp: interrupt_def Let_def)
  next
    case (Finished out)
    with st ph show ?thesis by (simp add: interrupt_def Let_def)
  qed
qed

lemma trace_idle_over: "trace_ok E s \<Longrightarrow> idle_over s = Some s' \<Longrightarrow> trace_ok E s'"
proof -
  assume inv: "trace_ok E s" and st: "idle_over s = Some s'"
  let ?s = "s\<lparr>w_reaper := False\<rparr>"
  obtain q t where qt: "release_begin ?s = (q, t)" by (cases "release_begin ?s")
  have "trace_ok E ?s" by (rule trace_keep [OF inv]) simp_all
  moreover have "trace_ok E (t\<lparr>late := x\<rparr>)" "trace_ok E t" for x
    by (rule trace_keep [OF inv]; use release_begin_keeps [OF qt] in simp)+
  ultimately show ?thesis using st qt by (auto simp: idle_over_def Let_def split: if_splits option.splits)
qed

lemma trace_lstep:
  assumes inv: "trace_ok E s" and li: "linv s" and st: "lstep E s ev = Some s'"
  shows "trace_ok E s'"
proof -
  have keep: "trace_ok E t" if "rendered t = rendered s" "started t = started s" "succeeded t = succeeded s"
      "next_pid t = next_pid s" "w_proc t = w_proc s" "w_key t = w_key s" "reqs t = reqs s" for t
    by (rule trace_keep [OF inv]) (use that in simp_all)
  show ?thesis
  proof (cases ev)
    case (Arrives r stream)
    with st trace_arrive [OF inv] show ?thesis by (auto split: if_splits)
  next
    case (SpawnFails r e)
    with st trace_leave [OF inv, of r "Crash (PyError e)"] show ?thesis
      by (auto simp: spawn_fails_def out_ok_def split: option.splits phase.splits)
  next
    case (ReaperResumes p)
    have "trace_ok E (release_end p (s\<lparr>late := late s - {p}\<rparr>))"
      by (rule trace_release_end [OF keep]) (use releasing_stopped [OF li] in auto)
    with ReaperResumes st show ?thesis by (auto simp: reaper_resumes_def split: if_splits)
  next
    case (Killed p)
    with st show ?thesis by (auto simp: killed_def split: if_splits intro!: keep)
  next
    case (Survives p)
    with st show ?thesis by (auto simp: survives_def split: if_splits intro!: keep)
  next
    case (Exits p)
    with st show ?thesis by (auto simp: exits_def split: if_splits intro!: keep)
  qed (use st trace_validated [OF inv] trace_spawned [OF inv] trace_run_over [OF inv] trace_resume [OF inv li]
    trace_interrupt [OF inv li] trace_idle_over [OF inv] in auto)
qed

lemma lreaches_trace: "lreaches once E s \<Longrightarrow> trace_ok E s"
  by (induction rule: lreaches.induct) (auto intro: trace_initial trace_lstep lreaches_linv)

end
