(* ===== verification/Ltx_Props.thy ===== *)
theory Ltx_Props
  imports Ltx_Run
begin

text \<open>
  The properties of the LTX request path, from \<open>parse_generation\<close> to the argument list of the process.
\<close>

text \<open>C25. Every accepted LTX request is bounded whatever the caller sends: canvas, frame grid, frame rate,
  clip length, seed, steps, prompt, guides (each on a frame of its own inside the clip, with a strength
  from 0 to 1), driving audio (at most 600 seconds, started before its end), upscaling and batch; a
  retake has a source video and no guides, and driving audio is there exactly when the workflow needs it.\<close>

theorem ltx_request_bounded:
  assumes "parse_generation x payload = Inr g"
  shows "generation_ok g"
  by (rule accepted_ok [OF assms])

text \<open>C28. Every refusal of an LTX request is an \<open>ApiError\<close> that blames the caller (400, 404 or 413), except
  when ffprobe reports a stream whose numbers are of another type, which escapes as it is.\<close>

theorem ltx_refusals_blame_caller:
  assumes "parse_generation x payload = Inl e"
  shows "client_side e \<or> e \<in> {PyError TypeErr, PyError OverflowErr}
    \<and> (\<exists>p. payload = PDict p \<and> decode_video x (get_none p ''video'') = Inl e)"
  using fails_parse_generation [of x payload] assms by (simp add: fails_def blames_probe_def)

section \<open>The run of an accepted request\<close>

text \<open>C27. An accepted request whose components are found never fails before its process is started: every
  decoded medium gets a file of its own in the work directory, none of them the output file, and the
  argument list is built without a missing key.\<close>

theorem ltx_run_prepared:
  assumes "parse_generation x payload = Inr g"
    and "resolve_assets is_dir is_file dir (gen_spec g) (gen_temporal g) = Inr as"
  shows "\<exists>media names argv. media_paths g workdir = Inr media
    \<and> build_argv g as media (in_dir workdir ''out.mp4'') python = Inr argv
    \<and> map snd media = map (in_dir workdir) names \<and> distinct (''out.mp4'' # names)
    \<and> list_all (\<lambda>n. CHR ''/'' \<notin> set n) names"
proof -
  note ok = accepted_ok [OF assms(1)]
  have found: "\<exists>p. look as k = Inr p" if "k \<in> set (required_assets (gen_spec g) (gen_temporal g))" for k
    using resolved_lookup [OF assms(2) accepted_keys(1) [OF assms(1)] that] by blast
  define media where "media = zip (media_keys g) (map (in_dir workdir) (media_file_names g))"
  note names = media_file_names_props [OF ok]
  have m: "\<exists>p. look media k = Inr p" if "k \<in> set (media_keys g)" for k
    unfolding media_def using that names(3) by (intro look_zip) simp_all
  have "\<exists>argv. build_argv g as media (in_dir workdir ''out.mp4'') python = Inr argv"
  proof (cases "accepts_video (gen_spec g)")
    case True
    with ok obtain c where "gen_video g = Some c" by (auto simp: generation_ok_def split: option.split_asm)
    with retake_argv_total [OF found m [OF names(6)]] True show ?thesis by (simp add: build_argv_def)
  next
    case False
    have "list_all (\<lambda>i. \<exists>p. look media (gd_field i) = Inr p) (gen_images g)"
      using m names(4) by (auto simp: list_all_iff)
    with generate_argv_total [OF found False _ m [OF names(5)]] False show ?thesis by (simp add: build_argv_def)
  qed
  moreover have "map snd media = map (in_dir workdir) (media_file_names g)" using names(3) by (simp add: media_def)
  ultimately show ?thesis using media_paths_eq [OF ok, of workdir] names(1,2) media_def by blast
qed

section \<open>The argument list\<close>

lemma opts_ok_guidance [simp]: "opts_ok (guidance_opts gu)" if "guidance_keys_ok gu"
proof -
  have "''--'' @ f \<notin> {''--image'', ''--chunked''}" if "f \<in> set guidance_names" for f
    using that by (auto simp: guidance_names_def guidance_flags_def)
  with that show ?thesis by (force simp: opts_ok_def list_all_iff guidance_opts_def guidance_keys_ok_def arity_def)
qed

lemma opts_ok_run:
  assumes "guidance_keys_ok (gen_guidance g)" "assets (gen_spec g) \<in> {[], [''distilled_lora''], [''detailing_lora'']}"
  shows "opts_ok (run_opts g as media out)"
proof -
  have "list_all (\<lambda>(f, k). arity f = 1) (map (\<lambda>k. (''--'' @ dashes k, k)) (assets (gen_spec g)))"
    using assms(2) by (auto simp: arity_def dashes_def)
  with assms(1) show ?thesis by (simp add: run_opts_def base_flags_def arity_def)
qed

lemma opts_ok_retake: "opts_ok (retake_opts g c as media out)"
  by (simp add: retake_opts_def base_flags_def arity_def)

lemma run_opts_lookup:
  "map_of (run_opts g as media out) ''--prompt'' = Some [gen_prompt g]"
  "map_of (run_opts g as media out) ''--seed'' = Some [show_int (gen_seed g)]"
  "map_of (run_opts g as media out) ''--width'' = Some [show_int (gen_width g)]"
  "map_of (run_opts g as media out) ''--height'' = Some [show_int (gen_height g)]"
  by (simp_all add: run_opts_def asset_opts_def base_flags_def)

lemma retake_opts_lookup:
  "map_of (retake_opts g c as media out) ''--prompt'' = Some [gen_prompt g]"
  "map_of (retake_opts g c as media out) ''--seed'' = Some [show_int (gen_seed g)]"
  by (simp_all add: retake_opts_def asset_opts_def base_flags_def)

lemma show_seed: "0 \<le> i \<Longrightarrow> i < 2 ^ 63 \<Longrightarrow> parse_int (show_int i) = Some i"
  using length_show_pos [of i 20] by (intro parse_int_show_int) simp

lemma no_image_retake: "no_image (map fst (retake_opts g c as media out)) = map fst (retake_opts g c as media out)"
  "distinct (map fst (retake_opts g c as media out))"
  "set (map fst (retake_opts g c as media out)) \<subseteq> set retake_flags"
  by (auto simp: retake_opts_def base_flags_def fst_asset_opts no_image_def flag_opt_def retake_flags_def split: option.split)


end
