(* ===== verification/Ltx_Worker.thy ===== *)
theory Ltx_Worker
  imports Ltx_Trace Ltx_Props Py_Json
begin

text \<open>
  \<open>backends/ltx-pipelines/warm_worker.py\<close>: the process behind the warm worker. What it calls of the
  upstream pipeline (parsing the arguments, building, rendering) is the parameter \<open>outside\<close>; modelled
  are the weights it is bound to and its side of the protocol. The second half shows that the server
  sends a worker only requests for the weights it holds.
\<close>

section \<open>The weights of a request\<close>

definition build_flags :: "string list" where
  "build_flags =
    [''--transformer-path'', ''--text-encoder-path'', ''--video-vae-path'', ''--audio-vae-path'',
     ''--spatial-upsampler-path'', ''--quantization'', ''--offload'']"

text \<open>\<open>argv[argv.index(flag) + 1] if flag in argv else None\<close>; the outer \<open>None\<close> is \<open>IndexError\<close>.\<close>

fun flag_value :: "string list \<Rightarrow> string \<Rightarrow> string option option" where
  "flag_value [] flag = Some None"
| "flag_value (x # xs) flag =
     (if x = flag then (case xs of [] \<Rightarrow> None | v # _ \<Rightarrow> Some (Some v)) else flag_value xs flag)"

type_synonym build = "(string \<times> string option) list"

definition build_key :: "string list \<Rightarrow> build option" where
  "build_key argv =
     (if \<exists>flag\<in>set build_flags. flag_value argv flag = None then None
      else Some (map (\<lambda>flag. (flag, the (flag_value argv flag))) build_flags))"

section \<open>The loop of the worker\<close>

text \<open>What is outside: the text of an exception of the parser, the build or the render, or the seconds.\<close>

record outside_code =
  oc_parse :: "string list \<Rightarrow> string option"
  oc_build :: "string list \<Rightarrow> string option"
  oc_render :: "string list \<Rightarrow> string + rat"

definition catch_text :: "string option \<Rightarrow> string + unit" where
  "catch_text e = (case e of None \<Rightarrow> Inr () | Some msg \<Rightarrow> Inl msg)"

text \<open>\<open>Worker.render\<close>: the weights of the first request stay, another key is refused.\<close>

definition worker_weights :: "outside_code \<Rightarrow> build option \<Rightarrow> string list \<Rightarrow> string + (bool \<times> build)" where
  "worker_weights out kept argv =
     (case build_key argv of
        None \<Rightarrow> Inl ''IndexError: list index out of range''
      | Some key \<Rightarrow>
          (case kept of
             None \<Rightarrow> bindE (catch_text (oc_build out argv)) (\<lambda>_. Inr (True, key))
           | Some k \<Rightarrow>
               if key \<noteq> k then Inl ''RuntimeError: request needs different weights than this worker holds''
               else Inr (False, k)))"

definition worker_render :: "outside_code \<Rightarrow> build option \<Rightarrow> string list \<Rightarrow> string + (bool \<times> build \<times> rat)" where
  "worker_render out kept argv =
     bindE (catch_text (oc_parse out argv)) (\<lambda>_.
     bindE (worker_weights out kept argv) (\<lambda>(built, key).
     bindE (oc_render out argv) (\<lambda>seconds. Inr (built, key, seconds))))"

definition reply_line :: "pyval \<Rightarrow> bytes" where
  "reply_line v = dumps True '', '' '': '' v @ [CHR 0x0A]"

text \<open>One reply per line of the input; a failure is reported and ends the process.\<close>

fun serve_lines :: "outside_code \<Rightarrow> build option \<Rightarrow> string list list \<Rightarrow> pyval list" where
  "serve_lines out kept [] = []"
| "serve_lines out kept (argv # rest) =
     (case worker_render out kept argv of
        Inl msg \<Rightarrow> [PDict [(''ok'', PBool False), (''error'', PStr (take 2000 msg))]]
      | Inr (built, key, seconds) \<Rightarrow>
          PDict [(''ok'', PBool True), (''built'', PBool built), (''seconds'', PFloat seconds)]
          # serve_lines out (Some key) rest)"

section \<open>Values that are no flags\<close>

definition nonflag :: "string \<Rightarrow> bool" where
  "nonflag v = (v \<notin> set build_flags)"

definition values_ok :: "(string \<times> string list) list \<Rightarrow> bool" where
  "values_ok opts = list_all (\<lambda>(f, vs). list_all nonflag vs) opts"

lemma values_ok_simps [simp]:
  "values_ok []" "values_ok ((f, vs) # opts) \<longleftrightarrow> list_all nonflag vs \<and> values_ok opts"
  "values_ok (a @ b) \<longleftrightarrow> values_ok a \<and> values_ok b"
  by (simp_all add: values_ok_def)

lemma nonflag_no_a: "CHR ''a'' \<notin> set v \<Longrightarrow> nonflag v"
  by (auto simp: nonflag_def build_flags_def)

lemma nonflag_last: "v = [] \<or> last v \<notin> {CHR ''h'', CHR ''n'', CHR ''d''} \<Longrightarrow> nonflag v"
  by (auto simp: nonflag_def build_flags_def)

lemma flag_value_skip: "flag \<notin> set vs \<Longrightarrow> flag_value (vs @ xs) flag = flag_value xs flag"
  by (induction vs) auto

lemma flag_value_opts:
  assumes "opts_ok opts" "values_ok opts" "flag \<in> set build_flags"
  shows "flag_value (args_of opts) flag = Some (map_option hd (map_of opts flag))"
  using assms(1,2)
proof (induction opts)
  case (Cons opt opts)
  obtain f vs where opt: "opt = (f, vs)" by (cases opt)
  have ar: "arity flag = 1" using assms(3) by (auto simp: build_flags_def arity_def)
  have "flag \<notin> set vs" using Cons.prems(2) assms(3) by (auto simp: opt list_all_iff nonflag_def)
  with Cons opt ar show ?case by (cases vs) (auto simp: flag_value_skip)
qed simp

section \<open>The texts of numbers and paths\<close>

lemma digit_no_a: "is_digit c \<Longrightarrow> c \<noteq> CHR ''a''"
  by (auto simp: is_digit_def cp_def)

lemma show_pos_no_a: "0 \<le> n \<Longrightarrow> CHR ''a'' \<notin> set (show_pos n)"
  using show_pos_digits [of n] digit_no_a by (auto simp: list_all_iff)

lemma show_int_nonflag: "nonflag (show_int i)"
  by (rule nonflag_no_a) (simp add: show_int_def show_pos_no_a)

lemma shortest_nonneg: "0 \<le> x \<Longrightarrow> 0 \<le> fst (shortest fuel n x e)"
proof (induction fuel arbitrary: n)
  case 0
  then show ?case using round_even_bounds(1) [of 0 "x / pow10 (e - 16)"] by (simp add: pow10_def)
next
  case (Suc fuel)
  then show ?case using round_even_bounds(1) [of 0 "x / pow10 (e - int n + 1)"] by (simp add: Let_def pow10_def)
qed

lemma set_butlast_if: "CHR ''a'' \<notin> set xs \<Longrightarrow> CHR ''a'' \<notin> set (if b then butlast xs else xs)"
  by (auto dest: in_set_butlastD)

lemma float_repr_nonflag: "nonflag (float_repr r)"
proof (rule nonflag_no_a)
  obtain m n where mn: "shortest 16 1 \<bar>r\<bar> (dec_exp \<bar>r\<bar>) = (m, n)" by (cases "shortest 16 1 \<bar>r\<bar> (dec_exp \<bar>r\<bar>)")
  have "0 \<le> m" using shortest_nonneg [of "\<bar>r\<bar>" 16 1 "dec_exp \<bar>r\<bar>"] unfolding mn by simp
  then have ds: "CHR ''a'' \<notin> set (if b then butlast (show_pos m) else show_pos m)" for b
    by (intro set_butlast_if show_pos_no_a)
  then have cut: "CHR ''a'' \<notin> set (take i (if b then butlast (show_pos m) else show_pos m))"
    "CHR ''a'' \<notin> set (drop i (if b then butlast (show_pos m) else show_pos m))" for i b
    by (blast dest: in_set_takeD in_set_dropD)+
  show "CHR ''a'' \<notin> set (float_repr r)"
  proof (cases "r = 0")
    case False
    define D where "D = (if n < length (show_pos m) then butlast (show_pos m) else show_pos m)"
    define pt where "pt = dec_exp \<bar>r\<bar> + 1 + int (length (show_pos m)) - int n"
    have d: "CHR ''a'' \<notin> set D" "CHR ''a'' \<notin> set (take i D)" "CHR ''a'' \<notin> set (drop i D)" for i
      unfolding D_def by (rule ds cut)+
    have "float_repr r = (if r < 0 then ''-'' else []) @
         (if - 4 < pt \<and> pt \<le> 16 then
            (if pt \<le> 0 then ''0.'' @ replicate (nat (- pt)) (CHR ''0'') @ D
             else if int (length D) \<le> pt then D @ replicate (nat (pt - int (length D))) (CHR ''0'') @ ''.0''
             else take (nat pt) D @ ''.'' @ drop (nat pt) D)
          else take 1 D @ (if int (length D) = 1 then [] else ''.'' @ drop 1 D) @ ''e'' @
               (if pt - 1 < 0 then ''-'' else ''+'') @
               (let a = show_pos \<bar>pt - 1\<bar> in if length a < 2 then ''0'' @ a else a))"
      unfolding float_repr_def Let_def mn prod.case D_def pt_def using False by (simp only: if_False)
    then show ?thesis using d by (simp add: Let_def show_pos_no_a del: drop_eq_Nil take_eq_Nil)
  qed (simp add: float_repr_def)
qed

lemma path_nonflag:
  assumes "last n \<notin> {CHR ''h'', CHR ''n'', CHR ''d''}" "n \<noteq> []"
  shows "nonflag (path_str (a, ps @ [n]))"
proof (rule nonflag_last)
  have "join_with ''/'' (ps @ [n]) \<noteq> [] \<and> last (join_with ''/'' (ps @ [n])) = last n"
  proof (induction ps)
    case (Cons q ps)
    then show ?case using assms(2) by (cases "ps @ [n]") auto
  qed (use assms(2) in simp)
  then show "path_str (a, ps @ [n]) = [] \<or> last (path_str (a, ps @ [n])) \<notin> {CHR ''h'', CHR ''n'', CHR ''d''}"
    using assms(1) by (auto simp: path_str_def)
qed

text \<open>The last part of every component file is a name that ends in s.\<close>

lemma component_names:
  "list_all (\<lambda>(k, f). fst (pure_path f) = [] \<and> snd (pure_path f) \<noteq> [] \<and> last (snd (pure_path f)) \<noteq> []
     \<and> last (last (snd (pure_path f))) = CHR ''s'') model_files"
  by code_simp

lemma located_nonflag:
  assumes "k \<in> fst ` set model_files" "k \<noteq> ''detailing_lora''"
  shows "nonflag (path_str (located is_file top_dir pack k))"
proof -
  from assms(1) obtain f where f: "map_of model_files k = Some f" by (cases "map_of model_files k") (auto simp: map_of_eq_None_iff)
  then have "(k, f) \<in> set model_files" by (rule map_of_SomeD)
  with component_names have n: "fst (pure_path f) = []" "snd (pure_path f) \<noteq> []" "last (snd (pure_path f)) \<noteq> []"
    "last (last (snd (pure_path f))) = CHR ''s''"
    by (auto simp: list_all_iff)
  then have "snd (pure_path f) = butlast (snd (pure_path f)) @ [last (snd (pure_path f))]" by simp
  moreover have "located is_file top_dir pack k = (fst pack, snd pack @ snd (pure_path f))"
    using f assms(2) n(1) by (simp add: located_def locate_def Let_def path_div_def)
  ultimately have "located is_file top_dir pack k
      = (fst pack, (snd pack @ butlast (snd (pure_path f))) @ [last (snd (pure_path f))])" by simp
  then show ?thesis by (simp only:) (rule path_nonflag, use n(3,4) in simp_all)
qed

section \<open>The weights of a warm run\<close>

lemma table_warm:
  "list_all (\<lambda>(m, ws). list_all (\<lambda>(w, s). module s \<in> warm_modules \<longrightarrow>
      \<not> accepts_video s \<and> \<not> requires_audio s \<and> \<not> supports_temporal_upscalings s \<and> \<not> supports_guidance s
      \<and> \<not> supports_negative_prompt s \<and> assets s = [] \<and> transformer s = ''distilled_transformer'') ws) pipelines"
  by (simp add: pipelines_def full_workflows_def distilled_workflows_def pipeline_def warm_modules_def)

lemma no_guidance:
  assumes "parse_guidance p spec = Inr g" "\<not> supports_guidance spec"
  shows "g = []"
proof -
  have "forE xs (\<lambda>(field, flag, low, high) g.
       if get_none p field = PNone then Inr g
       else raise_if (\<not> supports_guidance spec) (invalid (spec_title spec @ '' does not accept '' @ field))
         (raise_if (requires_audio spec \<and> (prefix ''audio_'' field \<or> prefix ''v2a_'' field))
            (invalid (spec_title spec @ '' uses frozen audio and does not accept '' @ field))
         (bindE (ltx_number p field low high (case low of PInt _ \<Rightarrow> True | _ \<Rightarrow> False) PNone) (\<lambda>v.
            Inr (AList.update flag v g))))) h = Inr g \<Longrightarrow> g = h" for xs h
    using assms(2) by (induction xs arbitrary: h) (auto simp: raise_if_def split: prod.splits if_split_asm)
  with assms(1) show ?thesis unfolding parse_guidance_def by blast
qed

lemma warm_generation:
  assumes "parse_generation x payload = Inr g" "module (gen_spec g) \<in> warm_modules"
  shows "\<not> accepts_video (gen_spec g)" "\<not> requires_audio (gen_spec g)" "\<not> supports_temporal_upscalings (gen_spec g)"
    "assets (gen_spec g) = []" "gen_guidance g = []" "gen_sampler g = None" "gen_negative g = None"
    "transformer (gen_spec g) \<in> {''distilled_transformer'', ''distilled_transformer_nvfp4''}"
    "case gen_quantization g of None \<Rightarrow> True | Some q \<Rightarrow> q \<in> set quantization_policies"
proof -
  from assms(1) obtain p model workflow spec where sel: "select_workflow p = Inr (model, workflow, spec)"
    and neg: "read_negative p model spec = Inr (gen_negative g)"
    and gu: "read_guidance p spec = Inr (gen_guidance g, gen_sampler g)"
    and q: "read_quantization p model workflow spec = Inr (gen_quantization g, gen_spec g)"
    by (rule parse_generation_cases)
  note same = quantized_spec [OF q]
  then have m: "module spec \<in> warm_modules" using assms(2) by auto
  from selected_spec(2) [OF sel] obtain ws where "(model, ws) \<in> set pipelines" "(workflow, spec) \<in> set ws"
    by (auto dest: map_of_SomeD)
  with table_warm m have sp: "\<not> accepts_video spec \<and> \<not> requires_audio spec \<and> \<not> supports_temporal_upscalings spec
      \<and> \<not> supports_guidance spec \<and> \<not> supports_negative_prompt spec \<and> assets spec = []
      \<and> transformer spec = ''distilled_transformer''"
    by (fastforce simp: list_all_iff)
  with same show "\<not> accepts_video (gen_spec g)" "\<not> requires_audio (gen_spec g)"
    "\<not> supports_temporal_upscalings (gen_spec g)" "assets (gen_spec g) = []"
    "transformer (gen_spec g) \<in> {''distilled_transformer'', ''distilled_transformer_nvfp4''}" by auto
  from gu sp have "parse_guidance p spec = Inr (gen_guidance g)" "gen_sampler g = None"
    by (auto simp: read_guidance_def)
  with no_guidance sp show "gen_guidance g = []" "gen_sampler g = None" by blast+
  from neg sp show "gen_negative g = None" by (auto simp: read_negative_def Let_def raise_if_def split: if_split_asm)
  from q show "case gen_quantization g of None \<Rightarrow> True | Some q \<Rightarrow> q \<in> set quantization_policies"
    by (auto simp: read_quantization_def Let_def raise_if_def split: pyval.split_asm if_split_asm option.split)
qed

text \<open>What the weights of a warm run look like to the worker.\<close>

definition held_weights :: "(string \<times> path) list \<Rightarrow> weights \<Rightarrow> build" where
  "held_weights as key =
     (let (m, tr, q) = key in
      [(''--transformer-path'', Some (text_of as tr)), (''--text-encoder-path'', Some (text_of as ''text_encoder'')),
       (''--video-vae-path'', Some (text_of as ''video_vae'')), (''--audio-vae-path'', Some (text_of as ''audio_vae'')),
       (''--spatial-upsampler-path'', Some (text_of as ''spatial_upsampler'')), (''--quantization'', q),
       (''--offload'', Some ''none'')])"

lemma map_of_images: "f \<noteq> ''--image'' \<Longrightarrow> map_of (image_opts media gs) f = None"
  by (induction gs) (auto simp: image_opts_def)

lemma map_of_flag_opt: "map_of (flag_opt f v) f' = (if f = f' then map_option (\<lambda>s. [s]) v else None)"
  by (simp add: flag_opt_def split: option.split)

lemma image_values_ok:
  assumes "\<And>p. p \<in> snd ` set media \<Longrightarrow> nonflag p"
  shows "values_ok (image_opts media gs)"
proof -
  have "nonflag (case map_of media k of None \<Rightarrow> [] | Some p \<Rightarrow> p)" for k
    using assms by (force simp: nonflag_last dest: map_of_SomeD split: option.split)
  then show ?thesis by (induction gs) (auto simp: image_opts_def show_int_nonflag float_repr_nonflag)
qed

lemma media_nonflag:
  assumes "generation_ok g" "media_paths g dir = Inr media" "p \<in> snd ` set media"
  shows "nonflag p"
proof -
  from assms(2) media_paths_eq [OF assms(1), of dir] have "media = zip (media_keys g) (map (in_dir dir) (media_file_names g))" by simp
  with assms(3) have "p \<in> set (map (in_dir dir) (media_file_names g))" by (auto dest: set_zip_rightD simp del: set_map)
  then obtain n where n: "n \<in> set (media_file_names g)" "p = in_dir dir n" by auto
  from n(1) have "n \<noteq> [] \<and> last n \<notin> {CHR ''h'', CHR ''n'', CHR ''d''}"
    by (auto simp: media_file_names_def media_file_def split: option.splits if_splits)
  with n(2) path_nonflag show ?thesis by (simp add: in_dir_def)
qed

lemma output_nonflag: "nonflag (path_str (path_div dir ''out.mp4''))"
proof -
  have "path_div dir ''out.mp4'' = (fst dir, snd dir @ [''out.mp4''])" by (rule path_div_name) simp_all
  then show ?thesis by (simp only:) (rule path_nonflag, simp_all)
qed

lemma warm_job_opts:
  assumes parse: "parse_generation x payload = Inr g"
    and job: "prepare_job env python g as workdir = Inr job" "job_warm job = Some key"
  obtains media where "media_paths g (pure_path workdir) = Inr media"
    and "job_args job = args_of (run_opts g as media (path_str (path_div (pure_path workdir) ''out.mp4'')))"
    and "opts_ok (run_opts g as media (path_str (path_div (pure_path workdir) ''out.mp4'')))"
    and "warm_key env g = Some key"
proof -
  from job obtain media argv where media: "media_paths g (pure_path workdir) = Inr media"
    and argv: "build_argv g as media (path_str (path_div (pure_path workdir) ''out.mp4'')) python = Inr argv"
    and args: "job_args job = drop 3 argv" and key: "warm_key env g = Some key"
    by (auto simp: prepare_job_def)
  from key have warm: "module (gen_spec g) \<in> warm_modules" by (auto simp: warm_key_def split: if_splits)
  note w = warm_generation [OF parse warm]
  from argv w(1) have "generate_argv g as media (path_str (path_div (pure_path workdir) ''out.mp4'')) python = Inr argv"
    by (simp add: build_argv_def)
  from generate_argv_opts [OF this] args
  have a: "job_args job = args_of (run_opts g as media (path_str (path_div (pure_path workdir) ''out.mp4'')))" by simp
  have "opts_ok (run_opts g as media out)" for out using w by (intro opts_ok_run) (simp_all add: guidance_keys_ok_def)
  with media a key that show ?thesis by blast
qed

lemma warm_job_prompt:
  assumes "parse_generation x payload = Inr g" "prepare_job env python g as workdir = Inr job" "job_warm job = Some key"
  shows "map_of (read_args (job_args job)) ''--prompt'' = Some [gen_prompt g]"
  by (rule warm_job_opts [OF assms]) (simp add: read_args_of run_opts_lookup)

lemma warm_build_key:
  assumes parse: "parse_generation x payload = Inr g"
    and found: "find_assets env is_dir is_file g = Inr as"
    and job: "prepare_job env python g as workdir = Inr job" "job_warm job = Some key"
    and prompt: "\<forall>f\<in>set build_flags. map_of (read_args (job_args job)) ''--prompt'' \<noteq> Some [f]"
  shows "build_key (job_args job) = Some (held_weights as key)" and "key = weights_key g" "module (gen_spec g) \<in> warm_modules"
proof -
  let ?out = "path_str (path_div (pure_path workdir) ''out.mp4'')"
  obtain media where media: "media_paths g (pure_path workdir) = Inr media"
    and a: "job_args job = args_of (run_opts g as media ?out)" and opts: "opts_ok (run_opts g as media ?out)"
    and key: "warm_key env g = Some key"
    by (rule warm_job_opts [OF parse job])
  let ?opts = "run_opts g as media ?out"
  from key show k: "key = weights_key g" and warm: "module (gen_spec g) \<in> warm_modules" by (auto simp: warm_key_def split: if_splits)
  from key have off: "gen_offload g = ''none''" by (auto simp: warm_key_def split: if_splits)
  note ok = accepted_ok [OF parse] and w = warm_generation [OF parse warm]
  have noaudio: "gen_audio g = None" using ok w(2) by (auto simp: generation_ok_def split: option.splits)
  from prompt have pr: "nonflag (gen_prompt g)"
    by (auto simp: warm_job_prompt [OF parse job] nonflag_def)
  have key_ok: "nonflag (text_of as k)" if "k = transformer (gen_spec g) \<or> k \<in> set base_assets" for k
  proof -
    have "set (required_assets (gen_spec g) (gen_temporal g)) \<subseteq> fst ` set model_files"
      by (rule accepted_keys(1) [OF parse])
    note eq = resolve_assets_eq [OF this]
    from found obtain d where "resolve_assets is_dir is_file d (gen_spec g) (gen_temporal g) = Inr as"
      by (auto simp: find_assets_def)
    with eq [of is_dir is_file d] have as: "as = map (\<lambda>k. (k, located is_file (pure_path d) (pack_of is_dir (pure_path d)) k))
        (required_assets (gen_spec g) (gen_temporal g))"
      by (auto simp: Let_def split: if_split_asm)
    have k': "k \<in> fst ` set model_files \<and> k \<noteq> ''detailing_lora''"
      using that w(8) by (auto simp: base_assets_def model_files_def)
    show ?thesis
    proof (cases "map_of as k")
      case None
      then show ?thesis by (simp add: text_of_def nonflag_last)
    next
      case (Some q)
      then have "q = located is_file (pure_path d) (pack_of is_dir (pure_path d)) k" using as by (auto dest: map_of_SomeD)
      with Some k' located_nonflag show ?thesis by (simp add: text_of_def)
    qed
  qed
  have quant: "nonflag q" if "gen_quantization g = Some q" for q
    using w(9) that by (auto simp: quantization_policies_def nonflag_def build_flags_def)
  have steps: "values_ok (flag_opt f (map_option show_int v))" for f v
    by (simp add: flag_opt_def show_int_nonflag split: option.split)
  have "nonflag ''None''" by (rule nonflag_no_a) simp
  then have dur: "values_ok (duration_opts g)"
    by (simp add: duration_opts_def show_int_nonflag float_repr_nonflag split: option.split)
  have vals: "values_ok ?opts"
    unfolding run_opts_def
    using key_ok pr quant dur steps image_values_ok [OF media_nonflag [OF ok media]] output_nonflag w off noaudio
    by (simp add: asset_opts_def base_flags_def base_assets_def show_int_nonflag float_repr_nonflag
        upscaling_opts_def audio_opts_def guidance_opts_def flag_opt_def nonflag_last split: option.split)
  note fv = flag_value_opts [OF opts vals]
  have lk: "map_of ?opts ''--transformer-path'' = Some [text_of as (transformer (gen_spec g))]"
    "map_of ?opts ''--text-encoder-path'' = Some [text_of as ''text_encoder'']"
    "map_of ?opts ''--video-vae-path'' = Some [text_of as ''video_vae'']"
    "map_of ?opts ''--audio-vae-path'' = Some [text_of as ''audio_vae'']"
    "map_of ?opts ''--spatial-upsampler-path'' = Some [text_of as ''spatial_upsampler'']"
    "map_of ?opts ''--quantization'' = map_option (\<lambda>s. [s]) (gen_quantization g)"
    "map_of ?opts ''--offload'' = Some [''none'']"
    using w off noaudio
    by (simp_all add: run_opts_def asset_opts_def base_flags_def map_of_images map_of_flag_opt duration_opts_def
        upscaling_opts_def audio_opts_def guidance_opts_def map_add_def split: option.split)
  have fl: "flag_value (args_of ?opts) ''--transformer-path'' = Some (Some (text_of as (transformer (gen_spec g))))"
    "flag_value (args_of ?opts) ''--text-encoder-path'' = Some (Some (text_of as ''text_encoder''))"
    "flag_value (args_of ?opts) ''--video-vae-path'' = Some (Some (text_of as ''video_vae''))"
    "flag_value (args_of ?opts) ''--audio-vae-path'' = Some (Some (text_of as ''audio_vae''))"
    "flag_value (args_of ?opts) ''--spatial-upsampler-path'' = Some (Some (text_of as ''spatial_upsampler''))"
    "flag_value (args_of ?opts) ''--quantization'' = Some (gen_quantization g)"
    "flag_value (args_of ?opts) ''--offload'' = Some (Some ''none'')"
    by (subst fv; simp add: build_flags_def lk option.map_comp comp_def option.map_ident)+
  show "build_key (job_args job) = Some (held_weights as key)"
    by (simp add: build_key_def build_flags_def a fl k weights_key_def held_weights_def)
qed

section \<open>A worker serves the runs it is given\<close>

lemma assets_of_key:
  assumes "parse_generation x p1 = Inr g1" "parse_generation x p2 = Inr g2" "weights_key g1 = weights_key g2"
    and "module (gen_spec g1) \<in> warm_modules"
    and "find_assets env is_dir is_file g1 = Inr as1" "find_assets env is_dir is_file g2 = Inr as2"
  shows "as1 = as2"
proof -
  from assms(3,4) have "module (gen_spec g2) \<in> warm_modules" by (simp add: weights_key_def)
  note w = warm_generation [OF assms(1,4)] warm_generation [OF assms(2) this]
  from assms(3) have "transformer (gen_spec g1) = transformer (gen_spec g2)" by (simp add: weights_key_def)
  then have r: "required_assets (gen_spec g1) t = required_assets (gen_spec g2) u" for t u
    using w by (simp add: required_assets_def)
  then have "resolve_assets is_dir is_file d (gen_spec g1) t = resolve_assets is_dir is_file d (gen_spec g2) u" for d t u
    by (simp only: resolve_assets_def r [of t u])
  with assms(5,6) show ?thesis by (auto simp: find_assets_def) (metis sum.inject(2))
qed

lemma jobs_build_key:
  assumes "job_made E j" "job_made E j'" "job_warm j = job_warm j'" "job_warm j \<noteq> None"
    and "\<And>job f. job \<in> {j, j'} \<Longrightarrow> f \<in> set build_flags \<Longrightarrow> map_of (read_args (job_args job)) ''--prompt'' \<noteq> Some [f]"
  shows "build_key (job_args j) = build_key (job_args j') \<and> build_key (job_args j) \<noteq> None"
proof -
  from assms(4) obtain key where key: "job_warm j = Some key" by blast
  with assms(3) have key': "job_warm j' = Some key" by simp
  from assms(1) obtain p1 g1 as1 w1 where j: "parse_generation (su_tools E) p1 = Inr g1"
    "find_assets (su_env E) (su_dir E) (su_file E) g1 = Inr as1"
    "prepare_job (su_env E) (su_python E) g1 as1 w1 = Inr j" by (auto simp: job_made_def)
  from assms(2) obtain p2 g2 as2 w2 where j': "parse_generation (su_tools E) p2 = Inr g2"
    "find_assets (su_env E) (su_dir E) (su_file E) g2 = Inr as2"
    "prepare_job (su_env E) (su_python E) g2 as2 w2 = Inr j'" by (auto simp: job_made_def)
  have b: "build_key (job_args j) = Some (held_weights as1 key) \<and> key = weights_key g1 \<and> module (gen_spec g1) \<in> warm_modules"
    using warm_build_key [OF j key] assms(5) by blast
  have b': "build_key (job_args j') = Some (held_weights as2 key) \<and> key = weights_key g2"
    using warm_build_key [OF j' key'] assms(5) by blast
  have "as1 = as2" using assets_of_key [OF j(1) j'(1) _ _ j(2) j'(2)] b b' by simp
  with b b' show ?thesis by simp
qed

text \<open>The requests of one process, in the order they were sent to it.\<close>

definition sent_to :: "lsys \<Rightarrow> pid \<Rightarrow> ltx_job list" where
  "sent_to s p = map (snd \<circ> snd) (filter (\<lambda>(_, q, _). q = p) (rendered s))"

lemma sent_to_iff: "j \<in> set (sent_to s p) \<longleftrightarrow> (\<exists>r. (r, p, j) \<in> set (rendered s))"
  by (force simp: sent_to_def)

text \<open>A worker whose outside works answers every request for the weights it holds.\<close>

definition works :: "outside_code \<Rightarrow> string list \<Rightarrow> bool" where
  "works out argv = (oc_parse out argv = None \<and> oc_build out argv = None \<and> (\<exists>seconds. oc_render out argv = Inr seconds))"

lemma serve_same_weights:
  assumes "\<forall>argv\<in>set argvs. works out argv \<and> build_key argv = Some k" "kept = None \<or> kept = Some k"
  shows "length (serve_lines out kept argvs) = length argvs
    \<and> list_all (\<lambda>v. \<exists>built seconds. v = PDict [(''ok'', PBool True), (''built'', PBool built), (''seconds'', PFloat seconds)])
        (serve_lines out kept argvs)"
  using assms
proof (induction argvs arbitrary: kept)
  case (Cons argv rest)
  then obtain seconds where "worker_render out kept argv = Inr (kept = None, k, seconds)"
    by (auto simp: worker_render_def worker_weights_def works_def catch_text_def split: option.split)
  with Cons show ?case by simp
qed simp

text \<open>The first character of a JSON object is no white space.\<close>

lemma reply_read:
  assumes "loads (reply_line (PDict d)) = Inr (PDict d)" "truthy (get_none d ''ok'')"
  shows "read_reply loads (reply_line (PDict d)) = None"
proof -
  have "\<not> list_all (\<lambda>c. cp c = 32 \<or> 9 \<le> cp c \<and> cp c \<le> 13) (reply_line (PDict d))"
    by (simp add: reply_line_def cp_def)
  with assms show ?thesis by (simp add: read_reply_def)
qed

end
