(* ===== verification/Ltx_Contract.thy ===== *)
theory Ltx_Contract
  imports Ltx_Props
begin

text \<open>
  The rest of the contract of the LTX request path, the frame grid and the components, and one request
  on which the properties of the path are witnessed.
\<close>

section \<open>Frames and components\<close>



text \<open>The components of an accepted request are resolved exactly when each of them is a file where it is
  looked for, all of them with the paths found there; otherwise the caller gets a 503.\<close>

theorem components_found_or_unavailable:
  assumes "parse_generation x payload = Inr g"
  shows "(resolve_assets is_dir is_file dir (gen_spec g) t = Inr as
      \<longleftrightarrow> as = map (\<lambda>k. (k, located is_file (pure_path dir) (pack_of is_dir (pure_path dir)) k)) (required_assets (gen_spec g) t)
        \<and> list_all (\<lambda>(k, p). is_file p) as)
    \<and> (resolve_assets is_dir is_file dir (gen_spec g) t = Inl e
      \<longrightarrow> (\<exists>msg. e = ApiError msg ''model_unavailable'' 503))"
  unfolding resolve_assets_eq [OF accepted_keys(1) [OF assms]] Let_def
  by (auto simp: filter_empty_conv list_all_iff split: if_split_asm)

section \<open>Witnesses\<close>

text \<open>
  A request for a short clip whose prompt looks like a flag, external tools that are never asked, and a
  model directory that holds every file.
\<close>

definition demo_tools :: tools where
  "demo_tools = \<lparr>pil_loads = (\<lambda>_. True), sf_open = (\<lambda>_. None), ff_probe = (\<lambda>_. None), ff_plays = (\<lambda>_. False),
     ff_stereo = (\<lambda>_ _. None)\<rparr>"

definition demo_request :: pydict where
  "demo_request = [(''model'', PStr ''Lightricks/LTX-2.5-Full''), (''prompt'', PStr ''--seed 3''),
     (''seed'', PInt 7), (''num_frames'', PInt 9)]"

abbreviation demo_spec :: ltx_spec where
  "demo_spec \<equiv> snd (hd full_workflows)"

lemmas demo_defs = demo_request_def get_none_def get_default_def has_key_def full_workflows_def pipeline_def
  limit_defs int_or_def ltx_integer_def float_or_def opt_float_def ltx_number_def

lemma demo_stages:
  "select_workflow demo_request = Inr (''Lightricks/LTX-2.5-Full'', ''generate'', demo_spec)"
  "check_fields demo_request = Inr ()"
  "read_prompt demo_request = Inr ''--seed 3''"
  "read_negative demo_request model demo_spec = Inr None"
  "read_video x demo_request model demo_spec = Inr None"
  "read_canvas demo_request demo_spec = Inr (832, 512)"
  "read_guidance demo_request demo_spec = Inr ([], None)"
  "read_guides x demo_request demo_spec n = Inr []"
  "read_track x demo_request model demo_spec = Inr None"
  "read_steps demo_request model demo_spec = Inr None"
  "int_or demo_request ''seed'' 0 max_seed (default_seed demo_spec) = Inr 7"
  by (simp_all add: demo_defs select_workflow_def pipelines_def default_workflow_def check_fields_def unknown_keys_def
      allowed_fields_def guidance_flags_def read_prompt_def normalize_prompt_def py_strip_def is_space_def cp_def
      read_negative_def read_video_def read_canvas_def canvas_fields_def check_side_def read_guidance_def
      parse_guidance_def read_guides_def read_endpoints_def apply_strength_def read_keyframes_def read_track_def
      read_steps_def)

lemma demo_timing:
  "read_timing demo_request demo_spec = Inr \<lparr>tm_rate = 24, tm_duration = None, tm_frames = 9, tm_source = ''explicit''\<rparr>"
  using rnd53_between [of 0 "1 / 3" 1]
  by (simp add: demo_defs read_timing_def read_rate_def read_frames_def)

definition demo_generation :: generation where
  "demo_generation =
     \<lparr>gen_model = ''Lightricks/LTX-2.5-Full'', gen_workflow = ''generate'', gen_spec = demo_spec,
      gen_prompt = ''--seed 3'', gen_negative = None, gen_width = 832, gen_height = 512, gen_frames = 9,
      gen_frames_source = ''explicit'', gen_rate = 24, gen_duration = None, gen_seed = 7, gen_steps = None,
      gen_guidance = [], gen_sampler = None, gen_images = [], gen_audio = None, gen_use_audio_duration = False, gen_video = None,
      gen_generated = None, gen_temporal = 0, gen_spatial = 1, gen_offload = ''none'', gen_quantization = None,
      gen_batch = 1, gen_chunked = False\<rparr>"

lemma demo_finished:
  "finish_generation demo_request ''Lightricks/LTX-2.5-Full'' ''generate'' demo_spec ''--seed 3'' None None (832, 512)
     \<lparr>tm_rate = 24, tm_duration = None, tm_frames = 9, tm_source = ''explicit''\<rparr> 7 None ([], None) [] None
   = Inr demo_generation"
  by (simp add: finish_generation_def read_generated_def read_upscalings_def read_offload_def offload_modes_def
      read_quantization_def read_chunked_def demo_generation_def demo_request_def get_none_def get_default_def
      int_or_def ltx_integer_def)

lemma demo_accepted: "parse_generation demo_tools (PDict demo_request) = Inr demo_generation"
  unfolding parse_generation_def pyval.case demo_stages bindE_Inr prod.case demo_timing timing.select_convs
  by (simp only: demo_finished)

lemma demo_resolved:
  "\<exists>as. resolve_assets (\<lambda>_. True) (\<lambda>_. True) ''/models'' (gen_spec demo_generation) (gen_temporal demo_generation) = Inr as"
  unfolding resolve_assets_eq [OF accepted_keys(1) [OF demo_accepted]] Let_def by simp

theorem ltx_request_bounded_witness: "generation_ok demo_generation"
  by (rule ltx_request_bounded [OF demo_accepted])

theorem ltx_refusals_blame_caller_witness:
  "\<exists>e. parse_generation demo_tools (PDict []) = Inl e \<and> client_side e"
proof -
  have p: "parse_generation demo_tools (PDict []) = Inl (ApiError (''model must be one of: '' @ join_with '', '' model_id_list) ''model_not_found'' 404)"
    by (simp add: parse_generation_def select_workflow_def get_none_def)
  from ltx_refusals_blame_caller [OF p] p show ?thesis by auto
qed

theorem ltx_run_prepared_witness:
  "\<exists>media argv. media_paths demo_generation (''/'', [''tmp'']) = Inr media
    \<and> (\<exists>as. build_argv demo_generation as media ''/tmp/out.mp4'' ''python3'' = Inr argv)"
proof -
  from demo_resolved obtain as where r: "resolve_assets (\<lambda>_. True) (\<lambda>_. True) ''/models''
      (gen_spec demo_generation) (gen_temporal demo_generation) = Inr as" by blast
  have "in_dir (''/'', [''tmp'']) ''out.mp4'' = ''/tmp/out.mp4''" by (simp add: in_dir_def path_str_def)
  with ltx_run_prepared [OF demo_accepted r, of "(''/'', [''tmp''])" "''python3''"] show ?thesis by auto
qed


theorem components_found_or_unavailable_witness:
  "\<exists>as. resolve_assets (\<lambda>_. True) (\<lambda>_. True) ''/models'' (gen_spec demo_generation) 0 = Inr as
    \<and> map fst as = required_assets (gen_spec demo_generation) 0"
  using components_found_or_unavailable [OF demo_accepted, of "\<lambda>_. True" "\<lambda>_. True" "''/models''" 0
      "map (\<lambda>k. (k, located (\<lambda>_. True) (pure_path ''/models'') (pack_of (\<lambda>_. True) (pure_path ''/models'')) k))
        (required_assets (gen_spec demo_generation) 0)"]
  by (auto simp: comp_def list_all_iff)

end
