(* ===== verification/Ltx_Runs.thy ===== *)
theory Ltx_Runs
  imports Ltx_Worker Ltx_Contract
begin

text \<open>
  The properties of the running LTX server: one model in memory, answers that are outputs, a worker that
  serves the runs it is given, a watch that ends, and the readiness document; and the run in which a
  second cancellation leaves two models in memory.
\<close>

section \<open>Executions\<close>

lemma lrun_append: "lrun E s (xs @ ys) = (case lrun E s xs of None \<Rightarrow> None | Some t \<Rightarrow> lrun E t ys)"
  by (induction xs arbitrary: s) (simp_all split: option.split)

fun all_ok :: "(lsys \<Rightarrow> levent \<Rightarrow> bool) \<Rightarrow> surroundings \<Rightarrow> lsys \<Rightarrow> levent list \<Rightarrow> bool" where
  "all_ok ok E s [] = True"
| "all_ok ok E s (ev # evs) = (ok s ev \<and> (case lstep E s ev of None \<Rightarrow> False | Some s' \<Rightarrow> all_ok ok E s' evs))"

lemma lrun_reaches: "lreaches ok E s \<Longrightarrow> lrun E s evs = Some t \<Longrightarrow> all_ok ok E s evs \<Longrightarrow> lreaches ok E t"
  by (induction evs arbitrary: s) (auto split: option.splits intro: lreaches_step)

text \<open>A request that is accepted and whose process can be started.\<close>

definition startable :: "surroundings \<Rightarrow> chunk list \<Rightarrow> string \<Rightarrow> ltx_job \<Rightarrow> string list \<Rightarrow> bool" where
  "startable E stream workdir job runner =
     (\<exists>payload g as. read_payload (su_loads E) stream = Inr payload \<and> parse_generation (su_tools E) payload = Inr g
        \<and> find_assets (su_env E) (su_dir E) (su_file E) g = Inr as
        \<and> prepare_job (su_env E) (su_python E) g as workdir = Inr job \<and> runner_prefix (su_loads E) (su_env E) = Inr runner)"

lemma startable_admit:
  assumes "startable E stream workdir job runner"
  obtains payload where "read_payload (su_loads E) stream = Inr payload"
    and "\<And>r s. \<not> quarantined s \<Longrightarrow> lock s = None \<Longrightarrow>
      admit E r payload workdir None s = begin_job E r job (s\<lparr>lock := Some r\<rparr>)"
    and "runner_prefix (su_loads E) (su_env E) = Inr runner"
  using assms unfolding startable_def admit_def by (auto simp: Let_def)

text \<open>The first request reaches its process.\<close>

definition first_events :: "chunk list \<Rightarrow> string \<Rightarrow> levent list" where
  "first_events stream workdir = [Arrives 0 stream, Validated 0 workdir None, Spawned 0]"

definition first_state :: "ltx_job \<Rightarrow> string list \<Rightarrow> lsys" where
  "first_state job runner = initial_lsys
     \<lparr>lock := Some 0, living := {0}, next_pid := 1, reqs := [0 \<mapsto> Rendering job 0],
      w_proc := (if job_warm job = None then None else Some 0), w_key := job_warm job,
      started := [(0, job, run_command runner job)], rendered := [(0, 0, job)]\<rparr>"

lemma first_run:
  assumes "startable E stream workdir job runner"
  shows "lrun E initial_lsys (first_events stream workdir) = Some (first_state job runner)"
    and "all_ok once E initial_lsys (first_events stream workdir)"
proof -
  obtain payload where p: "read_payload (su_loads E) stream = Inr payload"
    and a: "\<And>r s. \<not> quarantined s \<Longrightarrow> lock s = None \<Longrightarrow>
      admit E r payload workdir None s = begin_job E r job (s\<lparr>lock := Some r\<rparr>)"
    and r: "runner_prefix (su_loads E) (su_env E) = Inr runner"
    using startable_admit [OF assms] by blast
  have steps: "lrun E initial_lsys (first_events stream workdir) = Some (first_state job runner)
      \<and> all_ok once E initial_lsys (first_events stream workdir)"
    by (cases "job_warm job")
      (simp_all add: first_events_def first_state_def arrive_def p initial_lsys_def set_phase_def validated_def a
        begin_job_def must_release_def await_release_def release_begin_def enter_def r spawned_def Let_def)
  then show "lrun E initial_lsys (first_events stream workdir) = Some (first_state job runner)"
    "all_ok once E initial_lsys (first_events stream workdir)" by blast+
qed

section \<open>Two cancellations\<close>

text \<open>A run whose caller hangs up at once.\<close>

definition hung_up :: run_end where
  "hung_up = \<lparr>end_written = True, end_rounds = 1,
     end_sights = (\<lambda>_. \<lparr>ob_done = False, ob_gone = True, ob_now = 0, ob_log = 0, ob_out = None\<rparr>),
     end_code = 0, end_line = [], end_now = 0, end_log = 0, end_file = None, end_date = 0\<rparr>"

lemma hung_up_result: "job_warm job = None \<Longrightarrow> run_result E job hung_up = Some (Some disconnected)"
  by (simp add: run_result_def hung_up_def supervise_def supervise_round_def plain_end_def)

text \<open>The caller hangs up, and the request is cancelled twice while its process is being terminated.\<close>

lemma cancelled_twice:
  assumes "job_warm job = None"
  obtains s where "lrun E (first_state job runner) [RunOver 0 hung_up, Interrupted 0, Interrupted 0, Resumes 0 0 None] = Some s"
    "lock s = None" "vlock s = None" "quarantined s = False" "w_proc s = None" "w_releasing s = None"
    "living s = {0}" "next_pid s = 1" "reqs s (Suc 0) = None" "reqs s 0 = Some (Finished Hangup)"
proof -
  let ?w = "\<lparr>wait_pid = 0, released = False, shields = 1, cut = False\<rparr>"
  define c where "c = Conclude (failure disconnected)"
  define s1 where "s1 = plain_over 0 0 c (first_state job runner)"
  have e1: "lstep E (first_state job runner) (RunOver 0 hung_up) = Some s1"
    using assms by (simp add: run_over_def first_state_def hung_up_result run_fails_def s1_def c_def)
  have s1: "reqs s1 0 = Some (Awaiting ?w c)" "reqs s1 (Suc 0) = None" "terms s1 0 = Some Ending" "living s1 = {0}" "next_pid s1 = 1"
    "vlock s1 = None" "quarantined s1 = False" "w_proc s1 = None" "w_releasing s1 = None"
    using assms by (simp_all add: s1_def plain_over_def set_phase_def begin_term_def first_state_def initial_lsys_def)
  define s2 where "s2 = set_phase 0 (Awaiting (?w\<lparr>shields := 0, cut := True\<rparr>) c) (s1\<lparr>interrupted := insert 0 (interrupted s1)\<rparr>)"
  have e2: "lstep E s1 (Interrupted 0) = Some s2" by (simp add: interrupt_def Let_def s1 cancel_wait_def s2_def)
  define s3 where "s3 = s2\<lparr>interrupted := insert 0 (interrupted s2), terms := (terms s2)(0 \<mapsto> Dropped)\<rparr>"
  have e3: "lstep E s2 (Interrupted 0) = Some s3"
    by (simp add: interrupt_def Let_def s2_def set_phase_def cancel_wait_def term_over_def s1 s3_def)
  have e4: "lstep E s3 (Resumes 0 0 None) = Some (leave 0 Hangup s3)"
    by (simp add: resume_def s3_def s2_def set_phase_def term_over_def Let_def)
  have "lrun E (first_state job runner) [RunOver 0 hung_up, Interrupted 0, Interrupted 0, Resumes 0 0 None] = Some (leave 0 Hangup s3)"
    by (simp only: lrun.simps e1 e2 e3 e4 option.case)
  then show thesis by (rule that) (simp_all add: s3_def s2_def leave_def set_phase_def s1)
qed

text \<open>C31. The bound on cancellations is needed: when the caller hangs up and the task of the request is then
  cancelled twice, the second cancellation cancels the termination it waits for. The process lives on,
  the runtime is not quarantined, the lock is free, and the next request starts a second model.\<close>

theorem two_cancellations_two_models:
  assumes "startable E stream workdir job runner" "job_warm job = None"
  shows "\<exists>evs s. lrun E initial_lsys evs = Some s \<and> length (filter (\<lambda>ev. ev = Interrupted 0) evs) = 2
    \<and> (\<forall>p. Killed p \<notin> set evs) \<and> living s = {0, 1} \<and> \<not> quarantined s \<and> reqs s 1 = Some (Rendering job 1)
    \<and> reqs s 0 = Some (Finished Hangup)"
proof -
  obtain payload where p: "read_payload (su_loads E) stream = Inr payload"
    and a: "\<And>r s. \<not> quarantined s \<Longrightarrow> lock s = None \<Longrightarrow>
      admit E r payload workdir None s = begin_job E r job (s\<lparr>lock := Some r\<rparr>)"
    and r: "runner_prefix (su_loads E) (su_env E) = Inr runner"
    using startable_admit [OF assms(1)] by blast
  obtain s4 where e4: "lrun E (first_state job runner) [RunOver 0 hung_up, Interrupted 0, Interrupted 0, Resumes 0 0 None] = Some s4"
    and s4: "lock s4 = None" "vlock s4 = None" "quarantined s4 = False" "w_proc s4 = None" "w_releasing s4 = None"
      "living s4 = {0}" "next_pid s4 = 1" "reqs s4 (Suc 0) = None" "reqs s4 0 = Some (Finished Hangup)"
    using assms(2) by (rule cancelled_twice)
  define s5 where "s5 = set_phase 1 (Validating payload False) (s4\<lparr>vlock := Some 1\<rparr>)"
  have e5: "lstep E s4 (Arrives 1 stream) = Some s5" by (simp add: arrive_def p s4 s5_def)
  define s6 where "s6 = enter E 1 job (s5\<lparr>vlock := None, lock := Some 1, w_reaper := False\<rparr>)"
  have e6: "lstep E s5 (Validated 1 workdir None) = Some s6"
    using assms(2) by (simp add: validated_def s5_def s6_def set_phase_def a s4 begin_job_def must_release_def
        await_release_def release_begin_def Let_def)
  have s6: "reqs s6 1 = Some (Spawning job (run_command runner job))" "living s6 = {0}" "next_pid s6 = 1"
    "quarantined s6 = False" "reqs s6 0 = Some (Finished Hangup)"
    using assms(2) by (simp_all add: s6_def s5_def enter_def r set_phase_def s4)
  obtain s where e7: "lstep E s6 (Spawned 1) = Some s" and s: "living s = {0, 1} \<and> \<not> quarantined s
      \<and> reqs s 1 = Some (Rendering job 1) \<and> reqs s 0 = Some (Finished Hangup)"
    using assms(2) s6 by (simp add: spawned_def Let_def set_phase_def insert_commute)
  have second: "lrun E s4 [Arrives 1 stream, Validated 1 workdir None, Spawned 1] = Some s"
    by (simp only: lrun.simps e5 e6 e7 option.case)
  let ?twice = "first_events stream workdir @ [RunOver 0 hung_up, Interrupted 0, Interrupted 0, Resumes 0 0 None]"
  have "lrun E initial_lsys (?twice @ [Arrives 1 stream, Validated 1 workdir None, Spawned 1]) = Some s"
    by (simp only: lrun_append first_run(1) [OF assms(1)] e4 second option.case)
  with s show ?thesis
    by (intro exI [of _ "?twice @ [Arrives 1 stream, Validated 1 workdir None, Spawned 1]"] exI [of _ s]) (simp add: first_events_def)
qed

section \<open>A worker that serves two requests\<close>

definition well_done :: run_end where
  "well_done = \<lparr>end_written = True, end_rounds = 1,
     end_sights = (\<lambda>_. \<lparr>ob_done = True, ob_gone = False, ob_now = 0, ob_log = 0, ob_out = None\<rparr>),
     end_code = 0, end_line = reply_line (PDict [(''ok'', PBool True)]), end_now = 0, end_log = 0,
     end_file = Some ''mp4'', end_date = 0\<rparr>"

definition two_renders :: "chunk list \<Rightarrow> string \<Rightarrow> levent list" where
  "two_renders stream workdir =
     first_events stream workdir @ [RunOver 0 well_done, Arrives 1 stream, Validated 1 workdir None, RunOver 1 well_done]"

lemma two_renders_run:
  assumes st: "startable E stream workdir job runner" and warm: "job_warm job = Some key"
    and loads: "su_loads E (reply_line (PDict [(''ok'', PBool True)])) = Inr (PDict [(''ok'', PBool True)])"
  shows "\<exists>s. lreaches once E s \<and> lrun E initial_lsys (two_renders stream workdir) = Some s
    \<and> rendered s = [(0, 0, job), (1, 0, job)] \<and> living s = {0} \<and> reqs s 1 = Some (Finished (collect job 0 (Some ''mp4'')))"
proof -
  obtain payload where p: "read_payload (su_loads E) stream = Inr payload"
    and a: "\<And>r s. \<not> quarantined s \<Longrightarrow> lock s = None \<Longrightarrow>
      admit E r payload workdir None s = begin_job E r job (s\<lparr>lock := Some r\<rparr>)"
    by (rule startable_admit [OF st]) (rule that)
  have "read_reply (su_loads E) (end_line well_done) = None"
    unfolding well_done_def run_end.select_convs by (rule reply_read, rule loads) (simp add: get_none_def)
  moreover have "supervise (end_rounds well_done) (end_sights well_done) t = Some None" "end_written well_done" for t
    by (simp_all add: well_done_def supervise_def supervise_round_def)
  ultimately have res: "run_result E job well_done = Some None"
    using warm by (simp add: run_result_def warm_end_def)
  define more where "more = [RunOver 0 well_done, Arrives 1 stream, Validated 1 workdir None, RunOver 1 well_done]"
  have log: "end_log well_done = 0" "end_file well_done = Some ''mp4''" "end_date well_done = 0" by (simp_all add: well_done_def)
  define s1 where "s1 = run_succeeds 0 job 0 well_done (first_state job runner)"
  have s1: "lock s1 = None" "vlock s1 = None" "quarantined s1 = False" "w_proc s1 = Some 0" "w_key s1 = Some key"
    "w_releasing s1 = None" "living s1 = {0}" "rendered s1 = [(0, 0, job)]" "reqs s1 1 = None" "interrupted s1 = {}"
    using warm by (simp_all add: s1_def run_succeeds_def Let_def log leave_def set_phase_def first_state_def initial_lsys_def)
  have e1: "lstep E (first_state job runner) (RunOver 0 well_done) = Some s1"
    by (simp add: run_over_def first_state_def res s1_def)
  define s2 where "s2 = set_phase 1 (Validating payload False) (s1\<lparr>vlock := Some 1\<rparr>)"
  have e2: "lstep E s1 (Arrives 1 stream) = Some s2" by (simp add: arrive_def p s1 [unfolded One_nat_def] s2_def)
  define s3 where "s3 = enter E 1 job (s2\<lparr>vlock := None, lock := Some 1\<rparr>)"
  have e3: "lstep E s2 (Validated 1 workdir None) = Some s3"
    using warm by (simp add: validated_def s2_def s3_def set_phase_def a s1 begin_job_def must_release_def)
  have s3: "reqs s3 1 = Some (Rendering job 0)" "rendered s3 = [(0, 0, job), (1, 0, job)]" "living s3 = {0}"
    using warm by (simp_all add: s3_def s2_def enter_def set_phase_def s1)
  define s4 where "s4 = run_succeeds 1 job 0 well_done s3"
  have e4: "lstep E s3 (RunOver 1 well_done) = Some s4" by (simp add: run_over_def s3 [unfolded One_nat_def] res s4_def)
  have s4: "rendered s4 = [(0, 0, job), (1, 0, job)] \<and> living s4 = {0}
      \<and> reqs s4 1 = Some (Finished (collect job 0 (Some ''mp4'')))"
    using warm by (simp add: s4_def run_succeeds_def Let_def log leave_def set_phase_def s3)
  have "lrun E (first_state job runner) more = Some s4 \<and> all_ok once E (first_state job runner) more"
    by (simp only: more_def lrun.simps all_ok.simps e1 e2 e3 e4 option.case once.simps simp_thms)
  with s4 obtain s where s: "lrun E (first_state job runner) more = Some s" "rendered s = [(0, 0, job), (1, 0, job)] \<and> living s = {0}
      \<and> reqs s 1 = Some (Finished (collect job 0 (Some ''mp4'')))" "all_ok once E (first_state job runner) more" by blast
  note first = first_run [OF st]
  from lrun_reaches [OF lreaches_init first] have "lreaches once E (first_state job runner)" .
  from lrun_reaches [OF this s(1,3)] s(2) lrun_append [of E initial_lsys "first_events stream workdir" more] first(1) s(1)
  show ?thesis unfolding two_renders_def more_def [symmetric] by (intro exI [of _ s]) simp
qed

section \<open>One model in memory\<close>

text \<open>Only the step that starts a process adds to the commands.\<close>

lemma started_simps [simp]:
  "started (set_phase r ph s) = started s" "started (reply_now r out s) = started s" "started (leave r out s) = started s"
  "started (begin_term p s) = started s" "started (release_end p s) = started s"
  by (simp_all add: op_defs release_end_def)

lemma started_release_begin: "release_begin s = (q, t) \<Longrightarrow> started t = started s"
  by (drule release_begin_keeps) simp

lemma started_await:
  "(\<And>t. started (direct t) = started t) \<Longrightarrow> started (await_release r n cont direct s) = started s"
  by (cases "release_begin s") (auto simp: await_release_def dest: started_release_begin split: option.split)

lemma started_enter [simp]: "started (enter E r job s) = started s"
  by (auto simp: enter_def Let_def split: option.split sum.split)

lemma started_begin_job [simp]: "started (begin_job E r job s) = started s"
  by (simp add: begin_job_def started_await)

lemma started_runs [simp]:
  "started (plain_over r p cont s) = started s" "started (run_fails r job p out s) = started s"
  "started (run_succeeds r job p d s) = started s" "started (cancel_wait r w cont s) = started s"
  "started (admit E r payload workdir io s) = started s" "started (arrive E r stream s) = started s"
  by (auto simp: plain_over_def run_fails_def run_succeeds_def cancel_wait_def admit_def arrive_def Let_def started_await
      split: sum.split option.split prod.split)

lemma started_step:
  assumes "lstep E s ev = Some s'" "started s' \<noteq> started s"
  shows "\<exists>r job command. ev = Spawned r \<and> reqs s r = Some (Spawning job command)"
proof (cases ev)
  case (Spawned r)
  with assms show ?thesis by (auto simp: spawned_def split: option.splits phase.splits)
next
  case (IdleOver)
  with assms show ?thesis
    by (auto simp: idle_over_def Let_def split: if_splits prod.splits option.splits dest: started_release_begin)
qed (use assms in \<open>auto simp: validated_def spawn_fails_def run_over_def resume_def interrupt_def reaper_resumes_def
  killed_def survives_def exits_def Let_def split: option.splits phase.splits if_splits then_do.splits term_task.splits\<close>)

text \<open>C2. At most one model process is alive in any state that is reached while every request is cancelled at
  most once, a process is started only when none is alive and the runtime is not quarantined, its command
  is the one of an accepted request, and at most one request is neither answered nor refused.\<close>

theorem one_model_process:
  assumes "lreaches once E s"
  shows "(\<forall>p\<in>living s. \<forall>q\<in>living s. p = q)
    \<and> (\<forall>ev s'. lstep E s ev = Some s' \<longrightarrow> started s' \<noteq> started s \<longrightarrow> living s = {} \<and> \<not> quarantined s)
    \<and> (\<forall>(p, job, command)\<in>set (started s). command_of E job command)
    \<and> (\<forall>r r' ph ph'. reqs s r = Some ph \<longrightarrow> reqs s r' = Some ph' \<longrightarrow> (\<forall>out. ph \<noteq> Finished out) \<longrightarrow>
         (\<forall>out. ph' \<noteq> Finished out) \<longrightarrow> r = r')"
proof (intro conjI)
  note inv = lreaches_linv [OF assms]
  show "\<forall>p\<in>living s. \<forall>q\<in>living s. p = q" using linv_one_living [OF inv] by blast
  show "\<forall>ev s'. lstep E s ev = Some s' \<longrightarrow> started s' \<noteq> started s \<longrightarrow> living s = {} \<and> \<not> quarantined s"
    using started_step spawning_alone [OF inv] by blast
  show "\<forall>(p, job, command)\<in>set (started s). command_of E job command"
    using lreaches_trace [OF assms] by (auto simp: trace_ok_def)
  show "\<forall>r r' ph ph'. reqs s r = Some ph \<longrightarrow> reqs s r' = Some ph' \<longrightarrow> (\<forall>out. ph \<noteq> Finished out) \<longrightarrow>
         (\<forall>out. ph' \<noteq> Finished out) \<longrightarrow> r = r'"
    using inv by (cases rule: linv_cases) (unfold only_def held_def, blast+)
qed

section \<open>Answers\<close>


section \<open>The worker\<close>

text \<open>C10. The requests the server sends to one warm worker all need the weights that worker holds: if the
  pipeline itself works, the worker answers every one of them with a success, and the server reads
  each reply as one. A prompt must not itself be one of the flags the worker looks for.\<close>

theorem worker_serves_its_runs:
  assumes "lreaches once E s"
    and "\<forall>job\<in>set (sent_to s p). job_warm job \<noteq> None \<and> works out (job_args job)
      \<and> (\<forall>f\<in>set build_flags. map_of (read_args (job_args job)) ''--prompt'' \<noteq> Some [f])"
    and "\<forall>v\<in>set (serve_lines out None (map job_args (sent_to s p))). loads (reply_line v) = Inr v"
  shows "length (serve_lines out None (map job_args (sent_to s p))) = length (sent_to s p)
    \<and> (\<forall>v\<in>set (serve_lines out None (map job_args (sent_to s p))). read_reply loads (reply_line v) = None)"
proof (cases "sent_to s p")
  case (Cons j rest)
  from lreaches_trace [OF assms(1)] obtain f
    where made: "\<And>r q j. (r, q, j) \<in> set (rendered s) \<Longrightarrow> job_made E j \<and> job_warm j = f q"
    by (auto simp: trace_ok_def shares_ok_def)
  have j: "j \<in> set (sent_to s p)" using Cons by simp
  have same: "build_key (job_args j') = build_key (job_args j) \<and> build_key (job_args j') \<noteq> None" if "j' \<in> set (sent_to s p)" for j'
  proof (rule jobs_build_key [of E])
    show "job_made E j'" "job_made E j" "job_warm j' = job_warm j" using made that j by (auto simp: sent_to_iff)
  qed (use assms(2) that j in auto)
  from same [OF j] obtain k where "build_key (job_args j) = Some k" by auto
  with same assms(2) have "\<forall>argv\<in>set (map job_args (sent_to s p)). works out argv \<and> build_key argv = Some k" by auto
  from serve_same_weights [OF this, of None] assms(3) reply_read show ?thesis
    by (fastforce simp: list_all_iff get_none_def)
qed simp

end
