(* ===== verification/Ltx_Progress.thy ===== *)
theory Ltx_Progress
  imports Ltx_Runs
begin

text \<open>
  How far a request of the LTX server is from its answer: a count of the steps it still needs, which
  no step of anybody raises and which some step always lowers.
\<close>

section \<open>The steps a request needs\<close>

definition pending :: "lsys \<Rightarrow> wait \<Rightarrow> nat" where
  "pending s w = (if terms s (wait_pid w) = Some Ending then 1 else 0)"

fun steps_left :: "lsys \<Rightarrow> phase \<Rightarrow> nat" where
  "steps_left s (Validating payload hung) = 10"
| "steps_left s (Awaiting w (Launch job)) = 8 + pending s w"
| "steps_left s (Awaiting w cont) = 2 + pending s w"
| "steps_left s (Spawning job command) = 7"
| "steps_left s (Rendering job p) = 5"
| "steps_left s (Finished out) = 0"

definition remaining :: "rid \<Rightarrow> lsys \<Rightarrow> nat" where
  "remaining r s = (case reqs s r of None \<Rightarrow> 11 | Some ph \<Rightarrow> steps_left s ph)"

section \<open>What the stretches need\<close>

lemma pending_le: "pending s w \<le> 1"
  by (simp add: pending_def)

lemma remaining_set_phase: "remaining r (set_phase r ph s) = steps_left s ph"
proof -
  have "steps_left (set_phase r ph s) ph = steps_left s ph"
    by (cases "(s, ph)" rule: steps_left.cases) (auto simp: pending_def set_phase_def)
  then show ?thesis by (simp add: remaining_def set_phase_def)
qed

lemma remaining_leave [simp]: "remaining r (leave r out s) = 0" "remaining r (reply_now r out s) = 0"
  by (simp_all add: leave_def reply_now_def remaining_set_phase)

lemma remaining_enter: "remaining r (enter E r job s) \<le> 7"
  by (auto simp: enter_def Let_def remaining_set_phase split: option.split sum.split)

lemma remaining_await:
  assumes "\<And>t. remaining r (direct t) \<le> n" "\<And>t w. steps_left t (Awaiting w cont) \<le> n"
  shows "remaining r (await_release r k cont direct s) \<le> n"
  using assms by (auto simp: await_release_def remaining_set_phase split: prod.split option.split)

lemma remaining_begin_job: "remaining r (begin_job E r job s) \<le> 9"
proof -
  have "remaining r (await_release r 1 (Launch job) (enter E r job) s) \<le> 9"
    by (rule remaining_await) (use remaining_enter [THEN order_trans] pending_le in auto)
  then show ?thesis using order_trans [OF remaining_enter, of 9] by (simp add: begin_job_def)
qed

lemma remaining_admit: "remaining r (admit E r payload workdir io s) \<le> 9"
  by (auto simp: admit_def Let_def remaining_begin_job split: sum.split option.split prod.split)

lemma remaining_plain_over: "\<forall>job. cont \<noteq> Launch job \<Longrightarrow> remaining r (plain_over r p cont s) \<le> 3"
  by (cases cont) (auto simp: plain_over_def remaining_set_phase pending_def)

lemma remaining_run_fails: "remaining r (run_fails r job p out s) \<le> 3"
proof -
  have "remaining r (await_release r 2 (Conclude out) (leave r out) s) \<le> 3"
    by (rule remaining_await) (use pending_le in auto)
  then show ?thesis by (simp add: run_fails_def remaining_plain_over)
qed

lemma remaining_run_succeeds: "remaining r (run_succeeds r job p d s) \<le> 3"
proof -
  have "remaining r (await_release r (Suc 0) (Deliver job) (leave r out) t) \<le> 3" for out t
    by (rule remaining_await) (use pending_le in auto)
  then show ?thesis by (auto simp: run_succeeds_def Let_def remaining_plain_over)
qed

section \<open>Progress\<close>

lemma unfinished_alone:
  assumes "linv s" "reqs s r = Some ph" "\<forall>out. ph \<noteq> Finished out" "reqs s q = Some ph'" "\<forall>out. ph' \<noteq> Finished out"
  shows "q = r"
  using assms(1) by (cases rule: linv_cases) (use assms(2-) in \<open>unfold only_def held_def, blast+\<close>)

lemma remaining_same: "reqs t r = reqs s r \<Longrightarrow> terms t = terms s \<Longrightarrow> remaining r t = remaining r s"
proof -
  assume "reqs t r = reqs s r" "terms t = terms s"
  moreover from this have "steps_left t ph = steps_left s ph" for ph
    by (cases "(s, ph)" rule: steps_left.cases) (auto simp: pending_def)
  ultimately show ?thesis by (simp add: remaining_def split: option.split)
qed

lemma remaining_fewer:
  assumes "reqs t r = reqs s r" "\<And>p. terms t p = Some Ending \<Longrightarrow> terms s p = Some Ending"
  shows "remaining r t \<le> remaining r s"
proof -
  have "steps_left t ph \<le> steps_left s ph" for ph
    using assms(2) by (cases "(s, ph)" rule: steps_left.cases) (auto simp: pending_def)
  with assms(1) show ?thesis by (simp add: remaining_def split: option.split)
qed

lemma progress_possible:
  assumes inv: "linv s" and ph: "reqs s r = Some ph" "\<forall>out. ph \<noteq> Finished out"
  shows "\<exists>ev s'. lstep E s ev = Some s' \<and> (\<forall>q. ev \<noteq> Interrupted q) \<and> remaining r s' < remaining r s"
proof (cases ph)
  case (Validating payload hung)
  have "lstep E s (Validated r [] None) = Some (if hung then reply_now r Hangup (s\<lparr>vlock := None\<rparr>)
      else admit E r payload [] None (s\<lparr>vlock := None\<rparr>))" (is "_ = Some ?t")
    using ph Validating by (simp add: validated_def Let_def)
  moreover have "remaining r ?t < remaining r s"
    using order.strict_trans1 [OF remaining_admit, of 10] ph Validating by (simp add: remaining_def [of r s])
  ultimately show ?thesis by blast
next
  case (Awaiting w cont)
  from running_state [OF inv ph] Awaiting have ok: "lrun_ok s (Awaiting w cont)" by simp
  show ?thesis
  proof (cases "terms s (wait_pid w) = Some Ending")
    case True
    let ?t = "s\<lparr>terms := (terms s)(wait_pid w \<mapsto> Ended), living := living s - {wait_pid w}\<rparr>"
    have "lstep E s (Killed (wait_pid w)) = Some ?t" using True by (simp add: killed_def)
    moreover have "remaining r ?t < remaining r s"
      using True ph Awaiting by (cases cont) (simp_all add: remaining_def pending_def)
    ultimately show ?thesis by blast
  next
    case False
    with ok have over: "term_over s (wait_pid w)" by (auto simp: term_over_def)
    define t where "t = (if released w then release_end (wait_pid w) s else s)"
    have st: "lstep E s (Resumes r 0 None) = Some (case terms t (wait_pid w) of
        Some Ended \<Rightarrow> if cut w then leave r Hangup t
          else (case cont of Launch job \<Rightarrow> enter E r job t | Deliver job \<Rightarrow> leave r (collect job 0 None) t
                | Conclude out \<Rightarrow> leave r out t)
      | Some Stuck \<Rightarrow> leave r cleanup_failed t
      | _ \<Rightarrow> leave r Hangup t)" (is "_ = Some ?t")
      using ph Awaiting over by (simp add: resume_def Let_def flip: t_def)
    have "remaining r ?t < remaining r s"
      using order.strict_trans1 [OF remaining_enter, of 8] ph Awaiting False
      by (cases cont) (auto simp: remaining_def [of r s] pending_def split: option.split term_task.split)
    with st show ?thesis by blast
  qed
next
  case (Spawning job command)
  then obtain t where t: "lstep E s (Spawned r) = Some (set_phase r (Rendering job (next_pid s)) t)"
    using ph by (simp add: spawned_def Let_def)
  moreover have "remaining r (set_phase r (Rendering job (next_pid s)) t) < remaining r s"
    using ph Spawning by (simp add: remaining_set_phase remaining_def [of r s])
  ultimately show ?thesis by blast
next
  case (Rendering job p)
  obtain res where res: "run_result E job hung_up = Some res"
    by (auto simp: run_result_def hung_up_def supervise_def supervise_round_def)
  have "lstep E s (RunOver r hung_up) = Some (case res of Some e \<Rightarrow> run_fails r job p (failure e) s
      | None \<Rightarrow> run_succeeds r job p hung_up s)" (is "_ = Some ?t")
    using ph Rendering res by (simp add: run_over_def split: option.split)
  moreover have "remaining r ?t < remaining r s"
    using order.strict_trans1 [OF remaining_run_fails, of 5] order.strict_trans1 [OF remaining_run_succeeds, of 5] ph Rendering
    by (simp add: remaining_def [of r s] split: option.split)
  ultimately show ?thesis by blast
next
  case (Finished out)
  with ph show ?thesis by simp
qed

lemma release_end_terms [simp]: "terms (release_end p s) = terms s" "reqs (release_end p s) = reqs s"
  by (simp_all add: release_end_def)

lemma remaining_cancel:
  assumes "reqs s r = Some (Awaiting w cont)"
  shows "remaining r (cancel_wait r w cont s) \<le> remaining r s"
proof (cases "0 < shields w")
  case True
  have "steps_left s (Awaiting (w\<lparr>shields := n, cut := True\<rparr>) cont) = steps_left s (Awaiting w cont)" for n
    by (cases cont) (simp_all add: pending_def)
  with True assms show ?thesis by (simp add: cancel_wait_def remaining_set_phase remaining_def [of r s])
next
  case False
  have "remaining r (s\<lparr>terms := (terms s)(wait_pid w \<mapsto> Dropped)\<rparr>) \<le> remaining r s"
    by (rule remaining_fewer) (auto split: if_splits)
  with False show ?thesis by (simp add: cancel_wait_def)
qed

text \<open>The steps of the request itself.\<close>

lemma own_step_shorter:
  assumes ph: "reqs s r = Some ph"
  shows "validated E r workdir io s = Some s' \<Longrightarrow> remaining r s' \<le> remaining r s"
    and "spawned r s = Some s' \<Longrightarrow> remaining r s' \<le> remaining r s"
    and "spawn_fails r e s = Some s' \<Longrightarrow> remaining r s' \<le> remaining r s"
    and "run_over E r d s = Some s' \<Longrightarrow> remaining r s' \<le> remaining r s"
    and "resume E r created file s = Some s' \<Longrightarrow> remaining r s' \<le> remaining r s"
    and "interrupt r s = Some s' \<Longrightarrow> remaining r s' \<le> remaining r s"
proof -
  have rem: "remaining r s = steps_left s ph" by (simp add: remaining_def ph)
  have same: "remaining r (s\<lparr>interrupted := x\<rparr>) = remaining r s" for x by (rule remaining_same) simp_all
  note le = order_trans [OF remaining_admit, of 10] order_trans [OF remaining_run_fails, of 5]
    order_trans [OF remaining_run_succeeds, of 5] order_trans [OF remaining_enter, of 8]
  show "validated E r workdir io s = Some s' \<Longrightarrow> remaining r s' \<le> remaining r s"
    using le by (cases ph) (auto simp: validated_def ph rem Let_def)
  show "spawned r s = Some s' \<Longrightarrow> remaining r s' \<le> remaining r s"
    by (cases ph) (auto simp: spawned_def ph rem Let_def remaining_set_phase)
  show "spawn_fails r e s = Some s' \<Longrightarrow> remaining r s' \<le> remaining r s"
    by (cases ph) (auto simp: spawn_fails_def ph)
  show "run_over E r d s = Some s' \<Longrightarrow> remaining r s' \<le> remaining r s"
    using le by (cases ph) (auto simp: run_over_def ph rem split: option.splits)
  show "remaining r s' \<le> remaining r s" if st: "resume E r created file s = Some s'"
  proof (cases ph)
    case (Awaiting w cont)
    define t where "t = (if released w then release_end (wait_pid w) s else s)"
    from st ph Awaiting have "s' = (case terms t (wait_pid w) of
        Some Ended \<Rightarrow> if cut w then leave r Hangup t
          else (case cont of Launch job \<Rightarrow> enter E r job t | Deliver job \<Rightarrow> leave r (collect job created file) t
                | Conclude out \<Rightarrow> leave r out t)
      | Some Stuck \<Rightarrow> leave r cleanup_failed t
      | _ \<Rightarrow> leave r Hangup t)"
      by (simp add: resume_def Let_def split: if_split_asm flip: t_def)
    then show ?thesis using le(4) by (cases cont) (auto simp: rem Awaiting trans_le_add1 split: option.split term_task.split)
  qed (use st ph in \<open>auto simp: resume_def\<close>)
  show "remaining r s' \<le> remaining r s" if st: "interrupt r s = Some s'"
  proof (cases ph)
    case (Awaiting w cont)
    let ?s = "s\<lparr>interrupted := insert r (interrupted s)\<rparr>"
    have "s' = cancel_wait r w cont ?s" using st ph Awaiting by (simp add: interrupt_def Let_def)
    with remaining_cancel [of ?s r w cont] ph Awaiting same show ?thesis by simp
  next
    case (Validating payload hung)
    with st ph show ?thesis by (auto simp: interrupt_def Let_def rem remaining_set_phase split: if_splits)
  next
    case (Rendering job p)
    with st ph le(2) show ?thesis by (auto simp: interrupt_def Let_def rem)
  qed (use st ph in \<open>auto simp: interrupt_def Let_def\<close>)
qed

text \<open>The steps of others leave it alone.\<close>

lemma finished_no_step:
  assumes "reqs s q = Some (Finished out)"
  shows "validated E q workdir io s = None" "spawned q s = None" "spawn_fails q e s = None" "run_over E q d s = None"
    "resume E q created file s = None" "interrupt q s = None"
  using assms by (simp_all add: validated_def spawned_def spawn_fails_def run_over_def resume_def interrupt_def Let_def)

lemma unknown_no_step:
  assumes "reqs s q = None"
  shows "validated E q workdir io s = None" "spawned q s = None" "spawn_fails q e s = None" "run_over E q d s = None"
    "resume E q created file s = None" "interrupt q s = None"
  using assms by (simp_all add: validated_def spawned_def spawn_fails_def run_over_def resume_def interrupt_def Let_def)

lemma remaining_other: "q \<noteq> r \<Longrightarrow> remaining r (set_phase q ph s) = remaining r s"
  by (rule remaining_same) (simp_all add: set_phase_def)

lemma never_longer:
  assumes inv: "linv s" and ph: "reqs s r = Some ph" "\<forall>out. ph \<noteq> Finished out" and st: "lstep E s ev = Some s'"
  shows "remaining r s' \<le> remaining r s"
proof -
  have idle: "validated E q workdir io s = None \<and> spawned q s = None \<and> spawn_fails q e s = None \<and> run_over E q d s = None
    \<and> resume E q created f s = None \<and> interrupt q s = None" if "q \<noteq> r" for q workdir io e d created f
  proof (cases "reqs s q")
    case (Some ph')
    with unfinished_alone [OF inv ph] that obtain out where "ph' = Finished out" by blast
    with Some show ?thesis by (simp add: finished_no_step)
  qed (simp add: unknown_no_step)
  have locked: "lock s \<noteq> None \<or> vlock s = Some r \<and> (\<exists>payload hung. ph = Validating payload hung)"
    using inv
  proof (cases rule: linv_cases)
    case free
    with ph have False unfolding only_def by blast
    then show ?thesis ..
  next
    case (validating q payload hung)
    with ph have "q = r" unfolding only_def by blast
    with validating ph(1) show ?thesis by auto
  qed (simp add: held_def)
  note own = own_step_shorter [OF ph(1)]
  show ?thesis
  proof (cases ev)
    case (Arrives q stream)
    then have "q \<noteq> r" and s': "s' = arrive E q stream s" using st ph by (auto split: if_splits)
    then show ?thesis using locked by (auto simp: arrive_def reply_now_def remaining_other split: sum.split)
  next
    case (Validated q workdir io)
    with st own(1) idle show ?thesis by (cases "q = r") auto
  next
    case (Spawned q)
    with st own(2) idle show ?thesis by (cases "q = r") auto
  next
    case (SpawnFails q e)
    with st own(3) idle show ?thesis by (cases "q = r") auto
  next
    case (RunOver q d)
    with st own(4) idle show ?thesis by (cases "q = r") auto
  next
    case (Resumes q created f)
    with st own(5) idle show ?thesis by (cases "q = r") auto
  next
    case (Interrupted q)
    with st own(6) idle show ?thesis by (cases "q = r") auto
  next
    case IdleOver
    show ?thesis
    proof (cases "lock s")
      case None
      with locked obtain payload hung where v: "ph = Validating payload hung" by auto
      obtain q t where qt: "release_begin (s\<lparr>w_reaper := False\<rparr>) = (q, t)"
        by (cases "release_begin (s\<lparr>w_reaper := False\<rparr>)")
      with st IdleOver None release_begin_keeps [OF qt] have "reqs s' r = reqs s r"
        by (auto simp: idle_over_def Let_def split: if_splits option.splits)
      with v ph show ?thesis by (simp add: remaining_def)
    next
      case (Some q)
      with st IdleOver have "s' = s\<lparr>w_reaper := False\<rparr>" by (auto simp: idle_over_def Let_def split: if_splits)
      then show ?thesis using remaining_same [of s' r s] by simp
    qed
  next
    case (ReaperResumes p)
    with st show ?thesis
      by (intro remaining_fewer) (auto simp: reaper_resumes_def split: if_splits)
  next
    case (Killed p)
    with st show ?thesis by (intro remaining_fewer) (auto simp: killed_def split: if_splits)
  next
    case (Survives p)
    with st show ?thesis by (intro remaining_fewer) (auto simp: survives_def split: if_splits)
  next
    case (Exits p)
    with st show ?thesis by (intro remaining_fewer) (auto simp: exits_def split: if_splits)
  qed
qed

lemma can_finish:
  assumes "lreaches once E s" "reqs s r = Some ph"
  shows "\<exists>evs s' out. length evs \<le> remaining r s \<and> lrun E s evs = Some s' \<and> reqs s' r = Some (Finished out)"
  using assms
proof (induction "remaining r s" arbitrary: s ph rule: less_induct)
  case less
  show ?case
  proof (cases "\<exists>out. ph = Finished out")
    case True
    with less.prems(2) show ?thesis by (intro exI [of _ "[]"]) auto
  next
    case False
    then have unfinished: "\<forall>out. ph \<noteq> Finished out" by blast
    from progress_possible [OF lreaches_linv [OF less.prems(1)] less.prems(2) unfinished]
    obtain ev t where t: "lstep E s ev = Some t" "\<forall>q. ev \<noteq> Interrupted q" "remaining r t < remaining r s" by blast
    from t(2) have "once s ev" by (cases ev) auto
    with less.prems(1) t(1) have reach: "lreaches once E t" by (blast intro: lreaches_step)
    have "remaining r s \<le> 10" using less.prems(2)
      by (cases "(s, ph)" rule: steps_left.cases) (simp_all add: remaining_def pending_def)
    with t(3) have "remaining r t \<noteq> 11" by linarith
    then have "reqs t r \<noteq> None" by (cases "reqs t r") (simp_all add: remaining_def)
    with less.hyps [OF t(3) reach] obtain evs s' out
      where "length evs \<le> remaining r t" "lrun E t evs = Some s'" "reqs s' r = Some (Finished out)" by blast
    with t(1,3) show ?thesis by (intro exI [of _ "ev # evs"]) auto
  qed
qed

text \<open>C11. A request always ends, and gives back the lock: it is at most ten steps from its answer, no step
  of anybody takes it further from it, in every state some step other than a cancellation takes it
  closer, and a request that is answered holds neither of the two locks.\<close>

theorem request_ends:
  assumes "lreaches once E s" "reqs s r = Some ph"
  shows "remaining r s \<le> 10
    \<and> (\<exists>evs s' out. length evs \<le> 10 \<and> lrun E s evs = Some s' \<and> reqs s' r = Some (Finished out))
    \<and> ((\<forall>out. ph \<noteq> Finished out) \<longrightarrow> (\<forall>ev s'. lstep E s ev = Some s' \<longrightarrow> remaining r s' \<le> remaining r s)
        \<and> (\<exists>ev s'. lstep E s ev = Some s' \<and> (\<forall>q. ev \<noteq> Interrupted q) \<and> remaining r s' < remaining r s))
    \<and> ((\<exists>out. ph = Finished out) \<longrightarrow> lock s \<noteq> Some r \<and> vlock s \<noteq> Some r)"
proof (intro conjI impI)
  note inv = lreaches_linv [OF assms(1)]
  show ten: "remaining r s \<le> 10" using assms(2)
    by (cases "(s, ph)" rule: steps_left.cases) (simp_all add: remaining_def pending_def)
  show "\<exists>evs s' out. length evs \<le> 10 \<and> lrun E s evs = Some s' \<and> reqs s' r = Some (Finished out)"
    using can_finish [OF assms] ten by (meson order_trans)
  show "lock s \<noteq> Some r" "vlock s \<noteq> Some r" if "\<exists>out. ph = Finished out"
    using inv that assms(2) by (cases rule: linv_cases; auto simp: held_def)+
qed (use never_longer [OF lreaches_linv [OF assms(1)] assms(2)] progress_possible [OF lreaches_linv [OF assms(1)] assms(2)] in blast)+

end
