(* ===== verification/Ltx_Service.thy ===== *)
theory Ltx_Service
  imports Ltx_Server Ltx_Accept
begin

text \<open>
  The watch over a run of the LTX server ends by its deadline, and the readiness document says which
  requests find their components.
\<close>

section \<open>The watch\<close>

text \<open>The watch over a run ends within a bounded number of rounds of 0.2 seconds. It reports the end of
  the run exactly when it saw it, a timeout only when the deadline had passed, and nothing earlier: before
  its last round the run was going on, the caller was there and the deadline ahead.\<close>

theorem watch_ends:
  assumes "patient ob (ob_now (ob 0) + timeout)"
  shows "\<exists>r i. supervise (enough_rounds timeout (1 / 5)) ob timeout = Some r \<and> (r = None \<longleftrightarrow> ob_done (ob i))
    \<and> (r = Some out_of_time \<longrightarrow> ob_now (ob 0) + timeout \<le> ob_now (ob i))
    \<and> (\<forall>j<i. \<not> ob_done (ob j) \<and> \<not> ob_gone (ob j) \<and> ob_now (ob j) < ob_now (ob 0) + timeout)"
proof -
  let ?d = "ob_now (ob 0) + timeout"
  let ?step = "supervise_round ob ?d (ob_log (ob 0))"
  have "?d + 1 / 5 - watch_clock ob ?d 0 \<le> timeout + 1 / 5 \<or> ?d + 1 / 5 - watch_clock ob ?d 0 = 0"
    by (simp add: watch_clock_def)
  moreover have "timeout + 1 / 5 < of_nat (nat \<lceil>timeout / (1 / 5)\<rceil> + 2) * (1 / 5)"
    using enough_rounds_cover [of "1 / 5" timeout] by simp
  ultimately have "?d + 1 / 5 - watch_clock ob ?d 0 < of_nat (nat \<lceil>timeout / (1 / 5)\<rceil> + 2) * (1 / 5)" by auto
  from watch.fuel_enough [OF _ assms this, of "ob_log (ob 0)"] obtain r
    where r: "supervise (enough_rounds timeout (1 / 5)) ob timeout = Some r"
    unfolding supervise_def enough_rounds_def by fastforce
  then have "poll_loop (enough_rounds timeout (1 / 5)) ?step 0 = Some r" by (simp add: supervise_def)
  moreover have "\<forall>k<j. \<not> ob_done (ob k) \<and> \<not> ob_gone (ob k) \<and> ob_now (ob k) < ?d"
    if "\<forall>k<i. \<not> ob_done (ob k) \<and> \<not> ob_gone (ob k) \<and> ob_now (ob k) < ?d" "?step i = Inr j" for i j
    using that(1) supervise_round_Inr [OF that(2)] by (auto simp: less_Suc_eq)
  ultimately obtain i where i: "\<forall>k<i. \<not> ob_done (ob k) \<and> \<not> ob_gone (ob k) \<and> ob_now (ob k) < ?d" "?step i = Inl r"
    using poll_loop_result [of _ ?step 0 r "\<lambda>i. \<forall>k<i. \<not> ob_done (ob k) \<and> \<not> ob_gone (ob k) \<and> ob_now (ob k) < ?d"] by blast
  then have "(r = None \<longleftrightarrow> ob_done (ob i)) \<and> (r = Some out_of_time \<longrightarrow> ?d \<le> ob_now (ob i))"
    by (auto simp: supervise_round_def disconnected_def out_of_time_def generation_failed_def split: if_splits)
  with r i(1) show ?thesis by blast
qed

section \<open>Readiness\<close>

lemma default_specs:
  "list_all (\<lambda>(m, ws). list_all (\<lambda>(w, s). w = default_workflow \<longrightarrow> \<not> supports_temporal_upscalings s) ws) pipelines"
  by (simp add: pipelines_def full_workflows_def distilled_workflows_def pipeline_def default_workflow_def)

definition ready_model :: "environ \<Rightarrow> (path \<Rightarrow> bool) \<Rightarrow> (path \<Rightarrow> bool) \<Rightarrow> string \<Rightarrow> bool" where
  "ready_model env is_dir is_file m =
     (\<exists>d ws spec as. setting env model_root_env = Some d \<and> map_of pipelines m = Some ws
        \<and> map_of ws default_workflow = Some spec \<and> resolve_assets is_dir is_file d spec 0 = Inr as)"

lemma ready_with_iff: "ready_with is_dir is_file d spec \<longleftrightarrow> (\<exists>as. resolve_assets is_dir is_file d spec 0 = Inr as)"
  by (auto simp: ready_with_def split: sum.split)

lemma map_of_second: "map_of (map (\<lambda>(w, x). (w, f x)) ws) k = map_option f (map_of ws k)"
  by (induction ws) auto

lemma available_iff: "m \<in> set (available_models env is_dir is_file) \<longleftrightarrow> ready_model env is_dir is_file m"
proof (cases "setting env model_root_env")
  case (Some d)
  have "distinct (map fst pipelines)" by (simp add: pipelines_def)
  then have in_: "(m, ws) \<in> set pipelines \<longleftrightarrow> map_of pipelines m = Some ws" for ws by simp
  have "m \<in> set (available_models env is_dir is_file) \<longleftrightarrow>
      (\<exists>ws. (m, ws) \<in> set pipelines \<and> map_option (ready_with is_dir is_file d) (map_of ws default_workflow) = Some True)"
    by (force simp: available_models_def workflow_ready_def Some map_of_second)
  also have "\<dots> \<longleftrightarrow> ready_model env is_dir is_file m"
    unfolding in_ ready_model_def Some by (auto simp: ready_with_iff)
  finally show ?thesis .
qed (simp add: available_models_def workflow_ready_def ready_model_def)

lemma accepted_choice:
  assumes "parse_generation x payload = Inr g"
  obtains p spec where "select_workflow p = Inr (gen_model g, gen_workflow g, spec)"
    and "read_quantization p (gen_model g) (gen_workflow g) spec = Inr (gen_quantization g, gen_spec g)"
  using assms unfolding parse_generation_def finish_generation_def
  by (cases payload) (auto simp: case_prod_unfold Let_def)

text \<open>C32. The health document keeps its word: the status is 200 exactly when the runtime is not quarantined
  and some model is ready, and a model is listed as available exactly when an accepted request for its
  default workflow finds its components, but for the separate NVFP4 checkpoint.\<close>

theorem health_keeps_its_word:
  assumes "parse_generation x payload = Inr g" "gen_workflow g = default_workflow"
    and "gen_quantization g \<noteq> Some ''nvfp4-prequant''"
  shows "(gen_model g \<in> set (available_models env is_dir is_file)
      \<longleftrightarrow> (\<exists>as. find_assets env is_dir is_file g = Inr as))
    \<and> (\<exists>body. ltx_health env is_dir is_file q busy w =
         Reply (if \<not> q \<and> (\<exists>m. ready_model env is_dir is_file m) then 200 else 503) body)"
proof
  from accepted_choice [OF assms(1)] obtain p spec
    where sel: "select_workflow p = Inr (gen_model g, gen_workflow g, spec)"
      and q: "read_quantization p (gen_model g) (gen_workflow g) spec = Inr (gen_quantization g, gen_spec g)" by blast
  from q assms(3) have spec: "gen_spec g = spec"
    by (auto simp: read_quantization_def Let_def raise_if_def split: pyval.split_asm if_split_asm)
  from selected_spec(2) [OF sel] assms(2) obtain ws
    where ws: "map_of pipelines (gen_model g) = Some ws" "map_of ws default_workflow = Some spec" by auto
  then have "(gen_model g, ws) \<in> set pipelines" "(default_workflow, spec) \<in> set ws" by (auto dest: map_of_SomeD)
  with default_specs have nt: "\<not> supports_temporal_upscalings spec" by (auto simp: list_all_iff)
  then have req: "required_assets spec (gen_temporal g) = required_assets spec 0" by (simp add: required_assets_def)
  have "resolve_assets is_dir is_file d spec (gen_temporal g) = resolve_assets is_dir is_file d spec 0" for d
    by (simp only: resolve_assets_def req)
  then show "gen_model g \<in> set (available_models env is_dir is_file)
      \<longleftrightarrow> (\<exists>as. find_assets env is_dir is_file g = Inr as)"
    by (auto simp: available_iff ready_model_def ws find_assets_def model_root_def spec split: option.split)
  show "\<exists>body. ltx_health env is_dir is_file q busy w =
         Reply (if \<not> q \<and> (\<exists>m. ready_model env is_dir is_file m) then 200 else 503) body"
    unfolding available_iff [symmetric]
    by (cases "available_models env is_dir is_file") (auto simp: ltx_health_def Let_def)
qed

end
