(* ===== verification/Ltx_Examples.thy ===== *)
theory Ltx_Examples
  imports Ltx_Progress Ltx_Service
begin

text \<open>
  Concrete executions of the LTX server: a request for a short clip of the distilled model, in
  surroundings where every component file is there, with the warm worker on or off; and the instances
  of the properties of \<open>Ltx_Runs\<close>, \<open>Ltx_Progress\<close> and \<open>Ltx_Service\<close> on them.
\<close>

section \<open>A request for a clip\<close>

definition clip_request :: pydict where
  "clip_request = [(''model'', PStr ''Lightricks/LTX-2.5-Distilled''), (''prompt'', PStr ''rain''),
     (''seed'', PInt 7), (''num_frames'', PInt 9)]"

abbreviation clip_spec :: ltx_spec where
  "clip_spec \<equiv> snd (hd distilled_workflows)"

lemmas clip_defs = clip_request_def get_none_def get_default_def has_key_def full_workflows_def distilled_workflows_def
  pipeline_def limit_defs int_or_def ltx_integer_def float_or_def opt_float_def ltx_number_def

lemma clip_stages:
  "select_workflow clip_request = Inr (''Lightricks/LTX-2.5-Distilled'', ''generate'', clip_spec)"
  "check_fields clip_request = Inr ()"
  "read_prompt clip_request = Inr ''rain''"
  "read_negative clip_request model clip_spec = Inr None"
  "read_video x clip_request model clip_spec = Inr None"
  "read_canvas clip_request clip_spec = Inr (832, 512)"
  "read_guidance clip_request clip_spec = Inr ([], None)"
  "read_guides x clip_request clip_spec n = Inr []"
  "read_track x clip_request model clip_spec = Inr None"
  "read_steps clip_request model clip_spec = Inr None"
  "int_or clip_request ''seed'' 0 max_seed (default_seed clip_spec) = Inr 7"
  by (simp_all add: clip_defs select_workflow_def pipelines_def default_workflow_def check_fields_def unknown_keys_def
      allowed_fields_def guidance_flags_def read_prompt_def normalize_prompt_def py_strip_def is_space_def cp_def
      read_negative_def read_video_def read_canvas_def canvas_fields_def check_side_def read_guidance_def
      parse_guidance_def read_guides_def read_endpoints_def apply_strength_def read_keyframes_def read_track_def
      read_steps_def)

lemma clip_timing:
  "read_timing clip_request clip_spec = Inr \<lparr>tm_rate = 24, tm_duration = None, tm_frames = 9, tm_source = ''explicit''\<rparr>"
  using rnd53_between [of 0 "1 / 3" 1]
  by (simp add: clip_defs read_timing_def read_rate_def read_frames_def)

definition clip_generation :: generation where
  "clip_generation =
     \<lparr>gen_model = ''Lightricks/LTX-2.5-Distilled'', gen_workflow = ''generate'', gen_spec = clip_spec,
      gen_prompt = ''rain'', gen_negative = None, gen_width = 832, gen_height = 512, gen_frames = 9,
      gen_frames_source = ''explicit'', gen_rate = 24, gen_duration = None, gen_seed = 7, gen_steps = None,
      gen_guidance = [], gen_sampler = None, gen_images = [], gen_audio = None, gen_use_audio_duration = False, gen_video = None,
      gen_generated = None, gen_temporal = 0, gen_spatial = 1, gen_offload = ''none'', gen_quantization = None,
      gen_batch = 1, gen_chunked = False\<rparr>"

lemma clip_finished:
  "finish_generation clip_request ''Lightricks/LTX-2.5-Distilled'' ''generate'' clip_spec ''rain'' None None (832, 512)
     \<lparr>tm_rate = 24, tm_duration = None, tm_frames = 9, tm_source = ''explicit''\<rparr> 7 None ([], None) [] None
   = Inr clip_generation"
  by (simp add: finish_generation_def read_generated_def read_upscalings_def read_offload_def offload_modes_def
      read_quantization_def read_chunked_def clip_generation_def clip_request_def get_none_def get_default_def
      int_or_def ltx_integer_def)

lemma clip_accepted: "parse_generation demo_tools (PDict clip_request) = Inr clip_generation"
  unfolding parse_generation_def pyval.case clip_stages bindE_Inr prod.case clip_timing timing.select_convs
  by (simp only: clip_finished)

section \<open>Its surroundings\<close>

definition demo_env :: "bool \<Rightarrow> environ" where
  "demo_env warm = (if warm then [model_root_env \<mapsto> ''/models'', warm_env \<mapsto> ''1''] else [model_root_env \<mapsto> ''/models''])"

definition demo_loads :: "pyval list \<Rightarrow> json_loads" where
  "demo_loads replies raw =
     (if raw = ''Q'' then Inr (PDict clip_request)
      else case filter (\<lambda>v. reply_line v = raw) replies of [] \<Rightarrow> Inl BadText | v # _ \<Rightarrow> Inr v)"

definition demo_surroundings :: "bool \<Rightarrow> surroundings" where
  "demo_surroundings warm =
     \<lparr>su_env = demo_env warm, su_dir = (\<lambda>_. True), su_file = (\<lambda>_. True),
      su_loads = demo_loads [PDict [(''ok'', PBool True)]], su_tools = demo_tools, su_python = ''python3''\<rparr>"

lemma demo_settings:
  "setting (demo_env warm) model_root_env = Some ''/models''" "setting (demo_env warm) runner_env = None"
  "warm_enabled (demo_env warm) = warm"
  by (simp_all add: demo_env_def setting_def warm_enabled_def model_root_env_def warm_env_def runner_env_def)

lemma clip_found:
  obtains as where "find_assets (demo_env warm) (\<lambda>_. True) (\<lambda>_. True) clip_generation = Inr as"
    and "\<And>k. k \<in> set (required_assets (gen_spec clip_generation) (gen_temporal clip_generation)) \<Longrightarrow> \<exists>p. look as k = Inr p"
proof -
  note keys = accepted_keys(1) [OF clip_accepted]
  have "\<exists>as. resolve_assets (\<lambda>_. True) (\<lambda>_. True) ''/models'' (gen_spec clip_generation) (gen_temporal clip_generation) = Inr as"
    unfolding resolve_assets_eq [OF keys] Let_def by simp
  then obtain as where
    as: "resolve_assets (\<lambda>_. True) (\<lambda>_. True) ''/models'' (gen_spec clip_generation) (gen_temporal clip_generation) = Inr as"
    by blast
  have "find_assets (demo_env warm) (\<lambda>_. True) (\<lambda>_. True) clip_generation = Inr as"
    by (simp add: find_assets_def model_root_def demo_settings as)
  with that resolved_lookup [OF as keys] show ?thesis by blast
qed

lemma clip_startable:
  obtains job where "startable (demo_surroundings warm) [Chunk ''Q''] ''/tmp/w'' job [''python3'', ''-m'']"
    and "job_warm job = (if warm then Some (''ltx_pipelines.distilled'', ''distilled_transformer'', None) else None)"
    and "warm \<Longrightarrow> map_of (read_args (job_args job)) ''--prompt'' = Some [''rain'']"
proof -
  obtain as where found: "find_assets (demo_env warm) (\<lambda>_. True) (\<lambda>_. True) clip_generation = Inr as"
    and look: "\<And>k. k \<in> set (required_assets (gen_spec clip_generation) (gen_temporal clip_generation)) \<Longrightarrow> \<exists>p. look as k = Inr p"
    using clip_found [of warm] by blast
  have media: "media_paths clip_generation d = Inr []" for d
    by (simp add: media_paths_def clip_generation_def)
  obtain argv where "generate_argv clip_generation as [] (path_str (path_div (pure_path ''/tmp/w'') ''out.mp4'')) ''python3'' = Inr argv"
    using generate_argv_total [OF look, where media="[]" and g=clip_generation]
    by (auto simp: clip_generation_def distilled_workflows_def pipeline_def)
  then have "build_argv clip_generation as [] (path_str (path_div (pure_path ''/tmp/w'') ''out.mp4'')) ''python3'' = Inr argv"
    by (simp add: build_argv_def clip_generation_def distilled_workflows_def pipeline_def)
  then obtain job where job: "prepare_job (demo_env warm) ''python3'' clip_generation as ''/tmp/w'' = Inr job"
    and key: "job_warm job = warm_key (demo_env warm) clip_generation"
    by (simp add: prepare_job_def media)
  have read: "read_payload (su_loads (demo_surroundings warm)) [Chunk ''Q''] = Inr (PDict clip_request)"
    by (simp add: read_payload_def demo_surroundings_def demo_loads_def ltx_max_body_def)
  have "startable (demo_surroundings warm) [Chunk ''Q''] ''/tmp/w'' job [''python3'', ''-m'']"
    unfolding startable_def using read clip_accepted found job
    by (auto simp: demo_surroundings_def runner_prefix_def demo_settings)
  moreover have k: "job_warm job = (if warm then Some (''ltx_pipelines.distilled'', ''distilled_transformer'', None) else None)"
    by (simp add: key warm_key_def demo_settings weights_key_def clip_generation_def warm_modules_def
        distilled_workflows_def pipeline_def)
  moreover have "map_of (read_args (job_args job)) ''--prompt'' = Some [''rain'']" if warm
    using warm_job_prompt [OF clip_accepted job] k that by (simp add: clip_generation_def)
  ultimately show ?thesis by (rule that)
qed

text \<open>Two renders of the clip on one warm worker.\<close>

lemma clip_rendered_twice:
  obtains s job where "lreaches once (demo_surroundings True) s"
    and "rendered s = [(0, 0, job), (1, 0, job)]" "living s = {0}"
    and "reqs s 1 = Some (Finished (collect job 0 (Some ''mp4'')))"
    and "job_warm job = Some (''ltx_pipelines.distilled'', ''distilled_transformer'', None)"
    and "map_of (read_args (job_args job)) ''--prompt'' = Some [''rain'']"
proof -
  obtain job where st: "startable (demo_surroundings True) [Chunk ''Q''] ''/tmp/w'' job [''python3'', ''-m'']"
    and job: "job_warm job = Some (''ltx_pipelines.distilled'', ''distilled_transformer'', None)"
    "map_of (read_args (job_args job)) ''--prompt'' = Some [''rain'']"
    by (rule clip_startable [of True]) simp
  have "reply_line (PDict [(''ok'', PBool True)]) \<noteq> ''Q''" by (simp add: reply_line_def)
  then have "su_loads (demo_surroundings True) (reply_line (PDict [(''ok'', PBool True)])) = Inr (PDict [(''ok'', PBool True)])"
    by (simp add: demo_surroundings_def demo_loads_def)
  from two_renders_run [OF st job(1) this] job that show ?thesis by blast
qed

section \<open>The properties on these executions\<close>

theorem one_model_process_witness:
  "\<exists>s :: lsys. living s = {0} \<and> length (rendered s) = 2 \<and> (\<forall>p\<in>living s. \<forall>q\<in>living s. p = q)"
proof (rule clip_rendered_twice)
  fix s job
  assume s: "lreaches once (demo_surroundings True) s" "rendered s = [(0, 0, job), (1, 0, job)]" "living s = {0}"
  have "\<forall>p\<in>living s. \<forall>q\<in>living s. p = q" using one_model_process [OF s(1)] by blast
  moreover have "length (rendered s) = 2" using s(2) by simp
  ultimately show ?thesis using s(3) by - (intro exI [of _ s] conjI)
qed

lemma clip_reply: "collect job 0 (Some ''mp4'') = Answer (Reply 200 (success_body job 0 (b64encode ''mp4'')))"
  by (simp add: collect_def collect_output_def output_limit_def)


theorem two_cancellations_two_models_witness:
  "\<exists>evs s. lrun (demo_surroundings False) initial_lsys evs = Some s \<and> living s = {0, 1} \<and> \<not> quarantined s"
proof (rule clip_startable [of False])
  fix job
  assume "startable (demo_surroundings False) [Chunk ''Q''] ''/tmp/w'' job [''python3'', ''-m'']"
    and "job_warm job = (if False then Some (''ltx_pipelines.distilled'', ''distilled_transformer'', None) else None)"
  with two_cancellations_two_models [of "demo_surroundings False" "[Chunk ''Q'']" "''/tmp/w''" job] show ?thesis
    by simp blast
qed

theorem request_ends_witness:
  "\<exists>s ph. reqs s 1 = Some ph \<and> remaining 1 s \<le> 10 \<and> lock s \<noteq> Some 1"
proof (rule clip_rendered_twice)
  fix s job
  assume s: "lreaches once (demo_surroundings True) s" "reqs s 1 = Some (Finished (collect job 0 (Some ''mp4'')))"
  from request_ends [OF s] s(2) show ?thesis by blast
qed

text \<open>A run that never ends, seen every 0.2 seconds, times out.\<close>

definition slow_run :: "nat \<Rightarrow> sight" where
  "slow_run i = \<lparr>ob_done = False, ob_gone = False, ob_now = of_nat i / 5, ob_log = 0, ob_out = None\<rparr>"

theorem watch_ends_witness: "\<exists>r. supervise (enough_rounds 1 (1 / 5)) slow_run 1 = Some r \<and> r \<noteq> None"
proof -
  have "patient slow_run (ob_now (slow_run 0) + 1)"
    by (simp add: patient_def slow_run_def min_def field_simps)
  from watch_ends [OF this] show ?thesis by (auto simp: slow_run_def)
qed

theorem health_keeps_its_word_witness:
  "''Lightricks/LTX-2.5-Distilled'' \<in> set (available_models (demo_env True) (\<lambda>_. True) (\<lambda>_. True))"
proof -
  obtain as where "find_assets (demo_env True) (\<lambda>_. True) (\<lambda>_. True) clip_generation = Inr as"
    by (rule clip_found)
  with health_keeps_its_word [OF clip_accepted, of "demo_env True" "\<lambda>_. True" "\<lambda>_. True"] show ?thesis
    by (simp add: clip_generation_def default_workflow_def)
qed

section \<open>The worker on both renders\<close>

definition easy_pipeline :: outside_code where
  "easy_pipeline = \<lparr>oc_parse = (\<lambda>_. None), oc_build = (\<lambda>_. None), oc_render = (\<lambda>_. Inr 1)\<rparr>"

abbreviation render_reply :: "bool \<Rightarrow> pyval" where
  "render_reply built \<equiv> PDict [(''ok'', PBool True), (''built'', PBool built), (''seconds'', PFloat 1)]"

lemma easy_replies:
  "v \<in> set (serve_lines easy_pipeline kept argvs) \<Longrightarrow> (\<forall>argv\<in>set argvs. build_key argv = Some k) \<Longrightarrow>
   kept = None \<or> kept = Some k \<Longrightarrow> v = render_reply True \<or> v = render_reply False"
  by (induction argvs arbitrary: kept)
    (auto simp: worker_render_def worker_weights_def easy_pipeline_def catch_text_def split: option.splits)

lemma replies_differ: "reply_line (render_reply True) \<noteq> reply_line (render_reply False)"
  by code_simp

theorem worker_serves_its_runs_witness:
  "\<exists>s job loads. sent_to s 0 = [job, job]
    \<and> length (serve_lines easy_pipeline None [job_args job, job_args job]) = 2
    \<and> (\<forall>v\<in>set (serve_lines easy_pipeline None [job_args job, job_args job]). read_reply loads (reply_line v) = None)"
proof (rule clip_rendered_twice)
  fix s job
  assume s: "lreaches once (demo_surroundings True) s" "rendered s = [(0, 0, job), (1, 0, job)]"
    and job: "job_warm job = Some (''ltx_pipelines.distilled'', ''distilled_transformer'', None)"
    "map_of (read_args (job_args job)) ''--prompt'' = Some [''rain'']"
  from s(2) have sent: "sent_to s 0 = [job, job]" by (simp add: sent_to_def)
  let ?replies = "[render_reply True, render_reply False]"
  have read: "demo_loads ?replies (reply_line v) = Inr v" if "v = render_reply True \<or> v = render_reply False" for v
  proof -
    have "reply_line v \<noteq> ''Q''" using that by (auto simp: reply_line_def)
    with that replies_differ show ?thesis by (auto simp: demo_loads_def)
  qed
  have "\<forall>job\<in>set (sent_to s 0). job_warm job \<noteq> None \<and> works easy_pipeline (job_args job)
      \<and> (\<forall>f\<in>set build_flags. map_of (read_args (job_args job)) ''--prompt'' \<noteq> Some [f])"
    using job by (simp add: sent works_def easy_pipeline_def build_flags_def)
  note works = this
  have "job_made (demo_surroundings True) job" using lreaches_trace [OF s(1)] s(2) by (auto simp: trace_ok_def)
  from jobs_build_key [OF this this refl] job obtain k where "build_key (job_args job) = Some k"
    by (auto simp: build_flags_def)
  then have "\<forall>v\<in>set (serve_lines easy_pipeline None (map job_args (sent_to s 0))). v = render_reply True \<or> v = render_reply False"
    using easy_replies [of _ None "map job_args (sent_to s 0)" k] by (simp add: sent)
  with read have "\<forall>v\<in>set (serve_lines easy_pipeline None (map job_args (sent_to s 0))). demo_loads ?replies (reply_line v) = Inr v"
    by blast
  note served = worker_serves_its_runs [OF s(1) works this]
  have two: "map job_args (sent_to s 0) = [job_args job, job_args job]" "length (sent_to s 0) = 2" by (simp_all add: sent)
  note served = served [unfolded two]
  from sent served show ?thesis by - (intro exI [of _ s] exI [of _ job] exI [of _ "demo_loads ?replies"] conjI; blast)
qed

end
