(* ===== verification/Hear_Ingest.thy ===== *)
theory Hear_Ingest
  imports Media Py_Number Http_World
begin

text \<open>
  \<open>backends/hear/lloom_hear_server.py\<close>, the ingest of audio: the operator's configuration, the format and
  path checks, the remote fetch and the source of a request. Parameters: \<open>realpath\<close>, the file tests,
  \<open>urlsplit\<close>, the resolver, the sockets and the bodies they deliver; an address is the record of the
  flags that \<open>ipaddress\<close> computes for it. A setting that is \<open>inf\<close> or \<open>nan\<close> is not modelled.
\<close>

section \<open>Errors\<close>

text \<open>\<open>HTTPException\<close>, or any other exception.\<close>

datatype hear_exn = Http int string | Raised exn

type_synonym 'a hear = "hear_exn + 'a"

section \<open>Configuration\<close>

type_synonym hear_env = "string \<Rightarrow> string option"

definition trueish :: "string list" where
  "trueish = [''1'', ''true'', ''yes'', ''on'']"

definition env_flag :: "hear_env \<Rightarrow> string \<Rightarrow> bool \<Rightarrow> bool" where
  "env_flag env name d =
     (case env name of
        None \<Rightarrow> d
      | Some raw \<Rightarrow> if raw = [] then d else py_lower (py_strip raw) \<in> set trueish)"

definition env_list :: "hear_env \<Rightarrow> string \<Rightarrow> char \<Rightarrow> string list" where
  "env_list env name sep =
     filter (\<lambda>s. s \<noteq> []) (map py_strip (split_on sep (case env name of None \<Rightarrow> [] | Some s \<Rightarrow> s)))"

text \<open>The override of one default by its variable; \<open>None\<close> is \<open>ValueError\<close> at the start of the process.\<close>

definition int_setting :: "hear_env \<Rightarrow> string \<Rightarrow> int \<Rightarrow> int option" where
  "int_setting env name d =
     (case env name of None \<Rightarrow> Some d | Some s \<Rightarrow> if s = [] then Some d else parse_int s)"

definition float_setting :: "hear_env \<Rightarrow> string \<Rightarrow> rat \<Rightarrow> rat option" where
  "float_setting env name d =
     (case env name of
        None \<Rightarrow> Some d
      | Some s \<Rightarrow> if s = [] then Some d else (case parse_float s of Some (PFloat r) \<Rightarrow> Some r | _ \<Rightarrow> None))"

definition text_setting :: "hear_env \<Rightarrow> string \<Rightarrow> string \<Rightarrow> string" where
  "text_setting env name d = (case env name of None \<Rightarrow> d | Some s \<Rightarrow> s)"

text \<open>A text that an empty variable leaves as it is.\<close>

definition name_setting :: "hear_env \<Rightarrow> string \<Rightarrow> string \<Rightarrow> string" where
  "name_setting env name d = (case env name of None \<Rightarrow> d | Some s \<Rightarrow> if s = [] then d else s)"

definition self_model_ids :: "string list" where
  "self_model_ids = [''hear'', ''listen'', ''lloom-hear'', ''local/hear'']"

record hear_config =
  cf_port :: int
  cf_host :: string
  cf_upstream_url :: string
  cf_model :: string
  cf_key_env :: string
  cf_artifact_dir :: string
  cf_delivery :: string
  cf_analysis :: rat
  cf_upstream_bytes :: int
  cf_ttl :: int
  cf_artifacts :: int
  cf_silence :: rat
  cf_flatness :: rat
  cf_min_segment :: rat
  cf_key_margin :: rat
  cf_workers :: int
  cf_request_bytes :: int
  cf_input_bytes :: int
  cf_download_bytes :: int
  cf_ffmpeg_timeout :: rat
  cf_ffprobe_timeout :: rat
  cf_download_timeout :: rat
  cf_dirs :: "string list"
  cf_local :: bool
  cf_fetch :: bool
  cf_models :: "string list"
  cf_interpret :: bool

text \<open>
  \<open>realpath\<close> is \<open>os.path.realpath(os.path.expanduser(_))\<close>, \<open>temp\<close> the directory that \<open>mkdtemp\<close> makes. The
  numbers are read in the order of the table.
\<close>

definition configure :: "hear_env \<Rightarrow> string \<Rightarrow> (string \<Rightarrow> string) \<Rightarrow> hear_config option" where
  "configure env temp realpath =
     Option.bind (int_setting env ''LLOOM_HEAR_PORT'' 8230) (\<lambda>port.
     Option.bind (float_setting env ''LLOOM_HEAR_MAX_ANALYSIS_SECONDS'' 300) (\<lambda>analysis.
     Option.bind (int_setting env ''LLOOM_HEAR_MAX_UPSTREAM_BYTES'' (1024 * 1024)) (\<lambda>upstream.
     Option.bind (int_setting env ''LLOOM_HEAR_ARTIFACT_TTL_SECONDS'' 3600) (\<lambda>ttl.
     Option.bind (int_setting env ''LLOOM_HEAR_MAX_ARTIFACTS'' 128) (\<lambda>artifacts.
     Option.bind (float_setting env ''LLOOM_HEAR_RMS_SILENCE_FLOOR'' (rnd53 (1 / 10000))) (\<lambda>silence.
     Option.bind (float_setting env ''LLOOM_HEAR_FLATNESS_NOISE_FLOOR'' (rnd53 (15 / 100))) (\<lambda>flatness.
     Option.bind (float_setting env ''LLOOM_HEAR_MIN_SEGMENT_S'' 4) (\<lambda>segment.
     Option.bind (float_setting env ''LLOOM_HEAR_KEY_MARGIN_FLOOR'' (rnd53 (2 / 100))) (\<lambda>margin.
     Option.bind (int_setting env ''LLOOM_HEAR_DSP_WORKERS'' 2) (\<lambda>workers.
     Option.bind (int_setting env ''LLOOM_HEAR_MAX_REQUEST_BYTES'' (64 * 1024 * 1024)) (\<lambda>request.
     Option.bind (int_setting env ''LLOOM_HEAR_MAX_INPUT_BYTES'' (64 * 1024 * 1024)) (\<lambda>input.
     Option.bind (int_setting env ''LLOOM_HEAR_MAX_DOWNLOAD_BYTES'' (64 * 1024 * 1024)) (\<lambda>download.
     Option.bind (float_setting env ''LLOOM_HEAR_FFMPEG_TIMEOUT_S'' 120) (\<lambda>convert.
     Option.bind (float_setting env ''LLOOM_HEAR_FFPROBE_TIMEOUT_S'' 30) (\<lambda>probe.
     Option.bind (float_setting env ''LLOOM_HEAR_DOWNLOAD_TIMEOUT_S'' 60) (\<lambda>fetching.
       Some \<lparr>cf_port = port, cf_host = name_setting env ''LLOOM_HEAR_HOST'' ''127.0.0.1'',
             cf_upstream_url = text_setting env ''LLOOM_HEAR_UPSTREAM_URL'' ''http://127.0.0.1:8100/v1/chat/completions'',
             cf_model = text_setting env ''LLOOM_HEAR_UPSTREAM_MODEL'' ''google/gemini-3.1-flash-lite'',
             cf_key_env = name_setting env ''LLOOM_HEAR_UPSTREAM_KEY_ENV'' ''LLOOM_HEAR_UPSTREAM_KEY'',
             cf_artifact_dir = name_setting env ''LLOOM_HEAR_ARTIFACT_DIR'' temp,
             cf_delivery = text_setting env ''LLOOM_HEAR_IMAGE_DELIVERY'' ''inline'',
             cf_analysis = analysis, cf_upstream_bytes = upstream, cf_ttl = ttl, cf_artifacts = artifacts,
             cf_silence = silence, cf_flatness = flatness, cf_min_segment = segment, cf_key_margin = margin,
             cf_workers = workers, cf_request_bytes = request, cf_input_bytes = input, cf_download_bytes = download,
             cf_ffmpeg_timeout = convert, cf_ffprobe_timeout = probe, cf_download_timeout = fetching,
             cf_dirs = map realpath (env_list env ''LLOOM_HEAR_ALLOWED_INPUT_DIRS'' (CHR '':'')),
             cf_local = env_flag env ''LLOOM_HEAR_ALLOW_LOCAL_FILES'' False,
             cf_fetch = env_flag env ''LLOOM_HEAR_ALLOW_URL_FETCH'' False,
             cf_models = env_list env ''LLOOM_HEAR_ALLOWED_INTERPRET_MODELS'' (CHR '',''),
             cf_interpret = env_flag env ''LLOOM_HEAR_ALLOW_INTERPRET'' False\<rparr>))))))))))))))))"

section \<open>Formats and local paths\<close>

definition audio_extensions :: "string list" where
  "audio_extensions =
     [''mp3'', ''wav'', ''wave'', ''m4a'', ''mp4'', ''aac'', ''flac'', ''ogg'', ''oga'', ''opus'',
      ''aiff'', ''aif'', ''aifc'', ''wma'', ''webm'', ''mkv'', ''mov'', ''amr'', ''caf'', ''au'', ''mp2'', ''3gp'']"

text \<open>\<open>^[A-Za-z0-9]{1,12}$\<close>; the dollar also matches before a final line feed.\<close>

definition format_re :: "string \<Rightarrow> bool" where
  "format_re s =
     (let t = (if s \<noteq> [] \<and> last s = CHR 0x0A then butlast s else s)
      in list_all is_alnum t \<and> 1 \<le> length t \<and> length t \<le> 12)"

definition validate_audio_format :: "pyval \<Rightarrow> string hear" where
  "validate_audio_format value =
     (if value = PNone \<or> value = PStr [] then Inr ''mp3''
      else (case value of
        PStr s \<Rightarrow>
          let fmt = dropWhile (\<lambda>c. c = CHR ''.'') (py_lower (py_strip s)) in
          raise_if (fmt \<notin> set audio_extensions \<or> \<not> format_re fmt) (Http 400 ''unsupported audio format'') (Inr fmt)
      | _ \<Rightarrow> Inl (Http 400 ''audio format must be a string'')))"

text \<open>\<open>os.path.commonpath\<close> of two paths; \<open>None\<close> is \<open>ValueError\<close>.\<close>

definition common_path :: "string \<Rightarrow> string \<Rightarrow> string option" where
  "common_path a b =
     (if prefix ''/'' a \<noteq> prefix ''/'' b then None
      else Some ((if prefix ''/'' a then ''/'' else []) @ join_with ''/'' (longest_common_prefix (ref_parts a) (ref_parts b))))"

definition resolve_local_audio_path :: "hear_config \<Rightarrow> (string \<Rightarrow> string) \<Rightarrow> (string \<Rightarrow> bool) \<Rightarrow> pyval \<Rightarrow> string hear" where
  "resolve_local_audio_path cf realpath is_file raw =
     raise_if (cf_dirs cf = []) (Http 403 ''local audio paths are disabled unless LLOOM_HEAR_ALLOWED_INPUT_DIRS configures the readable directory'')
     (raise_if (\<not> cf_local cf) (Http 403 ''local audio paths are disabled by operator configuration'')
     (case raw of
        PStr s \<Rightarrow>
          raise_if (s = []) (Http 400 ''audio path must be a non-empty string'')
          (raise_if (CHR 0x00 \<in> set s) (Http 400 ''invalid audio path'')
          (raise_if (\<not> list_ex (\<lambda>d. common_path (realpath s) d = Some d) (cf_dirs cf)) (Http 400 ''audio path not found'')
          (raise_if (\<not> is_file (realpath s)) (Http 400 ''audio path not found'')
            (Inr (realpath s)))))
      | _ \<Rightarrow> Inl (Http 400 ''audio path must be a non-empty string'')))"

section \<open>Remote audio\<close>

record ip_flags =
  ip_global :: bool
  ip_private :: bool
  ip_loopback :: bool
  ip_link_local :: bool
  ip_reserved :: bool
  ip_multicast :: bool
  ip_unspecified :: bool

text \<open>\<open>IPv6\<close> carries \<open>is_site_local\<close> and the address of \<open>ipv4_mapped\<close>.\<close>

datatype address = IPv4 ip_flags | IPv6 ip_flags bool "ip_flags option"

fun flags_of :: "address \<Rightarrow> ip_flags" where
  "flags_of (IPv4 f) = f"
| "flags_of (IPv6 f _ _) = f"

definition flags_allowed :: "ip_flags \<Rightarrow> bool" where
  "flags_allowed f =
     (if \<not> ip_global f then False
      else if ip_private f \<or> ip_loopback f \<or> ip_link_local f \<or> ip_reserved f then False
      else \<not> (ip_multicast f \<or> ip_unspecified f))"

fun address_allowed :: "address \<Rightarrow> bool" where
  "address_allowed (IPv4 f) = flags_allowed f"
| "address_allowed (IPv6 f site mapped) =
     (if \<not> flags_allowed f then False
      else if site \<or> mapped \<noteq> None
        then (if (case mapped of None \<Rightarrow> False | Some g \<Rightarrow> \<not> flags_allowed g) then False else \<not> site)
      else True)"

text \<open>What \<open>urlsplit\<close> finds; reading a bad port raises.\<close>

record split_url =
  u_scheme :: string
  u_user :: "string option"
  u_password :: "string option"
  u_host :: "string option"
  u_port :: "unit + int option"

text \<open>The network: the resolver answers each lookup anew, a socket connects or not, and the server replies.\<close>

datatype got = Got bytes | ReadFails

datatype reply_body = NoAnswer | Body "nat \<Rightarrow> rat \<times> got"

record network =
  nt_split :: "string \<Rightarrow> split_url option"
  nt_lookup :: "nat \<Rightarrow> string \<Rightarrow> int \<Rightarrow> address list option"
  nt_connects :: "address \<Rightarrow> bool"
  nt_answer :: reply_body
  nt_start :: rat

definition refuse :: "string \<Rightarrow> hear_exn" where
  "refuse msg = Http 400 msg"

definition validate_remote_url :: "hear_config \<Rightarrow> network \<Rightarrow> pyval \<Rightarrow> (string \<times> string \<times> int) hear" where
  "validate_remote_url cf nt url =
     raise_if (\<not> cf_fetch cf) (Http 403 ''remote audio urls are disabled unless the operator sets LLOOM_HEAR_ALLOW_URL_FETCH'')
     (case url of
        PStr s \<Rightarrow>
          raise_if (s = []) (refuse ''audio url must be a non-empty string'')
          (case nt_split nt s of
             None \<Rightarrow> Inl (refuse ''invalid audio url'')
           | Some u \<Rightarrow>
               raise_if (u_scheme u \<noteq> ''https'') (refuse ''audio url must use https'')
               (raise_if (opt_true (u_user u) \<or> opt_true (u_password u)) (refuse ''audio url must not carry credentials'')
               (raise_if (\<not> opt_true (u_host u)) (refuse ''invalid audio url'')
               (let host = the (u_host u) in
                case u_port u of
                  Inl _ \<Rightarrow> Inl (refuse ''invalid audio url port'')
                | Inr p \<Rightarrow>
                    (let port = (case p of None \<Rightarrow> 443 | Some n \<Rightarrow> if n = 0 then 443 else n) in
                     case nt_lookup nt 0 host port of
                       None \<Rightarrow> Inl (refuse ''audio url host could not be resolved'')
                     | Some infos \<Rightarrow>
                         raise_if (infos = []) (refuse ''audio url host could not be resolved'')
                         (raise_if (\<not> list_all address_allowed infos) (refuse ''audio url host resolves to a non-public address'')
                           (Inr (s, host, port))))))))
      | _ \<Rightarrow> Inl (refuse ''audio url must be a non-empty string''))"

text \<open>
  \<open>public_connection\<close>: a second lookup, whose addresses are checked before any is used. The second
  component is the log of the addresses a socket was pointed at.
\<close>

fun try_connect :: "network \<Rightarrow> address list \<Rightarrow> bool \<times> address list" where
  "try_connect nt [] = (False, [])"
| "try_connect nt (a # rest) =
     (if nt_connects nt a then (True, [a]) else (case try_connect nt rest of (ok, tried) \<Rightarrow> (ok, a # tried)))"

definition public_connection :: "network \<Rightarrow> string \<Rightarrow> int \<Rightarrow> unit hear \<times> address list" where
  "public_connection nt host port =
     (case nt_lookup nt 1 host port of
        None \<Rightarrow> (Inl (refuse ''could not fetch audio url''), [])
      | Some infos \<Rightarrow>
          if infos = [] \<or> list_ex (\<lambda>a. \<not> address_allowed a) infos
          then (Inl (refuse ''audio url host resolves to a non-public address''), [])
          else (case try_connect nt infos of
                  (True, tried) \<Rightarrow> (Inr (), tried)
                | (False, tried) \<Rightarrow> (Inl (refuse ''could not fetch audio url''), tried)))"

text \<open>One round of the loop over the body, with the bytes written so far.\<close>

definition download_round ::
  "(nat \<Rightarrow> rat \<times> got) \<Rightarrow> rat \<Rightarrow> int \<Rightarrow> nat \<times> bytes \<Rightarrow> bytes hear + (nat \<times> bytes)" where
  "download_round read deadline limit = (\<lambda>(i, out).
     case read i of (t, got) \<Rightarrow>
       if deadline - t \<le> 0 then Inl (Inl (Http 504 ''audio download timed out''))
       else (case got of
         ReadFails \<Rightarrow> Inl (Inl (refuse ''could not fetch audio url''))
       | Got chunk \<Rightarrow>
           if chunk = [] then Inl (if out = [] then Inl (refuse ''remote audio was empty'') else Inr out)
           else if limit < int (length out + length chunk)
             then Inl (Inl (Http 413 ''remote audio exceeds the configured download limit''))
           else Inr (Suc i, out @ chunk)))"

definition download_url :: "nat \<Rightarrow> hear_config \<Rightarrow> network \<Rightarrow> string \<Rightarrow> int \<Rightarrow> bytes hear option \<times> address list" where
  "download_url fuel cf nt host port =
     (case public_connection nt host port of
        (Inl e, tried) \<Rightarrow> (Some (Inl e), tried)
      | (Inr _, tried) \<Rightarrow>
          (case nt_answer nt of
             NoAnswer \<Rightarrow> (Some (Inl (refuse ''could not fetch audio url'')), tried)
           | Body read \<Rightarrow>
               (poll_loop fuel (download_round read (nt_start nt + cf_download_timeout cf) (cf_download_bytes cf)) (0, []), tried)))"

definition fetch_remote :: "nat \<Rightarrow> hear_config \<Rightarrow> network \<Rightarrow> pyval \<Rightarrow> bytes hear option \<times> address list" where
  "fetch_remote fuel cf nt url =
     (case validate_remote_url cf nt url of
        Inl e \<Rightarrow> (Some (Inl e), [])
      | Inr (_, host, port) \<Rightarrow> download_url fuel cf nt host port)"

section \<open>The source of a request\<close>

datatype source = OnDisk string | Written string bytes

text \<open>\<open>bytes_on_disk\<close> is \<open>os.path.getsize\<close>; the fetch is given by its result.\<close>

definition resolve_source ::
  "hear_config \<Rightarrow> (string \<Rightarrow> string) \<Rightarrow> (string \<Rightarrow> bool) \<Rightarrow> (string \<Rightarrow> int) \<Rightarrow> (pyval \<Rightarrow> bytes hear) \<Rightarrow> pydict \<Rightarrow> source hear" where
  "resolve_source cf realpath is_file bytes_on_disk fetch part =
     (if truthy (get_none part ''path'') then
        bindE (resolve_local_audio_path cf realpath is_file (get_none part ''path'')) (\<lambda>p.
          raise_if (cf_input_bytes cf < bytes_on_disk p) (Http 413 ''audio data exceeds the configured input limit'') (Inr (OnDisk p)))
      else if truthy (get_none part ''url'') then
        bindE (validate_audio_format (get_none part ''format'')) (\<lambda>fmt.
        bindE (fetch (get_none part ''url'')) (\<lambda>raw. Inr (Written (''audio.'' @ fmt) raw)))
      else if truthy (get_none part ''data'') then
        (case get_none part ''data'' of
           PStr s \<Rightarrow>
             bindE (validate_audio_format (get_none part ''format'')) (\<lambda>fmt.
             case b64decode s of
               None \<Rightarrow> Inl (refuse ''invalid base64 audio data'')
             | Some raw \<Rightarrow>
                 raise_if (raw = []) (refuse ''audio data was empty'')
                 (raise_if (cf_input_bytes cf < int (length raw)) (Http 413 ''audio data exceeds the configured input limit'')
                   (Inr (Written (''audio.'' @ fmt) raw))))
         | _ \<Rightarrow> Inl (refuse ''audio data must be a base64 string''))
      else Inl (refuse ''audio part had none of data/url/path''))"

end
