(* ===== verification/Hear_Request.thy ===== *)
theory Hear_Request
  imports Hear_Ingest
begin

text \<open>
  \<open>backends/hear/lloom_hear_server.py\<close>: the time window in a question, the parts of a message, and the
  checks of \<open>_chat_completions\<close> from the body to the interpretation model. \<open>loads\<close> is \<open>json.loads\<close>, \<open>None\<close>
  any exception of it.
\<close>

section \<open>A time window in a text\<close>

text \<open>
  A regular expression is a function from a text to its matches in the order Python tries them, each
  with what it captured and the rest of the text.
\<close>

type_synonym 'a matcher = "string \<Rightarrow> ('a \<times> string) list"

definition then_match :: "'a matcher \<Rightarrow> ('a \<Rightarrow> 'b matcher) \<Rightarrow> 'b matcher" where
  "then_match p f s = concat (map (\<lambda>(a, t). f a t) (p s))"

definition matched :: "'a \<Rightarrow> 'a matcher" where
  "matched a s = [(a, s)]"

text \<open>\<open>\d{lo,hi}\<close>, greedy.\<close>

definition digits_between :: "nat \<Rightarrow> nat \<Rightarrow> string matcher" where
  "digits_between lo hi s =
     (let m = min hi (length (takeWhile is_digit s))
      in map (\<lambda>k. (take k s, drop k s)) (rev [lo..<Suc m]))"

definition literal :: "string \<Rightarrow> unit matcher" where
  "literal w s = (if prefix w s then [((), drop (length w) s)] else [])"

text \<open>\<open>\s*\<close>, greedy.\<close>

definition spaces :: "unit matcher" where
  "spaces s = map (\<lambda>k. ((), drop k s)) (rev [0..<Suc (length (takeWhile is_space s))])"

text \<open>\<open>(?:\.(\d{1,3}))?\<close>\<close>

definition fraction_group :: "string option matcher" where
  "fraction_group s =
     then_match (literal ''.'') (\<lambda>_. then_match (digits_between 1 3) (\<lambda>ds. matched (Some ds))) s @ [(None, s)]"

type_synonym clock_text = "string \<times> string \<times> string option"

definition clock_group :: "clock_text matcher" where
  "clock_group =
     then_match (digits_between 1 2) (\<lambda>m. then_match (literal '':'') (\<lambda>_.
     then_match (digits_between 2 2) (\<lambda>s. then_match fraction_group (\<lambda>f. matched (m, s, f)))))"

text \<open>\<open>(?:-|to|until|through)\<close>; the en dash is outside the range of the modelled texts.\<close>

definition range_word :: "unit matcher" where
  "range_word s = literal ''-'' s @ literal ''to'' s @ literal ''until'' s @ literal ''through'' s"

text \<open>\<open>(?:\D|$)\<close>\<close>

definition non_digit_or_end :: "unit matcher" where
  "non_digit_or_end s =
     (case s of [] \<Rightarrow> [((), [])] | c # cs \<Rightarrow> if is_digit c then [] else [((), cs)])"

definition window_body :: "(clock_text \<times> clock_text) matcher" where
  "window_body =
     then_match clock_group (\<lambda>a. then_match spaces (\<lambda>_. then_match range_word (\<lambda>_. then_match spaces (\<lambda>_.
     then_match clock_group (\<lambda>b. then_match non_digit_or_end (\<lambda>_. matched (a, b)))))))"

text \<open>\<open>search\<close>: at the start of the text, or behind a character that is no digit.\<close>

fun search_behind :: "'a matcher \<Rightarrow> string \<Rightarrow> 'a option" where
  "search_behind p [] = None"
| "search_behind p (c # cs) =
     (if is_digit c then search_behind p cs
      else (case p cs of (a, _) # _ \<Rightarrow> Some a | [] \<Rightarrow> search_behind p cs))"

definition time_re :: "string \<Rightarrow> (clock_text \<times> clock_text) option" where
  "time_re s = (case window_body s of (a, _) # _ \<Rightarrow> Some a | [] \<Rightarrow> search_behind window_body s)"

definition mmss :: "clock_text \<Rightarrow> rat" where
  "mmss t =
     (case t of (m, s, f) \<Rightarrow>
        rnd53 (of_int (int_of_digits m * 60 + int_of_digits s)
          + (case f of None \<Rightarrow> 0 | Some ds \<Rightarrow> rnd53 (of_int (int_of_digits ds) / 10 ^ length ds))))"

definition parse_window_from_text :: "string \<Rightarrow> (rat \<times> rat) option" where
  "parse_window_from_text text =
     (case time_re text of
        None \<Rightarrow> None
      | Some (a, b) \<Rightarrow> if mmss a < mmss b then Some (mmss a, mmss b) else None)"

section \<open>The parts of a message\<close>

definition or_else :: "pyval \<Rightarrow> pyval \<Rightarrow> pyval" where
  "or_else v w = (if truthy v then v else w)"

definition audio_part :: "string \<Rightarrow> pyval \<Rightarrow> pyval \<Rightarrow> pydict" where
  "audio_part key v fmt = [(key, v), (''format'', fmt)]"

definition from_input_audio :: "pydict \<Rightarrow> pydict option" where
  "from_input_audio p =
     (case or_else (get_none p ''input_audio'') (PDict []) of
        PDict ia \<Rightarrow> Some (audio_part ''data'' (get_none ia ''data'') (get_default ia ''format'' (PStr ''mp3'')))
      | _ \<Rightarrow> None)"

definition from_audio_url :: "pydict \<Rightarrow> pydict option" where
  "from_audio_url p =
     (let au = or_else (or_else (get_none p ''audio_url'') (get_none p ''audio'')) (PDict []);
          url = (case au of PDict d \<Rightarrow> get_none d ''url'' | v \<Rightarrow> v);
          fmt = or_else (case au of PDict d \<Rightarrow> get_none d ''format'' | _ \<Rightarrow> PNone) (PStr ''mp3'')
      in case url of
           PStr s \<Rightarrow>
             if prefix ''http'' (py_lower s) then Some (audio_part ''url'' url fmt)
             else if s \<noteq> [] then Some (audio_part ''path'' url fmt) else None
         | _ \<Rightarrow> None)"

definition data_payload :: "pyval \<Rightarrow> pyval" where
  "data_payload fd =
     (case fd of
        PStr s \<Rightarrow> if prefix ''data:'' s then PStr (drop 1 (dropWhile (\<lambda>c. c \<noteq> CHR '','') s)) else fd
      | _ \<Rightarrow> fd)"

definition from_file :: "pydict \<Rightarrow> pydict option" where
  "from_file p =
     (case or_else (get_none p ''file'') (PDict []) of
        PDict f \<Rightarrow>
          if truthy (get_none f ''file_data'')
          then Some (audio_part ''data'' (data_payload (get_none f ''file_data'')) (get_default f ''format'' (PStr ''mp3'')))
          else if truthy (get_none f ''path'')
          then Some (audio_part ''path'' (get_none f ''path'') (or_else (get_none f ''format'') (PStr ''mp3'')))
          else None
      | _ \<Rightarrow> None)"

text \<open>A part of a list: the audio it names, if any, replaces an earlier one.\<close>

definition collect_part :: "pyval \<Rightarrow> pydict option \<times> string list \<Rightarrow> (pydict option \<times> string list) hear" where
  "collect_part part = (\<lambda>(audio, texts).
     let keep = (\<lambda>a. Inr (case a of None \<Rightarrow> audio | Some d \<Rightarrow> Some d, texts)) in
     case part of
       PStr s \<Rightarrow> Inr (audio, texts @ [s])
     | PDict p \<Rightarrow>
         (let t = get_none p ''type'' in
          if t = PStr ''text'' then
            (case get_default p ''text'' (PStr []) of
               PStr s \<Rightarrow> Inr (audio, texts @ [s])
             | _ \<Rightarrow> Inl (Http 400 ''text content must be a string''))
          else if t = PStr ''input_audio'' then keep (from_input_audio p)
          else if t = PStr ''audio_url'' \<or> t = PStr ''audio'' then keep (from_audio_url p)
          else if t = PStr ''file'' \<or> has_key p ''file'' then keep (from_file p)
          else Inr (audio, texts))
     | _ \<Rightarrow> Inr (audio, texts))"

definition collect_parts :: "pyval list \<Rightarrow> (pydict option \<times> string) hear" where
  "collect_parts parts =
     bindE (forE parts collect_part (None, [])) (\<lambda>(audio, texts).
       Inr (audio, py_strip (join_with [CHR 0x0A] (filter (\<lambda>s. s \<noteq> []) texts))))"

definition collect_message :: "pyval \<Rightarrow> pydict option \<times> string \<Rightarrow> (pydict option \<times> string) hear" where
  "collect_message msg = (\<lambda>(audio, query).
     case msg of
       PDict m \<Rightarrow>
         (case get_none m ''content'' of
            PList parts \<Rightarrow>
              bindE (collect_parts parts) (\<lambda>(a, t).
                Inr (case a of None \<Rightarrow> audio | Some d \<Rightarrow> Some d, if t = [] then query else t))
          | PStr c \<Rightarrow> Inr (audio, if get_none m ''role'' = PStr ''user'' then c else query)
          | _ \<Rightarrow> Inr (audio, query))
     | _ \<Rightarrow> Inr (audio, query))"

section \<open>The body\<close>

text \<open>\<open>str.isdigit\<close>, which is wider than what \<open>int\<close> reads.\<close>

definition isdigit_char :: "char \<Rightarrow> bool" where
  "isdigit_char c = (is_digit c \<or> cp c = 178 \<or> cp c = 179 \<or> cp c = 185)"

definition declared_length :: "hear_config \<Rightarrow> string option \<Rightarrow> unit hear" where
  "declared_length cf header =
     (case header of
        None \<Rightarrow> Inr ()
      | Some s \<Rightarrow>
          if s \<noteq> [] \<and> list_all isdigit_char s then
            (case parse_int s of
               None \<Rightarrow> Inl (Raised (ValueErr []))
             | Some n \<Rightarrow> raise_if (cf_request_bytes cf < n) (Http 413 ''request body exceeds the configured limit'') (Inr ()))
          else Inr ())"

fun read_body :: "hear_config \<Rightarrow> chunk list \<Rightarrow> bytes \<Rightarrow> bytes hear" where
  "read_body cf [] raw = Inr raw"
| "read_body cf (ChunkError # cs) raw = Inl (Http 400 ''could not read request body'')"
| "read_body cf (Chunk b # cs) raw =
     (if cf_request_bytes cf < int (length raw + length b) then Inl (Http 413 ''request body exceeds the configured limit'')
      else read_body cf cs (raw @ b))"

text \<open>\<open>float(value)\<close> of a directive: an \<open>int\<close> beyond the floats is \<open>OverflowError\<close>.\<close>

definition seconds_of :: "pydict \<Rightarrow> string \<Rightarrow> rat option hear" where
  "seconds_of d name =
     (let bad = Inl (Http 400 (''hear.'' @ name @ '' must be a finite number of seconds''));
          check = (\<lambda>q. raise_if (q < 0) (Http 400 (''hear.'' @ name @ '' must be non-negative'')) (Inr (Some q))) in
      case get_none d name of
        PNone \<Rightarrow> Inr None
      | PInt i \<Rightarrow> (case to_float (of_int i) of PFloat q \<Rightarrow> check q | _ \<Rightarrow> Inl (Raised OverflowErr))
      | PFloat q \<Rightarrow> check q
      | _ \<Rightarrow> bad)"

text \<open>An omitted start counts as zero when an end or a duration is given.\<close>

definition chosen_window :: "rat option \<Rightarrow> rat option \<Rightarrow> rat option \<Rightarrow> (rat \<times> rat) option" where
  "chosen_window start0 stop duration =
     (let start = (if start0 = None \<and> (stop \<noteq> None \<or> duration \<noteq> None) then Some 0 else start0) in
      case (start, stop, duration) of
        (Some s, Some e, _) \<Rightarrow> Some (s, e)
      | (Some s, None, Some n) \<Rightarrow> Some (s, rnd53 (s + n))
      | _ \<Rightarrow> None)"

definition directive_window :: "pydict \<Rightarrow> string \<Rightarrow> (rat \<times> rat) option hear" where
  "directive_window d query =
     bindE (seconds_of d ''start'') (\<lambda>start.
     bindE (seconds_of d ''end'') (\<lambda>stop.
     bindE (seconds_of d ''duration'') (\<lambda>duration.
       case chosen_window start stop duration of
         Some (s, e) \<Rightarrow> raise_if (e \<le> s) (Http 400 ''requested window end must be greater than its start'') (Inr (Some (s, e)))
       | None \<Rightarrow> Inr (parse_window_from_text query))))"

definition image_deliveries :: "string list" where
  "image_deliveries = [''inline'', ''url'', ''none'']"

definition bool_field :: "pydict \<Rightarrow> string \<Rightarrow> bool \<Rightarrow> bool hear" where
  "bool_field d name v =
     (case get_default d name (PBool v) of
        PBool b \<Rightarrow> Inr b
      | _ \<Rightarrow> Inl (Http 400 (''hear.'' @ name @ '' must be a boolean'')))"

text \<open>\<open>in\<close> a frozen set hashes the value: a list or a dictionary is \<open>TypeError\<close>.\<close>

definition read_delivery :: "hear_config \<Rightarrow> pydict \<Rightarrow> string hear" where
  "read_delivery cf d =
     (case get_default d ''image_delivery'' (PStr (cf_delivery cf)) of
        PStr s \<Rightarrow> raise_if (s \<notin> set image_deliveries) (Http 400 ''hear.image_delivery must be one of inline, url, none'') (Inr s)
      | PList _ \<Rightarrow> Inl (Raised TypeErr)
      | PDict _ \<Rightarrow> Inl (Raised TypeErr)
      | _ \<Rightarrow> Inl (Http 400 ''hear.image_delivery must be one of inline, url, none''))"

definition choose_model :: "hear_config \<Rightarrow> pydict \<Rightarrow> bool \<Rightarrow> string hear" where
  "choose_model cf d want =
     bindE (case get_none d ''model'' of
              PNone \<Rightarrow> Inr (cf_model cf)
            | PStr s \<Rightarrow>
                raise_if (s = []) (Http 400 ''hear.model must be a non-empty string'')
                (raise_if (s \<notin> set (cf_models cf))
                  (Http 403 ''hear.model override is not enabled for this interpretation model; the operator must list it in LLOOM_HEAR_ALLOWED_INTERPRET_MODELS'')
                  (Inr s))
            | _ \<Rightarrow> Inl (Http 400 ''hear.model must be a non-empty string'')) (\<lambda>m.
       raise_if (want \<and> m \<in> set self_model_ids) (Http 400 ''refusing to use this backend as its own interpretation model'') (Inr m))"

record hear_request =
  rq_audio :: pydict
  rq_query :: string
  rq_window :: "(rat \<times> rat) option"
  rq_interpret :: bool
  rq_image :: bool
  rq_delivery :: string
  rq_model :: string

definition schema_wanted :: "pydict \<Rightarrow> bool" where
  "schema_wanted body =
     (truthy (get_none body ''response_format'')
      \<or> (case get_none body ''lloom'' of PDict l \<Rightarrow> truthy (get_none l ''outputSchema'') | _ \<Rightarrow> False))"

definition read_messages :: "pydict \<Rightarrow> (pydict \<times> string) hear" where
  "read_messages body =
     (case or_else (get_none body ''messages'') (PList []) of
        PList msgs \<Rightarrow>
          bindE (forE msgs collect_message (None, [])) (\<lambda>(audio, query).
            case audio of
              None \<Rightarrow> Inl (Http 400 ''no audio content part found (expected input_audio / audio_url / file)'')
            | Some a \<Rightarrow> Inr (a, query))
      | _ \<Rightarrow> Inl (Http 400 ''messages must be an array''))"

definition read_directive :: "hear_config \<Rightarrow> pydict \<Rightarrow> pydict \<Rightarrow> string \<Rightarrow> hear_request hear" where
  "read_directive cf d audio query =
     bindE (directive_window d query) (\<lambda>window.
     bindE (bool_field d ''interpret'' (cf_interpret cf)) (\<lambda>want.
     bindE (bool_field d ''image'' True) (\<lambda>image.
     bindE (read_delivery cf d) (\<lambda>delivery.
     bindE (choose_model cf d want) (\<lambda>model.
       Inr \<lparr>rq_audio = audio, rq_query = query, rq_window = window, rq_interpret = want, rq_image = image,
            rq_delivery = delivery, rq_model = model\<rparr>)))))"

definition read_document :: "hear_config \<Rightarrow> pyval \<Rightarrow> hear_request hear" where
  "read_document cf doc =
     (case doc of
        PDict body \<Rightarrow>
          raise_if (schema_wanted body) (Http 400 ''schema-constrained output is not supported by Hear'')
          (raise_if (truthy (get_none body ''stream''))
             (Http 400 ''streaming is not supported; omit \"stream\" and read the single JSON completion'')
          (bindE (read_messages body) (\<lambda>(audio, query).
           case or_else (get_none body ''hear'') (PDict []) of
             PDict d \<Rightarrow> read_directive cf d audio query
           | _ \<Rightarrow> Inl (Http 400 ''hear directive must be an object''))))
      | _ \<Rightarrow> Inl (Http 400 ''invalid json body''))"

definition read_request ::
  "hear_config \<Rightarrow> (bytes \<Rightarrow> pyval option) \<Rightarrow> string option \<Rightarrow> chunk list \<Rightarrow> hear_request hear" where
  "read_request cf loads header stream =
     bindE (declared_length cf header) (\<lambda>_.
     bindE (read_body cf stream []) (\<lambda>raw.
       case loads raw of None \<Rightarrow> Inl (Http 400 ''invalid json body'') | Some doc \<Rightarrow> read_document cf doc))"

end
