(* ===== verification/Hear_Dsp.thy ===== *)
theory Hear_Dsp
  imports Hear_Ingest Py_Round
begin

text \<open>
  \<open>backends/hear/lloom_hear_server.py\<close>, what the analysis decides from its measurements: the boundaries of
  sections, the sections with their labels, and whether a key is ambiguous. The spectra, the peaks and
  the correlations come from numpy and librosa and are parameters.
\<close>

section \<open>Rounding\<close>

text \<open>\<open>round(q, n)\<close>\<close>

definition round_to :: "nat \<Rightarrow> rat \<Rightarrow> rat" where
  "round_to n q = rnd53 (of_int (round_even (q * 10 ^ n)) / 10 ^ n)"

section \<open>Boundaries\<close>

text \<open>\<open>ts[min(p, len(ts) - 1)]\<close>\<close>

definition clipped :: "rat list \<Rightarrow> nat \<Rightarrow> rat" where
  "clipped xs p = xs ! min p (length xs - 1)"

text \<open>Keep a peak inside the clip that is far enough from the last one kept.\<close>

fun keep_spaced :: "rat \<Rightarrow> rat \<Rightarrow> rat list \<Rightarrow> rat list \<Rightarrow> rat list" where
  "keep_spaced gap dur kept [] = kept"
| "keep_spaced gap dur kept (b # bs) =
     (if 1 < b \<and> b < rnd53 (dur - 1) \<and> (kept = [] \<or> gap \<le> rnd53 (b - last kept))
      then keep_spaced gap dur (kept @ [b]) bs else keep_spaced gap dur kept bs)"

definition peak_strength :: "rat list \<Rightarrow> rat list \<Rightarrow> nat list \<Rightarrow> rat \<Rightarrow> rat" where
  "peak_strength ts novelty peaks b =
     (case map_of (rev (map (\<lambda>p. (round_to 2 (clipped ts p), clipped novelty p)) peaks)) (round_to 2 b) of
        None \<Rightarrow> 0
      | Some x \<Rightarrow> x)"

definition strongest :: "(rat \<Rightarrow> rat) \<Rightarrow> rat list \<Rightarrow> rat list" where
  "strongest strength kept = sort (take 10 (sort_key (\<lambda>b. - strength b) kept))"

definition kept_boundaries :: "hear_config \<Rightarrow> rat list \<Rightarrow> rat list \<Rightarrow> nat list \<Rightarrow> rat \<Rightarrow> rat list" where
  "kept_boundaries cf novelty ts peaks dur =
     (if length novelty \<le> 4 then []
      else
        (let kept = keep_spaced (cf_min_segment cf) dur [] (sort (map (clipped ts) peaks))
         in if 10 < length kept then strongest (peak_strength ts novelty peaks) kept else kept))"

definition detect_boundaries :: "hear_config \<Rightarrow> rat list \<Rightarrow> rat list \<Rightarrow> nat list \<Rightarrow> rat \<Rightarrow> rat list" where
  "detect_boundaries cf novelty ts peaks dur = map (round_to 2) (kept_boundaries cf novelty ts peaks dur)"

section \<open>Sections\<close>

definition section_edges :: "rat list \<Rightarrow> rat \<Rightarrow> rat list" where
  "section_edges bounds dur = sorted_list_of_set (set (0 # dur # bounds))"

record music_section =
  sn_start :: rat
  sn_end :: rat
  sn_energy :: rat
  sn_rel :: rat
  sn_label :: string

definition energy_label :: "rat \<Rightarrow> string" where
  "energy_label rel = (if rel < rnd53 (2 / 5) then ''low'' else if rel < 3 / 4 then ''mid'' else ''high'') @ '' energy''"

text \<open>\<open>rms a b\<close> is the level of the samples between two edges.\<close>

definition sections_of :: "(rat \<Rightarrow> rat \<Rightarrow> rat) \<Rightarrow> rat list \<Rightarrow> music_section list" where
  "sections_of rms edges =
     (let pairs = zip (butlast edges) (tl edges);
          energies = map (\<lambda>(a, b). round_to 4 (rms a b)) pairs;
          mx = (let m = foldr max energies 0 in if m = 0 then 1 else m)
      in map (\<lambda>((a, b), e).
           let rel = rnd53 (e / mx) in
           \<lparr>sn_start = round_to 2 a, sn_end = round_to 2 b, sn_energy = e, sn_rel = round_to 3 rel, sn_label = energy_label rel\<rparr>)
         (zip pairs energies))"

section \<open>Keys\<close>

definition pitch_classes :: "string list" where
  "pitch_classes = [''C'', ''C#'', ''D'', ''D#'', ''E'', ''F'', ''F#'', ''G'', ''G#'', ''A'', ''A#'', ''B'']"

type_synonym key = "nat \<times> string"

definition candidate_keys :: "key list" where
  "candidate_keys = concat (map (\<lambda>i. [(i, ''major''), (i, ''minor'')]) [0..<12])"

text \<open>The three best by correlation; \<open>list.sort\<close> is stable.\<close>

definition key_candidates :: "(key \<Rightarrow> rat) \<Rightarrow> key list" where
  "key_candidates corr = take 3 (sort_key (\<lambda>k. - corr k) candidate_keys)"

definition related :: "key \<Rightarrow> key \<Rightarrow> bool" where
  "related a b =
     (case (a, b) of ((ia, ma), (ib, mb)) \<Rightarrow>
        if ma = mb then False
        else if ia = ib then True
        else if ma = ''minor'' \<and> mb = ''major'' then (ia + 3) mod 12 = ib
        else if ma = ''major'' \<and> mb = ''minor'' then (ib + 3) mod 12 = ia
        else False)"

definition key_ambiguous :: "hear_config \<Rightarrow> (key \<Rightarrow> rat) \<Rightarrow> bool" where
  "key_ambiguous cf corr =
     (let ks = key_candidates corr in
      rnd53 (corr (ks ! 0) - corr (ks ! 1)) < cf_key_margin cf \<or> related (ks ! 0) (ks ! 1))"

end
