(* ===== verification/Hear_Run.thy ===== *)
theory Hear_Run
  imports Hear_Request Hear_Dsp
begin

text \<open>
  \<open>backends/hear/lloom_hear_server.py\<close>, the run of an accepted request: the analysed window, the arguments
  of ffmpeg, what is sent to the interpretation model, its reply, the abstention and the answer. Outside
  are ffmpeg and ffprobe (how they end), the DSP stage, the renderer and the upstream model; the
  Markdown report is modelled for its interpretation section.
\<close>

section \<open>The tools\<close>

datatype tool = Missing | TimedOut | Exited int string

definition ffmpeg :: "tool \<Rightarrow> unit hear" where
  "ffmpeg t =
     (case t of
        Missing \<Rightarrow> Inl (Http 500 ''ffmpeg not found on PATH'')
      | TimedOut \<Rightarrow> Inl (Http 504 ''audio conversion timed out'')
      | Exited code out \<Rightarrow>
          raise_if (code \<noteq> 0) (Http 400 ''audio could not be decoded; unsupported or corrupt input'') (Inr ()))"

definition probe_duration :: "tool \<Rightarrow> rat hear" where
  "probe_duration t =
     (case t of
        Missing \<Rightarrow> Inl (Http 500 ''ffprobe not found on PATH'')
      | TimedOut \<Rightarrow> Inl (Http 504 ''probing audio duration timed out'')
      | Exited code out \<Rightarrow>
          raise_if (code \<noteq> 0) (Http 400 ''audio could not be probed; unsupported or corrupt input'')
          (case parse_float out of
             Some (PFloat v) \<Rightarrow>
               raise_if (v \<le> 0) (Http 400 ''audio duration is unknown; refusing to process unbounded input'') (Inr v)
           | _ \<Rightarrow> Inl (Http 400 ''audio duration is unknown; refusing to process unbounded input'')))"

text \<open>\<open>f"{q:.3f}"\<close>\<close>

definition fixed3 :: "rat \<Rightarrow> string" where
  "fixed3 q =
     (let ds = show_pos (round_even (\<bar>q\<bar> * 1000));
          ds = replicate (4 - length ds) (CHR ''0'') @ ds
      in (if q < 0 then ''-'' else []) @ take (length ds - 3) ds @ ''.'' @ drop (length ds - 3) ds)"

definition media_input_options :: "string list" where
  "media_input_options =
     [''-protocol_whitelist'', ''file,pipe'', ''-format_whitelist'',
      ''wav,mp3,flac,ogg,mov,aac,aiff,asf,matroska,webm,amr,caf,au'']"

definition extract_args :: "string \<Rightarrow> rat \<Rightarrow> rat \<Rightarrow> string \<Rightarrow> string list \<Rightarrow> string list" where
  "extract_args src start dur out codec =
     (if start \<noteq> 0 then [''-ss'', fixed3 start] else []) @ (if dur \<noteq> 0 then [''-t'', fixed3 dur] else [])
     @ media_input_options @ [''-i'', src, ''-vn''] @ codec @ [out]"

definition wav_codec :: "string list" where
  "wav_codec = [''-ac'', ''1'', ''-ar'', ''22050'', ''-f'', ''wav'']"

definition mp3_codec :: "string list" where
  "mp3_codec = [''-ac'', ''2'', ''-ar'', ''44100'', ''-c:a'', ''libmp3lame'', ''-b:a'', ''128k'']"

section \<open>The window\<close>

definition analysis_window :: "hear_config \<Rightarrow> (rat \<times> rat) option \<Rightarrow> rat \<Rightarrow> (rat \<times> rat) hear" where
  "analysis_window cf window full =
     (let w = (case window of Some w \<Rightarrow> w | None \<Rightarrow> (0, if cf_analysis cf < full then cf_analysis cf else full));
          stop = min (min (snd w) (rnd53 (fst w + cf_analysis cf))) full
      in raise_if (stop \<le> fst w) (Http 400 ''requested window falls outside the analysable range'') (Inr (fst w, stop)))"

definition needs_cut :: "rat \<Rightarrow> rat \<Rightarrow> rat \<Rightarrow> bool" where
  "needs_cut start dur full =
     (start \<noteq> 0 \<or> full \<noteq> 0 \<and> dur \<noteq> 0 \<and> dur < rnd53 (full - rnd53 (1 / 20)))"

section \<open>The plan of a run\<close>

text \<open>What is uploaded: the source as it is, or the cut of the window.\<close>

datatype upload_sound = Whole | Cut

record hear_plan =
  pl_start :: rat
  pl_stop :: rat
  pl_full :: rat
  pl_dsp :: "string list"
  pl_cut :: "string list option"
  pl_sound :: upload_sound
  pl_format :: pyval

definition source_path :: "string \<Rightarrow> source \<Rightarrow> string" where
  "source_path workdir src = (case src of OnDisk p \<Rightarrow> p | Written name _ \<Rightarrow> path_join1 workdir name)"

definition plan_run :: "hear_config \<Rightarrow> string \<Rightarrow> hear_request \<Rightarrow> source \<Rightarrow> rat \<Rightarrow> hear_plan hear" where
  "plan_run cf workdir rq src full =
     bindE (analysis_window cf (rq_window rq) full) (\<lambda>(start, stop).
       let dur = rnd53 (stop - start); path = source_path workdir src; cut = needs_cut start dur full in
       Inr \<lparr>pl_start = start, pl_stop = stop, pl_full = full,
            pl_dsp = extract_args path start dur (path_join1 workdir ''seg.wav'') wav_codec,
            pl_cut = (if cut then Some (extract_args path start dur (path_join1 workdir ''seg.mp3'') mp3_codec) else None),
            pl_sound = (if cut then Cut else Whole),
            pl_format = (if cut then PStr ''mp3'' else get_default (rq_audio rq) ''format'' (PStr ''mp3''))\<rparr>)"

section \<open>The interpretation\<close>

text \<open>\<open>raw\<close> is the reply of the upstream model, \<open>None\<close> a failed call.\<close>

definition upstream_error :: "string \<Rightarrow> pydict" where
  "upstream_error msg = [(''error'', PStr msg), (''text'', PStr [])]"

definition upstream_message :: "pyval \<Rightarrow> pyval option" where
  "upstream_message out =
     (case out of
        PDict d \<Rightarrow>
          (case get_none d ''choices'' of
             PList (PDict c # _) \<Rightarrow> map_of c ''message''
           | _ \<Rightarrow> None)
      | _ \<Rightarrow> None)"

definition read_upstream :: "pyval \<Rightarrow> pydict hear" where
  "read_upstream out =
     (case upstream_message out of
        None \<Rightarrow> Inr (upstream_error ''invalid interpretation response'')
      | Some (PDict msg) \<Rightarrow>
          (case or_else (get_none msg ''content'') (PStr []) of
             PStr text \<Rightarrow>
               Inr [(''text'', PStr (py_strip text)),
                    (''usage'', case out of PDict d \<Rightarrow> get_default d ''usage'' (PDict []) | _ \<Rightarrow> PNone)]
           | _ \<Rightarrow> Inr (upstream_error ''invalid interpretation response''))
      | Some _ \<Rightarrow> Inl (Raised AttributeErr))"

definition upstream_query :: "string \<Rightarrow> string" where
  "upstream_query query = (if py_strip query = [] then ''Describe the character of this audio.'' else py_strip query)"

definition call_upstream :: "hear_config \<Rightarrow> (bytes \<Rightarrow> pyval option) \<Rightarrow> string \<Rightarrow> bytes option \<Rightarrow> pydict hear" where
  "call_upstream cf loads model reply =
     (if model \<in> set self_model_ids then Inr (upstream_error ''refusing to call self'')
      else case reply of
        None \<Rightarrow> Inr (upstream_error ''interpretation request failed'')
      | Some raw \<Rightarrow>
          if cf_upstream_bytes cf < int (length raw) then Inr (upstream_error ''interpretation response exceeded its limit'')
          else (case loads raw of
                  None \<Rightarrow> Inr (upstream_error ''interpretation request failed'')
                | Some out \<Rightarrow> read_upstream out))"

text \<open>The calls that leave the machine with audio: the model, the sound, its format and the text.\<close>

definition uploads :: "hear_request \<Rightarrow> hear_plan \<Rightarrow> (string \<times> upload_sound \<times> pyval \<times> string) list" where
  "uploads rq pl =
     (if rq_interpret rq \<and> rq_model rq \<notin> set self_model_ids
      then [(rq_model rq, pl_sound pl, pl_format pl, upstream_query (rq_query rq))] else [])"

section \<open>The answer\<close>

definition noise_like :: "pydict \<Rightarrow> bool" where
  "noise_like dsp =
     (case or_else (get_none dsp ''measured'') (PDict []) of
        PDict m \<Rightarrow> (case get_default m ''timbre'' (PDict []) of PDict t \<Rightarrow> truthy (get_none t ''noise_like'') | _ \<Rightarrow> False)
      | _ \<Rightarrow> False)"

definition non_musical :: "pydict \<Rightarrow> bool" where
  "non_musical dsp = (truthy (get_none dsp ''abstain'') \<or> noise_like dsp)"

definition discarded :: "pydict \<Rightarrow> pydict" where
  "discarded dsp =
     (let why = (if truthy (get_none dsp ''abstain'') then py_str (get_none dsp ''reason'')
                 else ''noise-like content with no stable pitch or pulse'') in
      [(''text'', PStr []), (''discarded'', PBool True),
       (''reason'', PStr (''DSP found non-musical content ('' @ why @ ''); the generated description was discarded because it is not grounded in any measurable signal.''))])"

definition final_interpretation :: "pydict \<Rightarrow> pydict option \<Rightarrow> pydict" where
  "final_interpretation dsp up =
     (if non_musical dsp then discarded dsp else case up of None \<Rightarrow> [] | Some u \<Rightarrow> u)"

text \<open>The interpretation section of the Markdown report.\<close>

definition interpretation_text :: "pydict \<Rightarrow> string" where
  "interpretation_text up =
     (if truthy (get_none up ''error'')
      then ''*interpretation channel unavailable: '' @ py_str (get_none up ''error'') @ ''*''
      else if truthy (get_none up ''text'') then py_str (get_none up ''text'')
      else ''*no interpretation returned*'')"

text \<open>A rendered dashboard and its entry in the answer.\<close>

record rendering =
  rd_ok :: bool
  rd_id :: string
  rd_ms :: rat
  rd_png :: bytes

definition image_entry :: "string \<Rightarrow> string \<Rightarrow> rendering \<Rightarrow> pyval" where
  "image_entry base delivery r =
     (let label = (''label'', PStr ''analytic dashboard (spectrogram / chroma / loudness / novelty, one shared time axis)'') in
      PDict (if delivery = ''inline''
        then [label, (''render_ms'', PFloat (rd_ms r)), (''data_uri'', PStr (''data:image/png;base64,'' @ b64encode (rd_png r))),
              (''bytes'', PInt (int (length (rd_png r))))]
        else [label, (''url'', PStr (base @ ''/artifacts/'' @ rd_id r @ ''.png'')), (''render_ms'', PFloat (rd_ms r))]))"

record hear_answer =
  an_name :: string
  an_window :: "rat \<times> rat"
  an_full :: rat
  an_seconds :: rat
  an_dsp :: pydict
  an_interpretation :: pydict
  an_images :: "pyval list"
  an_usage :: pyval

text \<open>What the outside delivers to a run.\<close>

record outside =
  os_probe :: tool
  os_cut :: tool
  os_model_cut :: tool
  os_probe_cut :: tool
  os_dsp :: "exn + pydict"
  os_render :: "exn + rendering"
  os_reply :: "bytes option"
  os_base :: string

definition raised :: "exn + 'a \<Rightarrow> 'a hear" where
  "raised r = (case r of Inl e \<Rightarrow> Inl (Raised e) | Inr a \<Rightarrow> Inr a)"

text \<open>The three stages run together; the first exception in their order is raised.\<close>

definition fan_out ::
  "hear_config \<Rightarrow> (bytes \<Rightarrow> pyval option) \<Rightarrow> outside \<Rightarrow> hear_request \<Rightarrow> (pydict \<times> rendering option \<times> pydict option) hear" where
  "fan_out cf loads os rq =
     bindE (raised (os_dsp os)) (\<lambda>dsp.
     bindE (if rq_image rq \<and> rq_delivery rq \<noteq> ''none'' then map_sum id Some (raised (os_render os)) else Inr None) (\<lambda>img.
     bindE (if rq_interpret rq then map_sum id Some (call_upstream cf loads (rq_model rq) (os_reply os)) else Inr None) (\<lambda>up.
       Inr (dsp, img, up))))"

definition hear_run ::
  "hear_config \<Rightarrow> (bytes \<Rightarrow> pyval option) \<Rightarrow> string \<Rightarrow> outside \<Rightarrow> hear_request \<Rightarrow> source \<Rightarrow> hear_answer hear" where
  "hear_run cf loads workdir os rq src =
     bindE (probe_duration (os_probe os)) (\<lambda>full.
     bindE (plan_run cf workdir rq src full) (\<lambda>pl.
     bindE (ffmpeg (os_cut os)) (\<lambda>_.
     bindE (case pl_cut pl of None \<Rightarrow> Inr () | Some _ \<Rightarrow> ffmpeg (os_model_cut os)) (\<lambda>_.
     bindE (probe_duration (os_probe_cut os)) (\<lambda>seconds.
     bindE (fan_out cf loads os rq) (\<lambda>(dsp, img, up).
       let final = final_interpretation dsp up in
       Inr \<lparr>an_name = ''audio.'' @ py_str (pl_format pl), an_window = (pl_start pl, pl_stop pl), an_full = round_to 2 full, an_seconds = seconds, an_dsp = dsp,
            an_interpretation = final,
            an_images = (case img of Some r \<Rightarrow> if rd_ok r then [image_entry (os_base os) (rq_delivery rq) r] else [] | None \<Rightarrow> []),
            an_usage = get_default final ''usage'' (PDict [])\<rparr>))))))"

text \<open>
  \<open>_chat_completions\<close>: the readers, the source, the run. The fetch has a round for every byte of its limit,
  which is always enough.
\<close>

definition fetched_audio :: "hear_config \<Rightarrow> network \<Rightarrow> pyval \<Rightarrow> bytes hear" where
  "fetched_audio cf nt url =
     (case fst (fetch_remote (nat (cf_download_bytes cf) + 2) cf nt url) of
        Some r \<Rightarrow> r
      | None \<Rightarrow> Inl (refuse ''could not fetch audio url''))"

definition chat_source ::
  "hear_config \<Rightarrow> (string \<Rightarrow> string) \<Rightarrow> (string \<Rightarrow> bool) \<Rightarrow> (string \<Rightarrow> int) \<Rightarrow> network \<Rightarrow> hear_request \<Rightarrow> source hear" where
  "chat_source cf realpath is_file bytes_on_disk nt rq =
     resolve_source cf realpath is_file bytes_on_disk (fetched_audio cf nt) (rq_audio rq)"

definition hear_chat ::
  "hear_config \<Rightarrow> (bytes \<Rightarrow> pyval option) \<Rightarrow> (string \<Rightarrow> string) \<Rightarrow> (string \<Rightarrow> bool) \<Rightarrow> (string \<Rightarrow> int) \<Rightarrow> network \<Rightarrow> string
     \<Rightarrow> outside \<Rightarrow> string option \<Rightarrow> chunk list \<Rightarrow> hear_answer hear" where
  "hear_chat cf loads realpath is_file bytes_on_disk nt workdir os header stream =
     bindE (read_request cf loads header stream) (\<lambda>rq.
     bindE (chat_source cf realpath is_file bytes_on_disk nt rq) (\<lambda>src.
       hear_run cf loads workdir os rq src))"

section \<open>Admission\<close>

text \<open>
  \<open>chat_completions\<close>: a call is refused when both slots are taken; otherwise its task keeps the slot
  until it is done, also when the caller goes away.
\<close>

record desk =
  dk_free :: nat
  dk_tasks :: "nat set"
  dk_callers :: "nat set"

datatype desk_event = Calls nat | TaskDone nat | CallerGone nat

definition slots :: nat where "slots = 2"

definition empty_desk :: desk where
  "empty_desk = \<lparr>dk_free = slots, dk_tasks = {}, dk_callers = {}\<rparr>"

fun desk_step :: "desk \<Rightarrow> desk_event \<Rightarrow> (desk \<times> hear_exn option) option" where
  "desk_step s (Calls r) =
     (if r \<in> dk_tasks s \<or> r \<in> dk_callers s then None
      else if dk_free s = 0 then Some (s, Some (Http 429 ''Hear is busy; retry after active analyses finish''))
      else Some (s\<lparr>dk_free := dk_free s - 1, dk_tasks := insert r (dk_tasks s), dk_callers := insert r (dk_callers s)\<rparr>, None))"
| "desk_step s (TaskDone r) =
     (if r \<in> dk_tasks s
      then Some (s\<lparr>dk_free := dk_free s + 1, dk_tasks := dk_tasks s - {r}, dk_callers := dk_callers s - {r}\<rparr>, None) else None)"
| "desk_step s (CallerGone r) =
     (if r \<in> dk_callers s then Some (s\<lparr>dk_callers := dk_callers s - {r}\<rparr>, None) else None)"

inductive desk_reaches :: "desk \<Rightarrow> bool" where
  desk_start: "desk_reaches empty_desk"
| desk_next: "desk_reaches s \<Longrightarrow> desk_step s ev = Some (s', refused) \<Longrightarrow> desk_reaches s'"

section \<open>Artifacts\<close>

text \<open>\<open>[0-9a-f]{12}-[0-9a-f]{6}\.png\<close>, matched in full.\<close>

definition lower_hex :: "char \<Rightarrow> bool" where
  "lower_hex c = (is_digit c \<or> 97 \<le> cp c \<and> cp c \<le> 102)"

definition artifact_name :: "string \<Rightarrow> bool" where
  "artifact_name s =
     (length s = 23 \<and> list_all lower_hex (take 12 s) \<and> s ! 12 = CHR ''-'' \<and> list_all lower_hex (take 6 (drop 13 s))
      \<and> drop 19 s = ''.png'')"

record dir_entry =
  de_name :: string
  de_regular :: bool
  de_mtime :: rat

text \<open>The names that \<open>prune_artifacts\<close> unlinks, of a directory at a time.\<close>

definition newest_first :: "dir_entry list \<Rightarrow> dir_entry list" where
  "newest_first es = rev (sort_key de_mtime (rev (filter (\<lambda>e. artifact_name (de_name e) \<and> de_regular e) es)))"

definition prune_artifacts :: "hear_config \<Rightarrow> rat \<Rightarrow> dir_entry list \<Rightarrow> string list" where
  "prune_artifacts cf t es =
     map (de_name \<circ> snd)
       (filter (\<lambda>(i, e). cf_artifacts cf \<le> int i \<or> of_int (cf_ttl cf) < rnd53 (t - de_mtime e))
          (enumerate 0 (newest_first es)))"

definition artifact_path :: "string \<Rightarrow> (string \<Rightarrow> bool) \<Rightarrow> string \<Rightarrow> string hear" where
  "artifact_path dir is_file name =
     (let p = path_join1 dir (last (split_on slash name)) in
      raise_if (\<not> is_file p) (Http 404 ''not found'') (Inr p))"

end
