(* ===== verification/Hear_Safety.thy ===== *)
theory Hear_Safety
  imports Hear_Run Hear_Dsp
begin

text \<open>
  The properties of the hearing tool: where its audio may come from, where it may go, how much of it is
  analysed, and what the answer may claim.
\<close>

section \<open>Local files\<close>

lemma commonpath_inside:
  assumes "common_path p d = Some d"
  shows "prefix (ref_parts d) (ref_parts p)"
proof -
  let ?ws = "longest_common_prefix (ref_parts p) (ref_parts d)"
  have pre: "prefix ?ws (ref_parts p)" by (rule longest_common_prefix_prefix1)
  then have "set ?ws \<subseteq> set (ref_parts p)" by (rule set_mono_prefix)
  then have ws: "\<forall>w\<in>set ?ws. w \<noteq> [] \<and> w \<noteq> ''.'' \<and> slash \<notin> set w" by (blast dest: ref_parts_props)
  have "ref_parts (join_with ''/'' ?ws) = ?ws"
  proof (cases "?ws = []")
    case False
    then have "split_on slash (join_with ''/'' ?ws) = ?ws" using ws by (intro split_on_join) auto
    then show ?thesis using ws by (simp add: ref_parts_def [of "join_with _ _"] filter_id_conv)
  qed simp
  then have "ref_parts ((if b then ''/'' else []) @ join_with ''/'' ?ws) = ?ws" for b by simp
  moreover from assms have "d = (if prefix ''/'' p then ''/'' else []) @ join_with ''/'' ?ws"
    by (simp add: common_path_def split: if_splits)
  ultimately have "ref_parts d = ?ws" by metis
  with pre show ?thesis by simp
qed

lemma local_path_below:
  assumes "\<forall>s. abs_normal (realpath s)" "resolve_local_audio_path cf realpath is_file raw = Inr p"
  shows "cf_local cf" "is_file p" "\<exists>d\<in>set (cf_dirs cf). \<exists>ws. list_all plain_comp ws \<and> ref_parts p = ref_parts d @ ws"
proof -
  from assms(2) obtain s where p: "p = realpath s" "cf_local cf" "is_file p"
    and "list_ex (\<lambda>d. common_path p d = Some d) (cf_dirs cf)"
    by (auto simp: resolve_local_audio_path_def split: pyval.splits)
  then obtain d where d: "d \<in> set (cf_dirs cf)" "prefix (ref_parts d) (ref_parts p)"
    by (auto simp: list_ex_iff dest: commonpath_inside)
  from d(2) obtain ws where ws: "ref_parts p = ref_parts d @ ws" by (auto simp: prefix_def)
  from assms(1) p(1) have "abs_normal p" by simp
  then obtain k us where "list_all plain_comp us" "p = norm_root k us" unfolding abs_normal_def by blast
  then have "list_all plain_comp (ref_parts p)" by (simp add: ref_parts_norm_root)
  with ws have "list_all plain_comp ws" by simp
  with d(1) ws show "\<exists>d\<in>set (cf_dirs cf). \<exists>ws. list_all plain_comp ws \<and> ref_parts p = ref_parts d @ ws" by blast
  from p show "cf_local cf" "is_file p" by simp_all
qed

text \<open>C4. A local file is read only when the operator has opened local files, and only below one of the
  operator's directories: the parts of the resolved path continue those of the directory, without a step
  upwards.\<close>

theorem local_path_confined:
  assumes "\<forall>s. abs_normal (realpath s)" "resolve_local_audio_path cf realpath is_file raw = Inr p"
  shows "cf_local cf \<and> is_file p \<and> (\<exists>d\<in>set (cf_dirs cf). \<exists>ws. list_all plain_comp ws \<and> ref_parts p = ref_parts d @ ws)"
  using local_path_below [OF assms] by blast

section \<open>Remote audio\<close>

lemma download_round_Inr:
  "download_round read deadline limit s = Inr s' \<Longrightarrow>
   \<exists>chunk. chunk \<noteq> [] \<and> snd s' = snd s @ chunk \<and> int (length (snd s')) \<le> limit"
  by (cases s; cases "read (fst s)"; cases "snd (read (fst s))") (auto simp: download_round_def split: if_splits)

lemma download_round_done: "download_round read deadline limit s = Inl (Inr raw) \<Longrightarrow> raw = snd s \<and> raw \<noteq> []"
  by (cases s; cases "read (fst s)"; cases "snd (read (fst s))") (auto simp: download_round_def split: if_splits)

interpretation download: bounded_poll "download_round read deadline limit"
  "\<lambda>s. of_nat (length (snd s))" "\<lambda>_. True" "of_int limit" 1 for read deadline limit
proof
  fix s s' assume "download_round read deadline limit s = Inr s'"
  then obtain chunk where c: "chunk \<noteq> []" "snd s' = snd s @ chunk" "int (length (snd s')) \<le> limit"
    using download_round_Inr by blast
  from c(1) have "1 \<le> length chunk" by (cases chunk) simp_all
  then show "of_nat (length (snd s)) + (1 :: rat) \<le> of_nat (length (snd s'))" by (simp add: c(2))
  from c(3) have "(of_int (int (length (snd s'))) :: rat) \<le> of_int limit" by (simp only: of_int_le_iff)
  then show "of_nat (length (snd s')) \<le> (of_int limit :: rat)" by simp
qed

lemma try_connect_subset: "try_connect nt as = (ok, tried) \<Longrightarrow> set tried \<subseteq> set as"
  by (induction as arbitrary: ok tried) (fastforce split: if_splits prod.splits)+

lemma public_connection_allowed:
  assumes "public_connection nt host port = (r, tried)" "a \<in> set tried"
  shows "address_allowed a"
  using assms
  by (auto simp: public_connection_def list_ex_iff split: option.splits if_splits prod.splits bool.splits dest!: try_connect_subset)

lemma allowed_flags: "address_allowed a \<Longrightarrow> flags_allowed (flags_of a)"
  by (cases a) (auto split: if_splits)

lemma download_bounded:
  assumes "poll_loop fuel (download_round read deadline limit) (0, []) = Some (Inr raw)"
  shows "raw \<noteq> [] \<and> int (length raw) \<le> limit"
proof -
  have "\<exists>t. (snd t = [] \<or> int (length (snd t)) \<le> limit) \<and> download_round read deadline limit t = Inl (Inr raw)"
    by (rule poll_loop_result [OF assms]) (auto dest: download_round_Inr)
  then show ?thesis using download_round_done by blast
qed

lemma download_ends: "\<exists>r. poll_loop (Suc (Suc (nat limit))) (download_round read deadline limit) (0, []) = Some r"
  by (rule download.fuel_enough) simp_all

text \<open>C3. A remote fetch opens a socket only to a public address, and only for an \<open>https\<close> URL without
  credentials that the operator has allowed, however the answers of the resolver change between the
  check and the connection; it ends after at most one round per byte of the limit, and what it
  delivers is not empty and within the limit.\<close>

theorem remote_fetch_confined:
  assumes "fetch_remote fuel cf nt url = (r, tried)"
  shows "(\<forall>a\<in>set tried. ip_global (flags_of a) \<and> \<not> ip_private (flags_of a) \<and> \<not> ip_loopback (flags_of a)
      \<and> \<not> ip_link_local (flags_of a))
    \<and> (tried \<noteq> [] \<longrightarrow> cf_fetch cf \<and> (\<exists>s u. url = PStr s \<and> nt_split nt s = Some u \<and> u_scheme u = ''https''
         \<and> \<not> opt_true (u_user u) \<and> \<not> opt_true (u_password u)))
    \<and> (nat (cf_download_bytes cf) + 2 \<le> fuel \<longrightarrow> r \<noteq> None)
    \<and> (\<forall>raw. r = Some (Inr raw) \<longrightarrow> raw \<noteq> [] \<and> int (length raw) \<le> cf_download_bytes cf)"
proof (cases "validate_remote_url cf nt url")
  case (Inl e)
  with assms show ?thesis by (auto simp: fetch_remote_def)
next
  case (Inr v)
  then obtain s u host port where v: "v = (s, host, port)" and url: "url = PStr s" "nt_split nt s = Some u" "u_scheme u = ''https''"
    "\<not> opt_true (u_user u)" "\<not> opt_true (u_password u)" "cf_fetch cf"
    by (auto simp: validate_remote_url_def Let_def split: pyval.splits option.splits sum.splits)
  have d: "download_url fuel cf nt host port = (r, tried)" using assms Inr v by (simp add: fetch_remote_def)
  obtain c where c: "public_connection nt host port = (c, tried)"
    using d by (auto simp: download_url_def split: prod.splits sum.splits reply_body.splits)
  have flags: "\<forall>a\<in>set tried. flags_allowed (flags_of a)"
    using public_connection_allowed [OF c] allowed_flags by blast
  have "\<forall>raw. r = Some (Inr raw) \<longrightarrow> raw \<noteq> [] \<and> int (length raw) \<le> cf_download_bytes cf"
    using d c by (auto simp: download_url_def split: sum.splits reply_body.splits dest: download_bounded)
  moreover have "r \<noteq> None" if "nat (cf_download_bytes cf) + 2 \<le> fuel"
  proof -
    have "\<exists>x. poll_loop fuel (download_round read deadline (cf_download_bytes cf)) (0, []) = Some x" for read deadline
      using download_ends poll_loop_mono that by (metis add_2_eq_Suc')
    with d c show ?thesis by (auto simp: download_url_def split: sum.splits reply_body.splits)
  qed
  ultimately show ?thesis using url flags by (auto simp: flags_allowed_def split: if_splits)
qed

section \<open>The time window of a text\<close>

lemma then_match_iff: "(x, t) \<in> set (then_match p f s) \<longleftrightarrow> (\<exists>a u. (a, u) \<in> set (p s) \<and> (x, t) \<in> set (f a u))"
  by (force simp: then_match_def)

lemma digits_between_iff:
  "(ds, t) \<in> set (digits_between lo hi s)
    \<longleftrightarrow> (\<exists>k. lo \<le> k \<and> k \<le> hi \<and> k \<le> length (takeWhile is_digit s) \<and> ds = take k s \<and> t = drop k s)"
proof -
  have "set (digits_between lo hi s) = (\<lambda>k. (take k s, drop k s)) ` {lo..<Suc (min hi (length (takeWhile is_digit s)))}"
    by (simp only: digits_between_def Let_def set_map set_rev set_upt)
  then show ?thesis by (auto simp: image_iff less_Suc_eq_le simp del: upt_Suc)
qed

lemma digits_between_digits: "(ds, t) \<in> set (digits_between lo hi s) \<Longrightarrow> list_all is_digit ds"
proof -
  assume "(ds, t) \<in> set (digits_between lo hi s)"
  then obtain k where "k \<le> length (takeWhile is_digit s)" "ds = take k s" unfolding digits_between_iff by blast
  then have "ds = take k (takeWhile is_digit s)" by (metis takeWhile_eq_take take_take min.absorb1)
  then have "\<forall>c\<in>set ds. c \<in> set (takeWhile is_digit s)" using in_set_takeD by metis
  then show ?thesis unfolding list_all_iff using set_takeWhileD by metis
qed

fun clock_digits :: "clock_text \<Rightarrow> bool" where
  "clock_digits (m, s, f) = (list_all is_digit m \<and> list_all is_digit s \<and> (case f of None \<Rightarrow> True | Some ds \<Rightarrow> list_all is_digit ds))"

lemma fraction_group_digits: "(f, t) \<in> set (fraction_group s) \<Longrightarrow> case f of None \<Rightarrow> True | Some ds \<Rightarrow> list_all is_digit ds"
  by (auto simp: fraction_group_def then_match_iff matched_def dest: digits_between_digits split: option.split)

lemma clock_group_digits: "(c, t) \<in> set (clock_group s) \<Longrightarrow> clock_digits c"
  by (auto simp: clock_group_def then_match_iff matched_def dest: digits_between_digits fraction_group_digits)

lemma window_body_digits: "((a, b), t) \<in> set (window_body s) \<Longrightarrow> clock_digits a \<and> clock_digits b"
  by (auto simp: window_body_def then_match_iff matched_def dest: clock_group_digits)

lemma first_match: "(case p s of (a, _) # _ \<Rightarrow> Some a | [] \<Rightarrow> f) = Some a \<Longrightarrow> (\<exists>u t. (a, t) \<in> set (p u)) \<or> f = Some a"
proof (cases "p s")
  case (Cons x xs)
  assume "(case p s of (a, _) # _ \<Rightarrow> Some a | [] \<Rightarrow> f) = Some a"
  with Cons obtain t where "x = (a, t)" by (cases x) auto
  moreover have "x \<in> set (p s)" using Cons by simp
  ultimately show ?thesis by blast
qed simp

lemma search_behind_found: "search_behind p s = Some a \<Longrightarrow> \<exists>u t. (a, t) \<in> set (p u)"
proof (induction s)
  case (Cons c s)
  then show ?case using first_match [where p=p and s=s and f="search_behind p s" and a=a] by (cases "is_digit c"; simp; blast)
qed simp

lemma time_re_digits: "time_re s = Some (a, b) \<Longrightarrow> clock_digits a \<and> clock_digits b"
proof -
  assume "time_re s = Some (a, b)"
  then have "(\<exists>u t. ((a, b), t) \<in> set (window_body u)) \<or> search_behind window_body s = Some (a, b)"
    unfolding time_re_def by (rule first_match)
  then have "\<exists>u t. ((a, b), t) \<in> set (window_body u)" using search_behind_found [of window_body s "(a, b)"] by blast
  then show ?thesis using window_body_digits by blast
qed

lemma int_of_digits_nonneg: "list_all is_digit ds \<Longrightarrow> 0 \<le> int_of_digits ds"
proof -
  have "list_all is_digit ds \<Longrightarrow> 0 \<le> n \<Longrightarrow> 0 \<le> foldl (\<lambda>n c. 10 * n + (of_char c - 48)) n ds" for n :: int
  proof (induction ds arbitrary: n)
    case (Cons c ds)
    then have "48 \<le> (of_char c :: nat)" by (simp add: is_digit_def cp_def)
    then have "48 \<le> (of_char c :: int)" by (metis of_nat_le_iff of_nat_numeral of_nat_of_char)
    with Cons show ?case by simp
  qed simp
  then show "list_all is_digit ds \<Longrightarrow> 0 \<le> int_of_digits ds" by (simp add: int_of_digits_def)
qed

lemma mmss_nonneg: "clock_digits c \<Longrightarrow> 0 \<le> mmss c"
  by (cases c) (auto simp: mmss_def intro!: rnd53_nonneg add_nonneg_nonneg int_of_digits_nonneg divide_nonneg_nonneg
      split: option.split)

section \<open>What an accepted request asks for\<close>

lemma seconds_nonneg: "seconds_of d name = Inr (Some q) \<Longrightarrow> 0 \<le> q"
  by (auto simp: seconds_of_def Let_def split: pyval.splits)

lemma directive_window_nonneg:
  assumes "directive_window d query = Inr (Some (s, e))"
  shows "0 \<le> s"
proof -
  have asked: "0 \<le> s" if "parse_window_from_text query = Some (s, e)"
    using that time_re_digits mmss_nonneg by (auto simp: parse_window_from_text_def split: option.split_asm if_split_asm)
  from assms obtain start stop duration where sec: "seconds_of d ''start'' = Inr start"
    and "(case chosen_window start stop duration of
         Some (s, e) \<Rightarrow> raise_if (e \<le> s) (Http 400 ''requested window end must be greater than its start'') (Inr (Some (s, e)))
       | None \<Rightarrow> Inr (parse_window_from_text query)) = Inr (Some (s, e))"
    unfolding directive_window_def bindE_eq_Inr by blast
  then have w: "chosen_window start stop duration = Some (s, e) \<or> parse_window_from_text query = Some (s, e)"
    by (cases "chosen_window start stop duration") auto
  have "s = 0 \<or> start = Some s" if "chosen_window start stop duration = Some (s, e)"
    using that by (auto simp: chosen_window_def Let_def split: option.split_asm if_split_asm)
  with w sec asked seconds_nonneg show ?thesis by blast
qed

lemma choose_model_ok:
  "choose_model cf d want = Inr m \<Longrightarrow> (m = cf_model cf \<or> m \<in> set (cf_models cf)) \<and> (want \<longrightarrow> m \<notin> set self_model_ids)"
  by (auto simp: choose_model_def split: pyval.splits)

lemma accepted_directive:
  assumes "read_request cf loads header stream = Inr rq"
  obtains d query where "directive_window d query = Inr (rq_window rq)" "choose_model cf d (rq_interpret rq) = Inr (rq_model rq)"
proof -
  from assms obtain doc where "read_document cf doc = Inr rq" by (auto simp: read_request_def split: option.splits)
  then obtain body d audio query where "doc = PDict body" "read_directive cf d audio query = Inr rq"
    by (cases doc; cases "or_else (get_none (case doc of PDict b \<Rightarrow> b | _ \<Rightarrow> []) ''hear'') (PDict [])")
      (auto simp: read_document_def)
  then show thesis by (intro that [of d query]) (auto simp: read_directive_def)
qed

lemma plan_run_cases:
  assumes "plan_run cf workdir rq src full = Inr pl"
  shows "analysis_window cf (rq_window rq) full = Inr (pl_start pl, pl_stop pl)" "pl_full pl = full"
    "pl_sound pl = (if needs_cut (pl_start pl) (rnd53 (pl_stop pl - pl_start pl)) full then Cut else Whole)"
    "pl_cut pl = None \<longleftrightarrow> pl_sound pl = Whole"
  using assms by (auto simp: plan_run_def Let_def)

text \<open>However a caller or a question words its window, the part that is analysed starts inside the
  clip, is not empty, ends with the clip and is at most as long as the operator allows.\<close>

lemma analysis_bounded:
  assumes "read_request cf loads header stream = Inr rq" "plan_run cf workdir rq src full = Inr pl"
  shows "0 \<le> pl_start pl \<and> pl_start pl < pl_stop pl \<and> pl_stop pl \<le> full \<and> pl_stop pl \<le> rnd53 (pl_start pl + cf_analysis cf)"
proof -
  obtain d query where "directive_window d query = Inr (rq_window rq)" by (rule accepted_directive [OF assms(1)])
  then have "0 \<le> fst w" if "rq_window rq = Some w" for w using that by (cases w) (auto dest: directive_window_nonneg)
  with plan_run_cases(1) [OF assms(2)] show ?thesis
    by (auto simp: analysis_window_def Let_def split: option.splits)
qed


section \<open>The answer\<close>

text \<open>C34. Generated text is in an answer only when interpretation was asked for and the measurement supports
  music: on silence or noise the section says that there is none, whatever the model replied.\<close>

theorem generated_text_is_grounded:
  assumes "hear_run cf loads workdir os rq src = Inr an"
  shows "(truthy (get_none (an_interpretation an) ''text'') \<longrightarrow> rq_interpret rq \<and> \<not> non_musical (an_dsp an))
    \<and> (non_musical (an_dsp an) \<or> \<not> rq_interpret rq \<longrightarrow> an_usage an = PDict []
        \<and> interpretation_text (an_interpretation an) = ''*no interpretation returned*'')"
proof -
  from assms obtain dsp img up where f: "fan_out cf loads os rq = Inr (dsp, img, up)"
    and an: "an_dsp an = dsp" "an_interpretation an = final_interpretation dsp up"
      "an_usage an = get_default (final_interpretation dsp up) ''usage'' (PDict [])"
    by (auto simp: hear_run_def Let_def)
  from f have up: "up = None" if "\<not> rq_interpret rq" using that by (auto simp: fan_out_def)
  show ?thesis
  proof (cases "non_musical dsp")
    case True
    then show ?thesis unfolding an
      by (simp add: final_interpretation_def discarded_def interpretation_text_def get_none_def get_default_def Let_def)
  next
    case False
    with up show ?thesis unfolding an
      by (cases "rq_interpret rq") (simp_all add: final_interpretation_def interpretation_text_def get_none_def get_default_def)
  qed
qed

section \<open>From the request to the answer\<close>

lemma fetch_bounded: "fst (fetch_remote fuel cf nt url) = Some (Inr raw) \<Longrightarrow> raw \<noteq> [] \<and> int (length raw) \<le> cf_download_bytes cf"
  by (auto simp: fetch_remote_def download_url_def split: sum.splits prod.splits reply_body.splits dest: download_bounded)

lemma fetched_bounded: "fetched_audio cf nt url = Inr raw \<Longrightarrow> raw \<noteq> [] \<and> int (length raw) \<le> cf_download_bytes cf"
  by (intro fetch_bounded) (auto simp: fetched_audio_def split: option.splits)

lemma audio_format_listed: "validate_audio_format v = Inr fmt \<Longrightarrow> fmt \<in> set audio_extensions"
  by (auto simp: validate_audio_format_def audio_extensions_def Let_def split: if_splits pyval.splits)

text \<open>C33. Every answer is about bounded audio of an allowed source: a file below an opened directory, or at most
  the configured number of bytes, stored under one of the listed extensions; and the part of it that was
  analysed is a window of at most the configured length.\<close>

theorem answered_within_limits:
  assumes "\<forall>s. abs_normal (realpath s)" "hear_chat cf loads realpath is_file bytes_on_disk nt workdir os header stream = Inr an"
  shows "\<exists>rq src. read_request cf loads header stream = Inr rq \<and> chat_source cf realpath is_file bytes_on_disk nt rq = Inr src
    \<and> (\<forall>p. src = OnDisk p \<longrightarrow> cf_local cf \<and> bytes_on_disk p \<le> cf_input_bytes cf
         \<and> (\<exists>d\<in>set (cf_dirs cf). \<exists>ws. list_all plain_comp ws \<and> ref_parts p = ref_parts d @ ws))
    \<and> (\<forall>name raw. src = Written name raw \<longrightarrow> raw \<noteq> [] \<and> int (length raw) \<le> max (cf_input_bytes cf) (cf_download_bytes cf)
         \<and> (\<exists>fmt\<in>set audio_extensions. name = ''audio.'' @ fmt))
    \<and> 0 \<le> fst (an_window an) \<and> fst (an_window an) < snd (an_window an)
    \<and> snd (an_window an) \<le> rnd53 (fst (an_window an) + cf_analysis cf)"
proof -
  from assms(2) obtain rq src where rq: "read_request cf loads header stream = Inr rq"
    and src: "chat_source cf realpath is_file bytes_on_disk nt rq = Inr src" and run: "hear_run cf loads workdir os rq src = Inr an"
    by (auto simp: hear_chat_def)
  from run obtain full pl where pl: "plan_run cf workdir rq src full = Inr pl" "an_window an = (pl_start pl, pl_stop pl)"
    by (auto simp: hear_run_def Let_def)
  have disk: "cf_local cf \<and> bytes_on_disk p \<le> cf_input_bytes cf
      \<and> (\<exists>d\<in>set (cf_dirs cf). \<exists>ws. list_all plain_comp ws \<and> ref_parts p = ref_parts d @ ws)" if "src = OnDisk p" for p
  proof -
    from src that obtain v where "resolve_local_audio_path cf realpath is_file v = Inr p" "bytes_on_disk p \<le> cf_input_bytes cf"
      by (auto simp: chat_source_def resolve_source_def split: if_splits pyval.splits option.splits)
    with local_path_below [OF assms(1)] show ?thesis by blast
  qed
  have written: "raw \<noteq> [] \<and> int (length raw) \<le> max (cf_input_bytes cf) (cf_download_bytes cf)
      \<and> (\<exists>fmt\<in>set audio_extensions. name = ''audio.'' @ fmt)" if "src = Written name raw" for name raw
    using src that
    by (auto simp: chat_source_def resolve_source_def split: if_splits pyval.splits option.splits
        dest: fetched_bounded audio_format_listed)
  from rq src disk written pl(2) analysis_bounded [OF rq pl(1)] show ?thesis by auto
qed

end
