(* ===== verification/Hear_Limits.thy ===== *)
theory Hear_Limits
  imports Hear_Safety Py_Digits
begin

text \<open>
  Further properties of the hearing tool: what a refused request raises, the window of a question read
  back, and the two slots.
\<close>

section \<open>What a refused request raises\<close>

definition request_refusal :: "hear_exn \<Rightarrow> bool" where
  "request_refusal e =
     (case e of Http st msg \<Rightarrow> st \<in> {400, 403, 413} | Raised x \<Rightarrow> x \<in> {TypeErr, OverflowErr})"

lemma request_refusal_simps [simp]:
  "request_refusal (Http st msg) \<longleftrightarrow> st \<in> {400, 403, 413}" "request_refusal (Raised x) \<longleftrightarrow> x \<in> {TypeErr, OverflowErr}"
  by (simp_all add: request_refusal_def)

lemma fails_declared: "fails (\<lambda>e. request_refusal e \<or> e = Raised (ValueErr []) \<and> header \<noteq> None) (declared_length cf header)"
  by (cases header) (auto simp: declared_length_def fails_def raise_if_def split: option.split)

lemma fails_read_body: "fails request_refusal (read_body cf stream raw)"
  by (induction cf stream raw rule: read_body.induct) (simp_all add: fails_def)

lemma fails_collect_part: "fails request_refusal (collect_part part st)"
  unfolding collect_part_def Let_def by (cases st) (simp; intro err_rules; simp)

lemma fails_collect_message: "fails request_refusal (collect_message msg st)"
  unfolding collect_message_def collect_parts_def
  by (cases st) (simp; intro err_rules fails_collect_part; simp)

lemma fails_read_messages: "fails request_refusal (read_messages body)"
  unfolding read_messages_def by (intro err_rules fails_collect_message; simp)

lemma fails_seconds: "fails request_refusal (seconds_of d name)"
  unfolding seconds_of_def Let_def by (intro err_rules; simp)

lemma fails_directive: "fails request_refusal (read_directive cf d audio query)"
  unfolding read_directive_def directive_window_def bool_field_def read_delivery_def choose_model_def
  by (intro err_rules fails_seconds; simp)


text \<open>A power of two below a number stays below it when it is rounded.\<close>

lemma rnd53_ge_pow2:
  assumes "pow2 k \<le> x"
  shows "pow2 k \<le> rnd53 x"
proof -
  have x: "0 < x" using assms pow2_pos [of k] by linarith
  have "k \<le> lead_exp x"
  proof (rule ccontr)
    assume "\<not> ?thesis"
    then have "pow2 (lead_exp x + 1) \<le> pow2 k" by (intro pow2_mono) simp
    with assms lead_exp_above [OF x] show False by linarith
  qed
  then have k: "pow2 k \<le> pow2 (lead_exp x)" by (rule pow2_mono)
  let ?v = "pow2 (lead_exp x - 52)"
  have v: "pow2 (lead_exp x) = of_int (2 ^ 52) * ?v" using pow2_add [of "lead_exp x - 52" 52] by simp
  then have "of_int (2 ^ 52) * ?v \<le> x" using lead_exp_le [OF x] by linarith
  then have "2 ^ 52 \<le> round_even (x / ?v)" by (intro round_even_bounds(1)) (simp add: pos_le_divide_eq)
  then have "of_int (2 ^ 52) * ?v \<le> rnd53 x" unfolding rnd53_unit [OF x]
    by (intro mult_right_mono) (simp_all only: of_int_le_iff pow2_pos less_imp_le)
  with k v show ?thesis by linarith
qed

lemma overflowing_int: "to_float (of_int (2 ^ 1024)) = PNonFinite PosInf"
proof -
  have "pow2 1024 = of_int (2 ^ 1024)" by (simp add: pow2_def)
  then have "of_int (2 ^ 1024) \<le> rnd53 (of_int (2 ^ 1024))" using rnd53_ge_pow2 [of 1024 "of_int (2 ^ 1024)"] by simp
  moreover have "max_finite < of_int (2 ^ 1024)" by (simp add: max_finite_def)
  ultimately have "max_finite < rnd53 (of_int (2 ^ 1024))" by linarith
  then show ?thesis unfolding to_float_def Let_def by (simp only: if_True)
qed


section \<open>A window read back\<close>

text \<open>The first match of an expression.\<close>

definition first :: "'a matcher \<Rightarrow> string \<Rightarrow> 'a \<Rightarrow> string \<Rightarrow> bool" where
  "first p s a t = (\<exists>rest. p s = (a, t) # rest)"

lemma first_then: "first p s a u \<Longrightarrow> first (f a) u b t \<Longrightarrow> first (then_match p f) s b t"
  by (auto simp: first_def then_match_def)

lemma first_matched: "first (matched a) s a s"
  by (simp add: first_def matched_def)

lemma first_literal: "first (literal w) (w @ s) () s"
  by (simp add: first_def literal_def)

lemma takeWhile_stop: "list_all P xs \<Longrightarrow> ys = [] \<or> \<not> P (hd ys) \<Longrightarrow> takeWhile P (xs @ ys) = xs"
  by (cases ys) (auto simp: list_all_iff takeWhile_append)

lemma first_digits:
  assumes "list_all is_digit ds" "lo \<le> length ds" "length ds \<le> hi" "s = [] \<or> \<not> is_digit (hd s)"
  shows "first (digits_between lo hi) (ds @ s) ds s"
  using assms takeWhile_stop [of is_digit ds s] by (simp add: first_def digits_between_def Let_def min_absorb2)

lemma first_spaces:
  assumes "list_all is_space sp" "s = [] \<or> \<not> is_space (hd s)"
  shows "first spaces (sp @ s) () s"
  using takeWhile_stop [OF assms] by (simp add: first_def spaces_def)

lemma first_no_fraction: "s = [] \<or> hd s \<noteq> CHR ''.'' \<Longrightarrow> first fraction_group s None s"
  by (cases s) (auto simp: first_def fraction_group_def then_match_def literal_def)

text \<open>Minutes and seconds as a caller writes them.\<close>

definition two_digits :: "nat \<Rightarrow> string" where
  "two_digits n = [digit_char (int n div 10), digit_char (int n mod 10)]"

definition clock_string :: "nat \<Rightarrow> nat \<Rightarrow> string" where
  "clock_string m s = show_nat m @ '':'' @ two_digits s"

lemma two_digits_digits: "n < 100 \<Longrightarrow> list_all is_digit (two_digits n)"
  by (simp add: two_digits_def is_digit_digit_char)

lemma first_clock:
  assumes "m < 100" "s < 60" "t = [] \<or> \<not> is_digit (hd t) \<and> hd t \<noteq> CHR ''.''"
  shows "first clock_group (clock_string m s @ t) (show_nat m, two_digits s, None) t"
proof -
  have m: "list_all is_digit (show_nat m)" "1 \<le> length (show_nat m)" "length (show_nat m) \<le> 2"
    using assms(1) show_pos_digits length_show_pos [of "int m" 2] show_pos_not_Nil [of "int m"]
    by (simp_all add: show_nat_def Suc_leI)
  have s: "list_all is_digit (two_digits s)" "2 \<le> length (two_digits s)" "length (two_digits s) \<le> 2"
    using assms(2) two_digits_digits by (simp_all add: two_digits_def)
  have "first (digits_between 1 2) (show_nat m @ '':'' @ two_digits s @ t) (show_nat m) ('':'' @ two_digits s @ t)"
    using m by (rule first_digits) (simp add: is_digit_def cp_def)
  moreover have "first (digits_between 2 2) (two_digits s @ t) (two_digits s) t"
    using s by (rule first_digits) (use assms(3) in auto)
  moreover have "first fraction_group t None t" using assms(3) by (intro first_no_fraction) auto
  ultimately show ?thesis unfolding clock_group_def clock_string_def append_assoc
    by (blast intro: first_then first_matched first_literal)
qed

text \<open>The words between two times, with the spaces around them.\<close>

definition range_texts :: "string set" where
  "range_texts = {''-'', ''to'', ''until'', ''through''}"

lemma first_range:
  assumes "w \<in> range_texts" "s = [] \<or> hd s \<notin> set ''-tu''"
  shows "first range_word (w @ s) () s"
  using assms by (auto simp: range_texts_def first_def range_word_def literal_def)

lemma clock_string_start: "m < 100 \<Longrightarrow> clock_string m s \<noteq> [] \<and> is_digit (hd (clock_string m s))"
  using show_pos_digits [of "int m"] show_pos_not_Nil [of "int m"]
  by (cases "show_pos (int m)") (auto simp: clock_string_def show_nat_def)

lemma digit_no_space: "is_digit c \<Longrightarrow> \<not> is_space c"
  by (auto simp: is_digit_def is_space_def Let_def)

lemma first_window:
  assumes "m1 < 100" "s1 < 60" "m2 < 100" "s2 < 60" "w \<in> range_texts" "list_all is_space sp" "list_all is_space sp'"
    and "post = [] \<or> \<not> is_digit (hd post) \<and> hd post \<noteq> CHR ''.''"
  shows "first window_body (clock_string m1 s1 @ sp @ w @ sp' @ clock_string m2 s2 @ post)
    ((show_nat m1, two_digits s1, None), (show_nat m2, two_digits s2, None)) (drop 1 post)"
proof -
  let ?tail = "clock_string m2 s2 @ post"
  note c2 = clock_string_start [OF assms(3), of s2]
  have space: "\<not> is_digit c \<and> c \<noteq> CHR ''.'' \<and> c \<notin> set ''-tu''" if "is_space c" for c
    using that by (auto simp: is_space_def is_digit_def cp_def Let_def)
  have w: "w \<noteq> []" "\<not> is_space (hd w)" "\<not> is_digit (hd w) \<and> hd w \<noteq> CHR ''.''"
    using assms(5) by (auto simp: range_texts_def is_space_def is_digit_def cp_def Let_def)
  have "\<not> is_digit (hd (sp @ w @ sp' @ ?tail)) \<and> hd (sp @ w @ sp' @ ?tail) \<noteq> CHR ''.''"
    using w assms(6) space by (cases sp) auto
  then have a: "first clock_group (clock_string m1 s1 @ sp @ w @ sp' @ ?tail) (show_nat m1, two_digits s1, None) (sp @ w @ sp' @ ?tail)"
    by (intro first_clock assms) simp
  have b: "first spaces (sp @ w @ sp' @ ?tail) () (w @ sp' @ ?tail)" using w by (intro first_spaces assms) simp
  have "hd (sp' @ ?tail) \<notin> set ''-tu''"
    using c2 assms(7) space by (cases sp') (auto simp: is_digit_def cp_def)
  then have c: "first range_word (w @ sp' @ ?tail) () (sp' @ ?tail)" by (intro first_range assms) simp
  have d: "first spaces (sp' @ ?tail) () ?tail" using c2 digit_no_space by (intro first_spaces assms) simp
  have e: "first clock_group ?tail (show_nat m2, two_digits s2, None) post" by (intro first_clock assms)
  have f: "first non_digit_or_end post () (drop 1 post)"
    using assms(8) by (cases post) (auto simp: first_def non_digit_or_end_def)
  show ?thesis unfolding window_body_def
    by (rule first_then [OF a first_then [OF b first_then [OF c first_then [OF d first_then [OF e first_then [OF f first_matched]]]]]])
qed

lemma window_needs_digit: "\<not> is_digit c \<Longrightarrow> window_body (c # s) = []"
  by (simp add: window_body_def clock_group_def then_match_def digits_between_def)

lemma time_re_first:
  assumes "first window_body s a t" "list_all (\<lambda>c. \<not> is_digit c) pre"
  shows "time_re (pre @ s) = Some a"
proof -
  have "search_behind window_body (c # pre @ s) = Some a" if "\<not> is_digit c" for c
    using assms(2) that
  proof (induction pre arbitrary: c)
    case Nil
    then show ?case using assms(1) by (auto simp: first_def)
  next
    case (Cons d pre)
    then show ?case by (simp add: window_needs_digit)
  qed
  then show ?thesis using assms by (cases pre) (auto simp: time_re_def first_def window_needs_digit)
qed

lemma mmss_clock: "m < 100 \<Longrightarrow> s < 60 \<Longrightarrow> mmss (show_nat m, two_digits s, None) = of_nat (60 * m + s)"
proof -
  assume m: "m < 100" and s: "s < 60"
  have d: "(of_char (digit_char (int s div 10)) :: int) = 48 + int s div 10" "(of_char (digit_char (int s mod 10)) :: int) = 48 + int s mod 10"
    using s by (intro of_char_digit; simp)+
  have "int_of_digits (two_digits s) = int s"
    unfolding two_digits_def int_of_digits_def by (simp add: d)
  moreover have "int_of_digits (show_nat m) = int m" by (simp add: show_nat_def int_of_digits_show)
  moreover have "rnd53 (of_int (int m * 60 + int s)) = of_int (int m * 60 + int s)" using m s by (intro rnd53_of_int) simp
  ultimately show ?thesis by (simp add: mmss_def)
qed

text \<open>C38. A window written as two times with a hyphen or a word between them is read back exactly, wherever
  it stands in a question: after any text without digits and before anything that does not go on with a
  digit or a fraction.\<close>

theorem window_text_reads_back:
  assumes "m1 < 100" "s1 < 60" "m2 < 100" "s2 < 60" "60 * m1 + s1 < 60 * m2 + s2"
    and "w \<in> range_texts" "list_all is_space sp" "list_all is_space sp'" "list_all (\<lambda>c. \<not> is_digit c) pre"
    and "post = [] \<or> \<not> is_digit (hd post) \<and> hd post \<noteq> CHR ''.''"
  shows "parse_window_from_text (pre @ clock_string m1 s1 @ sp @ w @ sp' @ clock_string m2 s2 @ post)
    = Some (of_nat (60 * m1 + s1), of_nat (60 * m2 + s2))"
proof -
  have "time_re (pre @ clock_string m1 s1 @ sp @ w @ sp' @ clock_string m2 s2 @ post)
      = Some ((show_nat m1, two_digits s1, None), (show_nat m2, two_digits s2, None))"
    by (rule time_re_first [OF first_window]) (use assms in auto)
  moreover have "(of_nat (60 * m1 + s1) :: rat) < of_nat (60 * m2 + s2)" using assms(5) by (simp only: of_nat_less_iff)
  ultimately show ?thesis using assms by (simp add: parse_window_from_text_def mmss_clock)
qed

section \<open>The two slots\<close>

text \<open>C35. At most two analyses run at a time, whatever callers do: a slot is free exactly while its analysis is
  not running, a call is refused exactly when both are taken, and a caller that goes away leaves its
  analysis in its slot.\<close>

theorem two_analyses:
  assumes "desk_reaches s"
  shows "finite (dk_tasks s) \<and> card (dk_tasks s) + dk_free s = 2 \<and> dk_callers s \<subseteq> dk_tasks s
    \<and> (\<forall>r s' refused. desk_step s (Calls r) = Some (s', refused) \<longrightarrow>
         (refused \<noteq> None \<longleftrightarrow> card (dk_tasks s) = 2) \<and> (refused \<noteq> None \<longrightarrow> s' = s))
    \<and> (\<forall>r s' refused. desk_step s (CallerGone r) = Some (s', refused) \<longrightarrow> dk_tasks s' = dk_tasks s \<and> dk_free s' = dk_free s)"
proof -
  have inv: "finite (dk_tasks s) \<and> card (dk_tasks s) + dk_free s = 2 \<and> dk_callers s \<subseteq> dk_tasks s"
    using assms
  proof (induction rule: desk_reaches.induct)
    case desk_start
    then show ?case by (simp add: empty_desk_def slots_def)
  next
    case (desk_next s ev s' refused)
    then show ?case
      by (cases ev) (auto split: if_splits simp: card_Diff_singleton card_gt_0_iff dest: card_Suc_Diff1)
  qed
  then show ?thesis by (auto split: if_splits)
qed

end
