(* ===== verification/Hear_Bounds.thy ===== *)
theory Hear_Bounds
  imports Hear_Dsp Hear_Run "HOL-Library.Multiset"
begin

text \<open>
  Bounds of the hearing tool: the boundaries between sections are few, in order, inside the clip and
  apart, and pruning leaves few artifacts, the newest ones.
\<close>

section \<open>Rounding is monotone\<close>

lemma rnd53_minus: "rnd53 (- x) = - rnd53 x"
  by (simp add: rnd53_def Let_def sgn_minus)

lemma rnd53_mono: "x \<le> y \<Longrightarrow> rnd53 x \<le> rnd53 y"
proof -
  assume le: "x \<le> y"
  consider "0 < x" | "x \<le> 0" "0 \<le> y" | "y < 0" by linarith
  then show ?thesis
  proof cases
    case 1
    then show ?thesis using le by (rule rnd53_mono_pos)
  next
    case 2
    then show ?thesis using rnd53_nonneg [of "- x"] rnd53_nonneg [of y] by (simp add: rnd53_minus)
  next
    case 3
    then show ?thesis using rnd53_mono_pos [of "- y" "- x"] le by (simp add: rnd53_minus)
  qed
qed

lemma round_to_mono: "x \<le> y \<Longrightarrow> round_to n x \<le> round_to n y"
  unfolding round_to_def
  by (intro rnd53_mono divide_right_mono) (simp_all add: round_even_mono)

section \<open>Boundaries\<close>

text \<open>The peaks that are kept lie inside the clip, and any two of them are apart.\<close>

definition apart :: "rat \<Rightarrow> rat \<Rightarrow> rat set \<Rightarrow> bool" where
  "apart gap dur B = ((\<forall>b\<in>B. 1 < b \<and> b < rnd53 (dur - 1)) \<and> (\<forall>a\<in>B. \<forall>b\<in>B. a < b \<longrightarrow> gap \<le> rnd53 (b - a)))"

lemma apart_subset: "apart gap dur B \<Longrightarrow> A \<subseteq> B \<Longrightarrow> apart gap dur A"
  unfolding apart_def by blast

lemma apart_snoc:
  assumes "apart gap dur (set kept)" "sorted kept" "kept = [] \<or> gap \<le> rnd53 (b - last kept)" "1 < b" "b < rnd53 (dur - 1)"
    and "\<forall>a\<in>set kept. a \<le> b"
  shows "apart gap dur (set (kept @ [b]))"
proof -
  have "gap \<le> rnd53 (b - a)" if a: "a \<in> set kept" for a
  proof -
    have "a \<le> last kept" using a assms(2) by (cases kept rule: rev_cases) (auto simp: sorted_append)
    then have "rnd53 (b - last kept) \<le> rnd53 (b - a)" by (intro rnd53_mono) simp
    moreover have "gap \<le> rnd53 (b - last kept)" using a assms(3) by auto
    ultimately show ?thesis by linarith
  qed
  moreover have "\<not> b < a" if "a \<in> set kept" for a using that assms(6) by (simp add: leD)
  ultimately show ?thesis using assms unfolding apart_def by auto
qed

lemma keep_spaced_apart:
  "sorted (kept @ bs) \<Longrightarrow> apart gap dur (set kept)
    \<Longrightarrow> sorted (keep_spaced gap dur kept bs) \<and> apart gap dur (set (keep_spaced gap dur kept bs))"
proof (induction gap dur kept bs rule: keep_spaced.induct)
  case (1 gap dur kept)
  then show ?case by simp
next
  case (2 gap dur kept b bs)
  show ?case
  proof (cases "1 < b \<and> b < rnd53 (dur - 1) \<and> (kept = [] \<or> gap \<le> rnd53 (b - last kept))")
    case True
    have "apart gap dur (set (kept @ [b]))" using 2(3,4) True by (intro apart_snoc) (auto simp: sorted_append)
    then show ?thesis using 2 True by simp
  next
    case False
    then have "keep_spaced gap dur kept (b # bs) = keep_spaced gap dur kept bs" by (simp only: keep_spaced.simps if_False)
    moreover have "sorted (kept @ bs)" using 2(3) by (auto simp: sorted_append)
    ultimately show ?thesis using 2(2) [OF False _ 2(4)] by simp
  qed
qed

lemma strongest_bounds:
  "length (strongest st kept) \<le> 10" "sorted (strongest st kept)" "set (strongest st kept) \<subseteq> set kept"
  using set_take_subset [of 10 "sort_key (\<lambda>b. - st b) kept"] by (auto simp: strongest_def)

lemma kept_boundaries_facts:
  "length (kept_boundaries cf novelty ts peaks dur) \<le> 10 \<and> sorted (kept_boundaries cf novelty ts peaks dur)
    \<and> apart (cf_min_segment cf) dur (set (kept_boundaries cf novelty ts peaks dur))"
proof -
  let ?raw = "sort (map (clipped ts) peaks)"
  have "sorted (keep_spaced (cf_min_segment cf) dur [] ?raw)
      \<and> apart (cf_min_segment cf) dur (set (keep_spaced (cf_min_segment cf) dur [] ?raw))"
    by (rule keep_spaced_apart) (simp_all add: apart_def)
  moreover have "apart gap d {}" for gap d by (simp add: apart_def)
  ultimately show ?thesis
    using strongest_bounds [of "peak_strength ts novelty peaks" "keep_spaced (cf_min_segment cf) dur [] ?raw"]
    by (auto simp: kept_boundaries_def Let_def intro: apart_subset)
qed

text \<open>C39. Whatever peaks are found, at most ten boundaries are reported, in order; the peaks behind them lie
  more than a second inside the clip, and any two of them are the least segment apart, also when the
  strongest ten are chosen out of more.\<close>

theorem boundaries_in_clip:
  "length (detect_boundaries cf novelty ts peaks dur) \<le> 10 \<and> sorted (detect_boundaries cf novelty ts peaks dur)
    \<and> (\<exists>kept. detect_boundaries cf novelty ts peaks dur = map (round_to 2) kept
         \<and> (\<forall>b\<in>set kept. 1 < b \<and> b < rnd53 (dur - 1))
         \<and> (\<forall>a\<in>set kept. \<forall>b\<in>set kept. a < b \<longrightarrow> cf_min_segment cf \<le> rnd53 (b - a)))"
proof -
  have "sorted (map (round_to 2) xs)" if "sorted xs" for xs
    using that by (simp add: sorted_map sorted_wrt_mono_rel [OF _ that] round_to_mono)
  then show ?thesis
    using kept_boundaries_facts [of cf novelty ts peaks dur] unfolding detect_boundaries_def apart_def by auto
qed

section \<open>Sections\<close>

lemma rnd53_unit_values [simp]: "rnd53 0 = 0" "rnd53 1 = 1"
  using rnd53_of_int [of 0] rnd53_of_int [of 1] by simp_all

lemma round_to_range: "0 \<le> x \<Longrightarrow> 0 \<le> round_to n x" "x \<le> 1 \<Longrightarrow> round_to n x \<le> 1"
proof -
  have "round_to n 0 = 0" "round_to n 1 = 1"
    using round_even_of_int [of 0] round_even_of_int [of "10 ^ n"] by (simp_all add: round_to_def)
  then show "0 \<le> x \<Longrightarrow> 0 \<le> round_to n x" "x \<le> 1 \<Longrightarrow> round_to n x \<le> 1"
    using round_to_mono [of 0 x n] round_to_mono [of x 1 n] by simp_all
qed

lemma length_sections: "length (sections_of rms edges) = length edges - 1"
  by (simp add: sections_of_def Let_def)

lemma sections_nth:
  assumes "i < length edges - 1"
  shows "sn_start (sections_of rms edges ! i) = round_to 2 (edges ! i) \<and> sn_end (sections_of rms edges ! i) = round_to 2 (edges ! Suc i)"
  using assms by (simp add: sections_of_def Let_def nth_butlast nth_tl)

lemma foldr_max_upper: "e \<in> set es \<Longrightarrow> e \<le> foldr max es (0 :: rat)" "0 \<le> foldr max es (0 :: rat)"
  by (induction es) (auto simp: le_max_iff_disj)

lemma section_rel:
  assumes "s \<in> set (sections_of rms edges)" "\<forall>a b. 0 \<le> rms a b"
  shows "0 \<le> sn_rel s \<and> sn_rel s \<le> 1"
proof -
  define es where "es = map (\<lambda>(a, b). round_to 4 (rms a b)) (zip (butlast edges) (tl edges))"
  define mx where "mx = (if foldr max es 0 = 0 then 1 else foldr max es 0)"
  from assms(1) obtain e where e: "e \<in> set es" "sn_rel s = round_to 3 (rnd53 (e / mx))"
    by (auto simp: sections_of_def Let_def es_def mx_def dest: set_zip_rightD)
  have "0 \<le> e" using e(1) assms(2) round_to_range(1) by (auto simp: es_def)
  moreover have "e \<le> foldr max es 0" "0 < mx" using foldr_max_upper(1) [OF e(1)] foldr_max_upper(2) [of es] by (auto simp: mx_def less_le)
  ultimately have "0 \<le> e / mx" "e / mx \<le> 1" by (auto simp: mx_def pos_divide_le_eq)
  then have "0 \<le> rnd53 (e / mx)" "rnd53 (e / mx) \<le> 1" using rnd53_mono [of 0 "e / mx"] rnd53_mono [of "e / mx" 1] by simp_all
  then show ?thesis unfolding e(2) by (simp add: round_to_range)
qed

text \<open>The sections that are reported tile the clip: each starts where the one before it ends, they are at
  most eleven, their times are in order, and their relative energies lie between zero and one.\<close>

theorem sections_tile:
  assumes "\<forall>a b. 0 \<le> rms a b" "S = sections_of rms (section_edges (detect_boundaries cf novelty ts peaks dur) dur)"
  shows "length S \<le> 11 \<and> (\<forall>i. Suc i < length S \<longrightarrow> sn_start (S ! Suc i) = sn_end (S ! i))
    \<and> (\<forall>s\<in>set S. sn_start s \<le> sn_end s \<and> 0 \<le> sn_rel s \<and> sn_rel s \<le> 1)"
proof -
  let ?B = "detect_boundaries cf novelty ts peaks dur"
  let ?es = "section_edges ?B dur"
  have "length ?B \<le> 10" using kept_boundaries_facts by (simp add: detect_boundaries_def)
  then have "card (set (0 # dur # ?B)) \<le> 12" using card_length [of "0 # dur # ?B"] by simp
  then have "length ?es \<le> 12" by (simp only: section_edges_def sorted_list_of_set.length_sorted_key_list_of_set)
  then have few: "length S \<le> 11" by (simp add: assms(2) length_sections)
  have order: "sn_start s \<le> sn_end s" if s: "s \<in> set S" for s
  proof -
    from s obtain i where i: "i < length ?es - 1" "s = S ! i" by (auto simp: in_set_conv_nth assms(2) length_sections)
    have "sorted ?es" unfolding section_edges_def by (rule sorted_sorted_list_of_set)
    then have "?es ! i \<le> ?es ! Suc i" using i(1) by (intro sorted_nth_mono) simp_all
    then show ?thesis using sections_nth [OF i(1), of rms] by (simp add: i(2) assms(2) round_to_mono)
  qed
  have "sn_start (S ! Suc i) = sn_end (S ! i)" if "Suc i < length S" for i
    using that sections_nth [of i ?es rms] sections_nth [of "Suc i" ?es rms] by (simp add: assms(2) length_sections)
  with few order section_rel [OF _ assms(1)] show ?thesis unfolding assms(2) by blast
qed

section \<open>Pruning\<close>

lemma newest_first_sorted: "sorted_wrt (\<lambda>a b. de_mtime b \<le> de_mtime a) (newest_first es)"
proof -
  have "sorted (map de_mtime (sort_key de_mtime xs))" for xs by simp
  then show ?thesis by (simp add: newest_first_def sorted_wrt_rev sorted_map)
qed

lemma set_newest_first: "set (newest_first es) = {e \<in> set es. artifact_name (de_name e) \<and> de_regular e}"
  by (auto simp: newest_first_def)

lemma length_filter_newest_first:
  "length (filter Q (newest_first es)) = length (filter (\<lambda>e. (artifact_name (de_name e) \<and> de_regular e) \<and> Q e) es)"
proof -
  have "mset (newest_first es) = mset (filter (\<lambda>e. artifact_name (de_name e) \<and> de_regular e) es)"
    unfolding newest_first_def by (simp only: mset_rev mset_sort)
  then have "mset (filter Q (newest_first es)) = mset (filter Q (filter (\<lambda>e. artifact_name (de_name e) \<and> de_regular e) es))"
    by (simp only: mset_filter)
  then show ?thesis using arg_cong [of _ _ size] by (fastforce simp: conj_commute simp flip: size_mset)
qed

lemma pruned_iff:
  "n \<in> set (prune_artifacts cf t es) \<longleftrightarrow>
     (\<exists>i < length (newest_first es). n = de_name (newest_first es ! i)
        \<and> (cf_artifacts cf \<le> int i \<or> of_int (cf_ttl cf) < rnd53 (t - de_mtime (newest_first es ! i))))"
  by (force simp: prune_artifacts_def in_set_enumerate_eq image_iff)

definition left_over :: "hear_config \<Rightarrow> rat \<Rightarrow> dir_entry list \<Rightarrow> dir_entry list" where
  "left_over cf t es =
     filter (\<lambda>e. artifact_name (de_name e) \<and> de_regular e \<and> de_name e \<notin> set (prune_artifacts cf t es)) es"

lemma left_over_few: "0 \<le> cf_artifacts cf \<Longrightarrow> length (left_over cf t es) \<le> nat (cf_artifacts cf)"
proof -
  assume pos: "0 \<le> cf_artifacts cf"
  define Q where "Q = (\<lambda>e :: dir_entry. de_name e \<notin> set (prune_artifacts cf t es))"
  let ?nf = "newest_first es" and ?k = "nat (cf_artifacts cf)"
  have "length (left_over cf t es) = length (filter Q ?nf)"
    by (simp add: left_over_def Q_def length_filter_newest_first conj_assoc)
  also have "\<dots> = length (filter Q (take ?k ?nf)) + length (filter Q (drop ?k ?nf))"
    by (metis append_take_drop_id filter_append length_append)
  also have "filter Q (drop ?k ?nf) = []"
  proof -
    have "\<not> Q e" if "e \<in> set (drop ?k ?nf)" for e
    proof -
      from that obtain j where "j < length ?nf - ?k" "e = ?nf ! (?k + j)" by (auto simp: in_set_conv_nth)
      then show ?thesis using pos unfolding Q_def pruned_iff by (auto intro!: exI [of _ "?k + j"])
    qed
    then show ?thesis by (simp add: filter_empty_conv)
  qed
  finally show ?thesis using length_filter_le [of Q "take ?k ?nf"] by simp
qed

lemma left_over_at:
  assumes "e \<in> set (left_over cf t es)"
  obtains i where "i < length (newest_first es)" "e = newest_first es ! i" "int i < cf_artifacts cf"
    "rnd53 (t - de_mtime e) \<le> of_int (cf_ttl cf)"
proof -
  have "e \<in> set (newest_first es)" and not: "de_name e \<notin> set (prune_artifacts cf t es)"
    using assms by (auto simp: left_over_def set_newest_first)
  then obtain i where i: "i < length (newest_first es)" "e = newest_first es ! i" by (auto simp: in_set_conv_nth)
  with not show thesis by (intro that [of i]) (auto simp: pruned_iff not_le not_less)
qed

lemma pruned_at:
  assumes "distinct (map de_name es)" "e \<in> set es" "de_name e \<in> set (prune_artifacts cf t es)"
  obtains i where "i < length (newest_first es)" "e = newest_first es ! i"
    "cf_artifacts cf \<le> int i \<or> of_int (cf_ttl cf) < rnd53 (t - de_mtime e)"
proof -
  from assms(3) obtain i where i: "i < length (newest_first es)" "de_name e = de_name (newest_first es ! i)"
      "cf_artifacts cf \<le> int i \<or> of_int (cf_ttl cf) < rnd53 (t - de_mtime (newest_first es ! i))"
    unfolding pruned_iff by blast
  have "newest_first es ! i \<in> set es" using nth_mem [OF i(1)] set_newest_first by auto
  with assms(1,2) i(2) have "e = newest_first es ! i" by (auto simp: distinct_map inj_on_def)
  with i that show thesis by auto
qed

lemma pruned_older:
  assumes "distinct (map de_name es)" "e \<in> set es" "de_name e \<in> set (prune_artifacts cf t es)" "e' \<in> set (left_over cf t es)"
  shows "de_mtime e \<le> de_mtime e'"
proof -
  from assms(1-3) obtain i where i: "i < length (newest_first es)" "e = newest_first es ! i"
    "cf_artifacts cf \<le> int i \<or> of_int (cf_ttl cf) < rnd53 (t - de_mtime e)" by (rule pruned_at)
  from assms(4) obtain j where j: "j < length (newest_first es)" "e' = newest_first es ! j" "int j < cf_artifacts cf"
    "rnd53 (t - de_mtime e') \<le> of_int (cf_ttl cf)" by (rule left_over_at)
  have "rnd53 (t - de_mtime e) \<le> rnd53 (t - de_mtime e')" if "de_mtime e' < de_mtime e"
    using that by (intro rnd53_mono) simp
  moreover have "de_mtime e \<le> de_mtime e'" if "j < i"
    using that newest_first_sorted [of es] i j by (auto simp: sorted_wrt_iff_nth_less)
  ultimately show ?thesis using i(3) j(3,4) by linarith
qed

text \<open>C40. After pruning, at most the configured number of artifacts is left, none past its age, and only
  files that are artifacts were removed, none of them newer than one that is left.\<close>

theorem pruning_bounded:
  assumes "0 \<le> cf_artifacts cf" "distinct (map de_name es)"
  shows "length (left_over cf t es) \<le> nat (cf_artifacts cf)
    \<and> (\<forall>e\<in>set (left_over cf t es). rnd53 (t - de_mtime e) \<le> of_int (cf_ttl cf))
    \<and> (\<forall>e\<in>set es. de_name e \<in> set (prune_artifacts cf t es) \<longrightarrow>
         artifact_name (de_name e) \<and> de_regular e \<and> (\<forall>e'\<in>set (left_over cf t es). de_mtime e \<le> de_mtime e'))"
proof (intro conjI ballI impI)
  show "length (left_over cf t es) \<le> nat (cf_artifacts cf)" using assms(1) by (rule left_over_few)
  show "rnd53 (t - de_mtime e) \<le> of_int (cf_ttl cf)" if "e \<in> set (left_over cf t es)" for e
    using that by (rule left_over_at)
next
  fix e
  assume e: "e \<in> set es" "de_name e \<in> set (prune_artifacts cf t es)"
  from pruned_at [OF assms(2) e] have "e \<in> set (newest_first es)" by (metis nth_mem)
  then show "artifact_name (de_name e)" "de_regular e" by (simp_all add: set_newest_first)
  show "de_mtime e \<le> de_mtime e'" if "e' \<in> set (left_over cf t es)" for e'
    using assms(2) e that by (rule pruned_older)
qed

end
