(* ===== verification/Hear_Examples.thy ===== *)
theory Hear_Examples
  imports Hear_Limits Hear_Bounds
begin

text \<open>
  Concrete uses of the hearing tool: a request with a window and interpretation, a local file, a remote
  fetch, three callers, and the instances of the properties on them.
\<close>

section \<open>An operator, a request and its run\<close>

definition demo_operator :: hear_config where
  "demo_operator =
     \<lparr>cf_port = 8230, cf_host = ''127.0.0.1'', cf_upstream_url = ''http://127.0.0.1:8100'', cf_model = ''some/model'',
      cf_key_env = ''KEY'', cf_artifact_dir = ''/tmp/a'', cf_delivery = ''inline'', cf_analysis = 300, cf_upstream_bytes = 100,
      cf_ttl = 3600, cf_artifacts = 1, cf_silence = 0, cf_flatness = 0, cf_min_segment = 4, cf_key_margin = 0, cf_workers = 2,
      cf_request_bytes = 100, cf_input_bytes = 100, cf_download_bytes = 4, cf_ffmpeg_timeout = 120, cf_ffprobe_timeout = 30,
      cf_download_timeout = 60, cf_dirs = [''/music''], cf_local = True, cf_fetch = True, cf_models = [''other/model''],
      cf_interpret = False\<rparr>"

definition demo_body :: pyval where
  "demo_body = PDict
     [(''messages'', PList [PDict [(''role'', PStr ''user''), (''content'',
         PList [PStr ''what is it'', PDict [(''type'', PStr ''input_audio''),
           (''input_audio'', PDict [(''data'', PStr ''AAAA''), (''format'', PStr ''wav'')])]])]]),
      (''hear'', PDict [(''start'', PInt 2), (''end'', PInt 5), (''interpret'', PBool True), (''model'', PStr ''other/model'')])]"

definition song_request :: hear_request where
  "song_request =
     \<lparr>rq_audio = [(''data'', PStr ''AAAA''), (''format'', PStr ''wav'')], rq_query = ''what is it'', rq_window = Some (2, 5),
      rq_interpret = True, rq_image = True, rq_delivery = ''inline'', rq_model = ''other/model''\<rparr>"

lemma demo_messages:
  "read_messages [(''messages'', PList [PDict [(''role'', PStr ''user''), (''content'',
         PList [PStr ''what is it'', PDict [(''type'', PStr ''input_audio''),
           (''input_audio'', PDict [(''data'', PStr ''AAAA''), (''format'', PStr ''wav'')])]])]]), h]
    = Inr ([(''data'', PStr ''AAAA''), (''format'', PStr ''wav'')], ''what is it'')"
  by (simp add: read_messages_def or_else_def collect_message_def collect_parts_def collect_part_def from_input_audio_def
      audio_part_def get_none_def get_default_def has_key_def py_strip_def is_space_def cp_def)

lemma demo_float: "to_float 2 = PFloat 2" "to_float 5 = PFloat 5"
  using rnd53_of_int [of 2] rnd53_of_int [of 5] by (simp_all add: to_float_def max_finite_def Let_def)

lemma demo_directive:
  "read_directive demo_operator [(''start'', PInt 2), (''end'', PInt 5), (''interpret'', PBool True), (''model'', PStr ''other/model'')]
     [(''data'', PStr ''AAAA''), (''format'', PStr ''wav'')] ''what is it'' = Inr song_request"
  by (simp add: read_directive_def directive_window_def seconds_of_def demo_float chosen_window_def bool_field_def read_delivery_def
      choose_model_def image_deliveries_def self_model_ids_def get_none_def get_default_def demo_operator_def song_request_def)

lemma hear_accepted: "read_request demo_operator (\<lambda>_. Some demo_body) None [Chunk ''{}''] = Inr song_request"
  using demo_messages demo_directive
  by (simp add: read_request_def declared_length_def demo_operator_def read_document_def demo_body_def schema_wanted_def
      or_else_def get_none_def)

lemma demo_planned:
  "\<exists>pl. plan_run demo_operator ''/tmp/w'' song_request src 10 = Inr pl
     \<and> (''other/model'', Cut, PStr ''mp3'', ''what is it'') \<in> set (uploads song_request pl)"
  using rnd53_of_int [of 302]
  by (simp add: plan_run_def analysis_window_def needs_cut_def demo_operator_def song_request_def uploads_def
      self_model_ids_def upstream_query_def py_strip_def is_space_def cp_def Let_def)


section \<open>A local file and a remote one\<close>

lemma hear_resolved:
  "resolve_local_audio_path demo_operator (\<lambda>_. ''/music/a.wav'') (\<lambda>_. True) (PStr ''a.wav'') = Inr ''/music/a.wav''"
  by (simp add: resolve_local_audio_path_def demo_operator_def) code_simp

lemma music_normal: "abs_normal ''/music/a.wav''"
  unfolding abs_normal_def
  by (rule exI [of _ 1], rule exI [of _ "[''music'', ''a.wav'']"]) (simp add: norm_root_def plain_comp_def)

theorem local_path_confined_witness:
  "\<exists>ws. list_all plain_comp ws \<and> ref_parts ''/music/a.wav'' = ref_parts ''/music'' @ ws"
  using local_path_confined [OF _ hear_resolved] music_normal by (simp add: demo_operator_def)

definition public_flags :: ip_flags where
  "public_flags = \<lparr>ip_global = True, ip_private = False, ip_loopback = False, ip_link_local = False,
     ip_reserved = False, ip_multicast = False, ip_unspecified = False\<rparr>"

definition demo_network :: network where
  "demo_network =
     \<lparr>nt_split = (\<lambda>s. Some \<lparr>u_scheme = ''https'', u_user = None, u_password = None, u_host = Some ''a.org'', u_port = Inr None\<rparr>),
      nt_lookup = (\<lambda>_ _ _. Some [IPv4 public_flags]), nt_connects = (\<lambda>_. True),
      nt_answer = Body (\<lambda>i. (of_nat i, Got (if i = 0 then ''RI'' else []))), nt_start = 0\<rparr>"

lemma demo_fetched: "fetch_remote 6 demo_operator demo_network (PStr ''https://a.org/x'') = (Some (Inr ''RI''), [IPv4 public_flags])"
  by (simp add: fetch_remote_def validate_remote_url_def demo_operator_def demo_network_def opt_true_def public_flags_def
      flags_allowed_def download_url_def public_connection_def download_round_def eval_nat_numeral)

theorem remote_fetch_confined_witness: "ip_global (flags_of (IPv4 public_flags)) \<and> cf_fetch demo_operator"
  using remote_fetch_confined [OF demo_fetched] by simp

section \<open>A measured answer\<close>

definition demo_outside :: outside where
  "demo_outside =
     \<lparr>os_probe = Exited 0 ''10'', os_cut = Exited 0 [], os_model_cut = Exited 0 [], os_probe_cut = Exited 0 ''3'',
      os_dsp = Inr [(''abstain'', PBool True), (''reason'', PStr ''silence'')],
      os_render = Inr \<lparr>rd_ok = False, rd_id = [], rd_ms = 0, rd_png = []\<rparr>, os_reply = None, os_base = ''http://h''\<rparr>"

lemma demo_ends:
  "probe_duration (os_probe demo_outside) = Inr 10" "probe_duration (os_probe_cut demo_outside) = Inr 3"
  "ffmpeg (os_cut demo_outside) = Inr ()" "ffmpeg (os_model_cut demo_outside) = Inr ()"
proof -
  have "show_int 10 = ''10''" "show_int 3 = ''3''" by code_simp+
  then have "parse_float ''10'' = Some (PFloat 10)" "parse_float ''3'' = Some (PFloat 3)"
    using parse_float_show_int [of 10] parse_float_show_int [of 3] by simp_all
  then show "probe_duration (os_probe demo_outside) = Inr 10" "probe_duration (os_probe_cut demo_outside) = Inr 3"
    by (simp_all add: demo_outside_def probe_duration_def)
qed (simp_all add: demo_outside_def ffmpeg_def)

lemma demo_fan:
  "\<exists>img up. fan_out demo_operator loads demo_outside song_request
     = Inr ([(''abstain'', PBool True), (''reason'', PStr ''silence'')], img, up)"
  by (simp add: fan_out_def raised_def demo_outside_def song_request_def call_upstream_def self_model_ids_def)

lemma demo_run:
  "\<exists>an. hear_run demo_operator loads ''/tmp/w'' demo_outside song_request src = Inr an
     \<and> an_dsp an = [(''abstain'', PBool True), (''reason'', PStr ''silence'')]"
proof -
  obtain pl where pl: "plan_run demo_operator ''/tmp/w'' song_request src 10 = Inr pl" using demo_planned by blast
  have cut: "(case pl_cut pl of None \<Rightarrow> Inr () | Some _ \<Rightarrow> ffmpeg (os_model_cut demo_outside)) = Inr ()"
    by (simp add: demo_ends split: option.split)
  show ?thesis using demo_fan [of loads] by (auto simp: hear_run_def demo_ends(1-3) pl cut Let_def)
qed

theorem generated_text_is_grounded_witness:
  "\<exists>an. hear_run demo_operator (\<lambda>_. None) ''/tmp/w'' demo_outside song_request (Written ''audio.wav'' ''RIFF'') = Inr an
     \<and> interpretation_text (an_interpretation an) = ''*no interpretation returned*''"
proof -
  obtain an where an: "hear_run demo_operator (\<lambda>_. None) ''/tmp/w'' demo_outside song_request (Written ''audio.wav'' ''RIFF'') = Inr an"
      "an_dsp an = [(''abstain'', PBool True), (''reason'', PStr ''silence'')]" using demo_run by blast
  then have "non_musical (an_dsp an)" by (simp add: non_musical_def get_none_def)
  with an(1) generated_text_is_grounded [OF an(1)] show ?thesis by blast
qed

lemma demo_source:
  "chat_source demo_operator realpath is_file bytes_on_disk nt song_request = Inr (Written ''audio.wav'' (replicate 3 (CHR 0x00)))"
proof -
  have "b64decode ''AAAA'' = Some (replicate 3 (CHR 0x00))" "validate_audio_format (PStr ''wav'') = Inr ''wav''" by code_simp+
  then show ?thesis by (simp add: chat_source_def resolve_source_def song_request_def get_none_def demo_operator_def)
qed

theorem answered_within_limits_witness:
  "\<exists>an. hear_chat demo_operator (\<lambda>_. Some demo_body) (\<lambda>_. ''/music/a.wav'') (\<lambda>_. True) (\<lambda>_. 0) demo_network ''/tmp/w'' demo_outside
      None [Chunk ''{}''] = Inr an \<and> snd (an_window an) \<le> rnd53 (fst (an_window an) + 300)"
proof -
  obtain an where an: "hear_chat demo_operator (\<lambda>_. Some demo_body) (\<lambda>_. ''/music/a.wav'') (\<lambda>_. True) (\<lambda>_. 0) demo_network ''/tmp/w''
      demo_outside None [Chunk ''{}''] = Inr an"
    using demo_run by (fastforce simp: hear_chat_def hear_accepted demo_source)
  have "\<forall>s. abs_normal ((\<lambda>_. ''/music/a.wav'') s)" by (simp add: music_normal)
  from answered_within_limits [OF this an] an show ?thesis by (auto simp: demo_operator_def)
qed

section \<open>Refusals, windows, callers\<close>


theorem window_text_reads_back_witness:
  "parse_window_from_text (''solo at '' @ clock_string 1 5 @ '' '' @ ''to'' @ '' '' @ clock_string 1 30 @ ''?'') = Some (65, 90)"
  using window_text_reads_back [of 1 5 1 30 "''to''" "'' ''" "'' ''" "''solo at ''" "''?''"]
  by (simp add: range_texts_def is_space_def is_digit_def cp_def)

theorem two_analyses_witness:
  "\<exists>s. desk_reaches s \<and> card (dk_tasks s) = 2 \<and> dk_free s = 0"
proof -
  let ?s1 = "\<lparr>dk_free = 1, dk_tasks = {1}, dk_callers = {1}\<rparr>"
  let ?s2 = "\<lparr>dk_free = 0, dk_tasks = {2, 1}, dk_callers = {2, 1}\<rparr>"
  have "desk_reaches ?s1" by (rule desk_next [OF desk_start, of "Calls 1"]) (simp add: empty_desk_def slots_def)
  then have "desk_reaches ?s2" by (rule desk_next [where ev = "Calls 2"]) simp
  from this two_analyses [OF this] show ?thesis by (intro exI [of _ ?s2]) simp
qed

theorem boundaries_in_clip_witness:
  "length (detect_boundaries demo_operator [1, 2, 3, 4, 5] [2, 4, 9] [0, 1, 2] 20) \<le> 10"
  using boundaries_in_clip by blast

theorem sections_tile_witness:
  "length (sections_of (\<lambda>a b. 1) (section_edges (detect_boundaries demo_operator [1, 2, 3, 4, 5] [2, 4, 9] [0, 1, 2] 20) 20)) \<le> 11"
  using sections_tile [of "\<lambda>a b. 1", OF _ refl] by simp

definition demo_directory :: "dir_entry list" where
  "demo_directory =
     [\<lparr>de_name = ''0123456789ab-012345.png'', de_regular = True, de_mtime = 10\<rparr>,
      \<lparr>de_name = ''0123456789ab-abcdef.png'', de_regular = True, de_mtime = 20\<rparr>]"

theorem pruning_bounded_witness: "length (left_over demo_operator 30 demo_directory) \<le> 1"
  using pruning_bounded [of demo_operator demo_directory 30] by (simp add: demo_operator_def demo_directory_def)

end
