(* ===== verification/Spec2Isabelle.thy ===== *)
theory Spec2Isabelle
  imports Jobs_Safety Graph_Props Graph_Errors Server_Safety Ltx_Headers Ltx_Examples Hear_Examples
begin

text \<open>
  LLooM serves local models behind one gateway. The gateway is written in JavaScript; each family of
  models runs behind a small Python server of its own under \<open>backends/\<close>. This development covers the
  three Python servers with logic of their own: the media bridge (\<open>backends/comfyui-media\<close>), which
  turns image, video and music requests into ComfyUI graphs and runs them one at a time; the
  LTX-2.5 video server (\<open>backends/ltx-pipelines\<close>), which turns a video request into the command line of
  a pinned pipeline; and the hearing tool (\<open>backends/hear\<close>), which measures a piece of audio and may have
  another model describe it.

  \<^bold>\<open>How the parts interact.\<close> A request enters the bridge through an endpoint of \<open>server.py\<close>, is read
  by \<open>requests_in.py\<close> (bounded body, JSON or multipart form, inline media), normalised and turned into a
  graph by \<open>graphs.py\<close>, and handed to the runner of \<open>jobs.py\<close>. The runner owns the one slot of the
  media backend: it submits the graph through \<open>comfy_client.py\<close>, polls the history, downloads the
  artifact, checks it with \<open>media.py\<close> and deletes it. When a call ends in an unknown state a
  reaper keeps the slot until the job is proved terminal, or the slot stays quarantined. In the LTX
  server \<open>pipelines.parse_generation\<close> validates a request, \<open>resolve_assets\<close> finds the component files
  and \<open>build_argv\<close> makes the argument list of the subprocess; \<open>server.generate\<close> then holds the one lock of
  the runtime, ends what the worker must not keep, starts the subprocess or gives the warm worker a line,
  watches the run, and answers with the file it wrote. The hearing tool admits two analyses at a time,
  reads the audio part, the question and the directive of a chat request, gets the audio (inline, from an
  opened directory, or by a confined fetch), cuts the window to analyse, and answers with the measurement,
  the dashboard, and the interpretation if the measurement supports one.

  \<^bold>\<open>Theories of the Python base.\<close>
  \<^item> \<open>Py_Prelude\<close>: JSON values, exceptions, results, loops with early exit, and the collections of
    hints (\<open>fails\<close> and \<open>errs\<close> rules) that carry the error proofs.
  \<^item> \<open>Py_Text\<close>, \<open>Py_Digits\<close>, \<open>Py_Base64\<close>, \<open>Py_Json\<close>, \<open>Py_Path\<close>: strings, decimal texts, strict
    Base64, \<open>json.dumps\<close> and \<open>pathlib\<close>.
  \<^item> \<open>Py_Number\<close>, \<open>Py_Round\<close>: binary64 as exact rationals, rounded by \<open>rnd53\<close> after each operation of
    the code; integers are unbounded, as in Python.

  \<^bold>\<open>Theories of the bridge\<close> (\<open>backends/comfyui-media\<close>).
  \<^item> \<open>Bridge_Errors\<close> (\<open>bridge/errors.py\<close>) and \<open>Media\<close> (\<open>bridge/media.py\<close>): the errors a caller may
    see; typing by content, references below the data root, exact deletion.
  \<^item> \<open>Http_World\<close>, \<open>Comfy_Client\<close> (\<open>bridge/comfy_client.py\<close>): the backend as a sequence of replies, and
    every call of the client with its classification, polling and cancellation. The locale
    \<open>bounded_poll\<close> is the contract of a loop that sleeps under a deadline.
  \<^item> \<open>Jobs\<close>, \<open>Jobs_Safety\<close> (\<open>bridge/jobs.py\<close>): the slot, the runs, the reapers and the cleanup tasks as
    a step relation, one step per stretch between two awaits, with the state of the GPU as a
    ghost. The locale \<open>exclusive_slot\<close> is the contract of a slot. \<open>Jobs_Safety\<close> holds the invariant
    of the reachable states.
  \<^item> \<open>Graph_Base\<close>, \<open>Graph_Build\<close>, \<open>Graph_Lanes\<close> (\<open>graphs/graphs.py\<close>): the model table, the field
    readers, the builder, and one function per lane. \<open>Graph_Safety\<close> proves that graphs are closed and
    acyclic, \<open>Graph_Props\<close> which files, nodes and amounts of work a graph can contain, \<open>Graph_Requests\<close> what
    the field readers accept, \<open>Graph_Errors\<close> which exceptions can leave \<open>build_graph\<close>.
  \<^item> \<open>Requests_In\<close>, \<open>Multipart\<close> (\<open>bridge/requests_in.py\<close>), \<open>Codecs\<close> (\<open>bridge/video_codec.py\<close>,
    \<open>bridge/audio_codec.py\<close>), \<open>Requests_Safety\<close>: bodies, fields, data URIs, forms and the codec checks,
    and what accepted media satisfies.
  \<^item> \<open>Server\<close>, \<open>Server_Safety\<close> (\<open>bridge/server.py\<close>): the application, discovery, the endpoints and the wait
    that ends when the caller hangs up.

  \<^bold>\<open>Theories of the LTX server\<close> (\<open>backends/ltx-pipelines\<close>).
  \<^item> \<open>Ltx_Table\<close>, \<open>Ltx_Media\<close>, \<open>Ltx_Request\<close>, \<open>Ltx_Generation\<close>, \<open>Ltx_Argv\<close> (\<open>pipelines.py\<close>, and the media
    files of \<open>generate\<close> in \<open>server.py\<close>): the table of workflows and component files, the byte readers
    of PNG, JPEG, WAV and FLAC, the validation of a request stage by stage, and the argument list.
  \<^item> \<open>Ltx_Errors\<close>: which errors a stage can raise. \<open>Ltx_Bounds\<close>, \<open>Ltx_Accept\<close>: the well-formedness
    of an accepted request. \<open>Ltx_Args\<close>, \<open>Ltx_Safety\<close>, \<open>Ltx_Run\<close>: an argument list read with the arity of
    each flag, and the files a run needs. \<open>Ltx_Props\<close>, \<open>Ltx_Contract\<close>, \<open>Ltx_Headers\<close>: the
    properties.
  \<^item> \<open>Ltx_Server\<close> (\<open>server.py\<close>, the parts without concurrency): settings, the body, the plan of a run, the
    watch over it as an interpretation of \<open>bounded_poll\<close>, what becomes of its end, and the readiness and model
    documents. \<open>Ltx_Service\<close>: the watch ends, and readiness agrees with what requests find.
  \<^item> \<open>Ltx_Warm\<close> (\<open>server.py\<close>: \<open>generate\<close>, \<open>WarmWorker\<close>, \<open>_finish\<close>, \<open>_terminate_process_group\<close>): the running server
    as a step relation, a coroutine cut at its awaits, with processes, terminations and cancellations as
    events. \<open>Ltx_Warm_Safety\<close> holds the invariant on locks, processes and terminations, \<open>Ltx_Trace\<close> the
    one that ties runs, commands and answers to requests, \<open>Ltx_Progress\<close> the measure of a request.
  \<^item> \<open>Ltx_Worker\<close> (\<open>warm_worker.py\<close>): the weights a worker is bound to and its replies; what the server
    sends to one worker needs the same weights. \<open>Ltx_Runs\<close>, \<open>Ltx_Examples\<close>: the properties of the running
    server, and concrete executions.

  \<^bold>\<open>Theories of the hearing tool\<close> (\<open>backends/hear/lloom_hear_server.py\<close>).
  \<^item> \<open>Hear_Ingest\<close>: the settings, the checks of formats, local paths and remote addresses, the fetch with its
    two lookups and its loop, and the source of a request.
  \<^item> \<open>Hear_Request\<close>: the expression that finds a window in a question, as a function to the matches in the
    order they are tried; the parts of a message; the readers of the body and of the directive.
  \<^item> \<open>Hear_Dsp\<close>: what the analysis decides from its measurements (boundaries, sections, keys). \<open>Hear_Run\<close>:
    the window, the arguments of ffmpeg, the upload and its reply, abstention, the answer, admission to
    the two slots, and the artifacts.
  \<^item> \<open>Hear_Safety\<close>: what can be read, fetched, analysed, sent away and claimed; the loop of the fetch is an
    interpretation of \<open>bounded_poll\<close>, with the bytes received as its clock. \<open>Hear_Limits\<close>: refusals and the
    exceptions that escape them, the window read back, the two slots. \<open>Hear_Bounds\<close>: boundaries, sections and
    pruning. \<open>Hear_Examples\<close>: concrete uses.

  \<^bold>\<open>Parameters.\<close> Code that is not in the repository is an argument of the definitions that use it:
  the replies and latencies of ComfyUI, \<open>json.loads\<close>, the multipart parser, Pillow, soundfile, ffprobe and
  ffmpeg, \<open>urlsplit\<close>, the resolver, the sockets and the flags of \<open>ipaddress\<close>, the spectral measurements, the
  file system tests, the random seeds and the UUIDs. Hypotheses on them state documented
  behaviour only (a UUID is 32 hexadecimal digits, a poll takes no negative time, \<open>realpath\<close> returns a normal path).

  \<^bold>\<open>Loops.\<close> The polling loops of the client and the runner and the watch of the LTX server take fuel; the
  properties on their end show that a budget computed from the timeout and the poll interval is
  enough, whatever the backend answers. A fetch of the hearing tool needs no clock: each round adds a byte
  below the limit. A request of the LTX server is followed by a measure of at
  most ten steps. All other loops recurse on their data.

  \<^bold>\<open>Cancellation.\<close> The safety of the LTX server is proved for executions in which the task of a request is
  cancelled at most once; the execution with two cancellations that breaks it is a theorem of its
  own.

  \<^bold>\<open>Not modelled.\<close> The upstream pipeline behind \<open>warm_worker\<close> (\<open>pin\<close> rebinds its objects), \<open>a2v.py\<close> (tensor
  code over that pipeline), the other model servers, which mostly wrap model libraries, and vendored or
  overlaid third-party code. Of the hearing tool: the arithmetic of numpy and librosa, the drawing of the
  dashboard, the Markdown report beyond its interpretation section, and the warm-up. The gateway and the command line are JavaScript. Startup hooks and
  logging have no state to speak of.
\<close>

end
